(* ===== verification/Placement.thy ===== *)
theory Placement
  imports Pvn_Prelude "HOL-Library.Multiset" "HOL-Library.Product_Lexorder"
begin

text \<open>
  Selection of the central database voters (\<open>internal/central/placement.go\<close>): \<open>Select\<close>
  keeps healthy existing voters and fills up in enrolment order. The maps \<open>eligible\<close> and
  \<open>seen\<close> of the source are used as sets of names; \<open>seen\<close> holds exactly the voters chosen so
  far. The facts show which nodes become voters, that their number is odd, and that the
  counting comparison \<open>sameSet\<close> is equality of multisets.
\<close>

section \<open>The code\<close>

datatype central_mode = ModeStandalone | ModeRaft

record central_node =
  cn_Name :: string
  cn_Online :: bool
  cn_Eligible :: bool
  cn_Order :: int

record central_plan =
  plan_Mode :: central_mode
  plan_Voters :: "string list"
  plan_TargetVoterCount :: nat
  plan_RequiresPromotion :: bool
  plan_Warning :: string

fun collect_eligible :: "central_node list \<Rightarrow> central_node list \<Rightarrow> err + central_node list" where
  "collect_eligible ordered [] = Inr ordered"
| "collect_eligible ordered (n # ns) =
     (if cn_Name n = [] then Inl (ErrOther ''node name is required'')
      else if \<not> cn_Online n \<or> \<not> cn_Eligible n then collect_eligible ordered ns
      else if cn_Name n \<in> cn_Name ` set ordered then Inl (ErrOther ''duplicate node'')
      else collect_eligible (ordered @ [n]) ns)"

definition validateVoterCount :: "nat \<Rightarrow> err option" where
  "validateVoterCount c = fail_if (c < 1 \<or> c mod 2 = 0) (ErrOther ''central voter count'')"

fun keep_existing :: "string set \<Rightarrow> nat \<Rightarrow> string list \<Rightarrow> string list \<Rightarrow> string list" where
  "keep_existing eligible target voters [] = voters"
| "keep_existing eligible target voters (name # names) =
     (if name \<notin> eligible \<or> length voters = target then keep_existing eligible target voters names
      else if name \<in> set voters then keep_existing eligible target voters names
      else keep_existing eligible target (voters @ [name]) names)"

fun fill_voters :: "nat \<Rightarrow> string list \<Rightarrow> central_node list \<Rightarrow> string list" where
  "fill_voters target voters [] = voters"
| "fill_voters target voters (n # ns) =
     (if length voters = target then voters
      else if cn_Name n \<in> set voters then fill_voters target voters ns
      else fill_voters target (voters @ [cn_Name n]) ns)"

text \<open>The counting comparison: increments for the first list, decrements with an early return
  for the second.\<close>

fun count_down :: "(string \<Rightarrow> int) \<Rightarrow> string list \<Rightarrow> bool" where
  "count_down c [] = True"
| "count_down c (v # vs) = (let c' = c(v := c v - 1) in if c' v < 0 then False else count_down c' vs)"

definition sameSet :: "string list \<Rightarrow> string list \<Rightarrow> bool" where
  "sameSet a b = (if length a \<noteq> length b then False
     else count_down (fold (\<lambda>v c. c(v := c v + 1)) a (\<lambda>_. 0)) b)"

definition Select :: "central_node list \<Rightarrow> string list \<Rightarrow> err + central_plan" where
  "Select nodes existing =
     (case collect_eligible [] nodes of
        Inl e \<Rightarrow> Inl e
      | Inr eligible \<Rightarrow>
          (let ordered = sort_key (\<lambda>n. (cn_Order n, cn_Name n)) eligible;
               target = length ordered
           in case validateVoterCount target of
                Some e \<Rightarrow> Inl e
              | None \<Rightarrow>
                  let voters = fill_voters target
                        (keep_existing (cn_Name ` set eligible) target [] existing) ordered
                  in Inr \<lparr>plan_Mode = (if target = 1 then ModeStandalone else ModeRaft),
                          plan_Voters = voters, plan_TargetVoterCount = target,
                          plan_RequiresPromotion = (\<not> sameSet voters existing), plan_Warning = []\<rparr>))"

section \<open>Facts\<close>

definition healthy :: "central_node list \<Rightarrow> central_node list" where
  "healthy nodes = filter (\<lambda>n. cn_Online n \<and> cn_Eligible n) nodes"

lemma collect_eligible_Inr:
  "distinct (map cn_Name acc) \<Longrightarrow> collect_eligible acc nodes = Inr res \<longleftrightarrow>
     list_all (\<lambda>n. cn_Name n \<noteq> []) nodes \<and> distinct (map cn_Name (acc @ healthy nodes)) \<and> res = acc @ healthy nodes"
proof (induction acc nodes rule: collect_eligible.induct)
  case (2 acc n ns)
  consider "cn_Name n = []" | "cn_Name n \<noteq> []" "\<not> (cn_Online n \<and> cn_Eligible n)"
    | "cn_Name n \<noteq> []" "cn_Online n \<and> cn_Eligible n" "cn_Name n \<in> cn_Name ` set acc"
    | "cn_Name n \<noteq> []" "cn_Online n \<and> cn_Eligible n" "cn_Name n \<notin> cn_Name ` set acc" by blast
  then show ?case
  proof cases
    case down: 2
    then have "healthy (n # ns) = healthy ns" by (auto simp: healthy_def)
    with down 2 show ?thesis by auto
  next
    case 3
    then have "\<not> distinct (map cn_Name (acc @ healthy (n # ns)))" by (simp add: healthy_def)
    with 3 show ?thesis by auto
  next
    case 4
    then have "healthy (n # ns) = n # healthy ns" "distinct (map cn_Name (acc @ [n]))"
      using 2(3) by (simp_all add: healthy_def)
    with 4 2(2) show ?thesis by simp
  qed simp
qed (auto simp: healthy_def)

lemma count_fold: "fold (\<lambda>v c. c(v := c v + 1)) xs c = (\<lambda>v. c v + int (count (mset xs) v))"
  by (induction xs arbitrary: c) auto

lemma count_down_iff: "(\<And>v. c v \<ge> 0) \<Longrightarrow> count_down c vs \<longleftrightarrow> (\<forall>v. int (count (mset vs) v) \<le> c v)"
proof (induction vs arbitrary: c)
  case (Cons x xs)
  show ?case
  proof (cases "c x \<ge> 1")
    case True
    let ?c = "c(x := c x - 1)"
    have "count_down ?c xs \<longleftrightarrow> (\<forall>v. int (count (mset xs) v) \<le> ?c v)"
      using Cons.prems True by (intro Cons.IH) auto
    also have "\<dots> \<longleftrightarrow> (\<forall>v. int (count (mset (x # xs)) v) \<le> c v)"
      by (auto simp: all_conj_distrib split: if_splits)
    finally show ?thesis using True by (simp add: Let_def)
  next
    case False
    then have "\<not> int (count (mset (x # xs)) x) \<le> c x" by simp
    moreover have "\<not> count_down c (x # xs)" using False by (simp add: Let_def)
    ultimately show ?thesis by blast
  qed
qed simp

lemma sameSet_mset: "sameSet a b \<longleftrightarrow> mset a = mset b"
proof -
  have "count_down (fold (\<lambda>v c. c(v := c v + 1)) a (\<lambda>_. 0)) b \<longleftrightarrow> mset b \<subseteq># mset a"
    by (subst count_down_iff) (auto simp: count_fold subseteq_mset_def)
  moreover have "length a = length b \<and> mset b \<subseteq># mset a \<longleftrightarrow> mset a = mset b"
    by (metis mset_eq_length size_mset size_mset_mono subset_mset.dual_order.refl subset_mset.le_imp_less_or_eq
        mset_subset_size nat_neq_iff)
  ultimately show ?thesis by (auto simp: sameSet_def)
qed

lemma fill_voters_props:
  "distinct voters \<Longrightarrow> distinct (map cn_Name ns) \<Longrightarrow> card (set voters \<union> cn_Name ` set ns) = target \<Longrightarrow>
     fill_voters target voters ns = voters @ filter (\<lambda>x. x \<notin> set voters) (map cn_Name ns)"
proof (induction target voters ns rule: fill_voters.induct)
  case (2 target voters n ns)
  show ?case
  proof (cases "length voters = target")
    case True
    then have "set voters \<union> cn_Name ` set (n # ns) = set voters"
      using 2(3,5) by (metis card_subset_eq distinct_card finite_UnI finite_imageI List.finite_set sup_ge1)
    then have "filter (\<lambda>x. x \<notin> set voters) (map cn_Name (n # ns)) = []" by (auto simp: filter_empty_conv)
    with True show ?thesis by simp
  next
    case False
    show ?thesis
    proof (cases "cn_Name n \<in> set voters")
      case True
      with 2 False show ?thesis by (simp add: insert_absorb)
    next
      case nin: False
      then have "filter (\<lambda>x. x \<notin> set (voters @ [cn_Name n])) (map cn_Name ns) = filter (\<lambda>x. x \<notin> set voters) (map cn_Name ns)"
        using 2(4) by (intro filter_cong) (auto simp: image_iff)
      with 2 False nin show ?thesis by simp
    qed
  qed
qed simp

lemma keep_existing_order:
  "distinct voters \<Longrightarrow> set voters \<subseteq> el \<Longrightarrow> finite el \<Longrightarrow> card el = target \<Longrightarrow>
     keep_existing el target voters names = voters @ rev (remdups (rev (filter (\<lambda>x. x \<in> el \<and> x \<notin> set voters) names)))"
proof (induction el target voters names rule: keep_existing.induct)
  case (2 el target voters name names)
  have full: "length voters = target \<Longrightarrow> set voters = el"
    using 2 by (metis card_subset_eq distinct_card)
  show ?case
  proof (cases "name \<in> el \<and> length voters \<noteq> target \<and> name \<notin> set voters")
    case True
    have rr: "rev (remdups (rev (x # xs))) = x # rev (remdups (rev (filter (\<lambda>y. y \<noteq> x) xs)))" for x :: string and xs
    proof (induction xs rule: rev_induct)
      case (snoc y xs)
      then show ?case by (cases "y = x") (auto simp: filter_empty_conv)
    qed simp
    have "keep_existing el target voters (name # names) = keep_existing el target (voters @ [name]) names" using True by simp
    also have "\<dots> = (voters @ [name]) @ rev (remdups (rev (filter (\<lambda>x. x \<in> el \<and> x \<notin> set (voters @ [name])) names)))"
      using 2 True by (intro 2(3)) auto
    also have "\<dots> = voters @ rev (remdups (rev (filter (\<lambda>x. x \<in> el \<and> x \<notin> set voters) (name # names))))"
      using True rr [of name "filter (\<lambda>x. x \<in> el \<and> x \<notin> set voters) names"]
      by (simp add: conj_commute conj_left_commute)
    finally show ?thesis .
  next
    case False
    then have "keep_existing el target voters (name # names) = keep_existing el target voters names" by auto
    moreover have "filter (\<lambda>x. x \<in> el \<and> x \<notin> set voters) (name # names) = filter (\<lambda>x. x \<in> el \<and> x \<notin> set voters) names"
      using False full by auto
    ultimately show ?thesis using 2 False by (cases "name \<notin> el \<or> length voters = target") auto
  qed
qed auto

definition kept_voters :: "central_node list \<Rightarrow> string list \<Rightarrow> string list" where
  "kept_voters nodes existing = rev (remdups (rev (filter (\<lambda>x. x \<in> cn_Name ` set (healthy nodes)) existing)))"

text \<open>C35. A voter plan exists exactly when every node is named, the online eligible nodes have
  distinct names and their number is odd. Its voters are then exactly those nodes, each once:
  first the existing voters that are still healthy, in their old order, then the others in
  enrolment order. It is a standalone plan exactly for one voter, and it asks for a promotion
  exactly when the voters differ from the existing ones as a multiset.\<close>

theorem Select_iff:
  "Select nodes existing = Inr plan \<longleftrightarrow>
     list_all (\<lambda>n. cn_Name n \<noteq> []) nodes \<and> distinct (map cn_Name (healthy nodes)) \<and> odd (length (healthy nodes)) \<and>
     plan = \<lparr>plan_Mode = (if length (healthy nodes) = 1 then ModeStandalone else ModeRaft),
       plan_Voters = kept_voters nodes existing @
         filter (\<lambda>x. x \<notin> set (kept_voters nodes existing))
           (map cn_Name (sort_key (\<lambda>n. (cn_Order n, cn_Name n)) (healthy nodes))),
       plan_TargetVoterCount = length (healthy nodes),
       plan_RequiresPromotion = (mset existing \<noteq> mset (map cn_Name (healthy nodes))), plan_Warning = []\<rparr>"
proof (cases "list_all (\<lambda>n. cn_Name n \<noteq> []) nodes \<and> distinct (map cn_Name (healthy nodes))")
  case False
  then have "collect_eligible [] nodes \<noteq> Inr res" for res using collect_eligible_Inr [of "[]" nodes res] by auto
  then show ?thesis using False by (cases "collect_eligible [] nodes") (auto simp: Select_def)
next
  case True
  let ?h = "healthy nodes" and ?el = "cn_Name ` set (healthy nodes)"
  let ?ord = "sort_key (\<lambda>n. (cn_Order n, cn_Name n)) ?h" and ?kept = "kept_voters nodes existing"
  let ?voters = "?kept @ filter (\<lambda>x. x \<notin> set ?kept) (map cn_Name ?ord)"
  have c: "collect_eligible [] nodes = Inr ?h" using collect_eligible_Inr [of "[]" nodes ?h] True by simp
  have card: "card ?el = length ?h" using True by (metis distinct_card length_map set_map)
  have kept: "keep_existing ?el (length ?h) [] existing = ?kept"
    using keep_existing_order [of "[]" ?el "length ?h" existing] card by (simp add: kept_voters_def)
  have sub: "set ?kept \<subseteq> ?el" "distinct ?kept" by (auto simp: kept_voters_def)
  have "distinct (map cn_Name ?ord)" using True by (simp add: distinct_map)
  moreover have "set ?kept \<union> cn_Name ` set ?ord = ?el" using sub by auto
  ultimately have fill: "fill_voters (length ?h) ?kept ?ord = ?voters"
    using fill_voters_props [of ?kept ?ord "length ?h"] sub card by simp
  have vs: "distinct ?voters" "set ?voters = set (map cn_Name ?h)" using sub \<open>distinct (map cn_Name ?ord)\<close> by auto
  have "mset ?voters = mset (map cn_Name ?h)"
    by (rule set_eq_iff_mset_eq_distinct [THEN iffD1]) (use vs True in blast)+
  then have same: "sameSet ?voters existing \<longleftrightarrow> mset existing = mset (map cn_Name ?h)"
    unfolding sameSet_mset by (simp only: eq_commute)
  have count: "validateVoterCount (length ?h) = None \<longleftrightarrow> odd (length ?h)"
    by (cases "healthy nodes = []") (auto simp: validateVoterCount_def check_simps odd_iff_mod_2_eq_one)
  show ?thesis
    using True c kept fill same count
    by (cases "validateVoterCount (length ?h)") (auto simp: Select_def Let_def)
qed

end
