(* ===== verification/Tap_Name.thy ===== *)
theory Tap_Name
  imports Pvn_Prelude
begin

text \<open>
  The name of a QEMU TAP interface (\<open>internal/pve/tap.go\<close>): printing and parsing of
  \<open>tap<vmid>i<index>\<close>. \<open>strconv.Atoi\<close> refuses a number that does not fit a 64-bit \<open>int\<close>.
\<close>

record tap_name =
  tap_VMID :: int
  tap_NICIndex :: int

definition tap_string :: "tap_name \<Rightarrow> string" where
  "tap_string t = ''tap'' @ dec_int (tap_VMID t) @ ''i'' @ dec_int (tap_NICIndex t)"

definition decimalDigits :: "string \<Rightarrow> bool" where
  "decimalDigits value = (value \<noteq> [] \<and> list_all is_digit value)"

definition atoi :: "string \<Rightarrow> int option" where
  "atoi digits = (if decimalDigits digits \<and> dec_value digits < 2 ^ 63 then Some (int (dec_value digits)) else None)"

definition parse_parts :: "string \<Rightarrow> string \<Rightarrow> err + tap_name" where
  "parse_parts vmidText indexText =
     (if \<not> decimalDigits vmidText \<or> \<not> decimalDigits indexText then Inl (ErrOther ''invalid PVE TAP name'')
      else case atoi vmidText of
             None \<Rightarrow> Inl (ErrOther ''invalid VM ID in PVE TAP name'')
           | Some vmid \<Rightarrow>
               if vmid \<le> 0 then Inl (ErrOther ''invalid VM ID in PVE TAP name'')
               else case atoi indexText of
                      None \<Rightarrow> Inl (ErrOther ''invalid NIC index in PVE TAP name'')
                    | Some index \<Rightarrow>
                        if index < 0 then Inl (ErrOther ''invalid NIC index in PVE TAP name'')
                        else Inr \<lparr>tap_VMID = vmid, tap_NICIndex = index\<rparr>)"

definition ParseTapName :: "string \<Rightarrow> err + tap_name" where
  "ParseTapName name =
     (if \<not> has_prefix name ''tap'' then Inl (ErrOther ''invalid PVE TAP name'')
      else
        let body = trim_prefix name ''tap'' in
        case index_of (CHR ''i'') body of
          None \<Rightarrow> Inl (ErrOther ''invalid PVE TAP name'')
        | Some separator \<Rightarrow>
            if separator = 0 \<or> separator = length body - 1 \<or> index_of (CHR ''i'') (drop (Suc separator) body) \<noteq> None
            then Inl (ErrOther ''invalid PVE TAP name'')
            else
              parse_parts (take separator body) (drop (Suc separator) body))"

lemma decimalDigits_no_i: "decimalDigits v \<Longrightarrow> CHR ''i'' \<notin> set v"
  by (auto simp: decimalDigits_def list_all_iff is_digit_iff)

lemma decimalDigits_dec [simp]: "decimalDigits (dec n)"
  by (auto simp: decimalDigits_def list_all_iff intro: dec_digits)

lemma has_prefix_split: "has_prefix s p \<Longrightarrow> s = p @ trim_prefix s p"
  using append_take_drop_id [of "length p" s] by (simp add: trim_prefix_def has_prefix_def)

lemma index_of_append: "c \<notin> set v \<Longrightarrow> index_of c (v @ c # w) = Some (length v)"
  by (induction v) auto

definition tap_in_range :: "tap_name \<Rightarrow> bool" where
  "tap_in_range t = (0 < tap_VMID t \<and> tap_VMID t < 2 ^ 63 \<and> 0 \<le> tap_NICIndex t \<and> tap_NICIndex t < 2 ^ 63)"

definition spells_tap :: "string \<Rightarrow> string \<Rightarrow> tap_name \<Rightarrow> bool" where
  "spells_tap v w t = (decimalDigits v \<and> decimalDigits w \<and>
     int (dec_value v) = tap_VMID t \<and> int (dec_value w) = tap_NICIndex t)"

lemma atoi_eq_Some: "atoi v = Some n \<longleftrightarrow> decimalDigits v \<and> int (dec_value v) = n \<and> n < 2 ^ 63"
proof -
  have "(dec_value v < 2 ^ 63) = (int (dec_value v) < 2 ^ 63)" by simp
  then show ?thesis by (auto simp: atoi_def)
qed

lemma ParseTapName_sound:
  assumes "ParseTapName name = Inr t"
  shows "\<exists>v w. name = ''tap'' @ v @ ''i'' @ w \<and> spells_tap v w t \<and> tap_in_range t"
proof -
  define body where "body = trim_prefix name ''tap''"
  have pre: "has_prefix name ''tap''"
    using assms by (simp add: ParseTapName_def split: if_splits)
  have name: "name = ''tap'' @ body"
    unfolding body_def by (rule has_prefix_split [OF pre])
  obtain k where k: "index_of (CHR ''i'') body = Some k"
    using assms pre by (cases "index_of (CHR ''i'') body") (simp_all add: ParseTapName_def body_def)
  have "parse_parts (take k body) (drop (Suc k) body) = Inr t"
    using assms pre k by (simp add: ParseTapName_def body_def [symmetric] split: if_split_asm)
  then obtain vmid index where
    a: "atoi (take k body) = Some vmid" "0 < vmid" "atoi (drop (Suc k) body) = Some index" "0 \<le> index"
    and t: "t = \<lparr>tap_VMID = vmid, tap_NICIndex = index\<rparr>"
    unfolding parse_parts_def by (auto split: if_split_asm option.split_asm)
  have "body = take k body @ ''i'' @ drop (Suc k) body"
    using index_of_Some [OF k] by (metis append_Cons append_Nil id_take_nth_drop)
  then have "name = ''tap'' @ take k body @ ''i'' @ drop (Suc k) body"
    using name by simp
  moreover have "spells_tap (take k body) (drop (Suc k) body) t \<and> tap_in_range t"
    using a t by (simp add: atoi_eq_Some spells_tap_def tap_in_range_def)
  ultimately show ?thesis by blast
qed

lemma ParseTapName_complete:
  assumes "spells_tap v w t" "tap_in_range t"
  shows "ParseTapName (''tap'' @ v @ ''i'' @ w) = Inr t"
proof -
  have d: "decimalDigits v" "decimalDigits w" "v \<noteq> []" "w \<noteq> []"
    using assms by (auto simp: spells_tap_def decimalDigits_def)
  have body: "trim_prefix (''tap'' @ v @ ''i'' @ w) ''tap'' = v @ CHR ''i'' # w" "has_prefix (''tap'' @ v @ ''i'' @ w) ''tap''"
    by (simp_all add: trim_prefix_def has_prefix_def)
  have none: "index_of (CHR ''i'') w = None"
    using decimalDigits_no_i [OF d(2)] by (simp add: index_of_None)
  have at: "atoi v = Some (tap_VMID t)" "atoi w = Some (tap_NICIndex t)"
    using assms by (auto simp: spells_tap_def tap_in_range_def atoi_eq_Some)
  show ?thesis
    unfolding ParseTapName_def body(1) Let_def parse_parts_def
    using d none at assms(2) body(2) index_of_append [OF decimalDigits_no_i [OF d(1)], of w]
    by (simp add: tap_in_range_def)
qed

text \<open>C36. A TAP name is accepted exactly when it is \<open>tap\<close>, a run of decimal digits, \<open>i\<close>, and a second
  run, both within the range of a 64-bit integer and the VM number positive; the result is
  their values. Leading zeros are accepted, so the printed form is one of the accepted
  spellings and parses back to the same identity.\<close>

theorem ParseTapName_iff:
  "(ParseTapName name = Inr t \<longleftrightarrow> (\<exists>v w. name = ''tap'' @ v @ ''i'' @ w \<and> spells_tap v w t \<and> tap_in_range t)) \<and>
   (ParseTapName (tap_string t) = Inr t \<longleftrightarrow> tap_in_range t)"
proof -
  have "ParseTapName (tap_string t) = Inr t" if "tap_in_range t"
  proof -
    have "spells_tap (dec (nat (tap_VMID t))) (dec (nat (tap_NICIndex t))) t"
      using that by (simp add: spells_tap_def tap_in_range_def dec_value_dec)
    from ParseTapName_complete [OF this that] that show ?thesis
      by (simp add: tap_string_def dec_int_def tap_in_range_def)
  qed
  then show ?thesis
    using ParseTapName_sound ParseTapName_complete by blast
qed

end
