(* ===== verification/Raft_Status.thy ===== *)
theory Raft_Status
  imports Pvn_Prelude
begin

text \<open>
  Inspection of the local OVSDB Raft membership (\<open>internal/raftstatus/status.go\<close>): the parser
  of a \<open>cluster/status\<close> reply, the health issues, and the report over several databases. The
  two regular expressions are written out as matchers; each has at most one way to match. The
  unixctl command is a parameter, a function of the argument list. An issue message is a
  constructor with the values it prints. The sets of nicknames are lists without duplicates.
\<close>

section \<open>String functions of the library\<close>

text \<open>\<open>strings.Index\<close>, \<open>strings.Contains\<close>, \<open>strings.ReplaceAll\<close> by nothing, \<open>strings.Cut\<close> at a byte,
  \<open>strings.Fields\<close> and \<open>strings.LastIndexByte\<close>.\<close>

fun index_sub :: "string \<Rightarrow> string \<Rightarrow> nat option" where
  "index_sub [] p = (if p = [] then Some 0 else None)"
| "index_sub (c # s) p = (if has_prefix (c # s) p then Some 0 else map_option Suc (index_sub s p))"

definition contains :: "string \<Rightarrow> string \<Rightarrow> bool" where
  "contains s p \<longleftrightarrow> index_sub s p \<noteq> None"

lemma index_sub_bound: "index_sub s p = Some n \<Longrightarrow> n + length p \<le> length s"
  by (induction s arbitrary: n)
     (auto simp: has_prefix_def split: if_splits, metis length_Cons length_take min.cobounded1)

function remove_all :: "string \<Rightarrow> string \<Rightarrow> string" where
  "remove_all s p =
     (if p = [] then s
      else case index_sub s p of None \<Rightarrow> s | Some n \<Rightarrow> take n s @ remove_all (drop (n + length p) s) p)"
  by pat_completeness auto
termination
proof (relation "measure (length \<circ> fst)")
  fix s p n
  assume "p \<noteq> []" "index_sub s p = Some n"
  then show "((drop (n + length p) s, p), (s, p)) \<in> measure (length \<circ> fst)"
    using index_sub_bound [of s p n] by (cases p) auto
qed simp

definition cut_at :: "char \<Rightarrow> string \<Rightarrow> (string \<times> string) option" where
  "cut_at d s = map_option (\<lambda>n. (take n s, drop (Suc n) s)) (index_of d s)"

fun fields_from :: "string \<Rightarrow> string \<Rightarrow> string list" where
  "fields_from word [] = (if word = [] then [] else [word])"
| "fields_from word (c # s) =
     (if is_space c then (if word = [] then fields_from [] s else word # fields_from [] s)
      else fields_from (word @ [c]) s)"

definition last_index_of :: "char \<Rightarrow> string \<Rightarrow> nat option" where
  "last_index_of d s = map_option (\<lambda>n. length s - 1 - n) (index_of d (rev s))"

text \<open>\<open>bufio.Scanner\<close> with its default split function: lines without the line feed and one
  carriage return before it. A line of 65536 bytes or more does not fit the buffer; the lines
  before it are delivered, then scanning ends with an error.\<close>

definition MaxScanTokenSize :: int where "MaxScanTokenSize = 65536"

definition raw_lines :: "string \<Rightarrow> string list" where
  "raw_lines s = (let ls = split_on (CHR 0x0A) s in if last ls = [] then butlast ls else ls)"

definition drop_cr :: "string \<Rightarrow> string" where
  "drop_cr l = (if l \<noteq> [] \<and> last l = CHR 0x0D then butlast l else l)"

definition scan_lines :: "string \<Rightarrow> string list \<times> bool" where
  "scan_lines s =
     (let ls = raw_lines s; short = takeWhile (\<lambda>l. int (length l) < MaxScanTokenSize) ls
      in (map drop_cr short, length short < length ls))"

section \<open>Status\<close>

datatype issue =
    NameMissing | ClusterIDMissing | ServerIDMissing | AddressMissing
  | NotClusterMember string | LocalRole string | TermZero
  | LeaderUnknown | LeaderNotSelf | LeaderAbsent | FollowerIsLeader
  | MembersEmpty | SelfAbsent | QuorumUnavailable nat nat nat | ChangeInProgress
  | DatabaseMismatch string string

record target =
  tg_Component :: string
  tg_Database :: string
  tg_ControlSocket :: string

record status =
  st_Target :: target
  st_Available :: bool
  st_Healthy :: bool
  st_Name :: string
  st_ClusterID :: string
  st_ServerID :: string
  st_Address :: string
  st_MembershipStatus :: string
  st_Role :: string
  st_Term :: nat
  st_Leader :: string
  st_MemberCount :: nat
  st_ConnectedMembers :: nat
  st_QuorumSize :: nat
  st_MembershipChange :: bool
  st_Issues :: "issue list"
  st_Error :: string

definition zero_status :: status where
  "zero_status = \<lparr>st_Target = \<lparr>tg_Component = [], tg_Database = [], tg_ControlSocket = []\<rparr>, st_Available = False,
     st_Healthy = False, st_Name = [], st_ClusterID = [], st_ServerID = [], st_Address = [], st_MembershipStatus = [],
     st_Role = [], st_Term = 0, st_Leader = [], st_MemberCount = 0, st_ConnectedMembers = 0, st_QuorumSize = 0,
     st_MembershipChange = False, st_Issues = [], st_Error = []\<rparr>"

section \<open>Patterns\<close>

definition is_hex :: "char \<Rightarrow> bool" where
  "is_hex c \<longleftrightarrow> is_digit c \<or> (CHR ''a'' \<le> c \<and> c \<le> CHR ''f'') \<or> (CHR ''A'' \<le> c \<and> c \<le> CHR ''F'')"

definition uuidPattern :: "string \<Rightarrow> bool" where
  "uuidPattern s \<longleftrightarrow> map length (split_on (CHR ''-'') s) = [8, 4, 4, 4, 12] \<and>
     list_all (list_all is_hex) (split_on (CHR ''-'') s)"

definition is_blank :: "char \<Rightarrow> bool" where
  "is_blank c \<longleftrightarrow> c = CHR '' '' \<or> c = CHR 0x09"

definition nickname_char :: "char \<Rightarrow> bool" where
  "nickname_char c \<longleftrightarrow> \<not> is_space c \<and> c \<noteq> CHR ''('' \<and> c \<noteq> CHR '')''"

text \<open>The part of \<open>serverPattern\<close> after the nickname: the server id, the address, and the rest of
  the line as the result.\<close>

definition match_server_address :: "string \<Rightarrow> string option" where
  "match_server_address s =
     (if \<not> has_prefix s '' ('' then None
      else
        let sid = take 4 (drop 2 s); s1 = drop 6 s in
        if length sid \<noteq> 4 \<or> \<not> list_all is_hex sid \<or> \<not> has_prefix s1 '' at '' then None
        else
          let s2 = drop 4 s1;
              addr = (if has_prefix s2 ''ssl:'' \<or> has_prefix s2 ''tcp:'' then Some (drop 4 s2)
                      else if has_prefix s2 ''unix:'' then Some (drop 5 s2) else None)
          in case addr of
               None \<Rightarrow> None
             | Some a \<Rightarrow>
                 (case cut_at (CHR '')'') a of
                    None \<Rightarrow> None
                  | Some (host, rest) \<Rightarrow> if host = [] then None else Some rest))"

definition serverPattern :: "string \<Rightarrow> (string \<times> string) option" where
  "serverPattern line =
     (let s = dropWhile is_blank line; nickname = takeWhile nickname_char s
      in if s = line \<or> nickname = [] then None
         else map_option (Pair nickname) (match_server_address (dropWhile nickname_char s)))"

function strip_votes :: "string \<Rightarrow> string" where
  "strip_votes suffix =
     (case index_sub suffix ''(voted for '' of
        None \<Rightarrow> suffix
      | Some start \<Rightarrow>
          (case index_of (CHR '')'') (drop start suffix) of
             None \<Rightarrow> suffix
           | Some end' \<Rightarrow> strip_votes (take start suffix @ drop (start + end' + 1) suffix)))"
  by pat_completeness auto
termination
  by (relation "measure length") (auto dest!: index_sub_bound index_of_Some)

section \<open>Parsing\<close>

definition parenthesizedUUID :: "string \<Rightarrow> string" where
  "parenthesizedUUID value =
     (case last_index_of (CHR ''('') value of
        None \<Rightarrow> []
      | Some open' \<Rightarrow>
          if \<not> has_suffix value '')'' then []
          else
            let inner = drop (Suc open') (butlast value)
            in if uuidPattern inner then to_lower inner else [])"

definition parse_uint64 :: "string \<Rightarrow> nat option" where
  "parse_uint64 s = (if s \<noteq> [] \<and> list_all is_digit s \<and> int (dec_value s) < 2 ^ 64 then Some (dec_value s) else None)"

record parse_state =
  ps_status :: status
  ps_members :: "string list"
  ps_connected :: "string list"
  ps_inServers :: bool
  ps_selfSeen :: bool
  ps_change :: bool

definition add_connection :: "string \<Rightarrow> string list \<Rightarrow> string list" where
  "add_connection token connected =
     (if has_prefix token ''('' then connected
      else
        let nickname = trim_prefix (trim_prefix token ''->'') ''<-''
        in if nickname \<noteq> [] then List.insert nickname connected else connected)"

definition parse_field :: "string \<Rightarrow> string \<Rightarrow> parse_state \<Rightarrow> err + parse_state" where
  "parse_field key value ps =
     (let st = ps_status ps in
      if key = ''Name'' then Inr (ps\<lparr>ps_status := st\<lparr>st_Name := value\<rparr>\<rparr>)
      else if key = ''Cluster ID'' then Inr (ps\<lparr>ps_status := st\<lparr>st_ClusterID := parenthesizedUUID value\<rparr>\<rparr>)
      else if key = ''Server ID'' then Inr (ps\<lparr>ps_status := st\<lparr>st_ServerID := parenthesizedUUID value\<rparr>\<rparr>)
      else if key = ''Address'' then Inr (ps\<lparr>ps_status := st\<lparr>st_Address := value\<rparr>\<rparr>)
      else if key = ''Status'' then Inr (ps\<lparr>ps_status := st\<lparr>st_MembershipStatus := value\<rparr>\<rparr>)
      else if key = ''Role'' then Inr (ps\<lparr>ps_status := st\<lparr>st_Role := value\<rparr>\<rparr>)
      else if key = ''Term''
      then (case parse_uint64 value of
              None \<Rightarrow> Inl (ErrOther ''invalid term'')
            | Some term' \<Rightarrow> Inr (ps\<lparr>ps_status := st\<lparr>st_Term := term'\<rparr>\<rparr>))
      else if key = ''Leader'' then Inr (ps\<lparr>ps_status := st\<lparr>st_Leader := value\<rparr>\<rparr>)
      else if key = ''Connections''
      then Inr (ps\<lparr>ps_connected := fold add_connection (fields_from [] value) (ps_connected ps)\<rparr>)
      else if key = ''Servers'' then Inr (ps\<lparr>ps_inServers := True\<rparr>)
      else Inr ps)"

definition parse_server :: "string \<Rightarrow> parse_state \<Rightarrow> err + parse_state" where
  "parse_server line ps =
     (case serverPattern line of
        None \<Rightarrow> Inl (ErrOther ''malformed server line'')
      | Some (nickname, tail) \<Rightarrow>
          let suffix = strip_votes (remove_all tail ''(self)'')
          in Inr (ps\<lparr>ps_members := List.insert nickname (ps_members ps),
                     ps_selfSeen := (ps_selfSeen ps \<or> contains tail ''(self)''),
                     ps_change := (ps_change ps \<or> contains suffix ''('')\<rparr>))"

definition parse_line :: "string \<Rightarrow> parse_state \<Rightarrow> err + parse_state" where
  "parse_line line ps =
     (let ps1 = (if has_prefix line ''Adding server '' \<or> has_prefix line ''Removing server ''
                 then ps\<lparr>ps_change := True\<rparr> else ps);
          indented = (line \<noteq> [] \<and> (hd line = CHR '' '' \<or> hd line = CHR 0x09))
      in if ps_inServers ps1 \<and> trim_space line = [] then Inr ps1
         else if ps_inServers ps1 \<and> indented then parse_server line ps1
         else
           let ps2 = ps1\<lparr>ps_inServers := False\<rparr>
           in case cut_at (CHR '':'') line of
                None \<Rightarrow> Inr ps2
              | Some (key, value) \<Rightarrow> parse_field key (trim_space value) ps2)"

fun parse_lines :: "string list \<Rightarrow> parse_state \<Rightarrow> err + parse_state" where
  "parse_lines [] ps = Inr ps"
| "parse_lines (l # ls) ps = (case parse_line l ps of Inl e \<Rightarrow> Inl e | Inr ps' \<Rightarrow> parse_lines ls ps')"

definition healthIssues :: "status \<Rightarrow> bool \<Rightarrow> string list \<Rightarrow> issue list" where
  "healthIssues st selfSeen members =
     (if st_Name st = [] then [NameMissing] else []) @
     (if st_ClusterID st = [] then [ClusterIDMissing] else []) @
     (if st_ServerID st = [] then [ServerIDMissing] else []) @
     (if st_Address st = [] then [AddressMissing] else []) @
     (if st_MembershipStatus st \<noteq> ''cluster member'' then [NotClusterMember (st_MembershipStatus st)] else []) @
     (if st_Role st \<noteq> ''leader'' \<and> st_Role st \<noteq> ''follower'' then [LocalRole (st_Role st)] else []) @
     (if st_Term st = 0 then [TermZero] else []) @
     (if st_Leader st = [] \<or> st_Leader st = ''unknown'' then [LeaderUnknown]
      else if st_Role st = ''leader'' \<and> st_Leader st \<noteq> ''self'' then [LeaderNotSelf]
      else if st_Leader st \<noteq> ''self'' then (if st_Leader st \<notin> set members then [LeaderAbsent] else [])
      else if st_Role st \<noteq> ''leader'' then [FollowerIsLeader] else []) @
     (if st_MemberCount st = 0 then [MembersEmpty]
      else (if \<not> selfSeen then [SelfAbsent] else []) @
           (if st_ConnectedMembers st < st_QuorumSize st
            then [QuorumUnavailable (st_ConnectedMembers st) (st_MemberCount st) (st_QuorumSize st)] else [])) @
     (if st_MembershipChange st then [ChangeInProgress] else [])"

definition count_members :: "parse_state \<Rightarrow> status" where
  "count_members ps =
     (let st = (ps_status ps)\<lparr>st_MemberCount := length (ps_members ps)\<rparr>
      in if st_MemberCount st > 0
         then let n = 1 + length (filter (\<lambda>nickname. nickname \<in> set (ps_members ps)) (ps_connected ps))
              in st\<lparr>st_QuorumSize := st_MemberCount st div 2 + 1,
                    st_ConnectedMembers := (if n > st_MemberCount st then st_MemberCount st else n)\<rparr>
         else st)"

definition first_state :: parse_state where
  "first_state = \<lparr>ps_status = zero_status, ps_members = [], ps_connected = [], ps_inServers = False,
     ps_selfSeen = False, ps_change = False\<rparr>"

definition Parse :: "string \<Rightarrow> err + status" where
  "Parse output =
     (let (ls, tooLong) = scan_lines output
      in case parse_lines ls first_state of
           Inl e \<Rightarrow> Inl e
         | Inr ps \<Rightarrow>
             if tooLong then Inl (ErrOther ''bufio.Scanner: token too long'')
             else
               let st = (count_members ps)\<lparr>st_MembershipChange := ps_change ps\<rparr>;
                   issues = healthIssues st (ps_selfSeen ps) (ps_members ps)
               in Inr (st\<lparr>st_Issues := issues, st_Healthy := (issues = [])\<rparr>))"

section \<open>Inspection\<close>

record report =
  rep_Healthy :: bool
  rep_Databases :: "status list"

text \<open>A path is absolute and clean when it is the root, or a sequence of \<open>/\<close> and a component other
  than the empty one, \<open>.\<close> and \<open>..\<close>.\<close>

definition clean_absolute :: "string \<Rightarrow> bool" where
  "clean_absolute p \<longleftrightarrow> p = ''/'' \<or>
     (p \<noteq> [] \<and> hd p = CHR ''/'' \<and> list_all (\<lambda>w. w \<notin> {[], ''.'', ''..''}) (split_on (CHR ''/'') (tl p)))"

definition validateTarget :: "target \<Rightarrow> err option" where
  "validateTarget t = first_err
     [fail_if (trim_space (tg_Component t) = []) (ErrOther ''component is required''),
      fail_if (trim_space (tg_Database t) = []) (ErrOther ''database is required''),
      fail_if (\<not> clean_absolute (tg_ControlSocket t)) (ErrOther ''control socket must be a clean absolute path'')]"

definition err_text :: "err \<Rightarrow> string" where
  "err_text e = (case e of ErrOther s \<Rightarrow> s | ValidationError s \<Rightarrow> s | _ \<Rightarrow> ''error'')"

definition commandError :: "string \<Rightarrow> string \<Rightarrow> string" where
  "commandError output e =
     (let detail = trim_space output;
          detail = (if length detail > 4096 then take 4096 detail @ ''...'' else detail)
      in if detail = [] then e else detail @ '': '' @ e)"

type_synonym runner = "string \<Rightarrow> string list \<Rightarrow> string \<times> string option"

definition timeout_seconds :: "int \<Rightarrow> int" where
  "timeout_seconds timeout = (timeout + 1000000000 - 1) div 1000000000"

definition inspectOne :: "runner \<Rightarrow> string \<Rightarrow> int \<Rightarrow> target \<Rightarrow> status" where
  "inspectOne run appctlPath timeout t =
     (case validateTarget t of
        Some e \<Rightarrow> zero_status\<lparr>st_Target := t, st_Error := err_text e\<rparr>
      | None \<Rightarrow>
          (case run appctlPath [''--timeout='' @ dec_int (timeout_seconds timeout), ''--target='' @ tg_ControlSocket t,
                                ''cluster/status'', tg_Database t] of
             (output, Some e) \<Rightarrow> zero_status\<lparr>st_Target := t, st_Error := commandError output e\<rparr>
           | (output, None) \<Rightarrow>
               (case Parse output of
                  Inl e \<Rightarrow> zero_status\<lparr>st_Target := t, st_Available := True,
                             st_Error := ''parse cluster/status: '' @ err_text e\<rparr>
                | Inr parsed \<Rightarrow>
                    let issues = st_Issues parsed @
                          (if st_Name parsed \<noteq> tg_Database t then [DatabaseMismatch (st_Name parsed) (tg_Database t)] else [])
                    in parsed\<lparr>st_Target := t, st_Available := True, st_Issues := issues, st_Healthy := (issues = [])\<rparr>)))"

definition Inspect :: "runner \<Rightarrow> string \<Rightarrow> int \<Rightarrow> target list \<Rightarrow> report" where
  "Inspect run appctlPath timeout targets =
     (let path = (if appctlPath = [] then ''/usr/bin/ovs-appctl'' else appctlPath);
          limit = (if timeout \<le> 0 then 5000000000 else timeout);
          databases = map (inspectOne run path limit) targets
      in \<lparr>rep_Healthy = list_all st_Healthy databases, rep_Databases = databases\<rparr>)"

section \<open>What a healthy report means\<close>

definition sound_member :: "status \<Rightarrow> bool" where
  "sound_member st \<longleftrightarrow>
     st_MembershipStatus st = ''cluster member'' \<and> st_Role st \<in> {''leader'', ''follower''} \<and>
     (st_Role st = ''leader'' \<longleftrightarrow> st_Leader st = ''self'') \<and> st_Leader st \<notin> {[], ''unknown''} \<and> 0 < st_Term st \<and>
     st_ConnectedMembers st \<le> st_MemberCount st \<and> st_MemberCount st < 2 * st_ConnectedMembers st \<and> \<not> st_MembershipChange st"

lemma healthIssues_none:
  assumes "healthIssues st selfSeen members = []"
  shows "st_MembershipStatus st = ''cluster member'' \<and> st_Role st \<in> {''leader'', ''follower''} \<and>
    (st_Role st = ''leader'' \<longleftrightarrow> st_Leader st = ''self'') \<and> st_Leader st \<notin> {[], ''unknown''} \<and> 0 < st_Term st \<and>
    (st_Leader st = ''self'' \<or> st_Leader st \<in> set members) \<and> selfSeen \<and>
    0 < st_MemberCount st \<and> st_QuorumSize st \<le> st_ConnectedMembers st \<and> \<not> st_MembershipChange st"
  using assms unfolding healthIssues_def by (simp split: if_split_asm)

lemma count_members_quorum:
  "0 < st_MemberCount (count_members ps) \<Longrightarrow>
     st_QuorumSize (count_members ps) = st_MemberCount (count_members ps) div 2 + 1 \<and>
     st_ConnectedMembers (count_members ps) \<le> st_MemberCount (count_members ps)"
  by (auto simp: count_members_def Let_def)

lemma Parse_healthy:
  assumes "Parse output = Inr st" "st_Issues st = []"
  shows "sound_member st"
proof -
  obtain ps where st: "st = (count_members ps)\<lparr>st_MembershipChange := ps_change ps, st_Issues := [], st_Healthy := True\<rparr>"
    and none: "healthIssues ((count_members ps)\<lparr>st_MembershipChange := ps_change ps\<rparr>) (ps_selfSeen ps) (ps_members ps) = []"
    using assms by (auto simp: Parse_def Let_def split: prod.splits sum.splits if_splits)
  from healthIssues_none [OF none] count_members_quorum [of ps] show ?thesis
    by (auto simp: st sound_member_def)
qed

text \<open>C38. A healthy report means something: every target was answered by the database it names, and
  that answer shows a full cluster member with a term, in a role that agrees with who it says
  leads, connected (itself included) to a strict majority of the members, with no membership
  change under way.\<close>

theorem Inspect_healthy:
  assumes "rep_Healthy (Inspect run path timeout targets)" "t \<in> set targets"
  shows "\<exists>st \<in> set (rep_Databases (Inspect run path timeout targets)).
    st_Target st = t \<and> st_Available st \<and> st_Name st = tg_Database t \<and> sound_member st"
proof -
  define p where "p = (if path = [] then ''/usr/bin/ovs-appctl'' else path)"
  define l where "l = (if timeout \<le> 0 then 5000000000 else timeout)"
  let ?st = "inspectOne run p l t"
  have mem: "?st \<in> set (rep_Databases (Inspect run path timeout targets))"
    using assms(2) by (simp add: Inspect_def Let_def p_def l_def)
  have "st_Healthy ?st"
    using assms by (simp add: Inspect_def Let_def p_def l_def list_all_iff)
  then obtain reply parsed where parsed: "Parse reply = Inr parsed" "st_Issues parsed = []" "st_Name parsed = tg_Database t"
    and st: "?st = parsed\<lparr>st_Target := t, st_Available := True, st_Issues := [], st_Healthy := True\<rparr>"
    by (auto simp: inspectOne_def zero_status_def Let_def split: option.splits prod.splits sum.splits if_splits)
  have "sound_member ?st" using Parse_healthy [OF parsed(1,2)] by (auto simp: st sound_member_def)
  moreover have "st_Target ?st = t" "st_Available ?st" "st_Name ?st = tg_Database t" using parsed(3) by (simp_all add: st)
  ultimately show ?thesis using mem by blast
qed

text \<open>A reply of a three-member cluster, as a list of lines.\<close>

definition sample_reply :: string where
  "sample_reply = concat (map (\<lambda>l. l @ [CHR 0x0A])
     [''Name: OVN_Northbound'',
      ''Cluster ID: 1a2b (1a2b0000-0000-0000-0000-000000000001)'',
      ''Server ID: 3c4d (3c4d0000-0000-0000-0000-000000000002)'',
      ''Address: ssl:10.0.0.1:6643'', ''Status: cluster member'', ''Role: follower'', ''Term: 7'', ''Leader: 5e6f'',
      ''Connections: ->5e6f <-5e6f ->7a8b'', ''Servers:'',
      ''    3c4d (3c4d at ssl:10.0.0.1:6643) (self)'', ''    5e6f (5e6f at ssl:10.0.0.2:6643)'',
      ''    7a8b (7a8b at ssl:10.0.0.3:6643)''])"

definition sample_target :: target where
  "sample_target = \<lparr>tg_Component = ''nb'', tg_Database = ''OVN_Northbound'', tg_ControlSocket = ''/run/ovn/ovnnb_db.ctl''\<rparr>"

theorem Inspect_healthy_witness:
  "\<exists>st \<in> set (rep_Databases (Inspect (\<lambda>_ _. (sample_reply, None)) [] 0 [sample_target])). st_Target st = sample_target \<and> sound_member st"
proof -
  have "rep_Healthy (Inspect (\<lambda>_ _. (sample_reply, None)) [] 0 [sample_target])" by code_simp
  from Inspect_healthy [OF this, of sample_target] show ?thesis by auto
qed

end
