(* ===== verification/Netip.thy ===== *)
theory Netip
  imports Pvn_Prelude "HOL-Library.Word"
begin

unbundle bit_operations_syntax

text \<open>
  The part of Go's \<open>net/netip\<close> and \<open>net\<close> packages the control plane uses: IPv4 addresses
  and prefixes with their textual forms, and hardware addresses.

  Every caller refuses an address that is not \<open>Is4\<close>, so a parse of an IPv6 literal is
  \<^term>\<open>None\<close> here at once. The scanner follows \<open>parseIPv4Fields\<close> of the standard library:
  no empty field, no leading zero, each field at most 255, exactly four fields.
\<close>

section \<open>Addresses\<close>

type_synonym ipv4 = "32 word"

fun parse_fields :: "nat list \<Rightarrow> nat \<Rightarrow> nat \<Rightarrow> string \<Rightarrow> nat list option" where
  "parse_fields acc val digLen [] = (if length acc < 3 then None else Some (rev (val # acc)))"
| "parse_fields acc val digLen (c # cs) =
     (if is_digit c then
        (if digLen = 1 \<and> val = 0 then None
         else let v = val * 10 + digit_val c
              in if v > 255 then None else parse_fields acc v (Suc digLen) cs)
      else if c = CHR ''.'' then
        (if digLen = 0 \<or> cs = [] then None
         else if length acc = 3 then None
         else parse_fields (val # acc) 0 0 cs)
      else None)"

definition of_octets :: "nat list \<Rightarrow> ipv4" where
  "of_octets fs = word_of_nat (foldl (\<lambda>v f. v * 256 + f) 0 fs)"

definition octets :: "ipv4 \<Rightarrow> nat list" where
  "octets a = (let n = unat a in [n div 2 ^ 24, n div 2 ^ 16 mod 256, n div 2 ^ 8 mod 256, n mod 256])"

definition parse_addr :: "string \<Rightarrow> ipv4 option" where
  "parse_addr s = map_option of_octets (parse_fields [] 0 0 s)"

definition addr_string :: "ipv4 \<Rightarrow> string" where
  "addr_string a = join_with (CHR ''.'') (map dec (octets a))"

definition is_unspecified :: "ipv4 \<Rightarrow> bool" where
  "is_unspecified a \<longleftrightarrow> a = 0"

definition is_multicast :: "ipv4 \<Rightarrow> bool" where
  "is_multicast a \<longleftrightarrow> drop_bit 28 a = 0xE"

section \<open>Prefixes\<close>

datatype prefix = Prefix (pfx_addr: ipv4) (pfx_bits: nat)

definition host_bits :: "prefix \<Rightarrow> nat" where
  "host_bits p = 32 - pfx_bits p"

definition masked :: "prefix \<Rightarrow> prefix" where
  "masked p = Prefix (pfx_addr p AND NOT (mask (host_bits p))) (pfx_bits p)"

definition prefix_contains :: "prefix \<Rightarrow> ipv4 \<Rightarrow> bool" where
  "prefix_contains p a \<longleftrightarrow> drop_bit (host_bits p) (pfx_addr p XOR a) = 0"

definition parse_bits :: "string \<Rightarrow> nat option" where
  "parse_bits b =
     (if length b > 1 \<and> \<not> (CHR ''1'' \<le> hd b \<and> hd b \<le> CHR ''9'') then None
      else if b = [] \<or> \<not> list_all is_digit b then None
      else if dec_value b > 32 then None
      else Some (dec_value b))"

definition parse_prefix :: "string \<Rightarrow> prefix option" where
  "parse_prefix s =
     (case index_of (CHR ''/'') (rev s) of
        None \<Rightarrow> None
      | Some n \<Rightarrow>
          (case parse_addr (take (length s - Suc n) s) of
             None \<Rightarrow> None
           | Some a \<Rightarrow> map_option (Prefix a) (parse_bits (drop (length s - n) s))))"

definition prefix_string :: "prefix \<Rightarrow> string" where
  "prefix_string p = addr_string (pfx_addr p) @ CHR ''/'' # dec (pfx_bits p)"

section \<open>Text and value agree\<close>

lemma unat_ipv4_less: "unat (a :: ipv4) < 2 ^ 32"
  using unsigned_less [of a, where 'a = nat] by simp

lemma unat_of_nat_ipv4: "n < 2 ^ 32 \<Longrightarrow> unat (word_of_nat n :: ipv4) = n"
  by (simp add: unsigned_of_nat take_bit_nat_eq_self)

lemma octets_less: "f \<in> set (octets a) \<Longrightarrow> f < 256"
proof -
  assume f: "f \<in> set (octets a)"
  have "unat a < 2 ^ 32" by (rule unat_ipv4_less)
  then have "unat a div 2 ^ 24 < 256" by (simp add: div_less_iff_less_mult)
  with f show ?thesis by (auto simp: octets_def Let_def)
qed

lemma div_256_chain: "(n::nat) div 2 ^ 24 = n div 256 div 256 div 256" "n div 2 ^ 16 = n div 256 div 256" "n div 2 ^ 8 = n div 256"
  by (simp_all flip: div_mult2_eq)

lemma of_octets_octets: "of_octets (octets a) = a"
proof -
  have "((n div 2 ^ 24 * 256 + n div 2 ^ 16 mod 256) * 256 + n div 2 ^ 8 mod 256) * 256 + n mod 256 = n"
    for n :: nat
    by (simp only: div_256_chain div_mult_mod_eq)
  then show ?thesis by (simp add: of_octets_def octets_def Let_def)
qed

lemma octets_of_octets:
  assumes "a < 256" "b < 256" "c < 256" "d < (256::nat)"
  shows "octets (of_octets [a, b, c, d]) = [a, b, c, d]"
proof -
  let ?n = "((a * 256 + b) * 256 + c) * 256 + d"
  have n: "?n < 2 ^ 32" using assms by simp
  have u: "unat (of_octets [a, b, c, d]) = ?n"
    using unat_of_nat_ipv4 [OF n] by (simp only: of_octets_def foldl.simps mult_0 add_0)
  have step: "(y * 256 + x) div 256 = y" "(y * 256 + x) mod 256 = x" if "x < 256" for x y :: nat
    using that by simp_all
  have "?n div 2 ^ 24 = a" "?n div 2 ^ 16 mod 256 = b" "?n div 2 ^ 8 mod 256 = c" "?n mod 256 = d"
    by (simp_all only: div_256_chain step assms mod_less)
  then show ?thesis by (simp add: octets_def u Let_def)
qed

text \<open>Scanning the decimal text of one field.\<close>

lemma parse_fields_digit:
  "\<not> (k = 1 \<and> v = 0) \<Longrightarrow> d < 10 \<Longrightarrow> v * 10 + d \<le> 255 \<Longrightarrow>
     parse_fields acc v k (digit_char d # cs) = parse_fields acc (v * 10 + d) (Suc k) cs"
  by (auto simp: Let_def)

lemma parse_fields_dec:
  assumes "n \<le> 255"
  shows "\<exists>k. 0 < k \<and> parse_fields acc 0 0 (dec n @ cs) = parse_fields acc n k cs"
proof -
  consider "n < 10" | "10 \<le> n" "n < 100" | "100 \<le> n" by linarith
  then show ?thesis
  proof cases
    case 1
    then show ?thesis using parse_fields_digit [of 0 0 n acc cs] assms
      by (intro exI [of _ 1]) (simp add: dec_single)
  next
    case 2
    then have eq: "dec n = [digit_char (n div 10), digit_char (n mod 10)]"
      by (subst dec.simps) (simp add: dec_single div_less_iff_less_mult)
    have "parse_fields acc 0 0 (dec n @ cs) = parse_fields acc (n div 10 * 10 + n mod 10) 2 cs"
      using 2 assms unfolding eq
      by (simp del: parse_fields.simps add: parse_fields_digit div_less_iff_less_mult numeral_2_eq_2)
    then show ?thesis by (intro exI [of _ 2]) simp
  next
    case 3
    let ?m = "n div 10"
    have m: "10 \<le> ?m" "?m \<le> 25" using 3 assms by linarith+
    then have d: "0 < ?m div 10" "?m div 10 < 10" by linarith+
    have "dec n = dec ?m @ [digit_char (n mod 10)]" using 3 by (subst dec.simps) simp
    moreover have "dec ?m = [digit_char (?m div 10), digit_char (?m mod 10)]"
      using m d by (subst dec.simps) (simp add: dec_single)
    ultimately have eq: "dec n = [digit_char (?m div 10), digit_char (?m mod 10), digit_char (n mod 10)]" by simp
    have "parse_fields acc 0 0 (dec n @ cs) = parse_fields acc (?m div 10) 1 (digit_char (?m mod 10) # digit_char (n mod 10) # cs)"
      using d by (simp del: parse_fields.simps add: eq parse_fields_digit)
    also have "\<dots> = parse_fields acc (?m div 10 * 10 + ?m mod 10) 2 (digit_char (n mod 10) # cs)"
      using d m by (simp del: parse_fields.simps div_mult_mod_eq add: parse_fields_digit numeral_2_eq_2)
    also have "\<dots> = parse_fields acc (?m * 10 + n mod 10) 3 cs"
      using m assms by (simp del: parse_fields.simps add: parse_fields_digit numeral_3_eq_3)
    finally show ?thesis by (intro exI [of _ 3]) simp
  qed
qed

lemma parse_fields_dec_dot:
  assumes "n \<le> 255" "length acc < 3" "cs \<noteq> []"
  shows "parse_fields acc 0 0 (dec n @ CHR ''.'' # cs) = parse_fields (n # acc) 0 0 cs"
proof -
  obtain k where "0 < k"
    and "parse_fields acc 0 0 (dec n @ CHR ''.'' # cs) = parse_fields acc n k (CHR ''.'' # cs)"
    using parse_fields_dec [OF assms(1)] by blast
  then show ?thesis using assms by (simp add: is_digit_iff)
qed

lemma parse_fields_dec_last:
  "n \<le> 255 \<Longrightarrow> length acc = 3 \<Longrightarrow> parse_fields acc 0 0 (dec n) = Some (rev (n # acc))"
  using parse_fields_dec [of n acc "[]"] by auto

lemma parse_addr_string: "parse_addr (addr_string a) = Some a"
proof -
  obtain w x y z where o4: "octets a = [w, x, y, z]" by (simp add: octets_def Let_def)
  have "w \<le> 255" "x \<le> 255" "y \<le> 255" "z \<le> 255"
    using octets_less [of w a] octets_less [of x a] octets_less [of y a] octets_less [of z a] by (simp_all add: o4)
  then have "parse_fields [] 0 0 (addr_string a) = Some [w, x, y, z]"
    by (simp add: addr_string_def o4 parse_fields_dec_dot parse_fields_dec_last)
  then show ?thesis by (simp add: parse_addr_def flip: o4) (simp add: of_octets_octets)
qed

lemma parse_fields_length: "parse_fields acc v k cs = Some fs \<Longrightarrow> length acc \<le> 3 \<Longrightarrow> length fs = 4"
  by (induction acc v k cs rule: parse_fields.induct)
     (fastforce simp: Let_def split: if_splits)+

lemma parse_fields_bounds:
  "parse_fields acc v k cs = Some fs \<Longrightarrow> v \<le> 255 \<Longrightarrow> list_all (\<lambda>f. f \<le> 255) acc \<Longrightarrow> list_all (\<lambda>f. f \<le> 255) fs"
  by (induction acc v k cs rule: parse_fields.induct) (auto simp: Let_def split: if_splits)

text \<open>
  The scanner accepts one text per address only: what it has consumed is the decimal text of
  the fields read so far.
\<close>

definition consumed :: "nat list \<Rightarrow> nat \<Rightarrow> nat \<Rightarrow> string" where
  "consumed acc v k = concat (map (\<lambda>f. dec f @ ''.'') (rev acc)) @ (if k = 0 then [] else dec v)"

lemma parse_fields_consumed:
  "parse_fields acc v k cs = Some fs \<Longrightarrow> (k = 0 \<Longrightarrow> v = 0 \<and> cs \<noteq> []) \<Longrightarrow> (1 < k \<Longrightarrow> v \<noteq> 0) \<Longrightarrow>
     join_with (CHR ''.'') (map dec fs) = consumed acc v k @ cs"
proof (induction acc v k cs rule: parse_fields.induct)
  case (1 acc v k)
  then show ?case by (auto simp: consumed_def join_with_snoc split: if_splits)
next
  case (2 acc v k c cs)
  show ?case
  proof (cases "is_digit c")
    case True
    let ?v = "v * 10 + digit_val c"
    from 2 True have rec: "parse_fields acc ?v (Suc k) cs = Some fs" and k1: "\<not> (k = 1 \<and> v = 0)"
      by (auto simp: Let_def split: if_splits)
    have "?v \<noteq> 0" if "1 < Suc k" using that k1 2(4,5) by (cases "k = 1") auto
    then have "join_with (CHR ''.'') (map dec fs) = consumed acc ?v (Suc k) @ cs"
      using 2 True rec k1 by (auto simp: Let_def split: if_splits)
    moreover have "consumed acc ?v (Suc k) = consumed acc v k @ [c]"
      using 2(4,5) k1 digit_val_less [OF True] digit_char_val [OF True] dec_snoc [of v "digit_val c"]
      by (cases "k = 0"; cases "k = 1") (auto simp: consumed_def dec_single mult.commute)
    ultimately show ?thesis by simp
  next
    case False
    with 2 have dot: "c = CHR ''.''" and rec: "parse_fields (v # acc) 0 0 cs = Some fs"
      and k0: "k \<noteq> 0" and cs: "cs \<noteq> []" and l3: "length acc \<noteq> 3"
      by (auto split: if_splits)
    have "join_with (CHR ''.'') (map dec fs) = consumed (v # acc) 0 0 @ cs"
      using 2(2) False dot rec k0 cs l3 by auto
    then show ?thesis using k0 dot by (simp add: consumed_def)
  qed
qed

lemma parse_addr_canonical: "parse_addr s = Some a \<Longrightarrow> addr_string a = s"
proof -
  assume "parse_addr s = Some a"
  then obtain fs where fs: "parse_fields [] 0 0 s = Some fs" and a: "a = of_octets fs"
    by (auto simp: parse_addr_def)
  have "length fs = 4" using parse_fields_length [OF fs] by simp
  then obtain w x y z where f4: "fs = [w, x, y, z]"
    by (auto simp: numeral_eq_Suc length_Suc_conv)
  have "s \<noteq> []" using fs by (auto split: if_splits)
  then have "join_with (CHR ''.'') (map dec fs) = s"
    using parse_fields_consumed [OF fs] by (simp add: consumed_def)
  moreover have "octets a = fs"
    using parse_fields_bounds [OF fs] octets_of_octets [of w x y z] by (simp add: a f4)
  ultimately show ?thesis by (simp add: addr_string_def)
qed

lemma parse_addr_inject: "parse_addr s = Some a \<Longrightarrow> parse_addr t = Some a \<Longrightarrow> s = t"
  using parse_addr_canonical by blast

lemma parse_addr_iff: "parse_addr s = Some a \<longleftrightarrow> s = addr_string a"
  using parse_addr_canonical parse_addr_string by blast

lemma addr_string_inject: "addr_string a = addr_string b \<longleftrightarrow> a = b"
  using parse_addr_string by (metis option.inject)

section \<open>Prefixes as address ranges\<close>

lemma xor_zero_iff: "(x :: 'a::len word) XOR y = 0 \<longleftrightarrow> x = y"
  by (simp add: bit_eq_iff bit_simps)

lemma unat_drop_bit_div: "unat (drop_bit n (w :: 'a::len word)) = unat w div 2 ^ n"
  unfolding unsigned_drop_bit_eq by (simp add: take_bit_nat_eq_self unsigned_less) (simp add: drop_bit_eq_div)

lemma and_not_mask_conv: "w AND NOT (mask n) = push_bit n (drop_bit n (w :: 'a::len word))"
  by (rule bit_eqI) (auto simp: bit_simps)

lemma unat_and_not_mask: "unat (w AND NOT (mask n)) = unat (w :: 'a::len word) div 2 ^ n * 2 ^ n"
proof -
  have "unat w div 2 ^ n * 2 ^ n < 2 ^ LENGTH('a)"
    using unsigned_less [of w, where 'a = nat] by (meson div_times_less_eq_dividend le_less_trans)
  then show ?thesis
    unfolding and_not_mask_conv unsigned_push_bit_eq unat_drop_bit_div
    by (simp add: push_bit_eq_mult take_bit_nat_eq_self)
qed

lemma unat_mask_word: "n \<le> LENGTH('a) \<Longrightarrow> unat (mask n :: 'a::len word) = 2 ^ n - 1"
proof -
  assume "n \<le> LENGTH('a)"
  then have "unat (mask n :: 'a word) = mask n"
    by (intro bit_eqI) (auto simp: bit_simps bit_unsigned_iff)
  then show ?thesis by (simp add: mask_eq_exp_minus_1)
qed

lemma last_block_less:
  assumes "m < (2::nat) ^ k" "n \<le> k"
  shows "m div 2 ^ n * 2 ^ n + (2 ^ n - 1) < 2 ^ k"
proof -
  have "m < 2 ^ (k - n) * 2 ^ n" using assms by (simp flip: power_add)
  then have "m div 2 ^ n + 1 \<le> 2 ^ (k - n)" by (simp add: Suc_le_eq less_mult_imp_div_less)
  then have "(m div 2 ^ n + 1) * 2 ^ n \<le> 2 ^ (k - n) * 2 ^ n" by (rule mult_right_mono) simp
  then have "m div 2 ^ n * 2 ^ n + 2 ^ n \<le> 2 ^ k" using assms by (simp flip: power_add)
  moreover have "0 < (2::nat) ^ n" by simp
  ultimately show ?thesis by linarith
qed

lemma unat_or_mask:
  assumes "n \<le> LENGTH('a)"
  shows "unat ((w AND NOT (mask n)) OR mask n) = unat (w :: 'a::len word) div 2 ^ n * 2 ^ n + (2 ^ n - 1)"
proof -
  let ?v = "w AND NOT (mask n)"
  have dis: "?v AND mask n = 0" by (rule bit_eqI) (auto simp: bit_simps)
  have sum: "unat ?v + unat (mask n :: 'a word) < 2 ^ LENGTH('a)"
    using last_block_less [OF unsigned_less [of w] assms] assms
    by (simp add: unat_and_not_mask unat_mask_word)
  have "?v OR mask n = ?v + mask n" using dis by (simp add: disjunctive_add_eq_or)
  with sum show ?thesis using assms by (simp add: unat_add_lem [THEN iffD1] unat_and_not_mask unat_mask_word)
qed

lemma prefix_contains_div:
  "prefix_contains p a \<longleftrightarrow> unat (pfx_addr p) div 2 ^ host_bits p = unat a div 2 ^ host_bits p"
  unfolding prefix_contains_def drop_bit_xor xor_zero_iff
  by (simp only: word_unat_eq_iff unat_drop_bit_div)

definition first_addr :: "prefix \<Rightarrow> nat" where
  "first_addr p = unat (pfx_addr p) div 2 ^ host_bits p * 2 ^ host_bits p"

definition last_addr :: "prefix \<Rightarrow> nat" where
  "last_addr p = first_addr p + (2 ^ host_bits p - 1)"

lemma prefix_contains_range: "prefix_contains p a \<longleftrightarrow> first_addr p \<le> unat a \<and> unat a \<le> last_addr p"
proof -
  let ?h = "2 ^ host_bits p :: nat"
  have pos: "0 < ?h" by simp
  have "k = n div ?h \<longleftrightarrow> k * ?h \<le> n \<and> n \<le> k * ?h + (?h - 1)" for k n :: nat
  proof
    assume "k = n div ?h"
    then have "n = k * ?h + n mod ?h" by (simp only: div_mult_mod_eq)
    moreover have "n mod ?h < ?h" by simp
    ultimately show "k * ?h \<le> n \<and> n \<le> k * ?h + (?h - 1)" by linarith
  next
    assume *: "k * ?h \<le> n \<and> n \<le> k * ?h + (?h - 1)"
    then have "n < k * ?h + ?h" using pos by linarith
    then have "n < Suc k * ?h" by simp
    with * show "k = n div ?h" by (intro sym [OF div_nat_eqI]) (simp_all add: mult.commute)
  qed
  then show ?thesis by (simp add: prefix_contains_div first_addr_def last_addr_def)
qed

lemma masked_bits [simp]: "pfx_bits (masked p) = pfx_bits p" "host_bits (masked p) = host_bits p"
  by (simp_all add: masked_def host_bits_def)

lemma masked_addr: "unat (pfx_addr (masked p)) = first_addr p"
  by (simp add: masked_def first_addr_def unat_and_not_mask)

lemma masked_idem [simp]: "masked (masked p) = masked p"
  by (simp add: masked_def host_bits_def)

lemma masked_ends [simp]: "first_addr (masked p) = first_addr p" "last_addr (masked p) = last_addr p"
  by (simp_all add: first_addr_def [of "masked p"] last_addr_def masked_addr) (simp_all add: first_addr_def)

lemma masked_contains [simp]: "prefix_contains (masked p) a = prefix_contains p a"
  by (simp add: prefix_contains_range)

lemma first_le_last: "first_addr p \<le> last_addr p"
  unfolding last_addr_def by (rule le_add1)

lemma last_addr_less: "pfx_bits p \<le> 32 \<Longrightarrow> last_addr p < 2 ^ 32"
  using last_block_less [OF unat_ipv4_less [of "pfx_addr p"], of "host_bits p"]
  by (simp add: last_addr_def first_addr_def host_bits_def)

section \<open>The text of a prefix\<close>

lemma parse_bits_dec: "n \<le> 32 \<Longrightarrow> parse_bits (dec n) = Some n"
proof -
  assume n: "n \<le> 32"
  have hd: "CHR ''1'' \<le> hd (dec n) \<and> hd (dec n) \<le> CHR ''9''" if "length (dec n) > 1"
  proof -
    have n10: "10 \<le> n" using that by (cases "n < 10") (simp_all add: dec_single)
    then have d: "0 < n div 10" "n div 10 < 10" using n by linarith+
    then have "hd (dec n) = digit_char (n div 10)"
      using n10 by (subst dec.simps) (simp add: dec_single)
    with d show ?thesis by (simp add: less_eq_char_def of_char_digit_char)
  qed
  then show ?thesis using n dec_digits [of _ n]
    by (auto simp: parse_bits_def dec_value_dec list_all_iff)
qed

lemma index_of_skip: "c \<notin> set xs \<Longrightarrow> index_of c (xs @ c # ys) = Some (length xs)"
  by (induction xs) auto

lemma parse_prefix_string: "pfx_bits p \<le> 32 \<Longrightarrow> parse_prefix (prefix_string p) = Some p"
proof -
  assume b: "pfx_bits p \<le> 32"
  have "CHR ''/'' \<notin> set (dec (pfx_bits p))"
    using dec_digits [of "CHR ''/''"] by (auto simp: is_digit_iff)
  then have "index_of (CHR ''/'') (rev (prefix_string p)) = Some (length (dec (pfx_bits p)))"
    by (simp add: prefix_string_def index_of_skip)
  then show ?thesis using b
    by (cases p) (simp add: parse_prefix_def prefix_string_def parse_addr_string parse_bits_dec)
qed

section \<open>Hardware addresses\<close>

definition hex_val :: "char \<Rightarrow> nat option" where
  "hex_val c =
     (if is_digit c then Some (digit_val c)
      else if CHR ''a'' \<le> c \<and> c \<le> CHR ''f'' then Some (of_char c - 87)
      else if CHR ''A'' \<le> c \<and> c \<le> CHR ''F'' then Some (of_char c - 55)
      else None)"

definition hex_char :: "nat \<Rightarrow> char" where
  "hex_char d = (if d < 10 then digit_char d else char_of (87 + d))"

definition hex_byte :: "char \<Rightarrow> char \<Rightarrow> nat option" where
  "hex_byte a b =
     (case hex_val a of None \<Rightarrow> None | Some x \<Rightarrow> map_option (\<lambda>y. 16 * x + y) (hex_val b))"

definition hex_pair :: "nat \<Rightarrow> string" where
  "hex_pair b = [hex_char (b div 16), hex_char (b mod 16)]"

text \<open>Groups of two digits with a separator, as in \<open>aa:bb:cc\<close>; groups of four, as in \<open>aabb.ccdd\<close>.\<close>

fun mac_pairs :: "char \<Rightarrow> string \<Rightarrow> nat list option" where
  "mac_pairs sep [a, b] = map_option (\<lambda>x. [x]) (hex_byte a b)"
| "mac_pairs sep (a # b # c # cs) =
     (if c \<noteq> sep then None
      else case hex_byte a b of None \<Rightarrow> None | Some x \<Rightarrow> map_option ((#) x) (mac_pairs sep cs))"
| "mac_pairs sep cs = None"

fun mac_quads :: "string \<Rightarrow> nat list option" where
  "mac_quads [a, b, c, d] =
     (case hex_byte a b of None \<Rightarrow> None | Some x \<Rightarrow> map_option (\<lambda>y. [x, y]) (hex_byte c d))"
| "mac_quads (a # b # c # d # e # cs) =
     (if e \<noteq> CHR ''.'' then None
      else case hex_byte a b of None \<Rightarrow> None
         | Some x \<Rightarrow> (case hex_byte c d of None \<Rightarrow> None
             | Some y \<Rightarrow> map_option (\<lambda>r. x # y # r) (mac_quads cs)))"
| "mac_quads cs = None"

definition parse_mac :: "string \<Rightarrow> nat list option" where
  "parse_mac s =
     (if length s < 14 then None
      else let r = (if s ! 2 = CHR '':'' \<or> s ! 2 = CHR ''-'' then mac_pairs (s ! 2) s
                    else if s ! 4 = CHR ''.'' then mac_quads s else None)
           in case r of None \<Rightarrow> None
            | Some hw \<Rightarrow> if length hw \<in> {6, 8, 20} then Some hw else None)"

definition mac_string :: "nat list \<Rightarrow> string" where
  "mac_string hw = join_with (CHR '':'') (map hex_pair hw)"

lemma hex_val_char [simp]: "d < 16 \<Longrightarrow> hex_val (hex_char d) = Some d"
proof -
  assume d: "d < 16"
  show ?thesis
  proof (cases "d < 10")
    case True
    then show ?thesis by (simp add: hex_val_def hex_char_def)
  next
    case False
    with d have "of_char (char_of (87 + d) :: char) = (87 + d :: nat)" by simp
    with False d show ?thesis by (simp add: hex_val_def hex_char_def is_digit_iff less_eq_char_def)
  qed
qed

lemma hex_byte_pair: "b < 256 \<Longrightarrow> hex_byte (hex_char (b div 16)) (hex_char (b mod 16)) = Some b"
  by (simp add: hex_byte_def div_less_iff_less_mult)

lemma parse_mac_string:
  assumes "length hw = 6" "list_all (\<lambda>b. b < 256) hw"
  shows "parse_mac (mac_string hw) = Some hw"
proof -
  obtain a b c d e f where hw: "hw = [a, b, c, d, e, f]"
    using assms(1) by (auto simp: numeral_eq_Suc length_Suc_conv)
  show ?thesis using assms(2)
    by (simp add: parse_mac_def mac_string_def hw hex_pair_def hex_byte_pair)
qed

lemma hex_val_less: "hex_val c = Some x \<Longrightarrow> x < 16"
  by (auto simp: hex_val_def less_eq_char_def digit_val_def is_digit_iff split: if_splits)

lemma hex_byte_less: "hex_byte a b = Some x \<Longrightarrow> x < 256"
  by (auto simp: hex_byte_def dest!: hex_val_less split: option.splits)

lemma mac_pairs_bytes: "mac_pairs sep s = Some hw \<Longrightarrow> list_all (\<lambda>b. b < 256) hw"
  by (induction sep s arbitrary: hw rule: mac_pairs.induct)
     (auto simp: hex_byte_less split: if_splits option.splits)

lemma mac_quads_bytes: "mac_quads s = Some hw \<Longrightarrow> list_all (\<lambda>b. b < 256) hw"
  by (induction s arbitrary: hw rule: mac_quads.induct)
     (auto simp: hex_byte_less split: if_splits option.splits)

lemma parse_mac_bytes: "parse_mac s = Some hw \<Longrightarrow> list_all (\<lambda>b. b < 256) hw"
  by (auto simp: parse_mac_def Let_def mac_pairs_bytes mac_quads_bytes split: if_splits option.splits)

lemma lower_hex_char [simp]: "d < 16 \<Longrightarrow> lower_char (hex_char d) = hex_char d"
  by (auto simp: lower_char_def hex_char_def is_upper_def less_eq_char_def of_char_digit_char)

lemma to_lower_mac_string:
  assumes "length hw = 6" "list_all (\<lambda>b. b < 256) hw"
  shows "to_lower (mac_string hw) = mac_string hw"
proof -
  obtain a b c d e f where hw: "hw = [a, b, c, d, e, f]"
    using assms(1) by (auto simp: numeral_eq_Suc length_Suc_conv)
  have "lower_char (CHR '':'') = CHR '':''" by (simp add: lower_char_def is_upper_def less_eq_char_def)
  with assms(2) show ?thesis
    by (simp add: to_lower_def mac_string_def hw hex_pair_def div_less_iff_less_mult)
qed

section \<open>Evaluation\<close>

text \<open>Rewriting of address and prefix literals to words.\<close>

lemmas netip_eval = parse_addr_def parse_prefix_def parse_bits_def dec_value_def of_octets_def is_digit_def
  digit_val_def less_eq_char_def less_char_def masked_def host_bits_def prefix_contains_def mask_eq_exp_minus_1

end
