(* ===== verification/Model_Types.thy ===== *)
theory Model_Types
  imports Pvn_Prelude
begin

text \<open>
  The resource model of \<open>internal/model\<close>: the kinds (\<open>kind.go\<close>), the server-managed
  metadata (\<open>metadata.go\<close>) and the thirteen resource structs (\<open>resources.go\<close>).

  A Go string type with named constants is a datatype of those constants, of the empty
  string where the code tests for it, and of any other string. \<open>int\<close> and \<open>int64\<close> fields are
  integers; the only arithmetic on them is the increment of a revision, which starts at 1.
  A time is its instant (nanoseconds), the zero time is 0, a pointer to a time is an option.
  A resource behind the \<open>Resource\<close> interface is a value of one sum type, so a clone of it
  (\<open>model.Clone\<close>, a JSON round trip) is the value itself, and a change through
  \<open>GetMetadata()\<close> is \<open>map_metadata\<close>.
\<close>

type_synonym time = int

abbreviation zero_time :: time where
  "zero_time \<equiv> 0"

section \<open>Kinds\<close>

datatype kind =
    KindNetwork | KindSubnet | KindPort | KindIPAllocation | KindRouter | KindRouterInterface
  | KindFloatingIP | KindProviderNetwork | KindProviderSegment | KindSecurityGroup
  | KindSecurityGroupRule | KindNode | KindOperation | KindOther string

fun kind_string :: "kind \<Rightarrow> string" where
  "kind_string KindNetwork = ''network''"
| "kind_string KindSubnet = ''subnet''"
| "kind_string KindPort = ''port''"
| "kind_string KindIPAllocation = ''ip-allocation''"
| "kind_string KindRouter = ''router''"
| "kind_string KindRouterInterface = ''router-interface''"
| "kind_string KindFloatingIP = ''floating-ip''"
| "kind_string KindProviderNetwork = ''provider-network''"
| "kind_string KindProviderSegment = ''provider-segment''"
| "kind_string KindSecurityGroup = ''security-group''"
| "kind_string KindSecurityGroupRule = ''security-group-rule''"
| "kind_string KindNode = ''node''"
| "kind_string KindOperation = ''operation''"
| "kind_string (KindOther s) = s"

definition kindToCollection :: "(kind \<times> string) list" where
  "kindToCollection =
     [(KindNetwork, ''networks''), (KindSubnet, ''subnets''), (KindPort, ''ports''),
      (KindIPAllocation, ''ip-allocations''), (KindRouter, ''routers''),
      (KindRouterInterface, ''router-interfaces''), (KindFloatingIP, ''floating-ips''),
      (KindProviderNetwork, ''provider-networks''), (KindProviderSegment, ''provider-segments''),
      (KindSecurityGroup, ''security-groups''), (KindSecurityGroupRule, ''security-group-rules''),
      (KindNode, ''nodes''), (KindOperation, ''operations'')]"

definition collectionToKind :: "(string \<times> kind) list" where
  "collectionToKind = map (\<lambda>(k, c). (c, k)) kindToCollection"

definition Collection :: "kind \<Rightarrow> string" where
  "Collection k = (case map_of kindToCollection k of None \<Rightarrow> [] | Some c \<Rightarrow> c)"

definition kind_valid :: "kind \<Rightarrow> bool" where
  "kind_valid k \<longleftrightarrow> map_of kindToCollection k \<noteq> None"

definition ParseCollection :: "string \<Rightarrow> kind option" where
  "ParseCollection s = map_of collectionToKind (to_lower s)"

definition Kinds :: "kind list" where
  "Kinds = sort_key kind_string (map fst kindToCollection)"

section \<open>Metadata\<close>

datatype resource_state =
  ResourceUnset | ResourcePending | ResourceReady | ResourceError | ResourceDeleting | ResourceStateOther string

record metadata =
  ID :: string
  Revision :: int
  AppliedRevision :: int
  State :: resource_state
  LastError :: string
  CreatedAt :: time
  UpdatedAt :: time

section \<open>Resources\<close>

record network =
  net_meta :: metadata
  net_Name :: string
  net_Description :: string
  net_MTU :: int
  net_External :: bool
  net_ProviderNetworkID :: string

record ip_range =
  rng_Start :: string
  rng_End :: string

record subnet =
  sub_meta :: metadata
  sub_NetworkID :: string
  sub_Name :: string
  sub_CIDR :: string
  sub_GatewayIP :: string
  sub_EnableDHCP :: bool
  sub_DNSNameservers :: "string list"
  sub_DNSDomain :: string
  sub_DNSSearchDomains :: "string list"
  sub_AllocationPools :: "ip_range list"

record fixed_ip =
  fip_SubnetID :: string
  fip_Address :: string

datatype port_binding_status =
  PortStatusUnset | PortUnbound | PortBinding | PortBound | PortDetaching | PortBindingError | PortStatusOther string

record port =
  port_meta :: metadata
  port_NetworkID :: string
  port_Name :: string
  port_MACAddress :: string
  port_FixedIPs :: "fixed_ip list"
  port_SecurityGroupIDs :: "string list"
  port_AdminStateUp :: bool
  port_BindingStatus :: port_binding_status
  port_NodeID :: string
  port_VMID :: int
  port_NIC :: string
  port_LSPName :: string
  port_Generation :: int
  port_RequestedChassis :: string

datatype ip_allocation_state = IPStateUnset | IPReserved | IPAllocated | IPStateOther string

record ip_allocation =
  ipa_meta :: metadata
  ipa_SubnetID :: string
  ipa_PortID :: string
  ipa_Address :: string
  ipa_State :: ip_allocation_state

record static_route =
  rt_Destination :: string
  rt_NextHop :: string

record router =
  rtr_meta :: metadata
  rtr_Name :: string
  rtr_Description :: string
  rtr_ExternalNetworkID :: string
  rtr_ExternalSubnetID :: string
  rtr_ExternalIPAddress :: string
  rtr_EnableSNAT :: bool
  rtr_StaticRoutes :: "static_route list"

record router_interface =
  rif_meta :: metadata
  rif_RouterID :: string
  rif_SubnetID :: string
  rif_PortID :: string

datatype floating_ip_status =
  FloatingIPUnset | FloatingIPDown | FloatingIPActive | FloatingIPError | FloatingIPOther string

record floating_ip =
  flt_meta :: metadata
  flt_ProviderNetworkID :: string
  flt_Address :: string
  flt_PortID :: string
  flt_FixedIPAddress :: string
  flt_RouterID :: string
  flt_FloatingStatus :: floating_ip_status

record provider_network =
  pn_meta :: metadata
  pn_Name :: string
  pn_Description :: string
  pn_DefaultSegmentID :: string

datatype provider_network_type = ProviderFlat | ProviderVLAN | ProviderTypeOther string

record provider_segment =
  ps_meta :: metadata
  ps_ProviderNetworkID :: string
  ps_Name :: string
  ps_PhysicalNetwork :: string
  ps_NetworkType :: provider_network_type
  ps_VLANID :: int

record security_group =
  sg_meta :: metadata
  sg_Name :: string
  sg_Description :: string
  sg_Stateful :: bool

datatype rule_direction = DirectionIngress | DirectionEgress | DirectionOther string
datatype ether_type = EtherTypeUnset | EtherTypeIPv4 | EtherTypeOther string
datatype rule_action = ActionUnset | ActionAllow | ActionDrop | ActionOther string

record security_group_rule =
  sgr_meta :: metadata
  sgr_SecurityGroupID :: string
  sgr_Direction :: rule_direction
  sgr_EtherType :: ether_type
  sgr_Protocol :: string
  sgr_PortRangeMin :: int
  sgr_PortRangeMax :: int
  sgr_RemoteCIDR :: string
  sgr_RemoteGroupID :: string
  sgr_Action :: rule_action
  sgr_Description :: string

datatype node_role = NodeRoleCompute | NodeRoleGateway | NodeRoleCentral | NodeRoleOther string

record node =
  node_meta :: metadata
  node_Name :: string
  node_ChassisID :: string
  node_ManagementAddress :: string
  node_Roles :: "node_role list"
  node_Enabled :: bool
  node_LastSeenAt :: "time option"

datatype operation_status =
  OperationUnset | OperationQueued | OperationRunning | OperationSucceeded | OperationFailed | OperationStatusOther string

record operation =
  op_meta :: metadata
  op_Action :: string
  op_TargetKind :: kind
  op_TargetID :: string
  op_TargetRevision :: int
  op_OperationStatus :: operation_status
  op_IdempotencyKey :: string
  op_Error :: string
  op_LeaseOwner :: string
  op_StartedAt :: "time option"
  op_CompletedAt :: "time option"
  op_Payload :: string

datatype resource =
    Network network
  | Subnet subnet
  | Port port
  | IPAllocation ip_allocation
  | Router router
  | RouterInterface router_interface
  | FloatingIP floating_ip
  | ProviderNetwork provider_network
  | ProviderSegment provider_segment
  | SecurityGroup security_group
  | SecurityGroupRule security_group_rule
  | Node node
  | Operation operation

section \<open>The \<open>Resource\<close> interface\<close>

fun ResourceKind :: "resource \<Rightarrow> kind" where
  "ResourceKind (Network _) = KindNetwork"
| "ResourceKind (Subnet _) = KindSubnet"
| "ResourceKind (Port _) = KindPort"
| "ResourceKind (IPAllocation _) = KindIPAllocation"
| "ResourceKind (Router _) = KindRouter"
| "ResourceKind (RouterInterface _) = KindRouterInterface"
| "ResourceKind (FloatingIP _) = KindFloatingIP"
| "ResourceKind (ProviderNetwork _) = KindProviderNetwork"
| "ResourceKind (ProviderSegment _) = KindProviderSegment"
| "ResourceKind (SecurityGroup _) = KindSecurityGroup"
| "ResourceKind (SecurityGroupRule _) = KindSecurityGroupRule"
| "ResourceKind (Node _) = KindNode"
| "ResourceKind (Operation _) = KindOperation"

fun GetMetadata :: "resource \<Rightarrow> metadata" where
  "GetMetadata (Network x) = net_meta x"
| "GetMetadata (Subnet x) = sub_meta x"
| "GetMetadata (Port x) = port_meta x"
| "GetMetadata (IPAllocation x) = ipa_meta x"
| "GetMetadata (Router x) = rtr_meta x"
| "GetMetadata (RouterInterface x) = rif_meta x"
| "GetMetadata (FloatingIP x) = flt_meta x"
| "GetMetadata (ProviderNetwork x) = pn_meta x"
| "GetMetadata (ProviderSegment x) = ps_meta x"
| "GetMetadata (SecurityGroup x) = sg_meta x"
| "GetMetadata (SecurityGroupRule x) = sgr_meta x"
| "GetMetadata (Node x) = node_meta x"
| "GetMetadata (Operation x) = op_meta x"

fun map_metadata :: "(metadata \<Rightarrow> metadata) \<Rightarrow> resource \<Rightarrow> resource" where
  "map_metadata f (Network x) = Network (net_meta_update f x)"
| "map_metadata f (Subnet x) = Subnet (sub_meta_update f x)"
| "map_metadata f (Port x) = Port (port_meta_update f x)"
| "map_metadata f (IPAllocation x) = IPAllocation (ipa_meta_update f x)"
| "map_metadata f (Router x) = Router (rtr_meta_update f x)"
| "map_metadata f (RouterInterface x) = RouterInterface (rif_meta_update f x)"
| "map_metadata f (FloatingIP x) = FloatingIP (flt_meta_update f x)"
| "map_metadata f (ProviderNetwork x) = ProviderNetwork (pn_meta_update f x)"
| "map_metadata f (ProviderSegment x) = ProviderSegment (ps_meta_update f x)"
| "map_metadata f (SecurityGroup x) = SecurityGroup (sg_meta_update f x)"
| "map_metadata f (SecurityGroupRule x) = SecurityGroupRule (sgr_meta_update f x)"
| "map_metadata f (Node x) = Node (node_meta_update f x)"
| "map_metadata f (Operation x) = Operation (op_meta_update f x)"

definition MarkPending :: "floating_ip \<Rightarrow> floating_ip" where
  "MarkPending f = f\<lparr>flt_FloatingStatus := FloatingIPDown\<rparr>"

definition floating_MarkReconciled :: "floating_ip \<Rightarrow> string option \<Rightarrow> floating_ip" where
  "floating_MarkReconciled f renderErr =
     (if renderErr \<noteq> None then f\<lparr>flt_FloatingStatus := FloatingIPError\<rparr>
      else if flt_RouterID f \<noteq> [] \<and> flt_PortID f \<noteq> [] \<and> flt_FixedIPAddress f \<noteq> []
      then f\<lparr>flt_FloatingStatus := FloatingIPActive\<rparr>
      else f\<lparr>flt_FloatingStatus := FloatingIPDown\<rparr>)"

text \<open>The type switch \<open>if floatingIP, ok := resource.(*model.FloatingIP); ok\<close>.\<close>

definition on_floating :: "(floating_ip \<Rightarrow> floating_ip) \<Rightarrow> resource \<Rightarrow> resource" where
  "on_floating f r = (case r of FloatingIP x \<Rightarrow> FloatingIP (f x) | _ \<Rightarrow> r)"

section \<open>Facts about the interface\<close>

lemma GetMetadata_map [simp]: "GetMetadata (map_metadata f r) = f (GetMetadata r)"
  by (cases r) simp_all

lemma ResourceKind_map [simp]: "ResourceKind (map_metadata f r) = ResourceKind r"
  by (cases r) simp_all

lemma ResourceKind_on_floating [simp]: "ResourceKind (on_floating f r) = ResourceKind r"
  by (cases r) (simp_all add: on_floating_def)

lemma MarkPending_meta [simp]: "flt_meta (MarkPending x) = flt_meta x"
  by (simp add: MarkPending_def)

lemma floating_MarkReconciled_meta [simp]: "flt_meta (floating_MarkReconciled x e) = flt_meta x"
  by (simp add: floating_MarkReconciled_def)

lemma GetMetadata_on_floating [simp]:
  "(\<And>x. flt_meta (f x) = flt_meta x) \<Longrightarrow> GetMetadata (on_floating f r) = GetMetadata r"
  by (cases r) (simp_all add: on_floating_def)

lemma map_metadata_comp: "map_metadata f (map_metadata g r) = map_metadata (f \<circ> g) r"
  by (cases r) (simp_all add: comp_def)

lemma ResourceKind_valid [simp]: "kind_valid (ResourceKind r)"
  by (cases r) (simp_all add: kind_valid_def kindToCollection_def)

lemma Kinds_set: "set Kinds = {k. kind_valid k}"
  by (auto simp: Kinds_def kind_valid_def kindToCollection_def split: if_splits)

text \<open>The collection names of the HTTP API and the resource kinds determine each other:
  a path segment parses to a kind exactly when the kind is one of the thirteen known ones and
  the segment is that kind's collection name up to ASCII case.\<close>

lemma ParseCollection_iff:
  "ParseCollection s = Some k \<longleftrightarrow> kind_valid k \<and> to_lower s = Collection k"
proof -
  have "map_of collectionToKind c = Some k \<longleftrightarrow> kind_valid k \<and> c = Collection k" for c
    by (cases k) (auto simp: kind_valid_def Collection_def collectionToKind_def kindToCollection_def)
  then show ?thesis by (simp add: ParseCollection_def)
qed

end
