(* ===== verification/Subnet_Addressing.thy ===== *)
theory Subnet_Addressing
  imports Netip Model_Types
begin

unbundle bit_operations_syntax

text \<open>
  IPv4 address management of \<open>internal/model/ip.go\<close>: the bounds of a prefix, the effective
  gateway of a subnet, which addresses may be allocated, which are valid next hops, and
  whether two prefixes overlap. The facts compare the word-level code with address ranges.
\<close>

section \<open>The functions of \<open>ip.go\<close>\<close>

text \<open>\<open>uint32((uint64(1) << hostBits) - 1)\<close>, at the widths of the source.\<close>

definition ipv4SubnetBounds :: "prefix \<Rightarrow> ipv4 \<times> ipv4" where
  "ipv4SubnetBounds p =
     (let network = pfx_addr (masked p);
          hostBits = 32 - pfx_bits p;
          hostMask = ucast ((push_bit hostBits 1 :: 64 word) - 1) :: ipv4
      in (network, network OR hostMask))"

definition EffectiveIPv4Gateway :: "subnet \<Rightarrow> err + ipv4" where
  "EffectiveIPv4Gateway s =
     (case parse_prefix (sub_CIDR s) of
        None \<Rightarrow> Inl (ErrOther ''must use a valid IPv4 prefix'')
      | Some pfx0 \<Rightarrow>
          (let pfx = masked pfx0 in
           if pfx_bits pfx > 30 then Inl (ErrOther ''must be /30 or larger'')
           else
             (let (network, broadcast) = ipv4SubnetBounds pfx;
                  gateway =
                    (if sub_GatewayIP s = [] then Some (network + 1)
                     else case parse_addr (sub_GatewayIP s) of
                            None \<Rightarrow> None
                          | Some g \<Rightarrow> if prefix_contains pfx g then Some g else None)
              in case gateway of
                   None \<Rightarrow> Inl (ErrOther ''must be an IPv4 address inside cidr'')
                 | Some g \<Rightarrow>
                     if g = network \<or> g = broadcast then Inl (ErrOther ''must be a usable host address'')
                     else Inr g)))"

fun check_pools :: "prefix \<Rightarrow> ipv4 \<Rightarrow> ip_range list \<Rightarrow> err option" where
  "check_pools pfx addr [] = Some (ErrOther ''must belong to a subnet allocation pool'')"
| "check_pools pfx addr (pool # pools) =
     (case (parse_addr (rng_Start pool), parse_addr (rng_End pool)) of
        (Some start, Some stop) \<Rightarrow>
          (if \<not> prefix_contains pfx start \<or> \<not> prefix_contains pfx stop \<or> start > stop
           then Some (ErrOther ''subnet allocation pool is invalid'')
           else if start \<le> addr \<and> addr \<le> stop then None
           else check_pools pfx addr pools)
      | _ \<Rightarrow> Some (ErrOther ''subnet allocation pool is invalid''))"

definition ValidateIPv4AllocationAddress :: "subnet \<Rightarrow> string \<Rightarrow> err option" where
  "ValidateIPv4AllocationAddress s address =
     (case parse_prefix (sub_CIDR s) of
        None \<Rightarrow> Some (ErrOther ''subnet must use a valid IPv4 prefix'')
      | Some pfx0 \<Rightarrow>
          (let pfx = masked pfx0 in
           case parse_addr address of
             None \<Rightarrow> Some (ErrOther ''must be a valid IPv4 address'')
           | Some addr \<Rightarrow>
               if \<not> prefix_contains pfx addr then Some (ErrOther ''must belong to the subnet'')
               else
                 (let (network, broadcast) = ipv4SubnetBounds pfx in
                  case EffectiveIPv4Gateway s of
                    Inl _ \<Rightarrow> Some (ErrOther ''subnet gateway is invalid'')
                  | Inr gateway \<Rightarrow>
                      if addr = network \<or> addr = broadcast \<or> addr = gateway
                      then Some (ErrOther ''must be a usable host address distinct from the subnet gateway'')
                      else if sub_AllocationPools s = [] then None
                      else check_pools pfx addr (sub_AllocationPools s))))"

definition ValidateIPv4NextHop :: "subnet \<Rightarrow> string \<Rightarrow> string \<Rightarrow> err option" where
  "ValidateIPv4NextHop s address localAddress =
     (case parse_prefix (sub_CIDR s) of
        None \<Rightarrow> Some (ErrOther ''subnet must use a valid IPv4 prefix'')
      | Some pfx0 \<Rightarrow>
          (let pfx = masked pfx0 in
           case parse_addr address of
             None \<Rightarrow> Some (ErrOther ''must be an IPv4 address on the subnet'')
           | Some nextHop \<Rightarrow>
               if \<not> prefix_contains pfx nextHop then Some (ErrOther ''must be an IPv4 address on the subnet'')
               else
                 (let (network, broadcast) = ipv4SubnetBounds pfx in
                  if nextHop = network \<or> nextHop = broadcast then Some (ErrOther ''must be a usable host address'')
                  else if localAddress = [] then None
                  else case parse_addr localAddress of
                         None \<Rightarrow> Some (ErrOther ''local router address is invalid'')
                       | Some loc \<Rightarrow>
                           if \<not> prefix_contains pfx loc then Some (ErrOther ''local router address is invalid'')
                           else if nextHop = loc then Some (ErrOther ''must differ from the router address'')
                           else None)))"

definition IPv4PrefixesOverlap :: "string \<Rightarrow> string \<Rightarrow> bool" where
  "IPv4PrefixesOverlap leftCIDR rightCIDR =
     (case (parse_prefix leftCIDR, parse_prefix rightCIDR) of
        (Some l, Some r) \<Rightarrow>
          (let left = masked l; right = masked r
           in prefix_contains left (pfx_addr right) \<or> prefix_contains right (pfx_addr left))
      | _ \<Rightarrow> False)"

section \<open>Bounds\<close>

lemma host_mask_word: "h \<le> 32 \<Longrightarrow> (ucast ((push_bit h 1 :: 64 word) - 1) :: ipv4) = mask h"
proof -
  assume h: "h \<le> 32"
  have "(push_bit h 1 :: 64 word) - 1 = mask h"
    by (simp add: mask_eq_exp_minus_1 push_bit_eq_mult)
  moreover have "(ucast (mask h :: 64 word) :: ipv4) = mask h"
    using h by (intro bit_eqI) (auto simp: bit_simps bit_unsigned_iff)
  ultimately show ?thesis by simp
qed

lemma parse_prefix_bits: "parse_prefix s = Some p \<Longrightarrow> pfx_bits p \<le> 32"
  by (auto simp: parse_prefix_def parse_bits_def split: option.splits if_splits)

lemma subnet_bounds_range:
  "unat (fst (ipv4SubnetBounds p)) = first_addr p"
  "pfx_bits p \<le> 32 \<Longrightarrow> unat (snd (ipv4SubnetBounds p)) = last_addr p"
proof -
  show "unat (fst (ipv4SubnetBounds p)) = first_addr p"
    by (simp add: ipv4SubnetBounds_def Let_def masked_addr)
  have "ipv4SubnetBounds p = (pfx_addr (masked p), pfx_addr (masked p) OR mask (host_bits p))"
    using host_mask_word [of "32 - pfx_bits p"] by (simp add: ipv4SubnetBounds_def Let_def host_bits_def)
  then show "unat (snd (ipv4SubnetBounds p)) = last_addr p"
    using unat_or_mask [of "host_bits p" "pfx_addr p"]
    by (simp add: masked_def host_bits_def last_addr_def first_addr_def)
qed

lemma bounds_masked [simp]: "ipv4SubnetBounds (masked p) = ipv4SubnetBounds p"
  by (simp add: ipv4SubnetBounds_def)

text \<open>A host address of a subnet lies strictly between its network and broadcast addresses.\<close>

definition usable_host :: "prefix \<Rightarrow> ipv4 \<Rightarrow> bool" where
  "usable_host p a \<longleftrightarrow> first_addr p < unat a \<and> unat a < last_addr p"

lemma usable_host_iff:
  "pfx_bits p \<le> 32 \<Longrightarrow> ipv4SubnetBounds p = (n, b) \<Longrightarrow>
     usable_host p a \<longleftrightarrow> prefix_contains p a \<and> a \<noteq> n \<and> a \<noteq> b"
  using subnet_bounds_range [of p]
  by (auto simp: usable_host_def prefix_contains_range word_unat_eq_iff)

section \<open>What the functions compute\<close>

lemma next_network_usable:
  assumes "pfx_bits p \<le> 30" "ipv4SubnetBounds p = (n, b)"
  shows "unat (n + 1) = first_addr p + 1" "usable_host p (n + 1)"
proof -
  have n: "unat n = first_addr p" using subnet_bounds_range(1) [of p] assms(2) by simp
  have "2 ^ 2 \<le> (2::nat) ^ host_bits p"
    using assms(1) by (intro power_increasing) (simp_all add: host_bits_def)
  then have "first_addr p + 3 \<le> last_addr p" by (simp add: last_addr_def)
  moreover have "last_addr p < 2 ^ 32" using assms(1) by (intro last_addr_less) simp
  ultimately show u: "unat (n + 1) = first_addr p + 1"
    using n by (simp add: unat_word_ariths)
  show "usable_host p (n + 1)" using u \<open>first_addr p + 3 \<le> last_addr p\<close> by (simp add: usable_host_def)
qed

text \<open>The effective gateway of a subnet is defined exactly for prefixes of at most 30 bits
  whose configured gateway, if any, is a host address of the prefix; it is then that address,
  or by default the address after the network address, and is always strictly between the
  network and the broadcast address.\<close>

lemma EffectiveIPv4Gateway_iff:
  "EffectiveIPv4Gateway s = Inr g \<longleftrightarrow>
     (\<exists>p. parse_prefix (sub_CIDR s) = Some p \<and> pfx_bits p \<le> 30 \<and> usable_host p g \<and>
          (if sub_GatewayIP s = [] then unat g = first_addr p + 1 else sub_GatewayIP s = addr_string g))"
proof (cases "parse_prefix (sub_CIDR s)")
  case None
  then show ?thesis by (simp add: EffectiveIPv4Gateway_def)
next
  case (Some p)
  show ?thesis
  proof (cases "pfx_bits p \<le> 30")
    case False
    with Some show ?thesis by (simp add: EffectiveIPv4Gateway_def)
  next
    case True
    obtain n b where nb: "ipv4SubnetBounds p = (n, b)" by fastforce
    have uh: "usable_host p a \<longleftrightarrow> prefix_contains p a \<and> a \<noteq> n \<and> a \<noteq> b" for a
      using usable_host_iff [OF _ nb] True by simp
    show ?thesis
    proof (cases "sub_GatewayIP s = []")
      case True': True
      have "EffectiveIPv4Gateway s = Inr g \<longleftrightarrow> g = n + 1"
        using Some True True' nb next_network_usable [OF True nb] uh
        by (auto simp: EffectiveIPv4Gateway_def)
      moreover have "g = n + 1 \<longleftrightarrow> usable_host p g \<and> unat g = first_addr p + 1"
        using next_network_usable [OF True nb] by (auto simp: word_unat_eq_iff usable_host_def)
      ultimately show ?thesis using Some True True' by simp
    next
      case False
      moreover have "sub_GatewayIP s = addr_string g \<longleftrightarrow> parse_addr (sub_GatewayIP s) = Some g"
        by (simp add: parse_addr_iff)
      ultimately show ?thesis using Some True nb uh
        by (cases "parse_addr (sub_GatewayIP s)") (auto simp: EffectiveIPv4Gateway_def Let_def)
    qed
  qed
qed

definition pool_ok :: "prefix \<Rightarrow> ip_range \<Rightarrow> bool" where
  "pool_ok p r \<longleftrightarrow> (\<exists>a b. parse_addr (rng_Start r) = Some a \<and> parse_addr (rng_End r) = Some b \<and>
     prefix_contains p a \<and> prefix_contains p b \<and> a \<le> b)"

definition pool_has :: "ip_range \<Rightarrow> ipv4 \<Rightarrow> bool" where
  "pool_has r x \<longleftrightarrow> (\<exists>a b. parse_addr (rng_Start r) = Some a \<and> parse_addr (rng_End r) = Some b \<and> a \<le> x \<and> x \<le> b)"

lemma pool_ok_masked: "pool_ok (masked p) = pool_ok p"
  by (simp add: pool_ok_def fun_eq_iff)

lemma check_pools_None:
  "check_pools p x pools = None \<longleftrightarrow>
     (\<exists>pre r post. pools = pre @ r # post \<and> (\<forall>q \<in> set (pre @ [r]). pool_ok p q) \<and> pool_has r x)"
proof (induction pools)
  case Nil
  then show ?case by simp
next
  case (Cons r rs)
  have split_pools: "(\<exists>pre q post. r # rs = pre @ q # post \<and> P pre q) \<longleftrightarrow>
      P [] r \<or> (\<exists>pre q post. rs = pre @ q # post \<and> P (r # pre) q)" for P
    by (metis (no_types, lifting) append_Cons append_Nil list.inject neq_Nil_conv)
  have head: "check_pools p x (r # rs) = None \<longleftrightarrow> pool_ok p r \<and> (pool_has r x \<or> check_pools p x rs = None)"
    by (auto simp: pool_ok_def pool_has_def split: option.splits)
  show ?case unfolding head split_pools Cons.IH by auto
qed

text \<open>An address text is allocatable on a subnet exactly when it is the canonical text of a
  host address of the prefix, strictly between network and broadcast, distinct from the
  effective gateway, and inside an allocation pool when pools are configured (no malformed
  pool being met before it).\<close>

lemma ValidateIPv4AllocationAddress_iff:
  "ValidateIPv4AllocationAddress s address = None \<longleftrightarrow>
     (\<exists>p x g. parse_prefix (sub_CIDR s) = Some p \<and> address = addr_string x \<and> usable_host p x \<and>
        EffectiveIPv4Gateway s = Inr g \<and> x \<noteq> g \<and>
        (sub_AllocationPools s = [] \<or>
         (\<exists>pre r post. sub_AllocationPools s = pre @ r # post \<and> list_all (pool_ok p) (pre @ [r]) \<and> pool_has r x)))"
proof (cases "parse_prefix (sub_CIDR s)")
  case None
  then show ?thesis by (simp add: ValidateIPv4AllocationAddress_def)
next
  case (Some p)
  obtain n b where nb: "ipv4SubnetBounds p = (n, b)" by fastforce
  have "usable_host p a \<longleftrightarrow> prefix_contains p a \<and> a \<noteq> n \<and> a \<noteq> b" for a
    using usable_host_iff [OF parse_prefix_bits [OF Some] nb] .
  moreover have "address = addr_string x \<longleftrightarrow> parse_addr address = Some x" for x
    by (simp add: parse_addr_iff)
  moreover have "check_pools (masked p) x pools = None \<longleftrightarrow>
      (\<exists>pre r post. pools = pre @ r # post \<and> list_all (pool_ok p) (pre @ [r]) \<and> pool_has r x)" for x pools
    by (simp add: check_pools_None list_all_iff pool_ok_masked)
  ultimately show ?thesis using Some nb
    by (cases "parse_addr address"; cases "EffectiveIPv4Gateway s")
       (simp_all add: ValidateIPv4AllocationAddress_def Let_def)
qed

lemma ValidateIPv4NextHop_iff:
  "ValidateIPv4NextHop s address localAddress = None \<longleftrightarrow>
     (\<exists>p h. parse_prefix (sub_CIDR s) = Some p \<and> address = addr_string h \<and> usable_host p h \<and>
        (localAddress \<noteq> [] \<longrightarrow> (\<exists>l. localAddress = addr_string l \<and> prefix_contains p l \<and> h \<noteq> l)))"
proof (cases "parse_prefix (sub_CIDR s)")
  case None
  then show ?thesis by (simp add: ValidateIPv4NextHop_def)
next
  case (Some p)
  obtain n b where nb: "ipv4SubnetBounds p = (n, b)" by fastforce
  have "usable_host p a \<longleftrightarrow> prefix_contains p a \<and> a \<noteq> n \<and> a \<noteq> b" for a
    using usable_host_iff [OF parse_prefix_bits [OF Some] nb] .
  moreover have "t = addr_string x \<longleftrightarrow> parse_addr t = Some x" for t x
    by (simp add: parse_addr_iff)
  ultimately show ?thesis using Some nb
    by (cases "parse_addr address"; cases "parse_addr localAddress")
       (simp_all add: ValidateIPv4NextHop_def Let_def)
qed

lemma contains_own_first: "prefix_contains p (pfx_addr (masked p))"
  by (simp add: prefix_contains_range masked_addr first_le_last)

lemma nested_first:
  assumes "prefix_contains p a" "prefix_contains q a" "host_bits q \<le> host_bits p"
  shows "prefix_contains p (pfx_addr (masked q))"
proof -
  let ?P = "2 ^ host_bits p :: nat" and ?Q = "2 ^ host_bits q :: nat"
  have "?P = ?Q * 2 ^ (host_bits p - host_bits q)" using assms(3) by (simp flip: power_add)
  then have "unat a div ?Q * ?Q div ?P = unat a div ?P" by (simp add: div_mult2_eq)
  with assms show ?thesis
    by (simp add: prefix_contains_div masked_addr first_addr_def)
qed

text \<open>C33. \<open>IPv4PrefixesOverlap\<close> decides what its comment says: it holds exactly when both texts
  are valid prefixes and some address belongs to both.\<close>

lemma IPv4PrefixesOverlap_iff:
  "IPv4PrefixesOverlap l r \<longleftrightarrow>
     (\<exists>p q a. parse_prefix l = Some p \<and> parse_prefix r = Some q \<and> prefix_contains p a \<and> prefix_contains q a)"
proof -
  have "prefix_contains p (pfx_addr (masked q)) \<or> prefix_contains q (pfx_addr (masked p)) \<longleftrightarrow>
      (\<exists>a. prefix_contains p a \<and> prefix_contains q a)" for p q
    using contains_own_first nested_first [of p _ q] nested_first [of q _ p] by (meson nle_le)
  then show ?thesis by (auto simp: IPv4PrefixesOverlap_def split: option.splits)
qed

end
