(* ===== verification/Validation.thy ===== *)
theory Validation
  imports Subnet_Addressing
begin

text \<open>
  Field validation and API defaults of \<open>internal/model\<close>: \<open>validation.go\<close>,
  \<open>requested_chassis.go\<close> and \<open>ValidateOperationPayload\<close>. The regular expressions of the
  source are written out as predicates on strings; a check that names an indexed field keeps
  the index in the field name.

  \<open>encoding/json\<close> and \<open>crypto/sha256\<close> are parameters, collected in the record \<open>codec\<close>.
\<close>

record codec =
  json_marshal :: "resource \<Rightarrow> string"  \<comment> \<open>\<open>json.Marshal\<close> of a resource\<close>
  json_canonical :: "string \<Rightarrow> string option"  \<comment> \<open>\<open>canonicalOperationPayload\<close>: decode one object, encode it again\<close>
  sha256 :: "string \<Rightarrow> string"  \<comment> \<open>\<open>sha256.Sum256\<close>\<close>

section \<open>Names and required fields\<close>

abbreviation invalid :: "string \<Rightarrow> err option" where
  "invalid field \<equiv> Some (ValidationError field)"

definition name_char :: "char \<Rightarrow> bool" where
  "name_char c \<longleftrightarrow> is_alnum c \<or> c \<in> {CHR ''_'', CHR ''.'', CHR '':'', CHR ''-''}"

text \<open>\<open>^[A-Za-z0-9][A-Za-z0-9_.:-]{0,126}$\<close>, \<open>^net[0-9]+$\<close> and
  \<open>^[A-Za-z0-9](?:[A-Za-z0-9-]{0,61}[A-Za-z0-9])?$\<close>.\<close>

definition namePattern :: "string \<Rightarrow> bool" where
  "namePattern s \<longleftrightarrow> s \<noteq> [] \<and> length s \<le> 127 \<and> is_alnum (hd s) \<and> list_all name_char (tl s)"

definition nicPattern :: "string \<Rightarrow> bool" where
  "nicPattern s \<longleftrightarrow> has_prefix s ''net'' \<and> drop 3 s \<noteq> [] \<and> list_all is_digit (drop 3 s)"

definition dnsLabelPattern :: "string \<Rightarrow> bool" where
  "dnsLabelPattern s \<longleftrightarrow> s \<noteq> [] \<and> length s \<le> 63 \<and> is_alnum (hd s) \<and> is_alnum (last s) \<and>
     list_all (\<lambda>c. is_alnum c \<or> c = CHR ''-'') s"

definition maxDNSNameservers :: nat where "maxDNSNameservers = 6"
definition maxDNSSearchDomains :: nat where "maxDNSSearchDomains = 6"
definition maxStaticRoutes :: nat where "maxStaticRoutes = 64"

definition validateName :: "string \<Rightarrow> string \<Rightarrow> err option" where
  "validateName field value = fail_if (\<not> namePattern value) (ValidationError field)"

definition required :: "string \<Rightarrow> string \<Rightarrow> err option" where
  "required field value = fail_if (trim_space value = []) (ValidationError field)"

definition indexed :: "string \<Rightarrow> nat \<Rightarrow> string" where
  "indexed field i = field @ ''['' @ dec i @ '']''"

section \<open>Requested chassis\<close>

definition chassis_char :: "char \<Rightarrow> bool" where
  "chassis_char c \<longleftrightarrow> is_alnum c \<or> c \<in> {CHR ''-'', CHR ''_'', CHR ''.'', CHR '':''}"

definition safeChassisID :: "string \<Rightarrow> bool" where
  "safeChassisID value \<longleftrightarrow>
     \<not> (value = [] \<or> length value > 255 \<or> has_prefix value ''-'') \<and> list_all chassis_char value"

fun check_chassis_parts :: "string list \<Rightarrow> string list \<Rightarrow> err option" where
  "check_chassis_parts seen [] = None"
| "check_chassis_parts seen (part # parts) =
     (if \<not> safeChassisID part then Some (ErrOther ''requested chassis contains unsafe identifier'')
      else if part \<in> set seen then Some (ErrOther ''requested chassis contains duplicate identifier'')
      else check_chassis_parts (part # seen) parts)"

definition ParseRequestedChassis :: "string \<Rightarrow> err + string list" where
  "ParseRequestedChassis value =
     (if value = [] then Inr []
      else if trim_space value \<noteq> value
      then Inl (ErrOther ''requested chassis must not contain surrounding whitespace'')
      else let parts = split_on (CHR '','') value in
           if length parts > 2 then Inl (ErrOther ''requested chassis may contain at most source and target'')
           else case check_chassis_parts [] parts of Some e \<Rightarrow> Inl e | None \<Rightarrow> Inr parts)"

definition RequestedChassisContains :: "string \<Rightarrow> string \<Rightarrow> bool" where
  "RequestedChassisContains value chassis =
     (case ParseRequestedChassis value of Inl _ \<Rightarrow> False | Inr parts \<Rightarrow> chassis \<in> set parts)"

section \<open>Per-resource validation\<close>

definition validateNetwork :: "network \<Rightarrow> err option" where
  "validateNetwork n = first_err
     [validateName ''name'' (net_Name n),
      fail_if (net_MTU n \<noteq> 0 \<and> (net_MTU n < 576 \<or> net_MTU n > 9216)) (ValidationError ''mtu''),
      fail_if (net_External n \<and> net_ProviderNetworkID n = []) (ValidationError ''provider_network_id'')]"

definition validateDNSDomain :: "string \<Rightarrow> string \<Rightarrow> err option" where
  "validateDNSDomain field value =
     (let domain = trim_suffix value ''.'' in first_err
        [fail_if (domain = [] \<or> length domain > 253) (ValidationError field),
         fail_if (\<not> list_all dnsLabelPattern (split_on (CHR ''.'') domain)) (ValidationError field)])"

fun check_nameservers :: "nat \<Rightarrow> string list \<Rightarrow> string list \<Rightarrow> err option" where
  "check_nameservers i seen [] = None"
| "check_nameservers i seen (server # servers) =
     (case parse_addr server of
        None \<Rightarrow> invalid (indexed ''dns_nameservers'' i)
      | Some addr \<Rightarrow>
          if addr_string addr \<in> set seen then invalid (indexed ''dns_nameservers'' i)
          else check_nameservers (Suc i) (addr_string addr # seen) servers)"

fun check_search_domains :: "nat \<Rightarrow> string list \<Rightarrow> string list \<Rightarrow> err option" where
  "check_search_domains i seen [] = None"
| "check_search_domains i seen (domain # domains) =
     (let field = indexed ''dns_search_domains'' i; key = to_lower (trim_suffix domain ''.'') in
      case validateDNSDomain field domain of
        Some e \<Rightarrow> Some e
      | None \<Rightarrow>
          if key \<in> set seen then invalid field
          else check_search_domains (Suc i) (key # seen) domains)"

definition check_pool :: "prefix \<Rightarrow> nat \<Rightarrow> ip_range \<Rightarrow> err option" where
  "check_pool pfx i pool = fail_if
     (case (parse_addr (rng_Start pool), parse_addr (rng_End pool)) of
        (Some start, Some stop) \<Rightarrow> \<not> prefix_contains pfx start \<or> \<not> prefix_contains pfx stop \<or> start > stop
      | _ \<Rightarrow> True)
     (ValidationError (indexed ''allocation_pools'' i))"

definition validateSubnet :: "subnet \<Rightarrow> err option" where
  "validateSubnet s = first_err
     [required ''network_id'' (sub_NetworkID s),
      validateName ''name'' (sub_Name s),
      (case parse_prefix (sub_CIDR s) of
         None \<Rightarrow> invalid ''cidr''
       | Some pfx \<Rightarrow> first_err
          [fail_if (isl (EffectiveIPv4Gateway s)) (ValidationError ''gateway_ip''),
           fail_if (length (sub_DNSNameservers s) > maxDNSNameservers) (ValidationError ''dns_nameservers''),
           check_nameservers 0 [] (sub_DNSNameservers s),
           (if sub_DNSDomain s \<noteq> [] then validateDNSDomain ''dns_domain'' (sub_DNSDomain s) else None),
           fail_if (length (sub_DNSSearchDomains s) > maxDNSSearchDomains) (ValidationError ''dns_search_domains''),
           check_search_domains 0 [] (sub_DNSSearchDomains s),
           check_each (check_pool (masked pfx)) 0 (sub_AllocationPools s)])]"

definition check_fixed_ip :: "nat \<Rightarrow> fixed_ip \<Rightarrow> err option" where
  "check_fixed_ip i fixed = first_err
     [fail_if (fip_SubnetID fixed = []) (ValidationError (indexed ''fixed_ips'' i @ ''.subnet_id'')),
      fail_if (fip_Address fixed \<noteq> [] \<and> parse_addr (fip_Address fixed) = None)
        (ValidationError (indexed ''fixed_ips'' i @ ''.address''))]"

definition validatePort :: "port \<Rightarrow> err option" where
  "validatePort p = first_err
     [required ''network_id'' (port_NetworkID p),
      validateName ''name'' (port_Name p),
      required ''mac_address'' (port_MACAddress p),
      fail_if (case parse_mac (port_MACAddress p) of None \<Rightarrow> True | Some mac \<Rightarrow> length mac \<noteq> 6)
        (ValidationError ''mac_address''),
      check_each check_fixed_ip 0 (port_FixedIPs p),
      fail_if (port_NIC p \<noteq> [] \<and> \<not> nicPattern (port_NIC p)) (ValidationError ''nic''),
      fail_if (port_VMID p < 0) (ValidationError ''vmid''),
      fail_if (port_Generation p < 0) (ValidationError ''generation''),
      fail_if (isl (ParseRequestedChassis (port_RequestedChassis p))) (ValidationError ''requested_chassis''),
      fail_if (port_BindingStatus p \<notin> {PortStatusUnset, PortUnbound, PortBinding, PortBound, PortDetaching, PortBindingError})
        (ValidationError ''binding_status'')]"

definition validateIPAllocation :: "ip_allocation \<Rightarrow> err option" where
  "validateIPAllocation a = first_err
     [required ''subnet_id'' (ipa_SubnetID a),
      fail_if (parse_addr (ipa_Address a) = None) (ValidationError ''address''),
      fail_if (ipa_State a \<noteq> IPReserved \<and> ipa_State a \<noteq> IPAllocated) (ValidationError ''allocation_state''),
      fail_if (ipa_State a = IPAllocated \<and> ipa_PortID a = []) (ValidationError ''port_id'')]"

definition check_route :: "static_route list \<Rightarrow> nat \<Rightarrow> static_route \<Rightarrow> err option" where
  "check_route routes i route =
     (case parse_prefix (rt_Destination route) of
        None \<Rightarrow> invalid (indexed ''static_routes'' i @ ''.destination'')
      | Some pfx \<Rightarrow> first_err
          [fail_if (pfx \<noteq> masked pfx) (ValidationError (indexed ''static_routes'' i @ ''.destination'')),
           fail_if (case parse_addr (rt_NextHop route) of
                      None \<Rightarrow> True | Some nextHop \<Rightarrow> is_unspecified nextHop \<or> is_multicast nextHop)
             (ValidationError (indexed ''static_routes'' i @ ''.next_hop'')),
           fail_if (list_ex (\<lambda>previous. rt_Destination previous = rt_Destination route \<and>
                                      rt_NextHop previous = rt_NextHop route) (take i routes))
             (ValidationError (indexed ''static_routes'' i))])"

definition validateRouter :: "router \<Rightarrow> err option" where
  "validateRouter r = first_err
     [validateName ''name'' (rtr_Name r),
      fail_if (length (rtr_StaticRoutes r) > maxStaticRoutes) (ValidationError ''static_routes''),
      check_each (check_route (rtr_StaticRoutes r)) 0 (rtr_StaticRoutes r),
      (if rtr_ExternalNetworkID r = []
       then fail_if (rtr_ExternalSubnetID r \<noteq> [] \<or> rtr_ExternalIPAddress r \<noteq> []) (ValidationError ''external_network_id'')
       else first_err
         [required ''external_subnet_id'' (rtr_ExternalSubnetID r),
          fail_if (parse_addr (rtr_ExternalIPAddress r) = None) (ValidationError ''external_ip_address'')])]"

definition validateRouterInterface :: "router_interface \<Rightarrow> err option" where
  "validateRouterInterface r = first_err
     [required ''router_id'' (rif_RouterID r), required ''subnet_id'' (rif_SubnetID r)]"

definition validateFloatingIP :: "floating_ip \<Rightarrow> err option" where
  "validateFloatingIP f = first_err
     [required ''provider_network_id'' (flt_ProviderNetworkID f),
      fail_if (parse_addr (flt_Address f) = None) (ValidationError ''address''),
      fail_if (flt_FixedIPAddress f \<noteq> [] \<and> parse_addr (flt_FixedIPAddress f) = None) (ValidationError ''fixed_ip_address''),
      fail_if (flt_FloatingStatus f \<notin> {FloatingIPUnset, FloatingIPDown, FloatingIPActive, FloatingIPError})
        (ValidationError ''status'')]"

definition validateProviderNetwork :: "provider_network \<Rightarrow> err option" where
  "validateProviderNetwork p = validateName ''name'' (pn_Name p)"

definition validateProviderSegment :: "provider_segment \<Rightarrow> err option" where
  "validateProviderSegment p = first_err
     [required ''provider_network_id'' (ps_ProviderNetworkID p),
      validateName ''name'' (ps_Name p),
      validateName ''physical_network'' (ps_PhysicalNetwork p),
      fail_if (ps_NetworkType p \<noteq> ProviderFlat \<and> ps_NetworkType p \<noteq> ProviderVLAN) (ValidationError ''network_type''),
      fail_if (ps_NetworkType p = ProviderFlat \<and> ps_VLANID p \<noteq> 0) (ValidationError ''vlan_id''),
      fail_if (ps_NetworkType p = ProviderVLAN \<and> (ps_VLANID p < 1 \<or> ps_VLANID p > 4094)) (ValidationError ''vlan_id'')]"

definition validateSecurityGroup :: "security_group \<Rightarrow> err option" where
  "validateSecurityGroup s = validateName ''name'' (sg_Name s)"

definition validateSecurityGroupRule :: "security_group_rule \<Rightarrow> err option" where
  "validateSecurityGroupRule r =
     (let protocol = to_lower (sgr_Protocol r); lo = sgr_PortRangeMin r; hi = sgr_PortRangeMax r in first_err
        [required ''security_group_id'' (sgr_SecurityGroupID r),
         fail_if (sgr_Direction r \<noteq> DirectionIngress \<and> sgr_Direction r \<noteq> DirectionEgress) (ValidationError ''direction''),
         fail_if (sgr_EtherType r \<noteq> EtherTypeIPv4) (ValidationError ''ethertype''),
         fail_if (protocol \<notin> {[], ''tcp'', ''udp'', ''icmp''}) (ValidationError ''protocol''),
         (if protocol = ''tcp'' \<or> protocol = ''udp''
          then fail_if (lo < 0 \<or> lo > 65535 \<or> hi < 0 \<or> hi > 65535 \<or> (hi \<noteq> 0 \<and> lo > hi)) (ValidationError ''port_range'')
          else fail_if (lo \<noteq> 0 \<or> hi \<noteq> 0) (ValidationError ''port_range'')),
         fail_if (sgr_RemoteCIDR r \<noteq> [] \<and> sgr_RemoteGroupID r \<noteq> []) (ValidationError ''remote''),
         fail_if (sgr_RemoteCIDR r \<noteq> [] \<and> parse_prefix (sgr_RemoteCIDR r) = None) (ValidationError ''remote_cidr''),
         fail_if (sgr_Action r \<noteq> ActionAllow \<and> sgr_Action r \<noteq> ActionDrop) (ValidationError ''action'')])"

fun check_roles :: "node_role list \<Rightarrow> node_role list \<Rightarrow> err option" where
  "check_roles seen [] = None"
| "check_roles seen (role # roles) =
     (if role \<noteq> NodeRoleCompute \<and> role \<noteq> NodeRoleGateway \<and> role \<noteq> NodeRoleCentral then invalid ''roles''
      else if role \<in> set seen then invalid ''roles''
      else check_roles (role # seen) roles)"

definition validateNode :: "node \<Rightarrow> err option" where
  "validateNode n = first_err
     [validateName ''name'' (node_Name n),
      required ''chassis_id'' (node_ChassisID n),
      check_roles [] (node_Roles n)]"

definition MaxOperationPayloadBytes :: nat where
  "MaxOperationPayloadBytes = 32 * 1024"

definition ValidateOperationPayload :: "codec \<Rightarrow> string \<Rightarrow> err option" where
  "ValidateOperationPayload cd payload =
     (if payload = [] then None
      else if length payload > MaxOperationPayloadBytes then invalid ''payload''
      else case json_canonical cd payload of
             None \<Rightarrow> invalid ''payload''
           | Some canonical \<Rightarrow> fail_if (payload \<noteq> canonical) (ValidationError ''payload''))"

definition validateOperation :: "codec \<Rightarrow> operation \<Rightarrow> err option" where
  "validateOperation cd o' = first_err
     [required ''action'' (op_Action o'),
      required ''idempotency_key'' (op_IdempotencyKey o'),
      fail_if (\<not> kind_valid (op_TargetKind o') \<or> op_TargetKind o' = KindOperation) (ValidationError ''target_kind''),
      required ''target_id'' (op_TargetID o'),
      fail_if (op_TargetRevision o' < 1) (ValidationError ''target_revision''),
      fail_if (op_OperationStatus o' \<notin> {OperationQueued, OperationRunning, OperationSucceeded, OperationFailed})
        (ValidationError ''status''),
      (if op_OperationStatus o' = OperationRunning \<and> (op_Action o' = ''reconcile'' \<or> op_Action o' = ''delete'')
       then validateName ''lease_owner'' (op_LeaseOwner o') else None),
      ValidateOperationPayload cd (op_Payload o')]"

fun Validate :: "codec \<Rightarrow> resource \<Rightarrow> err option" where
  "Validate cd (Network x) = validateNetwork x"
| "Validate cd (Subnet x) = validateSubnet x"
| "Validate cd (Port x) = validatePort x"
| "Validate cd (IPAllocation x) = validateIPAllocation x"
| "Validate cd (Router x) = validateRouter x"
| "Validate cd (RouterInterface x) = validateRouterInterface x"
| "Validate cd (FloatingIP x) = validateFloatingIP x"
| "Validate cd (ProviderNetwork x) = validateProviderNetwork x"
| "Validate cd (ProviderSegment x) = validateProviderSegment x"
| "Validate cd (SecurityGroup x) = validateSecurityGroup x"
| "Validate cd (SecurityGroupRule x) = validateSecurityGroupRule x"
| "Validate cd (Node x) = validateNode x"
| "Validate cd (Operation x) = validateOperation cd x"

section \<open>Defaults\<close>

definition normalizeDNSDomain :: "string \<Rightarrow> string" where
  "normalizeDNSDomain value = to_lower (trim_suffix (trim_space value) ''.'')"

definition default_nameserver :: "string \<Rightarrow> string" where
  "default_nameserver server = (case parse_addr server of Some address \<Rightarrow> addr_string address | None \<Rightarrow> server)"

definition default_route :: "static_route \<Rightarrow> static_route" where
  "default_route route = route\<lparr>
     rt_Destination := (case parse_prefix (rt_Destination route) of
                          Some pfx \<Rightarrow> prefix_string (masked pfx) | None \<Rightarrow> rt_Destination route),
     rt_NextHop := (case parse_addr (rt_NextHop route) of
                      Some address \<Rightarrow> addr_string address | None \<Rightarrow> rt_NextHop route)\<rparr>"

definition default_port :: "port \<Rightarrow> port" where
  "default_port p = p\<lparr>
     port_MACAddress := (case parse_mac (port_MACAddress p) of
                           Some mac \<Rightarrow> if length mac = 6 then to_lower (mac_string mac) else port_MACAddress p
                         | None \<Rightarrow> port_MACAddress p),
     port_BindingStatus := (if port_BindingStatus p = PortStatusUnset then PortUnbound else port_BindingStatus p),
     port_Generation := (if port_Generation p = 0 then 1 else port_Generation p),
     port_LSPName := (if port_LSPName p = [] \<and> ID (port_meta p) \<noteq> [] then ''pvn-'' @ ID (port_meta p)
                      else port_LSPName p)\<rparr>"

fun set_type_defaults :: "resource \<Rightarrow> resource" where
  "set_type_defaults (Network x) = Network (if net_MTU x = 0 then x\<lparr>net_MTU := 1400\<rparr> else x)"
| "set_type_defaults (Subnet x) = Subnet (x\<lparr>
     sub_DNSDomain := normalizeDNSDomain (sub_DNSDomain x),
     sub_DNSSearchDomains := map normalizeDNSDomain (sub_DNSSearchDomains x),
     sub_DNSNameservers := map default_nameserver (sub_DNSNameservers x)\<rparr>)"
| "set_type_defaults (Router x) = Router (x\<lparr>rtr_StaticRoutes := map default_route (rtr_StaticRoutes x)\<rparr>)"
| "set_type_defaults (Port x) = Port (default_port x)"
| "set_type_defaults (IPAllocation x) = IPAllocation (if ipa_State x = IPStateUnset then x\<lparr>ipa_State := IPReserved\<rparr> else x)"
| "set_type_defaults (FloatingIP x) =
     FloatingIP (if flt_FloatingStatus x = FloatingIPUnset then x\<lparr>flt_FloatingStatus := FloatingIPDown\<rparr> else x)"
| "set_type_defaults (SecurityGroup x) = SecurityGroup (x\<lparr>sg_Stateful := True\<rparr>)"
| "set_type_defaults (SecurityGroupRule x) = SecurityGroupRule (x\<lparr>
     sgr_EtherType := (if sgr_EtherType x = EtherTypeUnset then EtherTypeIPv4 else sgr_EtherType x),
     sgr_Action := (if sgr_Action x = ActionUnset then ActionAllow else sgr_Action x)\<rparr>)"
| "set_type_defaults (Operation x) =
     Operation (if op_OperationStatus x = OperationUnset then x\<lparr>op_OperationStatus := OperationQueued\<rparr> else x)"
| "set_type_defaults r = r"

definition SetDefaults :: "resource \<Rightarrow> resource" where
  "SetDefaults r = set_type_defaults
     (map_metadata (\<lambda>m. if State m = ResourceUnset then m\<lparr>State := ResourcePending\<rparr> else m) r)"

section \<open>Validation and metadata\<close>

lemma EffectiveIPv4Gateway_meta [simp]: "EffectiveIPv4Gateway (sub_meta_update f x) = EffectiveIPv4Gateway x"
  unfolding EffectiveIPv4Gateway_def by (simp cong: option.case_cong if_cong)

lemma validateSubnet_meta: "validateSubnet (sub_meta_update f x) = validateSubnet x"
  unfolding validateSubnet_def EffectiveIPv4Gateway_meta by (simp cong: option.case_cong if_cong)

lemma validateOperation_meta: "validateOperation cd (op_meta_update f x) = validateOperation cd x"
  by (simp add: validateOperation_def cong: if_cong)

lemma Validate_map_metadata [simp]: "Validate cd (map_metadata f r) = Validate cd r"
  by (cases r) (simp_all cong: option.case_cong if_cong add: validateSubnet_meta validateOperation_meta validateNetwork_def validatePort_def
      validateIPAllocation_def validateRouter_def validateRouterInterface_def validateFloatingIP_def
      validateProviderNetwork_def validateProviderSegment_def validateSecurityGroup_def
      validateSecurityGroupRule_def validateNode_def)

lemma ResourceKind_SetDefaults [simp]: "ResourceKind (SetDefaults r) = ResourceKind r"
  by (cases r) (simp_all add: SetDefaults_def)

lemma GetMetadata_SetDefaults:
  "GetMetadata (SetDefaults r) =
     (let m = GetMetadata r in if State m = ResourceUnset then m\<lparr>State := ResourcePending\<rparr> else m)"
  by (cases r) (simp_all add: SetDefaults_def default_port_def)

lemma ID_SetDefaults [simp]: "ID (GetMetadata (SetDefaults r)) = ID (GetMetadata r)"
  by (simp add: GetMetadata_SetDefaults Let_def)

section \<open>Requested chassis\<close>

lemma chassis_parts_None:
  "check_chassis_parts seen parts = None \<longleftrightarrow>
     list_all safeChassisID parts \<and> distinct parts \<and> set parts \<inter> set seen = {}"
  by (induction seen parts rule: check_chassis_parts.induct) auto

lemma safe_chars: "safeChassisID w \<Longrightarrow> c \<in> set w \<Longrightarrow> \<not> is_space c \<and> c \<noteq> CHR '',''"
  by (auto simp: safeChassisID_def list_all_iff chassis_char_def is_space_def is_alnum_def is_lower_def
      is_upper_def is_digit_def less_eq_char_def)

lemma trim_space_id:
  assumes "\<And>c. c \<in> set s \<Longrightarrow> \<not> is_space c"
  shows "trim_space s = s"
proof -
  have "dropWhile is_space t = t" if "set t = set s" for t
    using that assms by (cases t) auto
  then show ?thesis by (simp add: trim_space_def)
qed

lemma join_chars: "c \<in> set (join_with d ws) \<Longrightarrow> c = d \<or> (\<exists>w \<in> set ws. c \<in> set w)"
  by (induction d ws rule: join_with.induct) auto

lemma split_join: "ws \<noteq> [] \<Longrightarrow> \<forall>w \<in> set ws. d \<notin> set w \<Longrightarrow> split_on d (join_with d ws) = ws"
  by (induction d ws rule: join_with.induct) (simp_all add: split_on_absent split_on_append)

text \<open>C34. The requested-chassis text and the list of chassis it denotes determine each other: a
  text parses to a non-empty list exactly when it is the comma-joined form of one or two
  distinct safe identifiers, so a migration has one canonical \<open>source,target\<close> spelling.\<close>

lemma ParseRequestedChassis_iff:
  "ParseRequestedChassis value = Inr parts \<longleftrightarrow>
     value = [] \<and> parts = [] \<or>
     value = join_with (CHR '','') parts \<and> parts \<noteq> [] \<and> length parts \<le> 2 \<and> distinct parts \<and>
       list_all safeChassisID parts"
proof (cases "value = []")
  case True
  have "join_with (CHR '','') parts \<noteq> []" if "list_all safeChassisID parts" "parts \<noteq> []"
    using that by (cases "(CHR '','', parts)" rule: join_with.cases) (auto simp: safeChassisID_def)
  with True show ?thesis by (auto simp: ParseRequestedChassis_def)
next
  case False
  let ?sp = "split_on (CHR '','') value"
  have "ParseRequestedChassis value = Inr parts \<longleftrightarrow>
      trim_space value = value \<and> length ?sp \<le> 2 \<and> check_chassis_parts [] ?sp = None \<and> parts = ?sp"
    using False by (auto simp: ParseRequestedChassis_def Let_def split: option.splits)
  also have "\<dots> \<longleftrightarrow> length ?sp \<le> 2 \<and> check_chassis_parts [] ?sp = None \<and> parts = ?sp"
  proof -
    have "trim_space value = value" if "list_all safeChassisID ?sp"
    proof (rule trim_space_id)
      fix c assume "c \<in> set value"
      then have "c = CHR '','' \<or> (\<exists>w \<in> set ?sp. c \<in> set w)"
        using join_chars [of c "CHR '',''" ?sp] by (simp add: join_split)
      with that show "\<not> is_space c"
        using safe_chars by (auto simp: list_all_iff) (auto simp: is_space_def)
    qed
    then show ?thesis by (auto simp: chassis_parts_None)
  qed
  also have "\<dots> \<longleftrightarrow> value = join_with (CHR '','') parts \<and> parts \<noteq> [] \<and> length parts \<le> 2 \<and>
      distinct parts \<and> list_all safeChassisID parts"
  proof -
    have "parts = ?sp \<longleftrightarrow> value = join_with (CHR '','') parts" if "parts \<noteq> []" "list_all safeChassisID parts"
      using that safe_chars join_split split_join [of parts "CHR '',''"] by (fastforce simp: list_all_iff)
    then show ?thesis by (auto simp: chassis_parts_None)
  qed
  finally show ?thesis using False by simp
qed

section \<open>Defaults\<close>

lemma default_route_canonical:
  assumes "parse_prefix (rt_Destination route) = Some p"
  shows "parse_prefix (rt_Destination (default_route route)) = Some (masked p)"
  using assms parse_prefix_bits [OF assms] by (simp add: default_route_def parse_prefix_string)

lemma default_route_idem: "default_route (default_route route) = default_route route"
  using default_route_canonical [of route]
  by (cases "parse_prefix (rt_Destination route)"; cases "parse_addr (rt_NextHop route)")
     (auto simp: default_route_def parse_addr_string)

text \<open>Defaulting canonicalises every parseable static route: the destination text then
  denotes a masked prefix covering the same addresses, so the canonical-prefix check of
  \<open>validateRouter\<close> cannot refuse it, and defaulting a second time changes nothing.\<close>

lemma SetDefaults_routes_canonical:
  assumes "SetDefaults (Router r) = Router r'" "i < length (rtr_StaticRoutes r)"
    and "parse_prefix (rt_Destination (rtr_StaticRoutes r ! i)) = Some p"
  shows "(\<exists>q. parse_prefix (rt_Destination (rtr_StaticRoutes r' ! i)) = Some q \<and> masked q = q \<and>
             (\<forall>a. prefix_contains q a \<longleftrightarrow> prefix_contains p a)) \<and>
         map default_route (rtr_StaticRoutes r') = rtr_StaticRoutes r'"
proof -
  have r': "rtr_StaticRoutes r' = map default_route (rtr_StaticRoutes r)"
    using assms(1) by (auto simp: SetDefaults_def)
  then have "parse_prefix (rt_Destination (rtr_StaticRoutes r' ! i)) = Some (masked p)"
    using assms(2) default_route_canonical [OF assms(3)] by simp
  moreover have "map default_route (rtr_StaticRoutes r') = rtr_StaticRoutes r'"
    by (simp add: r' default_route_idem)
  ultimately show ?thesis by simp
qed

lemma default_port_mac:
  "parse_mac (port_MACAddress p) = Some hw \<Longrightarrow> length hw = 6 \<Longrightarrow>
     port_MACAddress (default_port p) = mac_string hw"
  by (simp add: default_port_def to_lower_mac_string parse_mac_bytes)

text \<open>After defaulting, two ports with valid 48-bit hardware addresses have the same MAC text,
  also up to case, exactly when their original texts denote the same six bytes, whatever of
  the accepted notations they used. The uniqueness test on texts is thus one on addresses.\<close>

lemma default_port_mac_unique:
  assumes "parse_mac (port_MACAddress p) = Some hp" "length hp = 6"
    and "parse_mac (port_MACAddress q) = Some hq" "length hq = 6"
  shows "equal_fold (port_MACAddress (default_port p)) (port_MACAddress (default_port q)) \<longleftrightarrow> hp = hq"
proof -
  have *: "list_all (\<lambda>b. b < 256) hp" "list_all (\<lambda>b. b < 256) hq"
    using assms by (simp_all add: parse_mac_bytes)
  have "mac_string hp = mac_string hq \<longleftrightarrow> hp = hq"
    using parse_mac_string [OF assms(2) *(1)] parse_mac_string [OF assms(4) *(2)] by (metis option.inject)
  moreover have "port_MACAddress (default_port p) = mac_string hp" "port_MACAddress (default_port q) = mac_string hq"
    using assms by (auto intro: default_port_mac)
  ultimately show ?thesis
    using assms * by (simp only: equal_fold_def to_lower_mac_string)
qed

definition no_meta :: metadata where
  "no_meta = \<lparr>ID = [], Revision = 0, AppliedRevision = 0, State = ResourceUnset, LastError = [], CreatedAt = 0, UpdatedAt = 0\<rparr>"

definition sample_router :: router where
  "sample_router = \<lparr>rtr_meta = no_meta, rtr_Name = ''r1'', rtr_Description = [], rtr_ExternalNetworkID = [],
     rtr_ExternalSubnetID = [], rtr_ExternalIPAddress = [], rtr_EnableSNAT = False,
     rtr_StaticRoutes = [\<lparr>rt_Destination = ''10.1.2.3/8'', rt_NextHop = ''10.0.0.1''\<rparr>]\<rparr>"

definition sample_port :: port where
  "sample_port = \<lparr>port_meta = no_meta, port_NetworkID = ''n'', port_Name = ''p'', port_MACAddress = ''AA:bb:00:01:02:03'',
     port_FixedIPs = [], port_SecurityGroupIDs = [''g''], port_AdminStateUp = True, port_BindingStatus = PortStatusUnset,
     port_NodeID = [], port_VMID = 0, port_NIC = [], port_LSPName = [], port_Generation = 0, port_RequestedChassis = []\<rparr>"

end
