(* ===== verification/Control_Store.thy ===== *)
theory Control_Store
  imports Validation "HOL-Library.Product_Lexorder"
begin

text \<open>
  The state of the in-memory control store (\<open>internal/controlstore/memory.go\<close>) and the
  checks its operations share: required references, whole-graph validation, uniqueness,
  claims on external addresses, and the search for a referrer of a row to be deleted.

  The two-level map from kind and id to a resource is one association list keyed by the
  pair. Go iterates a map in an unspecified order; the loops modelled here return a Boolean
  or the kind of an error only, which do not depend on that order. A type assertion such as
  \<open>resource.(*model.Node)\<close> is a projection to an option; that it never fails on a stored row
  is the typing part of the store invariant.
\<close>

section \<open>State\<close>

record idempotencyRecord =
  fingerprint_of :: string
  resource_of :: resource
  deleted_of :: bool

record memory =
  resources :: "((kind \<times> string) \<times> resource) list"
  idempotency :: "(string \<times> idempotencyRecord) list"

definition NewMemory :: memory where
  "NewMemory = \<lparr>resources = [], idempotency = []\<rparr>"

definition lookup :: "memory \<Rightarrow> kind \<Rightarrow> string \<Rightarrow> resource option" where
  "lookup s kind ident = map_of (resources s) (kind, ident)"

definition store_put :: "kind \<Rightarrow> string \<Rightarrow> resource \<Rightarrow> memory \<Rightarrow> memory" where
  "store_put kind ident r s = s\<lparr>resources := AList.update (kind, ident) r (resources s)\<rparr>"

definition store_remove :: "kind \<Rightarrow> string \<Rightarrow> memory \<Rightarrow> memory" where
  "store_remove kind ident s = s\<lparr>resources := AList.delete (kind, ident) (resources s)\<rparr>"

text \<open>The rows of one kind, as \<open>for id, resource := range s.resources[kind]\<close> visits them.\<close>

definition rows :: "memory \<Rightarrow> kind \<Rightarrow> (string \<times> resource) list" where
  "rows s kind = map (\<lambda>((_, ident), r). (ident, r)) (filter (\<lambda>((k, _), _). k = kind) (resources s))"

section \<open>Type assertions\<close>

fun as_network :: "resource \<Rightarrow> network option" where
  "as_network (Network x) = Some x" | "as_network _ = None"
fun as_subnet :: "resource \<Rightarrow> subnet option" where
  "as_subnet (Subnet x) = Some x" | "as_subnet _ = None"
fun as_port :: "resource \<Rightarrow> port option" where
  "as_port (Port x) = Some x" | "as_port _ = None"
fun as_ip_allocation :: "resource \<Rightarrow> ip_allocation option" where
  "as_ip_allocation (IPAllocation x) = Some x" | "as_ip_allocation _ = None"
fun as_router :: "resource \<Rightarrow> router option" where
  "as_router (Router x) = Some x" | "as_router _ = None"
fun as_router_interface :: "resource \<Rightarrow> router_interface option" where
  "as_router_interface (RouterInterface x) = Some x" | "as_router_interface _ = None"
fun as_floating_ip :: "resource \<Rightarrow> floating_ip option" where
  "as_floating_ip (FloatingIP x) = Some x" | "as_floating_ip _ = None"
fun as_provider_network :: "resource \<Rightarrow> provider_network option" where
  "as_provider_network (ProviderNetwork x) = Some x" | "as_provider_network _ = None"
fun as_provider_segment :: "resource \<Rightarrow> provider_segment option" where
  "as_provider_segment (ProviderSegment x) = Some x" | "as_provider_segment _ = None"
fun as_security_group :: "resource \<Rightarrow> security_group option" where
  "as_security_group (SecurityGroup x) = Some x" | "as_security_group _ = None"
fun as_node :: "resource \<Rightarrow> node option" where
  "as_node (Node x) = Some x" | "as_node _ = None"
fun as_operation :: "resource \<Rightarrow> operation option" where
  "as_operation (Operation x) = Some x" | "as_operation _ = None"

definition all_of :: "(resource \<Rightarrow> 'a option) \<Rightarrow> memory \<Rightarrow> kind \<Rightarrow> 'a list" where
  "all_of as s kind = List.map_filter (\<lambda>(_, r). as r) (rows s kind)"

definition get_as :: "(resource \<Rightarrow> 'a option) \<Rightarrow> memory \<Rightarrow> kind \<Rightarrow> string \<Rightarrow> 'a option" where
  "get_as as s kind ident = Option.bind (lookup s kind ident) as"

definition requireLocked :: "(resource \<Rightarrow> 'a option) \<Rightarrow> memory \<Rightarrow> kind \<Rightarrow> string \<Rightarrow> err + 'a" where
  "requireLocked as s kind ident = (case get_as as s kind ident of None \<Rightarrow> Inl ErrConflict | Some x \<Rightarrow> Inr x)"

text \<open>\<open>x, err := f(); if err != nil { return err }; ...\<close>\<close>

definition and_then :: "err + 'a \<Rightarrow> ('a \<Rightarrow> err option) \<Rightarrow> err option" where
  "and_then v f = (case v of Inl e \<Rightarrow> Some e | Inr x \<Rightarrow> f x)"

definition conflict_if :: "bool \<Rightarrow> err option" where
  "conflict_if b = fail_if b ErrConflict"

section \<open>References\<close>

definition portHasFixedIP :: "port \<Rightarrow> string \<Rightarrow> string \<Rightarrow> bool" where
  "portHasFixedIP p subnetID address =
     list_ex (\<lambda>fixed. fip_SubnetID fixed = subnetID \<and> fip_Address fixed = address) (port_FixedIPs p)"

definition portHasSubnet :: "port \<Rightarrow> string \<Rightarrow> bool" where
  "portHasSubnet p subnetID = list_ex (\<lambda>fixed. fip_SubnetID fixed = subnetID) (port_FixedIPs p)"

definition portHasAddress :: "port \<Rightarrow> string \<Rightarrow> bool" where
  "portHasAddress p address = list_ex (\<lambda>fixed. fip_Address fixed = address) (port_FixedIPs p)"

definition hasChassisLocked :: "memory \<Rightarrow> string \<Rightarrow> bool" where
  "hasChassisLocked s chassisID = list_ex (\<lambda>n. node_ChassisID n = chassisID) (all_of as_node s KindNode)"

definition providerHasAllocatableAddressLocked :: "memory \<Rightarrow> string \<Rightarrow> string \<Rightarrow> string \<Rightarrow> bool" where
  "providerHasAllocatableAddressLocked s providerID address ignoredSubnetID =
     list_ex (\<lambda>network.
         \<not> (State (net_meta network) = ResourceDeleting \<or> \<not> net_External network \<or>
            net_ProviderNetworkID network \<noteq> providerID) \<and>
         list_ex (\<lambda>(subnetID, r). subnetID \<noteq> ignoredSubnetID \<and>
             (case as_subnet r of None \<Rightarrow> False | Some subnet \<Rightarrow>
                State (sub_meta subnet) \<noteq> ResourceDeleting \<and>
                sub_NetworkID subnet = ID (net_meta network) \<and>
                ValidateIPv4AllocationAddress subnet address = None))
           (rows s KindSubnet))
       (all_of as_network s KindNetwork)"

definition routerReachesPortAddressLocked :: "memory \<Rightarrow> string \<Rightarrow> port \<Rightarrow> string \<Rightarrow> bool" where
  "routerReachesPortAddressLocked s routerID p address =
     list_ex (\<lambda>ri. rif_RouterID ri = routerID \<and> portHasFixedIP p (rif_SubnetID ri) address)
       (all_of as_router_interface s KindRouterInterface)"

definition next_hop_via_gateway :: "subnet \<Rightarrow> string \<Rightarrow> bool" where
  "next_hop_via_gateway subnet nextHop =
     (case EffectiveIPv4Gateway subnet of
        Inl _ \<Rightarrow> False
      | Inr gateway \<Rightarrow> ValidateIPv4NextHop subnet nextHop (addr_string gateway) = None)"

definition external_route_match :: "memory \<Rightarrow> router \<Rightarrow> static_route \<Rightarrow> bool" where
  "external_route_match s r route =
     (rtr_ExternalSubnetID r \<noteq> [] \<and>
      (case get_as as_subnet s KindSubnet (rtr_ExternalSubnetID r) of
         None \<Rightarrow> False
       | Some subnet \<Rightarrow> State (sub_meta subnet) \<noteq> ResourceDeleting \<and>
           ValidateIPv4NextHop subnet (rt_NextHop route) (rtr_ExternalIPAddress r) = None))"

definition interface_route_match :: "memory \<Rightarrow> router \<Rightarrow> static_route \<Rightarrow> router_interface \<Rightarrow> bool" where
  "interface_route_match s r route ri =
     (\<not> (rif_RouterID ri \<noteq> ID (rtr_meta r) \<or> State (rif_meta ri) = ResourceDeleting) \<and>
      (case get_as as_subnet s KindSubnet (rif_SubnetID ri) of
         None \<Rightarrow> False
       | Some subnet \<Rightarrow> State (sub_meta subnet) \<noteq> ResourceDeleting \<and> next_hop_via_gateway subnet (rt_NextHop route)))"

definition route_matches :: "memory \<Rightarrow> router \<Rightarrow> static_route \<Rightarrow> nat" where
  "route_matches s r route =
     (if external_route_match s r route then 1 else 0) +
     length (filter (interface_route_match s r route) (all_of as_router_interface s KindRouterInterface))"

definition validateRouterStaticRoutesLocked :: "memory \<Rightarrow> router \<Rightarrow> err option" where
  "validateRouterStaticRoutesLocked s r = check_each (\<lambda>index route. first_err
       [conflict_if (rtr_ExternalSubnetID r \<noteq> [] \<and> rt_Destination route = ''0.0.0.0/0''),
        conflict_if (route_matches s r route = 0),
        conflict_if (route_matches s r route > 1)]) 0 (rtr_StaticRoutes r)"

definition validate_port_refs :: "memory \<Rightarrow> port \<Rightarrow> err option" where
  "validate_port_refs s p =
     and_then (requireLocked as_network s KindNetwork (port_NetworkID p)) (\<lambda>portNetwork. first_err
       [conflict_if (net_External portNetwork \<or> net_ProviderNetworkID portNetwork \<noteq> []),
        check_each (\<lambda>_ fixed.
          and_then (requireLocked as_subnet s KindSubnet (fip_SubnetID fixed)) (\<lambda>subnet. first_err
            [conflict_if (sub_NetworkID subnet \<noteq> port_NetworkID p),
             conflict_if (fip_Address fixed \<noteq> [] \<and>
               ValidateIPv4AllocationAddress subnet (fip_Address fixed) \<noteq> None)])) 0 (port_FixedIPs p),
        conflict_if (port_SecurityGroupIDs p = []),
        check_each (\<lambda>_ groupID.
          and_then (requireLocked Some s KindSecurityGroup groupID) (\<lambda>_. None)) 0 (port_SecurityGroupIDs p),
        (if port_NodeID p \<noteq> [] then
           and_then (requireLocked as_node s KindNode (port_NodeID p)) (\<lambda>node.
             case ParseRequestedChassis (port_RequestedChassis p) of
               Inl _ \<Rightarrow> Some ErrConflict
             | Inr requested \<Rightarrow> first_err
                [conflict_if (requested \<noteq> [] \<and>
                   \<not> RequestedChassisContains (port_RequestedChassis p) (node_ChassisID node)),
                 check_each (\<lambda>_ chassisID. conflict_if (\<not> hasChassisLocked s chassisID)) 0 requested])
         else conflict_if (port_RequestedChassis p \<noteq> []))])"

definition validate_allocation_refs :: "memory \<Rightarrow> ip_allocation \<Rightarrow> err option" where
  "validate_allocation_refs s a =
     and_then (requireLocked as_subnet s KindSubnet (ipa_SubnetID a)) (\<lambda>subnet. first_err
       [conflict_if (ValidateIPv4AllocationAddress subnet (ipa_Address a) \<noteq> None),
        (if ipa_PortID a \<noteq> [] then
           and_then (requireLocked as_port s KindPort (ipa_PortID a)) (\<lambda>p. first_err
             [conflict_if (port_NetworkID p \<noteq> sub_NetworkID subnet),
              conflict_if (\<not> portHasFixedIP p (ipa_SubnetID a) (ipa_Address a))])
         else None)])"

definition validate_router_refs :: "memory \<Rightarrow> router \<Rightarrow> err option" where
  "validate_router_refs s r = first_err
     [(if rtr_ExternalNetworkID r \<noteq> [] then
         and_then (requireLocked as_network s KindNetwork (rtr_ExternalNetworkID r)) (\<lambda>network. first_err
           [conflict_if (\<not> net_External network \<or> net_ProviderNetworkID network = []),
            and_then (requireLocked Some s KindProviderNetwork (net_ProviderNetworkID network)) (\<lambda>_. None),
            and_then (requireLocked as_subnet s KindSubnet (rtr_ExternalSubnetID r)) (\<lambda>subnet. first_err
              [conflict_if (sub_NetworkID subnet \<noteq> ID (net_meta network)),
               conflict_if (ValidateIPv4AllocationAddress subnet (rtr_ExternalIPAddress r) \<noteq> None)])])
       else None),
      validateRouterStaticRoutesLocked s r]"

definition validate_interface_refs :: "memory \<Rightarrow> router_interface \<Rightarrow> err option" where
  "validate_interface_refs s r = first_err
     [and_then (requireLocked Some s KindRouter (rif_RouterID r)) (\<lambda>_. None),
      and_then (requireLocked as_subnet s KindSubnet (rif_SubnetID r)) (\<lambda>subnet.
        and_then (requireLocked as_network s KindNetwork (sub_NetworkID subnet)) (\<lambda>network. first_err
          [conflict_if (net_External network),
           (if rif_PortID r \<noteq> [] then
              and_then (requireLocked as_port s KindPort (rif_PortID r)) (\<lambda>p. first_err
                [conflict_if (port_NetworkID p \<noteq> sub_NetworkID subnet),
                 conflict_if (\<not> portHasSubnet p (rif_SubnetID r))])
            else None)]))]"

definition validate_floating_refs :: "memory \<Rightarrow> floating_ip \<Rightarrow> err option" where
  "validate_floating_refs s f = first_err
     [and_then (requireLocked Some s KindProviderNetwork (flt_ProviderNetworkID f)) (\<lambda>_. None),
      conflict_if (\<not> providerHasAllocatableAddressLocked s (flt_ProviderNetworkID f) (flt_Address f) []),
      conflict_if ((flt_PortID f = []) \<noteq> (flt_FixedIPAddress f = [])),
      conflict_if (flt_PortID f \<noteq> [] \<and> flt_RouterID f = []),
      (if flt_RouterID f \<noteq> [] then
         and_then (requireLocked as_router s KindRouter (flt_RouterID f)) (\<lambda>router. first_err
           [conflict_if (rtr_ExternalNetworkID router = [] \<or> rtr_ExternalSubnetID router = []),
            and_then (requireLocked as_network s KindNetwork (rtr_ExternalNetworkID router)) (\<lambda>externalNetwork. first_err
              [conflict_if (\<not> net_External externalNetwork \<or>
                 net_ProviderNetworkID externalNetwork \<noteq> flt_ProviderNetworkID f),
               and_then (requireLocked as_subnet s KindSubnet (rtr_ExternalSubnetID router)) (\<lambda>externalSubnet. first_err
                 [conflict_if (sub_NetworkID externalSubnet \<noteq> ID (net_meta externalNetwork)),
                  conflict_if (ValidateIPv4AllocationAddress externalSubnet (flt_Address f) \<noteq> None)])])])
       else None),
      (if flt_PortID f \<noteq> [] then
         and_then (requireLocked as_port s KindPort (flt_PortID f)) (\<lambda>p. first_err
           [conflict_if (\<not> portHasAddress p (flt_FixedIPAddress f)),
            conflict_if (\<not> routerReachesPortAddressLocked s (flt_RouterID f) p (flt_FixedIPAddress f))])
       else None)]"

fun validateReferencesLocked :: "memory \<Rightarrow> resource \<Rightarrow> err option" where
  "validateReferencesLocked s (Node _) = None"
| "validateReferencesLocked s (Operation _) = None"
| "validateReferencesLocked s (ProviderNetwork x) =
     (if pn_DefaultSegmentID x = [] then None
      else and_then (requireLocked as_provider_segment s KindProviderSegment (pn_DefaultSegmentID x)) (\<lambda>segment.
        conflict_if (ps_ProviderNetworkID segment \<noteq> ID (pn_meta x))))"
| "validateReferencesLocked s (Network x) =
     (if net_ProviderNetworkID x \<noteq> []
      then and_then (requireLocked Some s KindProviderNetwork (net_ProviderNetworkID x)) (\<lambda>_. None) else None)"
| "validateReferencesLocked s (Subnet x) =
     and_then (requireLocked Some s KindNetwork (sub_NetworkID x)) (\<lambda>_. None)"
| "validateReferencesLocked s (Port x) = validate_port_refs s x"
| "validateReferencesLocked s (IPAllocation x) = validate_allocation_refs s x"
| "validateReferencesLocked s (Router x) = validate_router_refs s x"
| "validateReferencesLocked s (RouterInterface x) = validate_interface_refs s x"
| "validateReferencesLocked s (FloatingIP x) = validate_floating_refs s x"
| "validateReferencesLocked s (ProviderSegment x) =
     and_then (requireLocked Some s KindProviderNetwork (ps_ProviderNetworkID x)) (\<lambda>_. None)"
| "validateReferencesLocked s (SecurityGroup _) = None"
| "validateReferencesLocked s (SecurityGroupRule x) = first_err
     [and_then (requireLocked Some s KindSecurityGroup (sgr_SecurityGroupID x)) (\<lambda>_. None),
      (if sgr_RemoteGroupID x \<noteq> []
       then and_then (requireLocked Some s KindSecurityGroup (sgr_RemoteGroupID x)) (\<lambda>_. None) else None)]"

fun references :: "resource \<Rightarrow> kind \<Rightarrow> string \<Rightarrow> bool" where
  "references (ProviderNetwork x) kind ident \<longleftrightarrow> kind = KindProviderSegment \<and> pn_DefaultSegmentID x = ident"
| "references (Network x) kind ident \<longleftrightarrow> kind = KindProviderNetwork \<and> net_ProviderNetworkID x = ident"
| "references (Subnet x) kind ident \<longleftrightarrow> kind = KindNetwork \<and> sub_NetworkID x = ident"
| "references (Port x) kind ident \<longleftrightarrow>
     kind = KindNetwork \<and> port_NetworkID x = ident \<or>
     kind = KindSubnet \<and> portHasSubnet x ident \<or>
     kind = KindSecurityGroup \<and> list_ex (\<lambda>groupID. groupID = ident) (port_SecurityGroupIDs x)"
| "references (IPAllocation x) kind ident \<longleftrightarrow>
     kind = KindSubnet \<and> ipa_SubnetID x = ident \<or> kind = KindPort \<and> ipa_PortID x = ident"
| "references (Router x) kind ident \<longleftrightarrow>
     kind = KindNetwork \<and> rtr_ExternalNetworkID x = ident \<or> kind = KindSubnet \<and> rtr_ExternalSubnetID x = ident"
| "references (RouterInterface x) kind ident \<longleftrightarrow>
     kind = KindRouter \<and> rif_RouterID x = ident \<or> kind = KindSubnet \<and> rif_SubnetID x = ident \<or>
     kind = KindPort \<and> rif_PortID x = ident"
| "references (FloatingIP x) kind ident \<longleftrightarrow>
     kind = KindProviderNetwork \<and> flt_ProviderNetworkID x = ident \<or> kind = KindPort \<and> flt_PortID x = ident \<or>
     kind = KindRouter \<and> flt_RouterID x = ident"
| "references (ProviderSegment x) kind ident \<longleftrightarrow> kind = KindProviderNetwork \<and> ps_ProviderNetworkID x = ident"
| "references (SecurityGroupRule x) kind ident \<longleftrightarrow>
     kind = KindSecurityGroup \<and> (sgr_SecurityGroupID x = ident \<or> sgr_RemoteGroupID x = ident)"
| "references _ kind ident \<longleftrightarrow> False"

text \<open>\<open>previous\<close> is \<open>nil\<close> on a create.\<close>

definition validateNewReferenceStatesLocked :: "memory \<Rightarrow> resource \<Rightarrow> resource option \<Rightarrow> err option" where
  "validateNewReferenceStatesLocked s candidate previous = conflict_if
     (list_ex (\<lambda>((kind, ident), target).
        \<not> (\<not> references candidate kind ident \<or> (case previous of None \<Rightarrow> False | Some p \<Rightarrow> references p kind ident)) \<and>
        State (GetMetadata target) \<in> {ResourceDeleting, ResourceError})
      (resources s))"

definition validateAllReferencesLocked :: "memory \<Rightarrow> err option" where
  "validateAllReferencesLocked s =
     conflict_if (list_ex (\<lambda>(_, r). validateReferencesLocked s r \<noteq> None) (resources s))"

section \<open>Uniqueness\<close>

definition externalAddressClaimsLocked :: "memory \<Rightarrow> resource \<Rightarrow> string list" where
  "externalAddressClaimsLocked s r =
     (let (providerID, address) =
        (case r of
           Subnet x \<Rightarrow>
             (case get_as as_network s KindNetwork (sub_NetworkID x) of
                None \<Rightarrow> ([], [])
              | Some network \<Rightarrow> (net_ProviderNetworkID network,
                  case EffectiveIPv4Gateway x of Inl _ \<Rightarrow> [] | Inr gateway \<Rightarrow> addr_string gateway))
         | Router x \<Rightarrow>
             (case get_as as_network s KindNetwork (rtr_ExternalNetworkID x) of
                None \<Rightarrow> ([], [])
              | Some network \<Rightarrow> (net_ProviderNetworkID network, rtr_ExternalIPAddress x))
         | FloatingIP x \<Rightarrow> (flt_ProviderNetworkID x, flt_Address x)
         | _ \<Rightarrow> ([], []))
      in if providerID = [] \<or> address = [] then [] else [providerID @ [CHR 0x00] @ address])"

definition port_conflict :: "port \<Rightarrow> port \<Rightarrow> string" where
  "port_conflict left right =
     (if port_MACAddress left \<noteq> [] \<and> equal_fold (port_MACAddress left) (port_MACAddress right) then ''mac_address''
      else if port_LSPName left \<noteq> [] \<and> port_LSPName left = port_LSPName right then ''lsp_name''
      else if port_NodeID left \<noteq> [] \<and> port_VMID left > 0 \<and> port_NIC left \<noteq> [] \<and>
              port_NodeID left = port_NodeID right \<and> port_VMID left = port_VMID right \<and> port_NIC left = port_NIC right
      then ''node_id,vmid,nic''
      else if list_ex (\<lambda>leftIP. fip_Address leftIP \<noteq> [] \<and>
                list_ex (\<lambda>rightIP. fip_SubnetID leftIP = fip_SubnetID rightIP \<and>
                                   fip_Address leftIP = fip_Address rightIP) (port_FixedIPs right)) (port_FixedIPs left)
      then ''fixed_ips.subnet_id,address''
      else [])"

text \<open>\<open>right := existing.(*model.T)\<close>; the candidate is compared with rows of its own kind only.\<close>

definition same_type :: "(resource \<Rightarrow> 'a option) \<Rightarrow> resource \<Rightarrow> ('a \<Rightarrow> string) \<Rightarrow> string" where
  "same_type as existing f = (case as existing of None \<Rightarrow> [] | Some r \<Rightarrow> f r)"

fun conflictField :: "resource \<Rightarrow> resource \<Rightarrow> string" where
  "conflictField (Network l) existing = same_type as_network existing (\<lambda>r. (if net_Name l = net_Name r then ''name'' else []))"
| "conflictField (Subnet l) existing = same_type as_subnet existing (\<lambda>r.
     (if sub_NetworkID l = sub_NetworkID r \<and> IPv4PrefixesOverlap (sub_CIDR l) (sub_CIDR r) then ''network_id,cidr-overlap''
      else if sub_NetworkID l = sub_NetworkID r \<and> sub_Name l = sub_Name r then ''network_id,name''
      else []))"
| "conflictField (Port l) existing = same_type as_port existing (\<lambda>r. port_conflict l r)"
| "conflictField (IPAllocation l) existing = same_type as_ip_allocation existing (\<lambda>r.
     (if ipa_SubnetID l = ipa_SubnetID r \<and> ipa_Address l = ipa_Address r then ''subnet_id,address'' else []))"
| "conflictField (Router l) existing = same_type as_router existing (\<lambda>r. (if rtr_Name l = rtr_Name r then ''name'' else []))"
| "conflictField (RouterInterface l) existing = same_type as_router_interface existing (\<lambda>r.
     (if rif_RouterID l = rif_RouterID r \<and> rif_SubnetID l = rif_SubnetID r then ''router_id,subnet_id'' else []))"
| "conflictField (FloatingIP l) existing = same_type as_floating_ip existing (\<lambda>r.
     (if flt_ProviderNetworkID l = flt_ProviderNetworkID r \<and> flt_Address l = flt_Address r
      then ''provider_network_id,address'' else []))"
| "conflictField (ProviderNetwork l) existing = same_type as_provider_network existing (\<lambda>r. (if pn_Name l = pn_Name r then ''name'' else []))"
| "conflictField (ProviderSegment l) existing = same_type as_provider_segment existing (\<lambda>r.
     (if ps_ProviderNetworkID l = ps_ProviderNetworkID r \<and> ps_Name l = ps_Name r then ''provider_network_id,name''
      else if ps_PhysicalNetwork l = ps_PhysicalNetwork r \<and> ps_NetworkType l = ps_NetworkType r \<and> ps_VLANID l = ps_VLANID r
      then ''physical_network,network_type,vlan_id''
      else []))"
| "conflictField (SecurityGroup l) existing = same_type as_security_group existing (\<lambda>r. (if sg_Name l = sg_Name r then ''name'' else []))"
| "conflictField (Operation l) existing = same_type as_operation existing (\<lambda>r.
     (if op_IdempotencyKey l = op_IdempotencyKey r then ''idempotency_key''
      else if op_TargetKind l = op_TargetKind r \<and> op_TargetID l = op_TargetID r \<and> op_TargetRevision l = op_TargetRevision r
      then ''target_kind,target_id,target_revision''
      else []))"
| "conflictField (Node l) existing = same_type as_node existing (\<lambda>r.
     (if node_Name l = node_Name r then ''name''
      else if node_ChassisID l = node_ChassisID r then ''chassis_id''
      else []))"
| "conflictField (SecurityGroupRule _) existing = []"

definition validateUniqueLocked :: "memory \<Rightarrow> resource \<Rightarrow> string \<Rightarrow> err option" where
  "validateUniqueLocked s candidate ignoredID = first_err
     [fail_if (list_ex (\<lambda>(ident, existing). ident \<noteq> ignoredID \<and> conflictField candidate existing \<noteq> [])
                 (rows s (ResourceKind candidate))) ErrAlreadyExists,
      fail_if (list_ex (\<lambda>candidateClaim.
          list_ex (\<lambda>kind. list_ex (\<lambda>(ident, existing).
              \<not> (kind = ResourceKind candidate \<and> ident = ignoredID) \<and>
              candidateClaim \<in> set (externalAddressClaimsLocked s existing)) (rows s kind))
            [KindSubnet, KindRouter, KindFloatingIP])
        (externalAddressClaimsLocked s candidate)) ErrAlreadyExists]"

definition validateAllUniqueLocked :: "memory \<Rightarrow> err option" where
  "validateAllUniqueLocked s =
     conflict_if (list_ex (\<lambda>((_, ident), r). validateUniqueLocked s r ident \<noteq> None) (resources s))"

section \<open>Referrers of a row to be deleted\<close>

definition segment_needed :: "memory \<Rightarrow> string \<Rightarrow> bool" where
  "segment_needed s ident =
     (case get_as as_provider_segment s KindProviderSegment ident of
        None \<Rightarrow> False
      | Some segment \<Rightarrow>
          (case get_as as_provider_network s KindProviderNetwork (ps_ProviderNetworkID segment) of
             None \<Rightarrow> False
           | Some provider \<Rightarrow>
               pn_DefaultSegmentID provider = [] \<and>
               length (filter (\<lambda>x. ps_ProviderNetworkID x = ps_ProviderNetworkID segment)
                         (all_of as_provider_segment s KindProviderSegment)) = 1 \<and>
               list_ex (\<lambda>network. net_ProviderNetworkID network = ps_ProviderNetworkID segment)
                 (all_of as_network s KindNetwork)))"

definition interface_needed :: "memory \<Rightarrow> string \<Rightarrow> bool" where
  "interface_needed s ident =
     (case get_as as_router_interface s KindRouterInterface ident of
        None \<Rightarrow> False
      | Some ri \<Rightarrow>
          (case (get_as as_router s KindRouter (rif_RouterID ri), get_as as_subnet s KindSubnet (rif_SubnetID ri)) of
             (Some router, Some subnet) \<Rightarrow>
               list_ex (\<lambda>route. next_hop_via_gateway subnet (rt_NextHop route)) (rtr_StaticRoutes router)
           | _ \<Rightarrow> False) \<or>
          list_ex (\<lambda>floating.
              \<not> (flt_RouterID floating \<noteq> rif_RouterID ri \<or> flt_PortID floating = []) \<and>
              (case get_as as_port s KindPort (flt_PortID floating) of
                 None \<Rightarrow> False
               | Some p \<Rightarrow> portHasFixedIP p (rif_SubnetID ri) (flt_FixedIPAddress floating)))
            (all_of as_floating_ip s KindFloatingIP))"

definition subnet_needed :: "memory \<Rightarrow> string \<Rightarrow> bool" where
  "subnet_needed s ident =
     (case get_as as_subnet s KindSubnet ident of
        None \<Rightarrow> False
      | Some subnet \<Rightarrow>
          (case get_as as_network s KindNetwork (sub_NetworkID subnet) of
             None \<Rightarrow> False
           | Some network \<Rightarrow>
               net_External network \<and> net_ProviderNetworkID network \<noteq> [] \<and>
               list_ex (\<lambda>floating.
                   flt_ProviderNetworkID floating = net_ProviderNetworkID network \<and>
                   ValidateIPv4AllocationAddress subnet (flt_Address floating) = None \<and>
                   \<not> providerHasAllocatableAddressLocked s (net_ProviderNetworkID network) (flt_Address floating) ident)
                 (all_of as_floating_ip s KindFloatingIP)))"

text \<open>Whether the Go function returns a non-empty description of a referrer.\<close>

definition firstReferenceLocked :: "memory \<Rightarrow> kind \<Rightarrow> string \<Rightarrow> bool" where
  "firstReferenceLocked s kind ident =
     (list_ex (\<lambda>((candidateKind, candidateID), r).
         \<not> (candidateKind = kind \<and> candidateID = ident) \<and> references r kind ident) (resources s) \<or>
      (kind = KindProviderSegment \<and> segment_needed s ident) \<or>
      (kind = KindRouterInterface \<and> interface_needed s ident) \<or>
      (kind = KindSubnet \<and> subnet_needed s ident))"

end
