(* ===== verification/Memory_Ops.thy ===== *)
theory Memory_Ops
  imports Control_Store
begin

text \<open>
  The operations of the in-memory control store (\<open>internal/controlstore/memory.go\<close>), one
  definition per method, in the order of the source. Each takes the state under the lock and
  returns the state it leaves, with the error or the result of the call. What a call reads
  from its surroundings is the record \<open>call_env\<close>: whether the context is cancelled, the
  instant \<open>s.now()\<close> gives, the identifier \<open>s.newID()\<close> gives, and the codecs. The store lock
  makes a call atomic, so concurrent callers are sequences of calls.
\<close>

record call_env =
  env_cancelled :: bool
  env_now :: time
  env_newID :: string
  env_codec :: codec

definition maxOperationPruneBatch :: nat where "maxOperationPruneBatch = 256"
definition maxExpiredOperationRecoverBatch :: nat where "maxExpiredOperationRecoverBatch = 256"

definition expiredOperationError :: string where
  "expiredOperationError = ''operation lease expired before completion''"
definition supersededQueuedOperationError :: string where
  "supersededQueuedOperationError = ''operation target revision was superseded before claim''"

section \<open>Idempotency\<close>

definition resource_fingerprint :: "codec \<Rightarrow> resource \<Rightarrow> string \<Rightarrow> string" where
  "resource_fingerprint cd r qualifier =
     (let encoded = json_marshal cd r @ qualifier;
          suffix = (case r of Operation o' \<Rightarrow> if op_Payload o' \<noteq> [] then CHR 0x00 # op_Payload o' else [] | _ \<Rightarrow> [])
      in sha256 cd (encoded @ suffix))"

definition idempotencyScope :: "string \<Rightarrow> kind \<Rightarrow> string \<Rightarrow> string \<Rightarrow> string" where
  "idempotencyScope action kind ident key =
     (if key = [] then [] else join_with (CHR ''/'') [action, kind_string kind, ident, key])"

text \<open>\<open>replayLocked\<close>: an error, no record (\<^term>\<open>None\<close>), or the recorded result.\<close>

definition replayLocked :: "memory \<Rightarrow> string \<Rightarrow> string \<Rightarrow> err + resource option" where
  "replayLocked s scope fp =
     (if scope = [] then Inr None
      else case map_of (idempotency s) scope of
             None \<Rightarrow> Inr None
           | Some record' \<Rightarrow>
               if fingerprint_of record' \<noteq> fp then Inl ErrIdempotencyConflict else Inr (Some (resource_of record')))"

definition rememberLocked :: "string \<Rightarrow> string \<Rightarrow> resource \<Rightarrow> bool \<Rightarrow> memory \<Rightarrow> memory" where
  "rememberLocked scope fp r deleted s =
     (if scope = [] then s
      else s\<lparr>idempotency := AList.update scope \<lparr>fingerprint_of = fp, resource_of = r, deleted_of = deleted\<rparr> (idempotency s)\<rparr>)"

section \<open>Leases\<close>

definition leaseProtectedAction :: "string \<Rightarrow> bool" where
  "leaseProtectedAction action \<longleftrightarrow> action = ''reconcile'' \<or> action = ''delete''"

text \<open>The loop over the characters, with their index.\<close>

fun lease_owner_chars :: "nat \<Rightarrow> string \<Rightarrow> bool" where
  "lease_owner_chars i [] = True"
| "lease_owner_chars i (c # cs) =
     (if (CHR ''a'' \<le> c \<and> c \<le> CHR ''z'') \<or> (CHR ''A'' \<le> c \<and> c \<le> CHR ''Z'') \<or> (CHR ''0'' \<le> c \<and> c \<le> CHR ''9'') \<or>
         (i > 0 \<and> c \<in> set ''_.:-'')
      then lease_owner_chars (Suc i) cs else False)"

definition validLeaseOwner :: "string \<Rightarrow> bool" where
  "validLeaseOwner value = (if length value < 1 \<or> length value > 127 then False else lease_owner_chars 0 value)"

definition reconcileLeaseIsLive :: "operation \<Rightarrow> time \<Rightarrow> bool" where
  "reconcileLeaseIsLive o' leaseCutoff \<longleftrightarrow> op_StartedAt o' \<noteq> None \<and> UpdatedAt (op_meta o') > leaseCutoff"

definition operationTargetClaimable :: "operation \<Rightarrow> metadata \<Rightarrow> bool \<Rightarrow> bool" where
  "operationTargetClaimable o' target exact =
     (if op_Action o' = ''reconcile''
      then \<not> exact \<or> (State target \<noteq> ResourceDeleting \<and> Revision target = op_TargetRevision o')
      else if op_Action o' = ''delete''
      then Revision target = op_TargetRevision o' \<and> (State target = ResourceDeleting \<or> State target = ResourceError)
      else False)"

section \<open>Create\<close>

text \<open>The type switches of \<open>Create\<close>: the key of an operation, and the refusal of one that is
  not queued.\<close>

definition with_operation_key :: "string \<Rightarrow> resource \<Rightarrow> resource" where
  "with_operation_key key r =
     (case r of Operation o' \<Rightarrow> Operation (if op_IdempotencyKey o' = [] then o'\<lparr>op_IdempotencyKey := key\<rparr> else o') | _ \<Rightarrow> r)"

definition created_unqueued :: "resource \<Rightarrow> bool" where
  "created_unqueued r =
     (case r of Operation o' \<Rightarrow> leaseProtectedAction (op_Action o') \<and>
        op_OperationStatus o' \<noteq> OperationUnset \<and> op_OperationStatus o' \<noteq> OperationQueued | _ \<Rightarrow> False)"

definition with_id :: "string \<Rightarrow> resource \<Rightarrow> resource" where
  "with_id newID r = map_metadata (\<lambda>m. if ID m = [] then m\<lparr>ID := newID\<rparr> else m) r"

definition fresh_metadata :: "time \<Rightarrow> metadata \<Rightarrow> metadata" where
  "fresh_metadata now m = m\<lparr>Revision := 1, AppliedRevision := 0, State := ResourcePending, LastError := [],
     CreatedAt := now, UpdatedAt := now\<rparr>"

definition with_lsp_name :: "resource \<Rightarrow> resource" where
  "with_lsp_name r =
     (case r of Port p \<Rightarrow> Port (if port_LSPName p = [] then p\<lparr>port_LSPName := ''pvn-'' @ ID (port_meta p)\<rparr> else p) | _ \<Rightarrow> r)"

definition Create :: "call_env \<Rightarrow> resource \<Rightarrow> string \<Rightarrow> memory \<Rightarrow> memory \<times> (err + resource \<times> bool)" where
  "Create env r key s =
     (if env_cancelled env then (s, Inl ErrContext)
      else if \<not> kind_valid (ResourceKind r) then (s, Inl ErrConflict)
      else
        let fp = resource_fingerprint (env_codec env) r [];
            scope = idempotencyScope ''create'' (ResourceKind r) [] key
        in case replayLocked s scope fp of
             Inl e \<Rightarrow> (s, Inl e)
           | Inr (Some replay) \<Rightarrow> (s, Inr (replay, True))
           | Inr None \<Rightarrow>
               let copy1 = with_operation_key key r;
                   copy2 = with_id (env_newID env) copy1;
                   kind = ResourceKind copy2;
                   ident = ID (GetMetadata copy2);
                   copy3 = on_floating MarkPending (SetDefaults copy2)
               in if created_unqueued copy1 then (s, Inl ErrConflict)
                  else if lookup s kind ident \<noteq> None then (s, Inl ErrAlreadyExists)
                  else case first_err
                         [Validate (env_codec env) copy3,
                          validateReferencesLocked s copy3,
                          validateNewReferenceStatesLocked s copy3 None,
                          validateUniqueLocked s copy3 []] of
                         Some e \<Rightarrow> (s, Inl e)
                       | None \<Rightarrow>
                           let result = with_lsp_name (map_metadata (fresh_metadata (env_now env)) copy3)
                           in (rememberLocked scope fp result False (store_put kind ident result s), Inr (result, False)))"

section \<open>Reads\<close>

record list_options =
  opt_NetworkID :: string
  opt_SubnetID :: string
  opt_RouterID :: string
  opt_SecurityGroupID :: string
  opt_ProviderNetworkID :: string
  opt_NodeID :: string
  opt_VMID :: int
  opt_NIC :: string
  opt_RecentFirst :: bool
  opt_Limit :: int

definition resourceReferencesSubnet :: "resource \<Rightarrow> string \<Rightarrow> bool" where
  "resourceReferencesSubnet r ident =
     (case r of Port p \<Rightarrow> list_ex (\<lambda>fixed. fip_SubnetID fixed = ident) (port_FixedIPs p)
      | IPAllocation a \<Rightarrow> ipa_SubnetID a = ident
      | RouterInterface ri \<Rightarrow> rif_SubnetID ri = ident
      | _ \<Rightarrow> False)"

definition resourceReferencesRouter :: "resource \<Rightarrow> string \<Rightarrow> bool" where
  "resourceReferencesRouter r ident =
     (case r of RouterInterface ri \<Rightarrow> rif_RouterID ri = ident | FloatingIP f \<Rightarrow> flt_RouterID f = ident | _ \<Rightarrow> False)"

definition resourceReferencesSecurityGroup :: "resource \<Rightarrow> string \<Rightarrow> bool" where
  "resourceReferencesSecurityGroup r ident =
     (case r of SecurityGroupRule x \<Rightarrow> sgr_SecurityGroupID x = ident
      | Port p \<Rightarrow> list_ex (\<lambda>groupID. groupID = ident) (port_SecurityGroupIDs p)
      | _ \<Rightarrow> False)"

definition resourceReferencesProviderNetwork :: "resource \<Rightarrow> string \<Rightarrow> bool" where
  "resourceReferencesProviderNetwork r ident =
     (case r of Network n \<Rightarrow> net_ProviderNetworkID n = ident
      | ProviderSegment x \<Rightarrow> ps_ProviderNetworkID x = ident
      | FloatingIP f \<Rightarrow> flt_ProviderNetworkID f = ident
      | _ \<Rightarrow> False)"

definition resourceFields :: "resource \<Rightarrow> string \<times> string \<times> int \<times> string" where
  "resourceFields r =
     (case r of Subnet x \<Rightarrow> (sub_NetworkID x, [], 0, [])
      | Port p \<Rightarrow> (port_NetworkID p, port_NodeID p, port_VMID p, port_NIC p)
      | _ \<Rightarrow> ([], [], 0, []))"

definition row_matches :: "resource \<Rightarrow> list_options \<Rightarrow> bool" where
  "row_matches r options =
     (let (networkID, nodeID, vmid, nic) = resourceFields r in
      (opt_NetworkID options = [] \<or> networkID = opt_NetworkID options) \<and>
      (opt_NodeID options = [] \<or> nodeID = opt_NodeID options) \<and>
      (opt_VMID options = 0 \<or> vmid = opt_VMID options) \<and>
      (opt_NIC options = [] \<or> nic = opt_NIC options) \<and>
      (opt_SubnetID options = [] \<or> resourceReferencesSubnet r (opt_SubnetID options)) \<and>
      (opt_RouterID options = [] \<or> resourceReferencesRouter r (opt_RouterID options)) \<and>
      (opt_SecurityGroupID options = [] \<or> resourceReferencesSecurityGroup r (opt_SecurityGroupID options)) \<and>
      (opt_ProviderNetworkID options = [] \<or> resourceReferencesProviderNetwork r (opt_ProviderNetworkID options)))"

definition Get :: "call_env \<Rightarrow> kind \<Rightarrow> string \<Rightarrow> memory \<Rightarrow> err + resource" where
  "Get env kind ident s =
     (if env_cancelled env then Inl ErrContext
      else case lookup s kind ident of None \<Rightarrow> Inl ErrNotFound | Some r \<Rightarrow> Inr r)"

text \<open>The comparison of \<open>sort.Slice\<close> as a key: newest first when asked for, then by id.\<close>

definition list_key :: "list_options \<Rightarrow> resource \<Rightarrow> time \<times> string" where
  "list_key options r = (if opt_RecentFirst options then - CreatedAt (GetMetadata r) else 0, ID (GetMetadata r))"

definition list_kind :: "memory \<Rightarrow> kind \<Rightarrow> list_options \<Rightarrow> resource list" where
  "list_kind s kind options =
     (let sorted' = sort_key (list_key options) (filter (\<lambda>r. row_matches r options) (map snd (rows s kind)))
      in if opt_Limit options > 0 \<and> int (length sorted') > opt_Limit options
         then take (nat (opt_Limit options)) sorted' else sorted')"

definition Snapshot :: "call_env \<Rightarrow> kind list \<Rightarrow> list_options \<Rightarrow> memory \<Rightarrow> err + (kind \<times> resource list) list" where
  "Snapshot env kinds options s =
     (if env_cancelled env then Inl ErrContext
      else if \<not> list_all kind_valid kinds then Inl ErrNotFound
      else if opt_Limit options < 0 then Inl ErrConflict
      else Inr (map (\<lambda>kind. (kind, list_kind s kind options)) (remdups kinds)))"

definition ListResources :: "call_env \<Rightarrow> kind \<Rightarrow> list_options \<Rightarrow> memory \<Rightarrow> err + resource list" where
  "ListResources env kind options s =
     (case Snapshot env [kind] options s of
        Inl e \<Rightarrow> Inl e
      | Inr snapshot \<Rightarrow> Inr (case map_of snapshot kind of None \<Rightarrow> [] | Some rs \<Rightarrow> rs))"

definition requestedChassisOrEmpty :: "string \<Rightarrow> string list" where
  "requestedChassisOrEmpty value = (case ParseRequestedChassis value of Inl _ \<Rightarrow> [] | Inr requested \<Rightarrow> requested)"

definition accepted_nodes :: "memory \<Rightarrow> string \<Rightarrow> string list" where
  "accepted_nodes s nodeIdentity = nodeIdentity #
     concat (map (\<lambda>n. if ID (node_meta n) = nodeIdentity \<or> node_Name n = nodeIdentity \<or> node_ChassisID n = nodeIdentity
                     then [ID (node_meta n), node_Name n, node_ChassisID n] else [])
            (all_of as_node s KindNode))"

definition LookupRuntimePorts :: "call_env \<Rightarrow> string \<Rightarrow> int \<Rightarrow> string \<Rightarrow> memory \<Rightarrow> err + port list" where
  "LookupRuntimePorts env nodeIdentity vmid nic s =
     (if env_cancelled env then Inl ErrContext
      else
        let accepted = accepted_nodes s nodeIdentity
        in Inr (sort_key (\<lambda>p. ID (port_meta p))
             (filter (\<lambda>p.
                let requestedLocal = list_ex (\<lambda>chassisID. chassisID \<in> set accepted)
                                       (requestedChassisOrEmpty (port_RequestedChassis p))
                in \<not> (port_VMID p \<noteq> vmid \<or> port_NIC p \<noteq> nic \<or> (port_NodeID p \<notin> set accepted \<and> \<not> requestedLocal)))
               (all_of as_port s KindPort))))"

section \<open>Node heartbeats\<close>

definition ObserveNodeHeartbeat :: "call_env \<Rightarrow> string \<Rightarrow> int \<Rightarrow> time \<Rightarrow> memory \<Rightarrow> memory \<times> (err + node)" where
  "ObserveNodeHeartbeat env ident expectedRevision observedAt s =
     (if env_cancelled env then (s, Inl ErrContext)
      else if ident = [] \<or> observedAt = zero_time then (s, Inl ErrConflict)
      else case get_as as_node s KindNode ident of
             None \<Rightarrow> (s, Inl ErrNotFound)
           | Some stored \<Rightarrow>
               if expectedRevision < 1 \<or> Revision (node_meta stored) \<noteq> expectedRevision then (s, Inl ErrPrecondition)
               else if (case node_LastSeenAt stored of None \<Rightarrow> False | Some seen \<Rightarrow> \<not> seen < observedAt)
               then (s, Inr stored)
               else
                 let observed = stored\<lparr>node_LastSeenAt := Some observedAt\<rparr>
                 in (store_put KindNode ident (Node observed) s, Inr observed))"

section \<open>Retention and recovery of operations\<close>

definition operationSupersededLocked :: "memory \<Rightarrow> operation \<Rightarrow> bool" where
  "operationSupersededLocked s o' =
     (case lookup s (op_TargetKind o') (op_TargetID o') of
        None \<Rightarrow> True
      | Some target \<Rightarrow> Revision (GetMetadata target) > op_TargetRevision o')"

definition terminal_reconcile :: "operation \<Rightarrow> bool" where
  "terminal_reconcile o' \<longleftrightarrow>
     \<not> (op_Action o' \<noteq> ''reconcile'' \<or> op_CompletedAt o' = None \<or>
        (op_OperationStatus o' \<noteq> OperationSucceeded \<and> op_OperationStatus o' \<noteq> OperationFailed))"

definition completed_key :: "operation \<Rightarrow> time \<times> string" where
  "completed_key o' = (- (case op_CompletedAt o' of None \<Rightarrow> 0 | Some t \<Rightarrow> t), ID (op_meta o'))"

definition updated_key :: "operation \<Rightarrow> time \<times> string" where
  "updated_key o' = (UpdatedAt (op_meta o'), ID (op_meta o'))"

definition terminalReconcileOperations :: "memory \<Rightarrow> operation list" where
  "terminalReconcileOperations s =
     sort_key completed_key (filter terminal_reconcile (all_of as_operation s KindOperation))"

text \<open>One iteration of the loop over \<open>candidates[keep:]\<close>: whether the operation is removed.\<close>

definition prune_eligible :: "time \<Rightarrow> memory \<Rightarrow> operation \<Rightarrow> bool" where
  "prune_eligible before s o' =
     (\<not> ((case op_CompletedAt o' of None \<Rightarrow> True | Some completed \<Rightarrow> \<not> completed < before) \<or>
         \<not> operationSupersededLocked s o') \<and>
      (case map_of (idempotency s) (idempotencyScope ''create'' KindOperation [] (op_IdempotencyKey o')) of
         None \<Rightarrow> False
       | Some record' \<Rightarrow> ID (GetMetadata (resource_of record')) = ID (op_meta o')))"

fun prune_loop :: "time \<Rightarrow> operation list \<Rightarrow> nat \<Rightarrow> memory \<Rightarrow> memory \<times> nat" where
  "prune_loop before [] pruned s = (s, pruned)"
| "prune_loop before (o' # ops) pruned s =
     (if pruned = maxOperationPruneBatch then (s, pruned)
      else if \<not> prune_eligible before s o' then prune_loop before ops pruned s
      else
        let s1 = store_remove KindOperation (ID (op_meta o')) s;
            scope = idempotencyScope ''create'' KindOperation [] (op_IdempotencyKey o')
        in prune_loop before ops (Suc pruned) (s1\<lparr>idempotency := AList.delete scope (idempotency s1)\<rparr>))"

definition PruneOperations :: "call_env \<Rightarrow> time \<Rightarrow> int \<Rightarrow> memory \<Rightarrow> memory \<times> (err + nat)" where
  "PruneOperations env before keep s =
     (if env_cancelled env then (s, Inl ErrContext)
      else if before = zero_time \<or> keep < 0 then (s, Inl ErrConflict)
      else
        let candidates = terminalReconcileOperations s
        in if int (length candidates) \<le> keep then (s, Inr 0)
           else let (s', pruned) = prune_loop before (drop (nat keep) candidates) 0 s in (s', Inr pruned))"

definition supersededQueuedReconcilesLocked :: "memory \<Rightarrow> operation list" where
  "supersededQueuedReconcilesLocked s = sort_key updated_key
     (filter (\<lambda>o'. \<not> (op_Action o' \<noteq> ''reconcile'' \<or> op_OperationStatus o' \<noteq> OperationQueued \<or>
                      \<not> operationSupersededLocked s o'))
       (all_of as_operation s KindOperation))"

definition operationRecoveryError :: "operation \<Rightarrow> string" where
  "operationRecoveryError o' =
     (if op_OperationStatus o' = OperationQueued then supersededQueuedOperationError else expiredOperationError)"

definition expiredRunningOperations :: "memory \<Rightarrow> time \<Rightarrow> operation list" where
  "expiredRunningOperations s leaseCutoff = sort_key updated_key
     (filter (\<lambda>o'. \<not> (\<not> leaseProtectedAction (op_Action o') \<or> op_OperationStatus o' \<noteq> OperationRunning \<or>
                      reconcileLeaseIsLive o' leaseCutoff))
       (all_of as_operation s KindOperation))"

text \<open>The writes that \<open>RecoverExpiredOperations\<close> and \<open>FenceReconciles\<close> make to a claim they end.\<close>

definition fail_operation :: "string \<Rightarrow> time \<Rightarrow> operation \<Rightarrow> operation" where
  "fail_operation message completed o' = o'\<lparr>
     op_OperationStatus := OperationFailed,
     op_Error := message,
     op_CompletedAt := Some completed,
     op_meta := (op_meta o')\<lparr>Revision := Revision (op_meta o') + 1, State := ResourcePending, LastError := [],
                             UpdatedAt := completed\<rparr>\<rparr>"

definition recovery_candidates :: "memory \<Rightarrow> time \<Rightarrow> nat \<Rightarrow> operation list" where
  "recovery_candidates s leaseCutoff limit =
     (let expired = expiredRunningOperations s leaseCutoff;
          candidates =
            (if length expired < limit
             then expired @ take (limit - length expired) (supersededQueuedReconcilesLocked s) else expired)
      in take limit candidates)"

definition RecoverExpiredOperations :: "call_env \<Rightarrow> time \<Rightarrow> time \<Rightarrow> int \<Rightarrow> memory \<Rightarrow> memory \<times> (err + nat)" where
  "RecoverExpiredOperations env leaseCutoff recoveredAt limit s =
     (if env_cancelled env then (s, Inl ErrContext)
      else if leaseCutoff = zero_time \<or> recoveredAt = zero_time \<or> limit < 1 then (s, Inl ErrConflict)
      else
        let limit' = (if limit > int maxExpiredOperationRecoverBatch then maxExpiredOperationRecoverBatch else nat limit);
            candidates = recovery_candidates s leaseCutoff limit';
            recovered = map (\<lambda>o'. fail_operation (operationRecoveryError o') recoveredAt o') candidates
        in (fold (\<lambda>o'. store_put KindOperation (ID (op_meta o')) (Operation o')) recovered s, Inr (length candidates)))"

section \<open>Update\<close>

text \<open>The two refusals of \<open>Update\<close> on operations: another lease owner, and a start without a claim.\<close>

definition foreign_lease :: "resource \<Rightarrow> resource \<Rightarrow> bool" where
  "foreign_lease requested current =
     (case (as_operation requested, as_operation current) of
        (Some req, Some stored) \<Rightarrow>
          leaseProtectedAction (op_Action stored) \<and> op_OperationStatus stored = OperationRunning \<and>
          op_LeaseOwner req \<noteq> op_LeaseOwner stored
      | _ \<Rightarrow> False)"

definition unclaimed_start :: "resource \<Rightarrow> bool" where
  "unclaimed_start r =
     (case r of Operation o' \<Rightarrow> leaseProtectedAction (op_Action o') \<and> op_OperationStatus o' = OperationRunning | _ \<Rightarrow> False)"

definition updated_metadata :: "time \<Rightarrow> string \<Rightarrow> metadata \<Rightarrow> metadata \<Rightarrow> metadata" where
  "updated_metadata now ident current m = m\<lparr>ID := ident, Revision := Revision current + 1,
     AppliedRevision := AppliedRevision current, State := ResourcePending, LastError := [],
     CreatedAt := CreatedAt current, UpdatedAt := now\<rparr>"

definition validate_graph :: "memory \<Rightarrow> err option" where
  "validate_graph s = first_err [validateAllReferencesLocked s, validateAllUniqueLocked s]"

definition Update :: "call_env \<Rightarrow> resource \<Rightarrow> int \<Rightarrow> string \<Rightarrow> memory \<Rightarrow> memory \<times> (err + resource \<times> bool)" where
  "Update env r expectedRevision key s =
     (if env_cancelled env then (s, Inl ErrContext)
      else if ID (GetMetadata r) = [] then (s, Inl ErrConflict)
      else
        let fp = resource_fingerprint (env_codec env) r (''expected='' @ dec_int expectedRevision);
            ident = ID (GetMetadata r);
            kind = ResourceKind r;
            scope = idempotencyScope ''update'' kind ident key
        in case replayLocked s scope fp of
             Inl e \<Rightarrow> (s, Inl e)
           | Inr (Some replay) \<Rightarrow> (s, Inr (replay, True))
           | Inr None \<Rightarrow>
               (case lookup s kind ident of
                  None \<Rightarrow> (s, Inl ErrNotFound)
                | Some current \<Rightarrow>
                    if expectedRevision < 1 \<or> Revision (GetMetadata current) \<noteq> expectedRevision
                    then (s, Inl ErrPrecondition)
                    else
                      let copy = on_floating MarkPending (SetDefaults r)
                      in case first_err
                           [conflict_if (foreign_lease copy current),
                            conflict_if (unclaimed_start copy),
                            Validate (env_codec env) copy,
                            validateReferencesLocked s copy,
                            validateNewReferenceStatesLocked s copy (Some current),
                            validateUniqueLocked s copy ident,
                            validate_graph (store_put kind ident copy s)] of
                           Some e \<Rightarrow> (s, Inl e)
                         | None \<Rightarrow>
                             let result = map_metadata (updated_metadata (env_now env) ident (GetMetadata current)) copy
                             in (rememberLocked scope fp result False (store_put kind ident result s), Inr (result, False))))"

section \<open>Leases of operations\<close>

definition claim_operation_record :: "string \<Rightarrow> time \<Rightarrow> operation \<Rightarrow> operation" where
  "claim_operation_record leaseOwner started o' = o'\<lparr>
     op_OperationStatus := OperationRunning,
     op_LeaseOwner := leaseOwner,
     op_StartedAt := Some started,
     op_CompletedAt := None,
     op_Error := [],
     op_meta := (op_meta o')\<lparr>Revision := Revision (op_meta o') + 1, State := ResourcePending, LastError := [],
                             UpdatedAt := started\<rparr>\<rparr>"

definition claimOperation ::
  "call_env \<Rightarrow> string \<Rightarrow> int \<Rightarrow> string \<Rightarrow> string \<Rightarrow> time \<Rightarrow> time \<Rightarrow> memory \<Rightarrow> memory \<times> (err + operation)" where
  "claimOperation env operationID expectedRevision action leaseOwner startedAt leaseCutoff s =
     (if env_cancelled env then (s, Inl ErrContext)
      else if \<not> validLeaseOwner leaseOwner then (s, Inl ErrConflict)
      else case get_as as_operation s KindOperation operationID of
             None \<Rightarrow> (s, Inl ErrNotFound)
           | Some stored \<Rightarrow>
               if expectedRevision < 1 \<or> Revision (op_meta stored) \<noteq> expectedRevision then (s, Inl ErrPrecondition)
               else if op_Action stored \<noteq> action then (s, Inl ErrConflict)
               else if op_OperationStatus stored = OperationRunning \<and> reconcileLeaseIsLive stored leaseCutoff
               then (s, Inl ErrConflict)
               else (case lookup s (op_TargetKind stored) (op_TargetID stored) of
                       None \<Rightarrow> (s, Inl ErrPrecondition)
                     | Some target \<Rightarrow>
                         if \<not> operationTargetClaimable stored (GetMetadata target) True then (s, Inl ErrPrecondition)
                         else
                           let claimed = claim_operation_record leaseOwner startedAt stored
                           in (store_put KindOperation operationID (Operation claimed) s, Inr claimed)))"

definition ClaimReconcile ::
  "call_env \<Rightarrow> string \<Rightarrow> int \<Rightarrow> string \<Rightarrow> time \<Rightarrow> time \<Rightarrow> memory \<Rightarrow> memory \<times> (err + operation)" where
  "ClaimReconcile env operationID expectedRevision leaseOwner startedAt leaseCutoff s =
     claimOperation env operationID expectedRevision ''reconcile'' leaseOwner startedAt leaseCutoff s"

definition ClaimDelete ::
  "call_env \<Rightarrow> string \<Rightarrow> int \<Rightarrow> string \<Rightarrow> time \<Rightarrow> time \<Rightarrow> memory \<Rightarrow> memory \<times> (err + operation)" where
  "ClaimDelete env operationID expectedRevision leaseOwner startedAt leaseCutoff s =
     claimOperation env operationID expectedRevision ''delete'' leaseOwner startedAt leaseCutoff s"

definition RenewOperationLease ::
  "call_env \<Rightarrow> string \<Rightarrow> int \<Rightarrow> string \<Rightarrow> time \<Rightarrow> memory \<Rightarrow> memory \<times> (err + operation)" where
  "RenewOperationLease env operationID expectedRevision leaseOwner renewedAt s =
     (if env_cancelled env then (s, Inl ErrContext)
      else case get_as as_operation s KindOperation operationID of
             None \<Rightarrow> (s, Inl ErrNotFound)
           | Some stored \<Rightarrow>
               if expectedRevision < 1 \<or> Revision (op_meta stored) \<noteq> expectedRevision then (s, Inl ErrPrecondition)
               else if \<not> leaseProtectedAction (op_Action stored) \<or> op_OperationStatus stored \<noteq> OperationRunning \<or>
                       leaseOwner = [] \<or> op_LeaseOwner stored \<noteq> leaseOwner
               then (s, Inl ErrConflict)
               else if (case lookup s (op_TargetKind stored) (op_TargetID stored) of
                          None \<Rightarrow> True
                        | Some target \<Rightarrow> \<not> operationTargetClaimable stored (GetMetadata target) False)
               then (s, Inl ErrPrecondition)
               else
                 let renewed = stored\<lparr>op_meta := (op_meta stored)\<lparr>Revision := Revision (op_meta stored) + 1,
                                                                UpdatedAt := renewedAt\<rparr>\<rparr>
                 in (store_put KindOperation operationID (Operation renewed) s, Inr renewed))"

definition fence_targets :: "kind \<Rightarrow> string \<Rightarrow> operation \<Rightarrow> bool" where
  "fence_targets kind ident o' \<longleftrightarrow>
     \<not> (op_Action o' \<noteq> ''reconcile'' \<or> op_TargetKind o' \<noteq> kind \<or> op_TargetID o' \<noteq> ident \<or>
        op_OperationStatus o' \<noteq> OperationRunning)"

text \<open>The loop over the operations with \<open>active\<close> and \<open>recovered\<close>; an iteration writes the row it visits.\<close>

fun fence_loop ::
  "kind \<Rightarrow> string \<Rightarrow> time \<Rightarrow> time \<Rightarrow> (string \<times> resource) list \<Rightarrow> bool \<Rightarrow> bool \<Rightarrow> memory \<Rightarrow> memory \<times> bool \<times> bool" where
  "fence_loop kind ident leaseCutoff recoveredAt [] active recovered s = (s, active, recovered)"
| "fence_loop kind ident leaseCutoff recoveredAt ((operationID, r) # rest) active recovered s =
     (case as_operation r of
        None \<Rightarrow> fence_loop kind ident leaseCutoff recoveredAt rest active recovered s
      | Some o' \<Rightarrow>
          if \<not> fence_targets kind ident o' then fence_loop kind ident leaseCutoff recoveredAt rest active recovered s
          else if reconcileLeaseIsLive o' leaseCutoff then fence_loop kind ident leaseCutoff recoveredAt rest True recovered s
          else fence_loop kind ident leaseCutoff recoveredAt rest active True
                 (store_put KindOperation operationID
                    (Operation (fail_operation ''reconcile lease expired while target was deleting'' recoveredAt o')) s))"

definition FenceReconciles ::
  "call_env \<Rightarrow> kind \<Rightarrow> string \<Rightarrow> time \<Rightarrow> time \<Rightarrow> memory \<Rightarrow> memory \<times> (err + bool \<times> bool)" where
  "FenceReconciles env kind ident leaseCutoff recoveredAt s =
     (if env_cancelled env then (s, Inl ErrContext)
      else let (s', active, recovered) = fence_loop kind ident leaseCutoff recoveredAt (rows s KindOperation) False False s
           in (s', Inr (active, recovered)))"

section \<open>Deletion\<close>

definition tombstone_metadata :: "time \<Rightarrow> metadata \<Rightarrow> metadata" where
  "tombstone_metadata now m = m\<lparr>Revision := Revision m + 1, State := ResourceDeleting, LastError := [], UpdatedAt := now\<rparr>"

definition BeginDelete ::
  "call_env \<Rightarrow> kind \<Rightarrow> string \<Rightarrow> int \<Rightarrow> string \<Rightarrow> memory \<Rightarrow> memory \<times> (err + resource \<times> bool)" where
  "BeginDelete env kind ident expectedRevision key s =
     (if env_cancelled env then (s, Inl ErrContext)
      else
        let fp = sha256 (env_codec env) (ident @ '':'' @ dec_int expectedRevision);
            scope = idempotencyScope ''delete'' kind ident key
        in case replayLocked s scope fp of
             Inl e \<Rightarrow> (s, Inl e)
           | Inr (Some replay) \<Rightarrow> (s, Inr (replay, True))
           | Inr None \<Rightarrow>
               (case lookup s kind ident of
                  None \<Rightarrow> (s, Inl ErrNotFound)
                | Some current \<Rightarrow>
                    if expectedRevision < 1 \<or> Revision (GetMetadata current) \<noteq> expectedRevision
                    then (s, Inl ErrPrecondition)
                    else if firstReferenceLocked s kind ident then (s, Inl ErrConflict)
                    else
                      let tombstone = on_floating MarkPending (map_metadata (tombstone_metadata (env_now env)) current)
                      in (rememberLocked scope fp tombstone True (store_put kind ident tombstone s), Inr (tombstone, False))))"

definition purge_protected :: "memory \<Rightarrow> kind \<Rightarrow> string \<Rightarrow> bool" where
  "purge_protected s kind ident =
     list_ex (\<lambda>o'. op_TargetKind o' = kind \<and> op_TargetID o' = ident \<and> op_OperationStatus o' = OperationRunning)
       (all_of as_operation s KindOperation)"

definition Purge :: "call_env \<Rightarrow> kind \<Rightarrow> string \<Rightarrow> int \<Rightarrow> memory \<Rightarrow> memory \<times> err option" where
  "Purge env kind ident deletionRevision s =
     (if env_cancelled env then (s, Some ErrContext)
      else case lookup s kind ident of
             None \<Rightarrow> (s, None)
           | Some current \<Rightarrow>
               let meta = GetMetadata current in
               if Revision meta \<noteq> deletionRevision then (s, Some ErrPrecondition)
               else if State meta \<noteq> ResourceDeleting \<and> State meta \<noteq> ResourceError then (s, Some ErrConflict)
               else if firstReferenceLocked s kind ident then (s, Some ErrConflict)
               else if purge_protected s kind ident then (s, Some ErrConflict)
               else (store_remove kind ident s, None))"

text \<open>\<open>Delete\<close> takes the lock twice; \<open>envB\<close> and \<open>envP\<close> are what its two calls read.\<close>

definition Delete ::
  "call_env \<Rightarrow> call_env \<Rightarrow> kind \<Rightarrow> string \<Rightarrow> int \<Rightarrow> string \<Rightarrow> memory \<Rightarrow> memory \<times> (err + bool)" where
  "Delete envB envP kind ident expectedRevision key s =
     (case BeginDelete envB kind ident expectedRevision key s of
        (s1, Inl e) \<Rightarrow> (s1, Inl e)
      | (s1, Inr (tombstone, replayed)) \<Rightarrow>
          (case Purge envP kind ident (Revision (GetMetadata tombstone)) s1 of
             (s2, Some e) \<Rightarrow> (s2, Inl e)
           | (s2, None) \<Rightarrow> (s2, Inr replayed)))"

section \<open>Reconciliation results\<close>

text \<open>\<open>renderErr\<close> is \<^term>\<open>None\<close> for \<open>nil\<close>, and the error's text otherwise. The method changes the
  stored row in place.\<close>

definition reconciled_resource :: "time \<Rightarrow> int \<Rightarrow> string option \<Rightarrow> resource \<Rightarrow> resource" where
  "reconciled_resource now revision renderErr r =
     (let meta = GetMetadata r in
      case renderErr of
        Some message \<Rightarrow>
          if revision = Revision meta
          then on_floating (\<lambda>f. floating_MarkReconciled f renderErr)
                 (map_metadata (\<lambda>m. m\<lparr>State := ResourceError, LastError := message, UpdatedAt := now\<rparr>) r)
          else r
      | None \<Rightarrow>
          let r1 = map_metadata (\<lambda>m. if revision > AppliedRevision m then m\<lparr>AppliedRevision := revision\<rparr> else m) r
          in if revision = Revision meta
             then on_floating (\<lambda>f. floating_MarkReconciled f None)
                    (map_metadata (\<lambda>m. m\<lparr>State := ResourceReady, LastError := [], UpdatedAt := now\<rparr>) r1)
             else r1)"

definition MarkReconciled ::
  "call_env \<Rightarrow> kind \<Rightarrow> string \<Rightarrow> int \<Rightarrow> string option \<Rightarrow> memory \<Rightarrow> memory \<times> (err + resource)" where
  "MarkReconciled env kind ident revision renderErr s =
     (if env_cancelled env then (s, Inl ErrContext)
      else case lookup s kind ident of
             None \<Rightarrow> (s, Inl ErrNotFound)
           | Some r \<Rightarrow>
               if revision > Revision (GetMetadata r) then (s, Inl ErrPrecondition)
               else let r' = reconciled_resource (env_now env) revision renderErr r
                    in (store_put kind ident r' s, Inr r'))"

end
