(* ===== verification/Store_Facts.thy ===== *)
theory Store_Facts
  imports Memory_Ops
begin

text \<open>
  Facts the proofs about the control store share: the resource table behaves as a map; what
  the loops over rows find; the part of a resource that references, uniqueness and address
  claims depend on (\<open>core\<close>); and what the reference and uniqueness checks mean.
\<close>

section \<open>The resource table as a map\<close>

text \<open>The contract of a table with lookup, insertion and removal, and what its clients use:
  a property of all rows survives a write of a good row and every removal.\<close>

locale keyed_table =
  fixes get :: "'s \<Rightarrow> 'k \<Rightarrow> 'v option"
    and put :: "'k \<Rightarrow> 'v \<Rightarrow> 's \<Rightarrow> 's"
    and remove :: "'k \<Rightarrow> 's \<Rightarrow> 's"
  assumes get_put: "get (put k v s) x = (if x = k then Some v else get s x)"
    and get_remove: "get (remove k s) x = (if x = k then None else get s x)"
begin

lemma all_put: "(\<And>x v'. get s x = Some v' \<Longrightarrow> P x v') \<Longrightarrow> P k v \<Longrightarrow> get (put k v s) x = Some v' \<Longrightarrow> P x v'"
  by (auto simp: get_put split: if_splits)

lemma all_remove: "(\<And>x v'. get s x = Some v' \<Longrightarrow> P x v') \<Longrightarrow> get (remove k s) x = Some v' \<Longrightarrow> P x v'"
  by (auto simp: get_remove split: if_splits)

lemma put_keeps_keys: "get s x \<noteq> None \<Longrightarrow> get (put k v s) x \<noteq> None"
  by (simp add: get_put)

lemma put_put: "get (put k v (put k w s)) x = get (put k v s) x"
  by (simp add: get_put)

end

lemma lookup_put [simp]: "lookup (store_put k i r s) k' i' = (if (k', i') = (k, i) then Some r else lookup s k' i')"
  by (simp add: lookup_def store_put_def table_simps)

lemma lookup_remove [simp]: "lookup (store_remove k i s) k' i' = (if (k', i') = (k, i) then None else lookup s k' i')"
  by (simp add: lookup_def store_remove_def table_simps)

interpretation table: keyed_table "\<lambda>s (k, i). lookup s k i" "\<lambda>(k, i). store_put k i" "\<lambda>(k, i). store_remove k i"
  by unfold_locales (simp_all split: prod.splits)

lemma lookup_idempotency [simp]: "lookup (s\<lparr>idempotency := x\<rparr>) = lookup s"
  by (simp add: lookup_def fun_eq_iff)

lemma resources_remember [simp]: "resources (rememberLocked scope fp r d s) = resources s"
  by (simp add: rememberLocked_def)

lemma lookup_remember [simp]: "lookup (rememberLocked scope fp r d s) = lookup s"
  by (simp add: lookup_def fun_eq_iff)

definition keys_ok :: "memory \<Rightarrow> bool" where
  "keys_ok s \<longleftrightarrow> distinct (map fst (resources s))"

lemma keys_ok_put [simp]: "keys_ok s \<Longrightarrow> keys_ok (store_put k i r s)"
  by (simp add: keys_ok_def store_put_def distinct_keys_update)

lemma keys_ok_remove [simp]: "keys_ok s \<Longrightarrow> keys_ok (store_remove k i s)"
  by (simp add: keys_ok_def store_remove_def distinct_keys_delete)

lemma keys_ok_remember [simp]: "keys_ok (rememberLocked scope fp r d s) = keys_ok s"
  by (simp add: keys_ok_def)

lemma keys_ok_idempotency [simp]: "keys_ok (s\<lparr>idempotency := x\<rparr>) = keys_ok s"
  by (simp add: keys_ok_def)

lemma mem_resources: "keys_ok s \<Longrightarrow> ((k, i), r) \<in> set (resources s) \<longleftrightarrow> lookup s k i = Some r"
  by (simp add: keys_ok_def lookup_def)

lemma mem_rows_resources: "(i, r) \<in> set (rows s k) \<longleftrightarrow> ((k, i), r) \<in> set (resources s)"
  by (auto simp: rows_def image_iff split: prod.splits)

lemma mem_rows: "keys_ok s \<Longrightarrow> (i, r) \<in> set (rows s k) \<longleftrightarrow> lookup s k i = Some r"
  by (simp add: mem_rows_resources mem_resources)

lemma distinct_rows: "keys_ok s \<Longrightarrow> distinct (map fst (rows s k))"
proof -
  have "distinct (map fst al) \<Longrightarrow>
      distinct (map fst (map (\<lambda>((_, i), r). (i, r)) (filter (\<lambda>((k', _), _). k' = k) al)))"
    for al :: "((kind \<times> string) \<times> resource) list"
    by (induction al) (auto split: prod.splits, force)
  then show "keys_ok s \<Longrightarrow> ?thesis" by (simp add: keys_ok_def rows_def)
qed

lemma mem_map_filter: "x \<in> set (List.map_filter f xs) \<longleftrightarrow> (\<exists>y \<in> set xs. f y = Some x)"
  by (force simp: List.map_filter_def)

lemma mem_all_of: "keys_ok s \<Longrightarrow> x \<in> set (all_of as s k) \<longleftrightarrow> (\<exists>i r. lookup s k i = Some r \<and> as r = Some x)"
  by (auto simp: all_of_def mem_map_filter mem_rows split: prod.splits) (metis mem_rows)

lemma as_Some [simp]:
  "as_network r = Some n \<longleftrightarrow> r = Network n" "as_subnet r = Some u \<longleftrightarrow> r = Subnet u"
  "as_port r = Some p \<longleftrightarrow> r = Port p" "as_router r = Some t \<longleftrightarrow> r = Router t"
  "as_router_interface r = Some ri \<longleftrightarrow> r = RouterInterface ri" "as_floating_ip r = Some f \<longleftrightarrow> r = FloatingIP f"
  "as_provider_network r = Some pn \<longleftrightarrow> r = ProviderNetwork pn" "as_provider_segment r = Some ps \<longleftrightarrow> r = ProviderSegment ps"
  "as_node r = Some nd \<longleftrightarrow> r = Node nd" "as_operation r = Some o' \<longleftrightarrow> r = Operation o'"
  "as_ip_allocation r = Some a \<longleftrightarrow> r = IPAllocation a" "as_security_group r = Some g \<longleftrightarrow> r = SecurityGroup g"
  by (cases r; auto)+

lemma get_as_Some: "get_as as s k i = Some x \<longleftrightarrow> (\<exists>r. lookup s k i = Some r \<and> as r = Some x)"
  by (auto simp: get_as_def bind_eq_Some_conv)

lemma and_then_None [check_simps]: "and_then v f = None \<longleftrightarrow> (\<exists>x. v = Inr x \<and> f x = None)"
  by (auto simp: and_then_def split: sum.splits)

lemma requireLocked_Inr [check_simps]: "requireLocked as s k i = Inr x \<longleftrightarrow> get_as as s k i = Some x"
  by (auto simp: requireLocked_def split: option.splits)

lemma conflict_if_None [check_simps]: "conflict_if b = None \<longleftrightarrow> \<not> b"
  by (simp add: conflict_if_def check_simps)

section \<open>The core of a resource\<close>

text \<open>What the store's bookkeeping never changes: everything but the metadata and the runtime
  fields of floating addresses, nodes and operations.\<close>

definition blank_metadata :: metadata where
  "blank_metadata = \<lparr>ID = [], Revision = 0, AppliedRevision = 0, State = ResourceUnset, LastError = [],
     CreatedAt = 0, UpdatedAt = 0\<rparr>"

definition core_operation :: "operation \<Rightarrow> operation" where
  "core_operation o' = o'\<lparr>op_OperationStatus := OperationUnset, op_LeaseOwner := [], op_StartedAt := None,
     op_CompletedAt := None, op_Error := []\<rparr>"

definition core :: "resource \<Rightarrow> resource" where
  "core r =
     (case map_metadata (\<lambda>_. blank_metadata) r of
        FloatingIP f \<Rightarrow> FloatingIP (f\<lparr>flt_FloatingStatus := FloatingIPUnset\<rparr>)
      | Node n \<Rightarrow> Node (n\<lparr>node_LastSeenAt := None\<rparr>)
      | Operation o' \<Rightarrow> Operation (core_operation o')
      | r' \<Rightarrow> r')"

lemma core_map [simp]: "core (map_metadata f r) = core r"
  by (cases r) (simp_all add: core_def core_operation_def)

lemma core_floating [simp]:
  "core (on_floating MarkPending r) = core r" "core (on_floating (\<lambda>f. floating_MarkReconciled f e) r) = core r"
  by (cases r; simp add: core_def on_floating_def MarkPending_def floating_MarkReconciled_def)+

lemma core_node [simp]: "core (Node (n\<lparr>node_LastSeenAt := x\<rparr>)) = core (Node n)"
  by (simp add: core_def)

lemma core_claim [simp]: "core (Operation (claim_operation_record w t o')) = core (Operation o')"
  by (simp add: core_def core_operation_def claim_operation_record_def)

lemma core_fail [simp]: "core (Operation (fail_operation m t o')) = core (Operation o')"
  by (simp add: core_def core_operation_def fail_operation_def)

lemma core_operation_meta [simp]: "core (Operation (o'\<lparr>op_meta := m\<rparr>)) = core (Operation o')"
  by (simp add: core_def core_operation_def)

lemma ResourceKind_core [simp]: "ResourceKind (core r) = ResourceKind r"
  by (cases r) (simp_all add: core_def)

lemma references_core [simp]: "references (core r) = references r"
  by (cases r) (simp_all add: core_def fun_eq_iff portHasSubnet_def)

lemma port_conflict_meta [simp]:
  "port_conflict (port_meta_update f l) r = port_conflict l r" "port_conflict l (port_meta_update f r) = port_conflict l r"
  by (simp_all add: port_conflict_def cong: if_cong)

lemma conflictField_core_left: "conflictField (core r) x = conflictField r x"
  by (cases r; cases x) (simp_all add: core_def core_operation_def same_type_def)

lemma conflictField_core_right: "conflictField x (core r) = conflictField x r"
  by (cases r; cases x) (simp_all add: core_def core_operation_def same_type_def)

lemma claims_core: "externalAddressClaimsLocked s (core r) = externalAddressClaimsLocked s r"
  by (cases r) (simp_all add: core_def externalAddressClaimsLocked_def cong: option.case_cong)

lemma core_cong:
  assumes "core a = core b"
  shows "ResourceKind a = ResourceKind b" "references a = references b" "conflictField a x = conflictField b x"
    "conflictField x a = conflictField x b" "externalAddressClaimsLocked s a = externalAddressClaimsLocked s b"
  using assms ResourceKind_core references_core conflictField_core_left conflictField_core_right claims_core
  by metis+

lemma core_Network:
  assumes "core a = core (Network n)"
  shows "\<exists>n'. a = Network n' \<and> net_ProviderNetworkID n' = net_ProviderNetworkID n"
proof (cases a)
  case (Network m)
  then show ?thesis using assms by (cases m; cases n) (auto simp: core_def)
qed (use assms in \<open>auto simp: core_def\<close>)

lemma core_Operation:
  assumes "core a = core (Operation p)"
  shows "\<exists>o'. a = Operation o' \<and> op_Action o' = op_Action p \<and> op_TargetKind o' = op_TargetKind p \<and>
     op_TargetID o' = op_TargetID p \<and> op_TargetRevision o' = op_TargetRevision p"
proof (cases a)
  case (Operation o')
  then show ?thesis using assms by (cases o'; cases p) (auto simp: core_def core_operation_def)
qed (use assms in \<open>auto simp: core_def\<close>)

section \<open>Loops over rows\<close>

lemma list_ex_resources:
  "keys_ok s \<Longrightarrow> list_ex (\<lambda>((k, i), r). P k i r) (resources s) \<longleftrightarrow> (\<exists>k i r. lookup s k i = Some r \<and> P k i r)"
  by (fastforce simp: list_ex_iff mem_resources [symmetric])

lemma list_ex_rows:
  "keys_ok s \<Longrightarrow> list_ex (\<lambda>(i, r). P i r) (rows s k) \<longleftrightarrow> (\<exists>i r. lookup s k i = Some r \<and> P i r)"
  by (fastforce simp: list_ex_iff mem_rows [symmetric])

section \<open>What the reference checks give\<close>

lemma required_nonempty [dest]: "required f v = None \<Longrightarrow> v \<noteq> []"
  by (auto simp: required_def check_simps trim_space_def)

lemma require_lookup: "get_as as s k i = Some x \<Longrightarrow> lookup s k i \<noteq> None"
  by (auto simp: get_as_Some)

lemmas reference_checks = check_simps validate_port_refs_def validate_allocation_refs_def validate_router_refs_def
  validate_interface_refs_def validate_floating_refs_def

lemma references_exist:
  assumes "Validate cd r = None" "validateReferencesLocked s r = None" "references r k i" "i \<noteq> []"
  shows "lookup s k i \<noteq> None"
proof (cases r)
  case (Port p)
  with assms show ?thesis
    by (auto simp: reference_checks portHasSubnet_def list_ex_iff dest!: require_lookup)
next
  case (Router x)
  have "rtr_ExternalNetworkID x = [] \<Longrightarrow> rtr_ExternalSubnetID x = []"
    using assms(1) Router by (auto simp: validateRouter_def check_simps)
  with Router assms show ?thesis
    by (auto simp: reference_checks dest!: require_lookup split: if_splits)
qed (use assms in \<open>auto simp: reference_checks dest!: require_lookup split: if_splits\<close>)

section \<open>What the uniqueness checks give\<close>

definition typed :: "memory \<Rightarrow> bool" where
  "typed s \<longleftrightarrow> (\<forall>k i r. lookup s k i = Some r \<longrightarrow> ResourceKind r = k)"

definition apart :: "memory \<Rightarrow> resource \<Rightarrow> resource \<Rightarrow> bool" where
  "apart s a b \<longleftrightarrow> (ResourceKind a = ResourceKind b \<longrightarrow> conflictField a b = []) \<and>
     set (externalAddressClaimsLocked s a) \<inter> set (externalAddressClaimsLocked s b) = {}"

definition pairwise_unique :: "memory \<Rightarrow> bool" where
  "pairwise_unique s \<longleftrightarrow>
     (\<forall>k i a k' i' b. lookup s k i = Some a \<longrightarrow> lookup s k' i' = Some b \<longrightarrow> (k, i) \<noteq> (k', i') \<longrightarrow> apart s a b)"

lemma claims_kind:
  "c \<in> set (externalAddressClaimsLocked s r) \<Longrightarrow> ResourceKind r \<in> {KindSubnet, KindRouter, KindFloatingIP}"
  by (cases r) (auto simp: externalAddressClaimsLocked_def)

lemma validateUnique_None:
  assumes "keys_ok s" "typed s"
  shows "validateUniqueLocked s a i = None \<longleftrightarrow>
    (\<forall>k' i' b. lookup s k' i' = Some b \<longrightarrow> (k', i') \<noteq> (ResourceKind a, i) \<longrightarrow> apart s a b)"
proof -
  have kind: "lookup s k' i' = Some b \<Longrightarrow> ResourceKind b = k'" for k' i' b
    using assms(2) by (auto simp: typed_def)
  have "validateUniqueLocked s a i = None \<longleftrightarrow>
      (\<forall>i' b. lookup s (ResourceKind a) i' = Some b \<longrightarrow> i' \<noteq> i \<longrightarrow> conflictField a b = []) \<and>
      (\<forall>c \<in> set (externalAddressClaimsLocked s a). \<forall>k' \<in> {KindSubnet, KindRouter, KindFloatingIP}. \<forall>i' b.
         lookup s k' i' = Some b \<longrightarrow> (k', i') \<noteq> (ResourceKind a, i) \<longrightarrow> c \<notin> set (externalAddressClaimsLocked s b))"
    unfolding validateUniqueLocked_def list_ex_rows [OF assms(1)] by (simp add: check_simps list_ex_iff) meson
  also have "\<dots> \<longleftrightarrow> (\<forall>k' i' b. lookup s k' i' = Some b \<longrightarrow> (k', i') \<noteq> (ResourceKind a, i) \<longrightarrow> apart s a b)"
    (is "?conf \<and> ?clm \<longleftrightarrow> ?ap")
  proof
    assume *: "?conf \<and> ?clm"
    show ?ap
    proof (intro allI impI)
      fix k' i' b assume b: "lookup s k' i' = Some b" "(k', i') \<noteq> (ResourceKind a, i)"
      have "conflictField a b = []" if "ResourceKind a = ResourceKind b"
        using * b that kind [OF b(1)] by simp
      moreover have "c \<notin> set (externalAddressClaimsLocked s b)" if "c \<in> set (externalAddressClaimsLocked s a)" for c
        using * b that kind [OF b(1)] claims_kind [of c s b] by (cases "c \<in> set (externalAddressClaimsLocked s b)") blast+
      ultimately show "apart s a b" by (auto simp: apart_def)
    qed
  next
    assume ?ap
    then show "?conf \<and> ?clm" using kind unfolding apart_def by (metis disjoint_iff prod.inject)
  qed
  finally show ?thesis .
qed

lemma validateAllUnique_None:
  assumes "keys_ok s" "typed s"
  shows "validateAllUniqueLocked s = None \<longleftrightarrow> pairwise_unique s"
proof -
  have "validateAllUniqueLocked s = None \<longleftrightarrow> (\<forall>k i a. lookup s k i = Some a \<longrightarrow> validateUniqueLocked s a i = None)"
    unfolding validateAllUniqueLocked_def conflict_if_None list_ex_resources [OF assms(1)] by metis
  also have "\<dots> \<longleftrightarrow> pairwise_unique s"
    unfolding validateUnique_None [OF assms] pairwise_unique_def using assms(2) unfolding typed_def by blast
  finally show ?thesis .
qed

lemma equal_fold_sym: "equal_fold a b \<longleftrightarrow> equal_fold b a"
  by (auto simp: equal_fold_def)

lemma equal_fold_empty: "equal_fold a b \<Longrightarrow> a = [] \<longleftrightarrow> b = []"
  by (auto simp: equal_fold_def to_lower_def)

lemma port_conflict_Nil:
  "port_conflict a b = [] \<longleftrightarrow>
     \<not> (port_MACAddress a \<noteq> [] \<and> equal_fold (port_MACAddress a) (port_MACAddress b)) \<and>
     \<not> (port_LSPName a \<noteq> [] \<and> port_LSPName a = port_LSPName b) \<and>
     \<not> (port_NodeID a \<noteq> [] \<and> port_VMID a > 0 \<and> port_NIC a \<noteq> [] \<and>
        port_NodeID a = port_NodeID b \<and> port_VMID a = port_VMID b \<and> port_NIC a = port_NIC b) \<and>
     (\<forall>x \<in> set (port_FixedIPs a). \<forall>y \<in> set (port_FixedIPs b).
        fip_Address x = [] \<or> \<not> (fip_SubnetID x = fip_SubnetID y \<and> fip_Address x = fip_Address y))"
proof -
  have if4: "(if A then c1 # s1 else if B then c2 # s2 else if C then c3 # s3 else if D then c4 # s4 else []) = []
      \<longleftrightarrow> \<not> A \<and> \<not> B \<and> \<not> C \<and> \<not> D" for A B C D and c1 c2 c3 c4 :: char and s1 s2 s3 s4 by simp
  show ?thesis unfolding port_conflict_def if4 list_ex_iff by blast
qed

lemma port_conflict_sym: "port_conflict a b = [] \<longleftrightarrow> port_conflict b a = []"
proof -
  have "port_conflict b a = []" if "port_conflict a b = []" for a b
  proof -
    note c = that [unfolded port_conflict_Nil]
    show ?thesis unfolding port_conflict_Nil
    proof (intro conjI)
      show "\<not> (port_MACAddress b \<noteq> [] \<and> equal_fold (port_MACAddress b) (port_MACAddress a))"
        using c equal_fold_sym equal_fold_empty by metis
      show "\<forall>x \<in> set (port_FixedIPs b). \<forall>y \<in> set (port_FixedIPs a).
        fip_Address x = [] \<or> \<not> (fip_SubnetID x = fip_SubnetID y \<and> fip_Address x = fip_Address y)"
        using c by metis
    qed (use c in metis)+
  qed
  then show ?thesis by blast
qed

lemma overlap_sym: "IPv4PrefixesOverlap a b \<longleftrightarrow> IPv4PrefixesOverlap b a"
  by (auto simp: IPv4PrefixesOverlap_def Let_def split: option.splits)

lemma conflictField_sym: "conflictField a b = [] \<longleftrightarrow> conflictField b a = []"
  using port_conflict_sym overlap_sym by (cases a; cases b) (auto simp: same_type_def)

lemma apart_sym: "apart s a b \<longleftrightarrow> apart s b a"
  using conflictField_sym by (auto simp: apart_def)

text \<open>Address claims of a row depend on the store only through the provider of one network.\<close>

definition provider_at :: "memory \<Rightarrow> string \<Rightarrow> string option" where
  "provider_at s i = map_option net_ProviderNetworkID (get_as as_network s KindNetwork i)"

definition claim_network :: "resource \<Rightarrow> string" where
  "claim_network r = (case r of Subnet x \<Rightarrow> sub_NetworkID x | Router x \<Rightarrow> rtr_ExternalNetworkID x | _ \<Rightarrow> [])"

lemma claims_cong:
  assumes "ResourceKind r \<in> {KindSubnet, KindRouter} \<Longrightarrow> provider_at s (claim_network r) = provider_at t (claim_network r)"
  shows "externalAddressClaimsLocked s r = externalAddressClaimsLocked t r"
  using assms
  by (cases r; cases "get_as as_network s KindNetwork (claim_network r)"; cases "get_as as_network t KindNetwork (claim_network r)")
     (simp_all add: externalAddressClaimsLocked_def provider_at_def claim_network_def)

lemma claims_remember [simp]:
  "externalAddressClaimsLocked (rememberLocked scope fp x d s) r = externalAddressClaimsLocked s r"
  "externalAddressClaimsLocked (s\<lparr>idempotency := y\<rparr>) r = externalAddressClaimsLocked s r"
  by (rule claims_cong, simp add: provider_at_def get_as_def)+

lemma pairwise_remember [simp]: "pairwise_unique (rememberLocked scope fp x d s) = pairwise_unique s"
  "pairwise_unique (s\<lparr>idempotency := y\<rparr>) = pairwise_unique s"
  by (simp_all add: pairwise_unique_def apart_def)

lemma validateNewReferenceStates_None:
  "keys_ok s \<Longrightarrow> validateNewReferenceStatesLocked s candidate previous = None \<longleftrightarrow>
     (\<forall>k i target. lookup s k i = Some target \<longrightarrow> references candidate k i \<longrightarrow>
        (case previous of None \<Rightarrow> False | Some p \<Rightarrow> references p k i) \<or>
        State (GetMetadata target) \<notin> {ResourceDeleting, ResourceError})"
  unfolding validateNewReferenceStatesLocked_def conflict_if_None by (subst list_ex_resources) auto

end
