(* ===== verification/Store_Invariant.thy ===== *)
theory Store_Invariant
  imports Store_Facts
begin

text \<open>
  The invariant of the control store and its preservation by every operation: rows are
  stored under their own kind and id and pass validation, revisions are ordered, no
  reference dangles, uniqueness holds for every pair of rows, and a running claim has an
  owner, a start and a target that is still there. The step relation takes one call of any
  method, with any arguments; the properties hold in every reachable state.
\<close>

section \<open>The invariant\<close>

definition running_claim :: "operation \<Rightarrow> bool" where
  "running_claim o' \<longleftrightarrow> leaseProtectedAction (op_Action o') \<and> op_OperationStatus o' = OperationRunning"

fun claim_started :: "resource \<Rightarrow> bool" where
  "claim_started (Operation o') = (running_claim o' \<longrightarrow> op_StartedAt o' \<noteq> None)"
| "claim_started _ = True"

definition row_ok :: "codec \<Rightarrow> kind \<Rightarrow> string \<Rightarrow> resource \<Rightarrow> bool" where
  "row_ok cd k i r \<longleftrightarrow> ResourceKind r = k \<and> ID (GetMetadata r) = i \<and> i \<noteq> [] \<and>
     1 \<le> Revision (GetMetadata r) \<and> 0 \<le> AppliedRevision (GetMetadata r) \<and>
     AppliedRevision (GetMetadata r) \<le> Revision (GetMetadata r) \<and> Validate cd r = None \<and> claim_started r"

definition rows_ok :: "codec \<Rightarrow> memory \<Rightarrow> bool" where
  "rows_ok cd s \<longleftrightarrow> (\<forall>k i r. lookup s k i = Some r \<longrightarrow> row_ok cd k i r)"

definition refs_ok :: "memory \<Rightarrow> bool" where
  "refs_ok s \<longleftrightarrow> (\<forall>k i r k' i'. lookup s k i = Some r \<longrightarrow> references r k' i' \<longrightarrow> i' \<noteq> [] \<longrightarrow> lookup s k' i' \<noteq> None)"

definition target_held :: "memory \<Rightarrow> operation \<Rightarrow> bool" where
  "target_held s o' \<longleftrightarrow>
     (\<exists>t. lookup s (op_TargetKind o') (op_TargetID o') = Some t \<and> op_TargetRevision o' \<le> Revision (GetMetadata t))"

definition claims_held :: "memory \<Rightarrow> bool" where
  "claims_held s \<longleftrightarrow> (\<forall>k i o'. lookup s k i = Some (Operation o') \<longrightarrow> running_claim o' \<longrightarrow> target_held s o')"

definition store_inv :: "codec \<Rightarrow> memory \<Rightarrow> bool" where
  "store_inv cd s \<longleftrightarrow> keys_ok s \<and> rows_ok cd s \<and> refs_ok s \<and> claims_held s \<and> pairwise_unique s"

lemma store_invD:
  assumes "store_inv cd s"
  shows "keys_ok s" "rows_ok cd s" "refs_ok s" "claims_held s" "pairwise_unique s" "typed s"
  using assms by (auto simp: store_inv_def typed_def rows_ok_def row_ok_def)

lemma row_okD:
  assumes "store_inv cd s" "lookup s k i = Some r"
  shows "row_ok cd k i r" "ResourceKind r = k" "ID (GetMetadata r) = i" "i \<noteq> []" "Validate cd r = None"
  using assms by (auto simp: store_inv_def rows_ok_def row_ok_def)

lemma store_inv_remember [simp]:
  "store_inv cd (rememberLocked scope fp x d s) = store_inv cd s" "store_inv cd (s\<lparr>idempotency := y\<rparr>) = store_inv cd s"
  by (simp_all add: store_inv_def rows_ok_def refs_ok_def claims_held_def target_held_def)

lemma store_inv_NewMemory: "store_inv cd NewMemory"
  by (simp add: store_inv_def NewMemory_def keys_ok_def rows_ok_def refs_ok_def claims_held_def pairwise_unique_def
      lookup_def)

section \<open>Writes that keep it\<close>

lemma rows_ok_put: "rows_ok cd s \<Longrightarrow> row_ok cd k i r \<Longrightarrow> rows_ok cd (store_put k i r s)"
  by (simp add: rows_ok_def)

lemma refs_ok_put:
  assumes "refs_ok s" "\<And>k' i'. references r k' i' \<Longrightarrow> i' \<noteq> [] \<Longrightarrow> lookup s k' i' \<noteq> None"
  shows "refs_ok (store_put k i r s)"
  unfolding refs_ok_def lookup_put
proof (intro allI impI)
  fix k1 i1 r1 k' i'
  assume *: "(if (k1, i1) = (k, i) then Some r else lookup s k1 i1) = Some r1" "references r1 k' i'" "i' \<noteq> []"
  then have "lookup s k' i' \<noteq> None"
    using assms unfolding refs_ok_def by (metis option.inject)
  then show "(if (k', i') = (k, i) then Some r else lookup s k' i') \<noteq> None" by simp
qed

lemma target_held_put:
  assumes "target_held s o'" "\<And>cur. lookup s k i = Some cur \<Longrightarrow> Revision (GetMetadata cur) \<le> Revision (GetMetadata r)"
  shows "target_held (store_put k i r s) o'"
  using assms by (fastforce simp: target_held_def)

lemma claims_held_put:
  assumes "claims_held s" "\<And>o'. r = Operation o' \<Longrightarrow> running_claim o' \<Longrightarrow> target_held s o'"
    and "\<And>cur. lookup s k i = Some cur \<Longrightarrow> Revision (GetMetadata cur) \<le> Revision (GetMetadata r)"
  shows "claims_held (store_put k i r s)"
  unfolding claims_held_def
proof (intro allI impI)
  fix k1 i1 o'
  assume *: "lookup (store_put k i r s) k1 i1 = Some (Operation o')" "running_claim o'"
  then have "target_held s o'"
    using assms(1,2) by (auto simp: claims_held_def split: if_splits)
  then show "target_held (store_put k i r s) o'" by (rule target_held_put) (rule assms(3))
qed

text \<open>A row whose core is unchanged does not touch uniqueness.\<close>

lemma provider_at_put_core:
  assumes "lookup s k i = Some r" "core r' = core r"
  shows "provider_at (store_put k i r' s) j = provider_at s j"
proof (cases "(k, i) = (KindNetwork, j)")
  case True
  show ?thesis
  proof (cases r)
    case (Network n)
    then obtain n' where "r' = Network n'" "net_ProviderNetworkID n' = net_ProviderNetworkID n"
      using core_Network assms(2) by blast
    with Network True assms(1) show ?thesis by (simp add: provider_at_def get_as_def)
  qed (use True assms core_cong(1) [OF assms(2)] in \<open>cases r'; simp add: provider_at_def get_as_def\<close>)+
qed (auto simp: provider_at_def get_as_def)

lemma apart_core:
  "core a = core a' \<Longrightarrow> core b = core b' \<Longrightarrow> apart s a b = apart s a' b'"
  unfolding apart_def by (simp add: core_cong [of a a'] core_cong [of b b'])

lemma pairwise_put_core:
  assumes "pairwise_unique s" "lookup s k i = Some r" "core r' = core r"
  shows "pairwise_unique (store_put k i r' s)"
proof -
  have claims: "externalAddressClaimsLocked (store_put k i r' s) x = externalAddressClaimsLocked s x" for x
    by (rule claims_cong) (rule provider_at_put_core [OF assms(2,3)])
  have row: "\<exists>b. lookup s k1 i1 = Some b \<and> core b = core a" if "lookup (store_put k i r' s) k1 i1 = Some a" for k1 i1 a
    using that assms(2,3) by (auto split: if_splits)
  show ?thesis
    unfolding pairwise_unique_def
  proof (intro allI impI)
    fix k1 i1 a k2 i2 b
    assume "lookup (store_put k i r' s) k1 i1 = Some a" "lookup (store_put k i r' s) k2 i2 = Some b" "(k1, i1) \<noteq> (k2, i2)"
    then obtain a' b' where "lookup s k1 i1 = Some a'" "core a' = core a" "lookup s k2 i2 = Some b'" "core b' = core b"
      "(k1, i1) \<noteq> (k2, i2)" using row by blast
    then have "apart s a b" using assms(1) apart_core unfolding pairwise_unique_def by metis
    then show "apart (store_put k i r' s) a b" by (simp add: apart_def claims)
  qed
qed

text \<open>Bookkeeping on a stored row: metadata, lease and status.\<close>

lemma tweak_inv:
  assumes inv: "store_inv cd s" and row: "lookup s k i = Some r"
    and "core r' = core r" "Revision (GetMetadata r) \<le> Revision (GetMetadata r')" "row_ok cd k i r'"
    and "\<And>o'. r' = Operation o' \<Longrightarrow> running_claim o' \<Longrightarrow> target_held s o'"
  shows "store_inv cd (store_put k i r' s)"
proof -
  have "lookup s k' i' \<noteq> None" if "references r' k' i'" "i' \<noteq> []" for k' i'
    using that row store_invD(3) [OF inv] core_cong(2) [OF assms(3)] by (auto simp: refs_ok_def)
  then show ?thesis
    using store_invD [OF inv] assms
    by (auto simp: store_inv_def intro!: rows_ok_put refs_ok_put claims_held_put pairwise_put_core)
qed

text \<open>A running claim keeps its target when its own row is rewritten.\<close>

lemma held_core:
  assumes "store_inv cd s" "lookup s k i = Some r" "core r' = core r" "r' = Operation o'"
    and "\<And>p. r = Operation p \<Longrightarrow> running_claim p"
  shows "target_held s o'"
proof -
  obtain p where p: "r = Operation p" "op_TargetKind p = op_TargetKind o'" "op_TargetID p = op_TargetID o'"
      "op_TargetRevision p = op_TargetRevision o'"
    using core_Operation [of r o'] assms(3,4) by auto
  then have "target_held s p" using assms store_invD(4) [OF assms(1)] by (auto simp: claims_held_def)
  with p show ?thesis by (simp add: target_held_def)
qed

lemma replace_inv:
  assumes inv: "store_inv cd s" and row: "lookup s k i = Some cur"
    and "row_ok cd k i r" "Revision (GetMetadata cur) \<le> Revision (GetMetadata r)"
    and "\<And>o'. r = Operation o' \<Longrightarrow> \<not> running_claim o'"
    and "\<And>k' i'. references r k' i' \<Longrightarrow> i' \<noteq> [] \<Longrightarrow> lookup s k' i' \<noteq> None"
    and "pairwise_unique (store_put k i r s)"
  shows "store_inv cd (store_put k i r s)"
  using store_invD [OF inv] assms
  by (auto simp: store_inv_def intro!: rows_ok_put refs_ok_put claims_held_put)

text \<open>A network that no row refers to does not take part in any address claim.\<close>

lemma claim_network_cases:
  assumes "store_inv cd s" "lookup s k i = Some b" "ResourceKind b \<in> {KindSubnet, KindRouter}"
  shows "claim_network b = [] \<or> references b KindNetwork (claim_network b)"
  using assms(3) by (cases b) (auto simp: claim_network_def)

lemma no_empty_id: "store_inv cd s \<Longrightarrow> lookup s k [] = None"
  using row_okD(4) by (cases "lookup s k []") blast+

lemma claims_put_fresh:
  assumes "store_inv cd s" "lookup s k i = None" "i \<noteq> []" "lookup s k' i' = Some b"
  shows "externalAddressClaimsLocked (store_put k i r s) b = externalAddressClaimsLocked s b"
proof (rule claims_cong)
  assume "ResourceKind b \<in> {KindSubnet, KindRouter}"
  then have "claim_network b = [] \<or> lookup s KindNetwork (claim_network b) \<noteq> None"
    using claim_network_cases [OF assms(1,4)] store_invD(3) [OF assms(1)] assms(4) unfolding refs_ok_def by metis
  then show "provider_at (store_put k i r s) (claim_network b) = provider_at s (claim_network b)"
    using assms(2,3) by (auto simp: provider_at_def get_as_def)
qed

lemma claims_put_self:
  "ResourceKind r = k \<Longrightarrow> externalAddressClaimsLocked (store_put k i r s) r = externalAddressClaimsLocked s r"
  by (rule claims_cong) (auto simp: provider_at_def get_as_def)

lemma insert_inv:
  assumes inv: "store_inv cd s" and new: "lookup s k i = None" and ok: "row_ok cd k i r"
    and "\<And>o'. r = Operation o' \<Longrightarrow> \<not> running_claim o'"
    and "\<And>k' i'. references r k' i' \<Longrightarrow> i' \<noteq> [] \<Longrightarrow> lookup s k' i' \<noteq> None"
    and ap: "\<And>k' i' b. lookup s k' i' = Some b \<Longrightarrow> apart s r b"
  shows "store_inv cd (store_put k i r s)"
proof -
  let ?t = "store_put k i r s"
  have k: "ResourceKind r = k" and i: "i \<noteq> []" using ok by (auto simp: row_ok_def)
  have old: "externalAddressClaimsLocked ?t b = externalAddressClaimsLocked s b" if "lookup s k' i' = Some b" for k' i' b
    using claims_put_fresh [OF inv new i that] .
  have ap': "apart s b r" if "lookup s k' i' = Some b" for k' i' b
    using ap [OF that] apart_sym by simp
  have "apart ?t a b" if "lookup ?t k1 i1 = Some a" "lookup ?t k2 i2 = Some b" "(k1, i1) \<noteq> (k2, i2)" for k1 i1 a k2 i2 b
  proof -
    have "apart s a b"
      using that ap ap' store_invD(5) [OF inv] by (auto simp: pairwise_unique_def split: if_splits)
    then show ?thesis using that old claims_put_self [OF k] by (auto simp: apart_def split: if_splits)
  qed
  then have "pairwise_unique ?t" by (auto simp: pairwise_unique_def)
  then show ?thesis
    using store_invD [OF inv] assms
    by (auto simp: store_inv_def intro!: rows_ok_put refs_ok_put claims_held_put)
qed

lemma remove_inv:
  assumes inv: "store_inv cd s" and row: "lookup s k i = Some r"
    and free: "\<And>k' i' b. lookup s k' i' = Some b \<Longrightarrow> (k', i') \<noteq> (k, i) \<Longrightarrow> \<not> references b k i"
    and idle: "\<And>k' i' o'. lookup s k' i' = Some (Operation o') \<Longrightarrow> running_claim o' \<Longrightarrow>
      (op_TargetKind o', op_TargetID o') \<noteq> (k, i)"
  shows "store_inv cd (store_remove k i s)"
proof -
  let ?t = "store_remove k i s"
  have i: "i \<noteq> []" using row_okD(4) [OF inv row] .
  have claims: "externalAddressClaimsLocked ?t b = externalAddressClaimsLocked s b"
    if b: "lookup s k' i' = Some b" "(k', i') \<noteq> (k, i)" for k' i' b
  proof (rule claims_cong)
    assume "ResourceKind b \<in> {KindSubnet, KindRouter}"
    with claim_network_cases [OF inv b(1)] free [OF b] i
    have "(KindNetwork, claim_network b) \<noteq> (k, i)" by auto
    then show "provider_at ?t (claim_network b) = provider_at s (claim_network b)"
      by (auto simp: provider_at_def get_as_def)
  qed
  have "pairwise_unique ?t"
    using store_invD(5) [OF inv] claims by (auto simp: pairwise_unique_def apart_def split: if_splits)
  moreover have "refs_ok ?t"
    using store_invD(3) [OF inv] free by (auto simp: refs_ok_def split: if_splits)
  moreover have "claims_held ?t"
    unfolding claims_held_def
  proof (intro allI impI)
    fix k' i' o' assume o': "lookup ?t k' i' = Some (Operation o')" "running_claim o'"
    then have "lookup s k' i' = Some (Operation o')" by (simp split: if_splits)
    with o' idle [OF this] store_invD(4) [OF inv] show "target_held ?t o'"
      unfolding claims_held_def target_held_def by (metis lookup_remove)
  qed
  moreover have "rows_ok cd ?t" using store_invD(2) [OF inv] by (auto simp: rows_ok_def split: if_splits)
  ultimately show ?thesis using store_invD(1) [OF inv] by (simp add: store_inv_def)
qed

text \<open>A batch of ended claims, each written over the operation it ends.\<close>

definition ends :: "codec \<Rightarrow> memory \<Rightarrow> string \<Rightarrow> operation \<Rightarrow> bool" where
  "ends cd s i p \<longleftrightarrow> row_ok cd KindOperation i (Operation p) \<and> \<not> running_claim p \<and>
     (\<exists>r. lookup s KindOperation i = Some r \<and> core r = core (Operation p) \<and>
          Revision (GetMetadata r) \<le> Revision (op_meta p))"

lemma end_inv: "store_inv cd s \<Longrightarrow> ends cd s i p \<Longrightarrow> store_inv cd (store_put KindOperation i (Operation p) s)"
  by (auto simp: ends_def intro: tweak_inv)

lemma batch_inv:
  "store_inv cd s \<Longrightarrow> (\<And>i p. (i, p) \<in> set ps \<Longrightarrow> ends cd s i p) \<Longrightarrow>
   (\<And>i p q. (i, p) \<in> set ps \<Longrightarrow> (i, q) \<in> set ps \<Longrightarrow> p = q) \<Longrightarrow>
   store_inv cd (fold (\<lambda>(i, p). store_put KindOperation i (Operation p)) ps s)"
proof (induction ps arbitrary: s)
  case Nil
  then show ?case by simp
next
  case (Cons x ps)
  obtain i p where x: "x = (i, p)" by fastforce
  let ?t = "store_put KindOperation i (Operation p) s"
  have "store_inv cd ?t" using Cons.prems(1,2) x by (auto intro: end_inv)
  moreover have "ends cd ?t j q" if "(j, q) \<in> set ps" for j q
  proof -
    have q: "ends cd s j q" using Cons.prems(2) that by simp
    have "j = i \<Longrightarrow> q = p" using Cons.prems(3) that x by auto
    with q show ?thesis by (auto simp: ends_def)
  qed
  moreover have "p' = q" if "(j, p') \<in> set ps" "(j, q) \<in> set ps" for j p' q
    using Cons.prems(3) that by auto
  ultimately show ?case using Cons.IH x by simp
qed

lemma fail_ends:
  assumes "store_inv cd s" "lookup s KindOperation i = Some (Operation p)"
  shows "ends cd s i (fail_operation m t p)"
proof -
  have ok: "row_ok cd KindOperation i (Operation p)" using row_okD(1) [OF assms] .
  then have "validateOperation cd (fail_operation m t p) = None"
    by (auto simp: row_ok_def validateOperation_def check_simps fail_operation_def)
  with ok assms show ?thesis
    by (auto simp: ends_def row_ok_def running_claim_def fail_operation_def core_def core_operation_def)
qed

section \<open>Every operation keeps it\<close>

lemma claim_started_simps [simp]:
  "claim_started (map_metadata f r) = claim_started r" "claim_started (on_floating g r) = claim_started r"
  by (cases r; simp add: on_floating_def running_claim_def)+

lemma on_floating_Operation [simp]: "on_floating g (Operation p) = Operation p"
  by (simp add: on_floating_def)

lemma validateFloatingIP_status:
  "validateFloatingIP f = None \<Longrightarrow> st \<in> {FloatingIPDown, FloatingIPActive, FloatingIPError} \<Longrightarrow>
     validateFloatingIP (f\<lparr>flt_FloatingStatus := st\<rparr>) = None"
  by (auto simp: validateFloatingIP_def check_simps)

lemma Validate_floating [simp]:
  "Validate cd r = None \<Longrightarrow> Validate cd (on_floating MarkPending r) = None"
  "Validate cd r = None \<Longrightarrow> Validate cd (on_floating (\<lambda>f. floating_MarkReconciled f e) r) = None"
  by (cases r; simp add: on_floating_def validateFloatingIP_status MarkPending_def floating_MarkReconciled_def)+

lemma lease_owner_tail: "0 < n \<Longrightarrow> lease_owner_chars n cs = list_all name_char cs"
  by (induction n cs rule: lease_owner_chars.induct)
     (auto simp: name_char_def is_alnum_def is_lower_def is_upper_def is_digit_def)

lemma lease_owner_name: "validLeaseOwner v = namePattern v"
  by (cases v) (auto simp: validLeaseOwner_def namePattern_def lease_owner_tail is_alnum_def is_lower_def
      is_upper_def is_digit_def split: if_splits)

lemma tweak_meta_inv:
  assumes inv: "store_inv cd s" and row: "lookup s k i = Some r" and "core r' = core r"
    and "ID (GetMetadata r') = ID (GetMetadata r)" "Validate cd r' = None" "claim_started r' = claim_started r"
    and "Revision (GetMetadata r) \<le> Revision (GetMetadata r')" "0 \<le> AppliedRevision (GetMetadata r')"
    and "AppliedRevision (GetMetadata r') \<le> Revision (GetMetadata r')"
    and run: "\<And>p q. r = Operation p \<Longrightarrow> r' = Operation q \<Longrightarrow> running_claim q \<Longrightarrow> running_claim p"
  shows "store_inv cd (store_put k i r' s)"
proof (rule tweak_inv [OF inv row assms(3)])
  show "row_ok cd k i r'"
    using row_okD(1) [OF inv row] assms core_cong(1) [OF assms(3)] by (simp add: row_ok_def)
  show "target_held s o'" if "r' = Operation o'" "running_claim o'" for o'
    using held_core [OF inv row assms(3) that(1)] run that by blast
qed (use assms in simp)

lemma Get_inv_row: "store_inv cd s \<Longrightarrow> get_as as_node s KindNode i = Some n \<Longrightarrow> lookup s KindNode i = Some (Node n)"
  "store_inv cd s \<Longrightarrow> get_as as_operation s KindOperation i = Some o' \<Longrightarrow> lookup s KindOperation i = Some (Operation o')"
  by (auto simp: get_as_Some)

lemma ObserveNodeHeartbeat_inv:
  assumes "store_inv cd s"
  shows "store_inv cd (fst (ObserveNodeHeartbeat env i n0 t s))"
proof -
  have "store_inv cd (store_put KindNode i (Node (n\<lparr>node_LastSeenAt := x\<rparr>)) s)"
    if n: "lookup s KindNode i = Some (Node n)" for n x
    using row_okD(1) [OF assms n]
    by (intro tweak_meta_inv [OF assms n]) (auto simp: row_ok_def validateNode_def)
  then show ?thesis
    using assms Get_inv_row(1) [OF assms]
    by (auto simp: ObserveNodeHeartbeat_def Let_def split: option.splits)
qed

lemma BeginDelete_inv:
  assumes "store_inv cd s"
  shows "store_inv cd (fst (BeginDelete env k i n0 key s))"
proof -
  have "store_inv cd (store_put k i (on_floating MarkPending (map_metadata (tombstone_metadata t) r)) s)"
    if r: "lookup s k i = Some r" for r t
    using row_okD(1) [OF assms r]
    by (intro tweak_meta_inv [OF assms r])
       (auto simp: row_ok_def tombstone_metadata_def running_claim_def)
  then show ?thesis
    using assms by (auto simp: BeginDelete_def Let_def split: option.splits sum.splits)
qed

lemma MarkReconciled_inv:
  assumes "store_inv cd s"
  shows "store_inv cd (fst (MarkReconciled env k i n0 e s))"
proof -
  have "store_inv cd (store_put k i (reconciled_resource t n0 e r) s)"
    if r: "lookup s k i = Some r" "\<not> n0 > Revision (GetMetadata r)" for r t
    using row_okD(1) [OF assms r(1)] r(2)
    by (intro tweak_meta_inv [OF assms r(1)])
       (auto simp: row_ok_def reconciled_resource_def Let_def running_claim_def split: option.splits if_splits)
  then show ?thesis
    using assms by (auto simp: MarkReconciled_def Let_def split: option.splits)
qed

lemma claimOperation_inv:
  assumes "store_inv cd s"
  shows "store_inv cd (fst (claimOperation env i n0 action w t cutoff s))"
proof -
  have "store_inv cd (store_put KindOperation i (Operation (claim_operation_record w t p)) s)"
    if p: "lookup s KindOperation i = Some (Operation p)" and w: "validLeaseOwner w"
      and x: "lookup s (op_TargetKind p) (op_TargetID p) = Some x" "operationTargetClaimable p (GetMetadata x) True" for p x
  proof (rule tweak_inv [OF assms p core_claim])
    show "row_ok cd KindOperation i (Operation (claim_operation_record w t p))"
      using row_okD(1) [OF assms p] w
      by (auto simp: row_ok_def claim_operation_record_def validateOperation_def check_simps validateName_def lease_owner_name)
    show "target_held s o'" if "Operation (claim_operation_record w t p) = Operation o'" for o'
      using x that by (auto simp: target_held_def claim_operation_record_def operationTargetClaimable_def split: if_splits)
  qed (auto simp: claim_operation_record_def)
  then show ?thesis
    using assms Get_inv_row(2) [OF assms]
    by (auto simp: claimOperation_def Let_def split: option.splits)
qed

lemma RenewOperationLease_inv:
  assumes "store_inv cd s"
  shows "store_inv cd (fst (RenewOperationLease env i n0 w t s))"
proof -
  have "store_inv cd (store_put KindOperation i (Operation (p\<lparr>op_meta := (op_meta p)\<lparr>Revision := Revision (op_meta p) + 1,
      UpdatedAt := t\<rparr>\<rparr>)) s)"
    if p: "lookup s KindOperation i = Some (Operation p)" for p
    using row_okD(1) [OF assms p]
    by (intro tweak_meta_inv [OF assms p]) (auto simp: row_ok_def validateOperation_def running_claim_def)
  then show ?thesis
    using assms Get_inv_row(2) [OF assms]
    by (auto simp: RenewOperationLease_def Let_def split: option.splits)
qed

lemma references_operation [simp]: "\<not> references b KindOperation i"
  by (cases b) simp_all

lemma claim_target_kind:
  "store_inv cd s \<Longrightarrow> lookup s k i = Some (Operation o') \<Longrightarrow> op_TargetKind o' \<noteq> KindOperation"
  using row_okD(5) [of cd s k i "Operation o'"] by (auto simp: validateOperation_def check_simps)

lemma remove_operation_inv:
  assumes "store_inv cd s"
  shows "store_inv cd (store_remove KindOperation i s)"
proof (cases "lookup s KindOperation i")
  case None
  then have "store_remove KindOperation i s = s"
    by (simp add: store_remove_def lookup_def map_of_eq_None_iff)
  with assms show ?thesis by simp
next
  case (Some r)
  then show ?thesis using claim_target_kind [OF assms] by (intro remove_inv [OF assms]) auto
qed

lemma prune_loop_inv: "store_inv cd s \<Longrightarrow> store_inv cd (fst (prune_loop before ops n s))"
  by (induction before ops n s rule: prune_loop.induct) (auto simp: Let_def remove_operation_inv)

lemma PruneOperations_inv: "store_inv cd s \<Longrightarrow> store_inv cd (fst (PruneOperations env before keep s))"
  using prune_loop_inv by (auto simp: PruneOperations_def Let_def split: prod.splits) (metis fst_conv)

lemma all_operations:
  assumes "store_inv cd s"
  shows "o' \<in> set (all_of as_operation s KindOperation) \<longleftrightarrow> lookup s KindOperation (ID (op_meta o')) = Some (Operation o')"
  using row_okD(3) [OF assms] by (fastforce simp: mem_all_of [OF store_invD(1) [OF assms]])

lemma recovery_candidates_stored:
  "store_inv cd s \<Longrightarrow> o' \<in> set (recovery_candidates s cutoff n) \<Longrightarrow>
     lookup s KindOperation (ID (op_meta o')) = Some (Operation o')"
  by (auto simp: recovery_candidates_def Let_def expiredRunningOperations_def supersededQueuedReconcilesLocked_def
      all_operations dest!: in_set_takeD split: if_splits)

lemma RecoverExpiredOperations_inv:
  assumes inv: "store_inv cd s"
  shows "store_inv cd (fst (RecoverExpiredOperations env cutoff t limit s))"
proof -
  let ?f = "\<lambda>o'. fail_operation (operationRecoveryError o') t o'"
  have "store_inv cd (fold (\<lambda>o'. store_put KindOperation (ID (op_meta o')) (Operation o')) (map ?f (recovery_candidates s cutoff n)) s)"
    for n
  proof -
    let ?ps = "map (\<lambda>o'. (ID (op_meta o'), ?f o')) (recovery_candidates s cutoff n)"
    have "store_inv cd (fold (\<lambda>(i, p). store_put KindOperation i (Operation p)) ?ps s)"
    proof (rule batch_inv [OF inv])
      show "ends cd s i p" if "(i, p) \<in> set ?ps" for i p
        using that recovery_candidates_stored [OF inv] fail_ends [OF inv] by auto
      show "p = q" if pq: "(i, p) \<in> set ?ps" "(i, q) \<in> set ?ps" for i p q
      proof -
        obtain o1 o2 where o12: "o1 \<in> set (recovery_candidates s cutoff n)" "o2 \<in> set (recovery_candidates s cutoff n)"
            "i = ID (op_meta o1)" "i = ID (op_meta o2)" "p = ?f o1" "q = ?f o2"
          using pq by auto
        then have "Some (Operation o1) = Some (Operation o2)"
          using recovery_candidates_stored [OF inv] by metis
        with o12 show ?thesis by simp
      qed
    qed
    moreover have "ID (op_meta (?f o')) = ID (op_meta o')" for o' by (simp add: fail_operation_def)
    ultimately show ?thesis by (simp add: fold_map comp_def)
  qed
  then show ?thesis using inv by (simp add: RecoverExpiredOperations_def Let_def)
qed

text \<open>The loop of \<open>FenceReconciles\<close> writes exactly the expired claims on the target.\<close>

definition fenced :: "kind \<Rightarrow> string \<Rightarrow> time \<Rightarrow> (string \<times> resource) list \<Rightarrow> (string \<times> operation) list" where
  "fenced kind ident cutoff rs = List.map_filter (\<lambda>(i, r). case as_operation r of
     Some o' \<Rightarrow> if fence_targets kind ident o' \<and> \<not> reconcileLeaseIsLive o' cutoff then Some (i, o') else None | None \<Rightarrow> None) rs"

lemma fence_loop_state:
  "fst (fence_loop kind ident cutoff t rs a b s) =
     fold (\<lambda>(i, p). store_put KindOperation i (Operation p))
       (map (\<lambda>(i, o'). (i, fail_operation ''reconcile lease expired while target was deleting'' t o'))
          (fenced kind ident cutoff rs)) s"
  by (induction kind ident cutoff t rs a b s rule: fence_loop.induct)
     (simp_all add: fenced_def List.map_filter_simps split: option.splits)

lemma mem_fenced:
  "(i, o') \<in> set (fenced kind ident cutoff rs) \<longleftrightarrow>
     (i, Operation o') \<in> set rs \<and> fence_targets kind ident o' \<and> \<not> reconcileLeaseIsLive o' cutoff"
proof
  assume "(i, o') \<in> set (fenced kind ident cutoff rs)"
  then show "(i, Operation o') \<in> set rs \<and> fence_targets kind ident o' \<and> \<not> reconcileLeaseIsLive o' cutoff"
    by (auto simp: fenced_def mem_map_filter split: option.splits if_splits)
next
  assume "(i, Operation o') \<in> set rs \<and> fence_targets kind ident o' \<and> \<not> reconcileLeaseIsLive o' cutoff"
  then show "(i, o') \<in> set (fenced kind ident cutoff rs)"
    unfolding fenced_def mem_map_filter by (intro bexI [of _ "(i, Operation o')"]) auto
qed

lemma fence_loop_active:
  "fst (snd (fence_loop kind ident cutoff t rs a b s)) \<longleftrightarrow>
     a \<or> (\<exists>i o'. (i, Operation o') \<in> set rs \<and> fence_targets kind ident o' \<and> reconcileLeaseIsLive o' cutoff)"
proof (induction kind ident cutoff t rs a b s rule: fence_loop.induct)
  case (2 kind ident cutoff t i r rest a b s)
  then show ?case by (cases r) auto
qed simp

lemma distinct_fenced: "distinct (map fst rs) \<Longrightarrow> distinct (map fst (fenced kind ident cutoff rs))"
proof (induction rs)
  case (Cons x rs)
  have "fst ` set (fenced kind ident cutoff rs) \<subseteq> fst ` set rs"
    by (auto simp: mem_fenced intro: rev_image_eqI)
  with Cons show ?case
    by (cases x; cases "snd x") (auto simp: fenced_def List.map_filter_simps)
qed (simp add: fenced_def List.map_filter_simps)

lemma idempotency_remove [simp]: "idempotency (store_remove k i s) = idempotency s"
  by (simp add: store_remove_def)

lemma superseded_cong:
  "(\<And>i. lookup t (op_TargetKind o') i = lookup s (op_TargetKind o') i) \<Longrightarrow>
     operationSupersededLocked t o' = operationSupersededLocked s o'"
  by (simp add: operationSupersededLocked_def)

lemma FenceReconciles_inv:
  assumes inv: "store_inv cd s"
  shows "store_inv cd (fst (FenceReconciles env kind ident cutoff t s))"
proof -
  have row: "lookup s KindOperation i = Some (Operation o')"
    if "(i, o') \<in> set (fenced kind ident cutoff (rows s KindOperation))" for i o'
    using that mem_rows [OF store_invD(1) [OF inv]] by (simp add: mem_fenced)
  have "store_inv cd (fst (fence_loop kind ident cutoff t (rows s KindOperation) False False s))"
    unfolding fence_loop_state
  proof (rule batch_inv [OF inv], goal_cases)
    case (1 i p)
    then show ?case using row fail_ends [OF inv] by auto
  next
    case (2 i p q)
    then obtain o1 o2 where o12: "(i, o1) \<in> set (fenced kind ident cutoff (rows s KindOperation))"
        "(i, o2) \<in> set (fenced kind ident cutoff (rows s KindOperation))"
        "p = fail_operation ''reconcile lease expired while target was deleting'' t o1"
        "q = fail_operation ''reconcile lease expired while target was deleting'' t o2"
      by auto
    then show ?case using row [OF o12(1)] row [OF o12(2)] by simp
  qed
  then show ?thesis using inv by (auto simp: FenceReconciles_def split: prod.splits)
qed

lemma firstReference_False:
  assumes "keys_ok s" "\<not> firstReferenceLocked s k i" "lookup s k' i' = Some b" "(k', i') \<noteq> (k, i)"
  shows "\<not> references b k i"
  using assms(2) unfolding firstReferenceLocked_def list_ex_resources [OF assms(1)] using assms(3,4) by auto

lemma Purge_inv:
  assumes inv: "store_inv cd s"
  shows "store_inv cd (fst (Purge env k i n0 s))"
proof -
  have "store_inv cd (store_remove k i s)"
    if "lookup s k i = Some r" "\<not> firstReferenceLocked s k i" "\<not> purge_protected s k i" for r
  proof (rule remove_inv [OF inv that(1)])
    show "(op_TargetKind o', op_TargetID o') \<noteq> (k, i)"
      if "lookup s k' i' = Some (Operation o')" "running_claim o'" for k' i' o'
      using that \<open>\<not> purge_protected s k i\<close> row_okD(2,3) [OF inv that(1)]
      by (auto simp: purge_protected_def list_ex_iff all_operations [OF inv] running_claim_def)
  qed (use that firstReference_False [OF store_invD(1) [OF inv]] in blast)
  then show ?thesis using inv by (auto simp: Purge_def Let_def split: option.splits)
qed

lemma Delete_inv:
  assumes "store_inv cd s"
  shows "store_inv cd (fst (Delete envB envP k i n0 key s))"
  using BeginDelete_inv [OF assms, of envB k i n0 key] Purge_inv
  by (auto simp: Delete_def split: prod.splits sum.splits option.splits) (metis fst_conv)+

lemma running_claim_meta [simp]: "running_claim (op_meta_update f p) = running_claim p"
  by (simp add: running_claim_def)

lemma map_metadata_id: "map_metadata id r = r"
  by (cases r) simp_all

lemma with_id_props [simp]:
  "ResourceKind (with_id i r) = ResourceKind r" "core (with_id i r) = core r"
  "i \<noteq> [] \<Longrightarrow> ID (GetMetadata (with_id i r)) \<noteq> []"
  by (simp_all add: with_id_def)

lemma with_operation_key_kind [simp]: "ResourceKind (with_operation_key key r) = ResourceKind r"
  by (cases r) (simp_all add: with_operation_key_def)

lemma SetDefaults_simps [simp]:
  "ResourceKind (on_floating MarkPending (SetDefaults r)) = ResourceKind r"
  "ID (GetMetadata (on_floating MarkPending (SetDefaults r))) = ID (GetMetadata r)"
  by simp_all

text \<open>A port's switch-port name is set by the defaults already, because its id is known by then.\<close>

lemma lsp_name_set:
  "ID (GetMetadata r) \<noteq> [] \<Longrightarrow>
     with_lsp_name (map_metadata f (on_floating g (SetDefaults r))) = map_metadata f (on_floating g (SetDefaults r))"
  by (cases r) (auto simp: with_lsp_name_def on_floating_def SetDefaults_def default_port_def)

lemma queued_not_running:
  assumes "\<not> created_unqueued r" "map_metadata f (on_floating MarkPending (SetDefaults (with_id i r))) = Operation o'"
  shows "\<not> running_claim o'"
  using assms by (cases r) (auto simp: created_unqueued_def running_claim_def with_id_def SetDefaults_def on_floating_def split: if_splits)

lemma created_row_ok:
  assumes "Validate cd c = None" "ID (GetMetadata c) \<noteq> []" "\<And>o'. c = Operation o' \<Longrightarrow> \<not> running_claim o'"
  shows "row_ok cd (ResourceKind c) (ID (GetMetadata c)) (map_metadata (fresh_metadata t) c)"
proof -
  have "claim_started c" using assms(3) by (cases c) auto
  then show ?thesis using assms by (simp add: row_ok_def fresh_metadata_def)
qed

lemma Create_inv:
  assumes inv: "store_inv (env_codec env) s" and new: "env_newID env \<noteq> []"
  shows "store_inv (env_codec env) (fst (Create env r key s))"
proof -
  let ?c1 = "with_operation_key key r"
  let ?c = "on_floating MarkPending (SetDefaults (with_id (env_newID env) ?c1))"
  let ?res = "map_metadata (fresh_metadata (env_now env)) ?c"
  have "store_inv (env_codec env) (store_put (ResourceKind ?c) (ID (GetMetadata ?c)) ?res s)"
    if c: "\<not> created_unqueued ?c1" "lookup s (ResourceKind ?c) (ID (GetMetadata ?c)) = None"
      "Validate (env_codec env) ?c = None" "validateReferencesLocked s ?c = None" "validateUniqueLocked s ?c [] = None"
  proof (rule insert_inv [OF inv c(2)])
    have nr: "\<not> running_claim o'" if "map_metadata f ?c = Operation o'" for o' f
      using queued_not_running [OF c(1) that] .
    then show "\<not> running_claim o'" if "?res = Operation o'" for o' using that by blast
    show "row_ok (env_codec env) (ResourceKind ?c) (ID (GetMetadata ?c)) ?res"
      using c(3) new nr [of id] by (intro created_row_ok) (auto simp: map_metadata_id)
    show "lookup s k' i' \<noteq> None" if "references ?res k' i'" "i' \<noteq> []" for k' i'
      using references_exist [OF c(3,4)] that core_cong(2) [of ?res ?c] by simp
    show "apart s ?res b" if "lookup s k' i' = Some b" for k' i' b
      using c(5) that row_okD(4) [OF inv that] store_invD [OF inv] apart_core [of ?res ?c b b]
      by (simp add: validateUnique_None)
  qed
  then show ?thesis
    using inv new
    by (auto simp: Create_def Let_def lsp_name_set check_simps split: sum.splits option.splits)
qed

lemma store_put_twice: "store_put k i a (store_put k i b s) = store_put k i a s"
  by (simp add: store_put_def)

lemma Update_inv:
  assumes inv: "store_inv (env_codec env) s"
  shows "store_inv (env_codec env) (fst (Update env r n0 key s))"
proof -
  let ?c = "on_floating MarkPending (SetDefaults r)" and ?k = "ResourceKind r" and ?i = "ID (GetMetadata r)"
  have "store_inv (env_codec env) (store_put ?k ?i (map_metadata (updated_metadata (env_now env) ?i (GetMetadata cur)) ?c) s)"
    if cur: "lookup s ?k ?i = Some cur"
      and c: "\<not> unclaimed_start ?c" "Validate (env_codec env) ?c = None" "validateReferencesLocked s ?c = None"
        "validate_graph (store_put ?k ?i ?c s) = None" for cur
  proof -
    let ?res = "map_metadata (updated_metadata (env_now env) ?i (GetMetadata cur)) ?c"
    let ?t = "store_put ?k ?i ?c s"
    have idle: "\<not> running_claim o'" if "?res = Operation o'" for o'
      using c(1) that by (cases r) (auto simp: unclaimed_start_def running_claim_def SetDefaults_def on_floating_def)
    have "claim_started ?c" using idle by (cases r) (auto simp: SetDefaults_def on_floating_def running_claim_def)
    then have ok: "row_ok (env_codec env) ?k ?i ?res"
      using row_okD(1) [OF inv cur] c(2) by (auto simp: row_ok_def updated_metadata_def)
    have "typed ?t" using store_invD(6) [OF inv] by (simp add: typed_def)
    then have "pairwise_unique ?t"
      using c(4) store_invD(1) [OF inv] by (simp add: validate_graph_def check_simps validateAllUnique_None)
    then have "pairwise_unique (store_put ?k ?i ?res s)"
      using pairwise_put_core [of ?t ?k ?i ?c ?res] by (simp add: store_put_twice)
    then show ?thesis
      using references_exist [OF c(2,3)] core_cong(2) [of ?res ?c] idle
      by (intro replace_inv [OF inv cur ok]) (auto simp: updated_metadata_def)
  qed
  then show ?thesis
    using inv by (auto simp: Update_def Let_def check_simps split: sum.splits option.splits)
qed

section \<open>Reachable stores\<close>

text \<open>One call of a method of the store, by any caller, with any arguments. The identifier
  generator never gives the empty string, and all callers use the same codecs.\<close>

inductive mem_step :: "codec \<Rightarrow> memory \<Rightarrow> memory \<Rightarrow> bool" for cd :: codec where
  step_Create: "env_codec env = cd \<Longrightarrow> env_newID env \<noteq> [] \<Longrightarrow> mem_step cd s (fst (Create env r key s))"
| step_Update: "env_codec env = cd \<Longrightarrow> mem_step cd s (fst (Update env r n key s))"
| step_ObserveNodeHeartbeat: "mem_step cd s (fst (ObserveNodeHeartbeat env i n t s))"
| step_PruneOperations: "mem_step cd s (fst (PruneOperations env t n s))"
| step_RecoverExpiredOperations: "mem_step cd s (fst (RecoverExpiredOperations env cutoff t n s))"
| step_ClaimReconcile: "mem_step cd s (fst (ClaimReconcile env i n w t cutoff s))"
| step_ClaimDelete: "mem_step cd s (fst (ClaimDelete env i n w t cutoff s))"
| step_RenewOperationLease: "mem_step cd s (fst (RenewOperationLease env i n w t s))"
| step_FenceReconciles: "mem_step cd s (fst (FenceReconciles env k i cutoff t s))"
| step_BeginDelete: "mem_step cd s (fst (BeginDelete env k i n key s))"
| step_Purge: "mem_step cd s (fst (Purge env k i n s))"
| step_MarkReconciled: "mem_step cd s (fst (MarkReconciled env k i n e s))"

inductive_cases mem_stepE: "mem_step cd s t"

definition first_memory :: "memory \<Rightarrow> bool" where
  "first_memory s \<longleftrightarrow> s = NewMemory"

abbreviation reachable :: "codec \<Rightarrow> memory \<Rightarrow> bool" where
  "reachable cd \<equiv> reach first_memory (mem_step cd)"

lemmas operation_invs = Create_inv Update_inv ObserveNodeHeartbeat_inv PruneOperations_inv RecoverExpiredOperations_inv
  claimOperation_inv RenewOperationLease_inv FenceReconciles_inv BeginDelete_inv Purge_inv MarkReconciled_inv

interpretation store: invariant_system first_memory "mem_step cd" "store_inv cd" for cd
proof
  show "store_inv cd s" if "first_memory s" for s
    using that by (simp add: first_memory_def store_inv_NewMemory)
  show "store_inv cd t" if inv: "store_inv cd s" and step: "mem_step cd s t" for s t
    using step inv by (cases rule: mem_step.cases) (auto simp: ClaimReconcile_def ClaimDelete_def intro: operation_invs)
qed

end
