(* ===== verification/Store_Properties.thy ===== *)
theory Store_Properties
  imports Store_Invariant
begin

text \<open>
  The properties of the control store: what holds in every reachable store, and what each
  method guarantees. The sample store and environment at the start are concrete inputs on
  which the properties are exercised.
\<close>

section \<open>A concrete environment and store\<close>

definition sample_codec :: codec where
  "sample_codec = \<lparr>json_marshal = (\<lambda>r. kind_string (ResourceKind r) @ ID (GetMetadata r)), json_canonical = Some, sha256 = id\<rparr>"

definition sample_env :: call_env where
  "sample_env = \<lparr>env_cancelled = False, env_now = 10, env_newID = ''x'', env_codec = sample_codec\<rparr>"

definition sample_meta :: "string \<Rightarrow> metadata" where
  "sample_meta i = \<lparr>ID = i, Revision = 0, AppliedRevision = 0, State = ResourceUnset, LastError = [], CreatedAt = 0, UpdatedAt = 0\<rparr>"

definition sample_network :: network where
  "sample_network = \<lparr>net_meta = sample_meta ''n'', net_Name = ''net'', net_Description = [], net_MTU = 0,
     net_External = False, net_ProviderNetworkID = []\<rparr>"

definition sample_group :: security_group where
  "sample_group = \<lparr>sg_meta = sample_meta ''g'', sg_Name = ''sg'', sg_Description = [], sg_Stateful = True\<rparr>"

definition sample_node :: node where
  "sample_node = \<lparr>node_meta = sample_meta ''h'', node_Name = ''host'', node_ChassisID = ''c'', node_ManagementAddress = [],
     node_Roles = [NodeRoleCompute], node_Enabled = True, node_LastSeenAt = None\<rparr>"

definition placed_port :: port where
  "placed_port = \<lparr>port_meta = sample_meta ''p'', port_NetworkID = ''n'', port_Name = ''prt'', port_MACAddress = ''02:00:00:00:00:01'',
     port_FixedIPs = [], port_SecurityGroupIDs = [''g''], port_AdminStateUp = True, port_BindingStatus = PortStatusUnset,
     port_NodeID = ''h'', port_VMID = 100, port_NIC = ''net0'', port_LSPName = [], port_Generation = 0, port_RequestedChassis = []\<rparr>"

definition sample_operation :: operation where
  "sample_operation = \<lparr>op_meta = sample_meta ''o'', op_Action = ''reconcile'', op_TargetKind = KindNetwork, op_TargetID = ''n'',
     op_TargetRevision = 1, op_OperationStatus = OperationUnset, op_IdempotencyKey = ''k'', op_Error = [], op_LeaseOwner = [],
     op_StartedAt = None, op_CompletedAt = None, op_Payload = []\<rparr>"

definition create_all :: "resource list \<Rightarrow> memory \<Rightarrow> memory" where
  "create_all rs s = fold (\<lambda>r s. fst (Create sample_env r [] s)) rs s"

definition sample_store :: memory where
  "sample_store = create_all [Network sample_network, SecurityGroup sample_group, Node sample_node, Port placed_port,
     Operation sample_operation] NewMemory"

lemma create_all_reachable: "reachable sample_codec s \<Longrightarrow> reachable sample_codec (create_all rs s)"
proof (induction rs arbitrary: s)
  case (Cons r rs)
  have "mem_step sample_codec s (fst (Create sample_env r [] s))"
    by (rule step_Create) (simp_all add: sample_env_def)
  with Cons show ?case by (auto simp: create_all_def intro: reach_step)
qed (simp add: create_all_def)

lemma sample_store_reachable: "reachable sample_codec sample_store"
  unfolding sample_store_def by (rule create_all_reachable) (simp add: reach_first first_memory_def)

definition stored :: "resource \<Rightarrow> resource" where
  "stored r = map_metadata (fresh_metadata 10) (on_floating MarkPending (SetDefaults r))"

lemma sample_store_rows:
  "resources sample_store =
     [((KindNetwork, ''n''), stored (Network sample_network)), ((KindSecurityGroup, ''g''), stored (SecurityGroup sample_group)),
      ((KindNode, ''h''), stored (Node sample_node)), ((KindPort, ''p''), stored (Port placed_port)),
      ((KindOperation, ''o''), stored (Operation sample_operation))]"
  by code_simp

section \<open>Reachable stores\<close>

text \<open>C11. In every reachable store a row is filed under its own kind and its own non-empty id,
  passes the field validation of its kind, has a revision of at least one and an applied
  revision between zero and its revision. In particular the type assertions of the store
  never fail on a stored row.\<close>

theorem reachable_rows:
  assumes "reachable cd s" "lookup s k i = Some r"
  shows "ResourceKind r = k \<and> ID (GetMetadata r) = i \<and> i \<noteq> [] \<and> Validate cd r = None \<and>
    1 \<le> Revision (GetMetadata r) \<and> 0 \<le> AppliedRevision (GetMetadata r) \<and>
    AppliedRevision (GetMetadata r) \<le> Revision (GetMetadata r)"
  using row_okD(1) [OF store.reach_inv [OF assms(1)] assms(2)] by (simp add: row_ok_def)

theorem reachable_rows_witness:
  "\<exists>r. lookup sample_store KindPort ''p'' = Some r \<and> Validate sample_codec r = None \<and> 1 \<le> Revision (GetMetadata r)"
proof -
  have "lookup sample_store KindPort ''p'' = Some (stored (Port placed_port))"
    by (simp add: lookup_def sample_store_rows)
  with reachable_rows [OF sample_store_reachable this] show ?thesis by blast
qed

text \<open>C1. No reference dangles: in every reachable store each non-empty identifier that a row uses
  to refer to a network, subnet, port, router, provider network, provider segment or security
  group names a row that is there. Deletions, purges and updates by concurrent callers
  included.\<close>

theorem reachable_references:
  assumes "reachable cd s" "lookup s k i = Some r" "references r k' i'" "i' \<noteq> []"
  shows "lookup s k' i' \<noteq> None"
  using store_invD(3) [OF store.reach_inv [OF assms(1)]] assms(2-) by (auto simp: refs_ok_def)

theorem reachable_references_witness: "lookup sample_store KindSecurityGroup ''g'' \<noteq> None"
proof -
  have "lookup sample_store KindPort ''p'' = Some (stored (Port placed_port))"
    by (simp add: lookup_def sample_store_rows)
  moreover have "references (stored (Port placed_port)) KindSecurityGroup ''g''" by code_simp
  ultimately show ?thesis using reachable_references [OF sample_store_reachable] by simp
qed

text \<open>C2. Two different rows of one kind never conflict in a reachable store (names, overlapping
  prefixes of a network, MAC addresses, switch-port names, the NIC of a VM on a node, fixed
  and allocated addresses, idempotency keys and targets of operations), and no two rows of any
  kinds claim the same address of a provider network.\<close>

theorem reachable_unique:
  assumes "reachable cd s" "lookup s k i = Some a" "lookup s k' i' = Some b" "(k, i) \<noteq> (k', i')"
  shows "(k = k' \<longrightarrow> conflictField a b = []) \<and>
    set (externalAddressClaimsLocked s a) \<inter> set (externalAddressClaimsLocked s b) = {}"
proof -
  note inv = store.reach_inv [OF assms(1)]
  have "apart s a b" using store_invD(5) [OF inv] assms by (auto simp: pairwise_unique_def)
  with row_okD(2) [OF inv] assms(2,3) show ?thesis by (auto simp: apart_def)
qed

definition second_network :: resource where
  "second_network = Network (sample_network\<lparr>net_meta := sample_meta ''m'', net_Name := ''other''\<rparr>)"

definition two_networks :: memory where
  "two_networks = create_all [Network sample_network, second_network] NewMemory"

theorem reachable_unique_witness:
  "\<exists>a b. lookup two_networks KindNetwork ''n'' = Some a \<and> lookup two_networks KindNetwork ''m'' = Some b \<and>
     conflictField a b = []"
proof -
  have "reachable sample_codec two_networks"
    unfolding two_networks_def by (rule create_all_reachable) (simp add: reach_first first_memory_def)
  moreover have "lookup two_networks KindNetwork ''n'' = Some (stored (Network sample_network))"
    "lookup two_networks KindNetwork ''m'' = Some (stored second_network)" by code_simp+
  ultimately show ?thesis using reachable_unique [of sample_codec two_networks KindNetwork "''n''" _ KindNetwork "''m''"] by auto
qed

text \<open>C3. A running claim protects its target: in every reachable store an operation that runs a
  reconcile or a delete has a valid lease owner and a start time, and its target row exists
  with at least the revision the operation was made for. So no purge can pull a row away
  under a running writer.\<close>

theorem running_claim_protects:
  assumes "reachable cd s" "lookup s k i = Some (Operation o')" "running_claim o'"
  shows "namePattern (op_LeaseOwner o') \<and> op_StartedAt o' \<noteq> None \<and>
    (\<exists>t. lookup s (op_TargetKind o') (op_TargetID o') = Some t \<and> op_TargetRevision o' \<le> Revision (GetMetadata t))"
proof -
  note inv = store.reach_inv [OF assms(1)]
  have "op_StartedAt o' \<noteq> None" "validateOperation cd o' = None"
    using row_okD(1) [OF inv assms(2)] assms(3) by (auto simp: row_ok_def)
  moreover have "target_held s o'" using store_invD(4) [OF inv] assms by (auto simp: claims_held_def)
  ultimately show ?thesis using assms(3)
    by (simp add: target_held_def validateOperation_def check_simps validateName_def running_claim_def
        leaseProtectedAction_def)
qed

definition claimed_store :: memory where
  "claimed_store = fst (ClaimReconcile sample_env ''o'' 1 ''mgr'' 20 15 sample_store)"

definition claimed_operation :: operation where
  "claimed_operation = claim_operation_record ''mgr'' 20 (the (as_operation (stored (Operation sample_operation))))"

lemma claimed_store_reachable: "reachable sample_codec claimed_store"
  unfolding claimed_store_def by (rule reach_step [OF sample_store_reachable]) (rule step_ClaimReconcile)

lemma claimed_store_row: "lookup claimed_store KindOperation ''o'' = Some (Operation claimed_operation)"
  by code_simp

theorem running_claim_protects_witness:
  "namePattern (op_LeaseOwner claimed_operation) \<and> op_StartedAt claimed_operation \<noteq> None \<and>
     (\<exists>t. lookup claimed_store KindNetwork ''n'' = Some t \<and> 1 \<le> Revision (GetMetadata t))"
proof -
  have "running_claim claimed_operation" "op_TargetKind claimed_operation = KindNetwork"
    "op_TargetID claimed_operation = ''n''" "op_TargetRevision claimed_operation = 1" by code_simp+
  with running_claim_protects [OF claimed_store_reachable claimed_store_row] show ?thesis by simp
qed

section \<open>Leases\<close>

text \<open>Every running claim of the second store was a running claim of the first, with that owner.\<close>

definition claims_from :: "memory \<Rightarrow> memory \<Rightarrow> bool" where
  "claims_from s t \<longleftrightarrow> (\<forall>i o'. lookup t KindOperation i = Some (Operation o') \<longrightarrow> running_claim o' \<longrightarrow>
     (\<exists>p. lookup s KindOperation i = Some (Operation p) \<and> running_claim p \<and> op_LeaseOwner p = op_LeaseOwner o'))"

lemma claims_from_refl [simp]: "claims_from s s"
  by (auto simp: claims_from_def)

lemma claims_from_remember [simp]: "claims_from s (rememberLocked scope fp r d t) = claims_from s t"
  by (simp add: claims_from_def)

lemma claims_from_put:
  "(\<And>o'. r = Operation o' \<Longrightarrow> running_claim o' \<Longrightarrow> \<exists>p. lookup s k i = Some (Operation p) \<and> running_claim p \<and>
      op_LeaseOwner p = op_LeaseOwner o') \<Longrightarrow> claims_from s (store_put k i r s)"
  by (auto simp: claims_from_def)

lemma claims_from_remove: "claims_from s t \<Longrightarrow> claims_from s (store_remove k i t)"
  by (auto simp: claims_from_def)

lemma claims_from_idempotency [simp]: "claims_from s (t\<lparr>idempotency := x\<rparr>) = claims_from s t"
  by (simp add: claims_from_def)

lemma claims_from_idle_put:
  "claims_from s t \<Longrightarrow> (\<And>o'. r = Operation o' \<Longrightarrow> \<not> running_claim o') \<Longrightarrow> claims_from s (store_put k i r t)"
  by (auto simp: claims_from_def)

lemma claims_from_idle_op: "claims_from s t \<Longrightarrow> \<not> running_claim p \<Longrightarrow> claims_from s (store_put k i (Operation p) t)"
  by (rule claims_from_idle_put) auto

lemma claims_from_batch:
  "claims_from s t \<Longrightarrow> \<forall>p \<in> set ps. \<not> running_claim (snd p) \<Longrightarrow>
     claims_from s (fold (\<lambda>(i, p). store_put KindOperation i (Operation p)) ps t)"
  by (induction ps arbitrary: t) (auto simp: claims_from_idle_op)

lemma fail_not_running [simp]: "\<not> running_claim (fail_operation m t p)"
  by (simp add: running_claim_def fail_operation_def)

lemma claims_from_prune: "claims_from s t \<Longrightarrow> claims_from s (fst (prune_loop before ops n t))"
  by (induction before ops n t rule: prune_loop.induct) (auto simp: Let_def intro: claims_from_remove)

lemma claims_from_Create: "claims_from s (fst (Create env r key s))"
proof -
  let ?c1 = "with_operation_key key r"
  have "\<not> running_claim o'" if "\<not> created_unqueued ?c1"
      "with_lsp_name (map_metadata f (on_floating MarkPending (SetDefaults (with_id i ?c1)))) = Operation o'" for f i o'
    using queued_not_running [OF that(1)] that(2) by (auto simp: with_lsp_name_def split: resource.splits)
  then show ?thesis
    by (auto simp: Create_def Let_def split: sum.splits option.splits intro!: claims_from_idle_put)
qed

lemma claims_from_Update: "claims_from s (fst (Update env r n key s))"
proof -
  let ?c = "on_floating MarkPending (SetDefaults r)"
  have "\<not> running_claim o'" if "\<not> unclaimed_start ?c" "map_metadata f ?c = Operation o'" for f o'
    using that by (cases ?c) (auto simp: unclaimed_start_def running_claim_def)
  then show ?thesis
    by (auto simp: Update_def Let_def check_simps split: sum.splits option.splits intro!: claims_from_idle_put)
qed

lemma claims_from_BeginDelete: "claims_from s (fst (BeginDelete env k i n key s))"
proof -
  have "\<exists>p. r = Operation p \<and> running_claim p \<and> op_LeaseOwner p = op_LeaseOwner o'"
    if "on_floating MarkPending (map_metadata f r) = Operation o'" "running_claim o'" for f r o'
    using that by (cases r) (auto simp: on_floating_def)
  then show ?thesis
    by (fastforce simp: BeginDelete_def Let_def split: sum.splits option.splits intro!: claims_from_put)
qed

lemma claims_from_MarkReconciled: "claims_from s (fst (MarkReconciled env k i n e s))"
proof -
  have "\<exists>p. r = Operation p \<and> running_claim p \<and> op_LeaseOwner p = op_LeaseOwner o'"
    if "reconciled_resource t n e r = Operation o'" "running_claim o'" for t r o'
    using that by (cases r) (auto simp: reconciled_resource_def Let_def on_floating_def split: option.splits if_splits)
  then show ?thesis
    by (fastforce simp: MarkReconciled_def Let_def split: option.splits intro!: claims_from_put)
qed

lemma claims_from_Renew: "claims_from s (fst (RenewOperationLease env i n w t s))"
  by (auto simp: RenewOperationLease_def Let_def get_as_Some running_claim_def split: option.splits intro!: claims_from_put)

lemma claims_from_Heartbeat: "claims_from s (fst (ObserveNodeHeartbeat env i n t s))"
  by (auto simp: ObserveNodeHeartbeat_def Let_def split: option.splits intro!: claims_from_idle_put)

lemma claims_from_Recover: "claims_from s (fst (RecoverExpiredOperations env cutoff t n s))"
proof -
  have "claims_from s t1 \<Longrightarrow> \<forall>p \<in> set ps. \<not> running_claim p \<Longrightarrow>
      claims_from s (fold (\<lambda>o'. store_put KindOperation (ID (op_meta o')) (Operation o')) ps t1)" for ps t1
    by (induction ps arbitrary: t1) (simp_all add: claims_from_idle_op)
  then show ?thesis by (auto simp: RecoverExpiredOperations_def Let_def)
qed

lemma claims_from_Fence: "claims_from s (fst (FenceReconciles env k i cutoff t s))"
proof -
  have "claims_from s (fst (fence_loop k i cutoff t rs False False s))" for rs
    unfolding fence_loop_state by (rule claims_from_batch) auto
  then show ?thesis by (auto simp: FenceReconciles_def split: prod.splits) (metis fst_conv)
qed

lemmas claims_from_ops = claims_from_Create claims_from_Update claims_from_BeginDelete claims_from_MarkReconciled
  claims_from_Renew claims_from_Heartbeat claims_from_Recover claims_from_Fence

lemma claims_from_Prune_Purge:
  "claims_from s (fst (PruneOperations env t n s))" "claims_from s (fst (Purge env k i m s))"
  using claims_from_prune [OF claims_from_refl]
  by (auto simp: PruneOperations_def Purge_def Let_def split: prod.splits option.splits intro!: claims_from_remove) (metis fst_conv)

lemma claim_result:
  assumes "lookup (fst (claimOperation env j n action w t0 cutoff s)) KindOperation i = Some (Operation o')" "running_claim o'"
    and "\<not> (\<exists>p. lookup s KindOperation i = Some (Operation p) \<and> running_claim p \<and> op_LeaseOwner p = op_LeaseOwner o')"
  shows "i = j \<and> snd (claimOperation env j n action w t0 cutoff s) = Inr o'"
  using assms by (auto simp: claimOperation_def Let_def split: option.splits if_splits)



text \<open>The check on a claimant's name in the store accepts exactly the names the validation of
  operations accepts as lease owners, so a claim never stores an operation that would be
  refused on its next write.\<close>

lemma validLeaseOwner_iff: "validLeaseOwner v \<longleftrightarrow> validateName field v = None"
  by (simp add: lease_owner_name validateName_def check_simps)

text \<open>C31. A lease is exclusive: while the lease of a running operation is live at the claimant's
  cutoff, a claim of it is refused with a conflict (or earlier with a stale revision) and
  changes nothing, whoever asks.\<close>

theorem live_lease_refuses_claim:
  assumes "lookup s KindOperation i = Some (Operation o')" "op_OperationStatus o' = OperationRunning"
    and "reconcileLeaseIsLive o' cutoff"
  shows "\<exists>e. claimOperation env i n action w t cutoff s = (s, Inl e) \<and> e \<in> {ErrContext, ErrConflict, ErrPrecondition}"
  using assms by (auto simp: claimOperation_def get_as_def)

theorem live_lease_refuses_claim_witness:
  "\<exists>e. claimOperation sample_env ''o'' 2 ''reconcile'' ''other'' 30 15 claimed_store = (claimed_store, Inl e) \<and>
     e \<in> {ErrContext, ErrConflict, ErrPrecondition}"
proof -
  have "op_OperationStatus claimed_operation = OperationRunning" "reconcileLeaseIsLive claimed_operation 15" by code_simp+
  then show ?thesis by (rule live_lease_refuses_claim [OF claimed_store_row])
qed

section \<open>Failed calls\<close>


section \<open>Idempotency and revisions\<close>

lemma replay_remember: "scope \<noteq> [] \<Longrightarrow> replayLocked (rememberLocked scope fp r d s) scope fp = Inr (Some r)"
  by (simp add: replayLocked_def rememberLocked_def table_simps)

lemma scope_nonempty: "key \<noteq> [] \<Longrightarrow> idempotencyScope action k i key \<noteq> []"
  by (simp add: idempotencyScope_def)

text \<open>C24. Retries are safe: after a create, an update or a begin-delete with an idempotency key
  succeeded, the same call repeated (by any caller, at any later time) changes nothing and
  returns the recorded result, marked as a replay.\<close>

theorem retry_replays:
  assumes "key \<noteq> []" "\<not> env_cancelled env'" "env_codec env' = env_codec env"
  shows "(Create env r key s = (s', Inr (x, b)) \<longrightarrow> Create env' r key s' = (s', Inr (x, True))) \<and>
    (Update env r n key s = (s', Inr (x, b)) \<longrightarrow> Update env' r n key s' = (s', Inr (x, True))) \<and>
    (BeginDelete env k i n key s = (s', Inr (x, b)) \<longrightarrow> BeginDelete env' k i n key s' = (s', Inr (x, True)))"
proof (intro conjI impI)
  note scope = scope_nonempty [OF assms(1)]
  show "Create env' r key s' = (s', Inr (x, True))" if "Create env r key s = (s', Inr (x, b))"
    using that assms scope
    by (auto simp: Create_def Let_def replay_remember split: sum.splits option.splits if_splits)
  show "Update env' r n key s' = (s', Inr (x, True))" if "Update env r n key s = (s', Inr (x, b))"
    using that assms scope
    by (auto simp: Update_def Let_def replay_remember split: sum.splits option.splits if_splits)
  show "BeginDelete env' k i n key s' = (s', Inr (x, True))" if "BeginDelete env k i n key s = (s', Inr (x, b))"
    using that assms scope
    by (auto simp: BeginDelete_def Let_def replay_remember split: sum.splits option.splits if_splits)
qed

theorem retry_replays_witness:
  "\<exists>s' x. Create sample_env (Network sample_network) ''key'' NewMemory = (s', Inr (x, False)) \<and>
     Create (sample_env\<lparr>env_now := 99\<rparr>) (Network sample_network) ''key'' s' = (s', Inr (x, True))"
proof -
  have "snd (Create sample_env (Network sample_network) ''key'' NewMemory) = Inr (stored (Network sample_network), False)"
    by code_simp
  then obtain s' where s': "Create sample_env (Network sample_network) ''key'' NewMemory =
      (s', Inr (stored (Network sample_network), False))" by (metis prod.collapse)
  have "''key'' \<noteq> []" "\<not> env_cancelled (sample_env\<lparr>env_now := 99\<rparr>)"
    "env_codec (sample_env\<lparr>env_now := 99\<rparr>) = env_codec sample_env" by (simp_all add: sample_env_def)
  from retry_replays [OF this] s' show ?thesis by blast
qed


definition renamed_network :: resource where
  "renamed_network = Network (sample_network\<lparr>net_Name := ''renamed''\<rparr>)"

definition updated_store :: memory where
  "updated_store = fst (Update sample_env renamed_network 1 ''u'' sample_store)"

lemma updated_store_ok:
  "\<exists>x. Update sample_env renamed_network 1 ''u'' sample_store = (updated_store, Inr (x, False))"
proof -
  have "case snd (Update sample_env renamed_network 1 ''u'' sample_store) of Inr (_, b) \<Rightarrow> \<not> b | _ \<Rightarrow> False" by code_simp
  then show ?thesis
    by (auto simp: updated_store_def split: sum.splits prod.splits) (metis prod.collapse)
qed


text \<open>C12. No lost updates: once an update expecting some revision has been applied, every other
  update or begin-delete of that row which expects the same revision, and is not a recorded
  retry, is refused with a failed precondition.\<close>

theorem no_lost_update:
  assumes "Update env r n key s = (s', Inr (x, False))"
    and "ResourceKind r' = ResourceKind r" "ID (GetMetadata r') = ID (GetMetadata r)" "\<not> env_cancelled env'"
    and "replayLocked s' (idempotencyScope ''update'' (ResourceKind r) (ID (GetMetadata r)) key')
        (resource_fingerprint (env_codec env') r' (''expected='' @ dec_int n)) = Inr None"
    and "replayLocked s' (idempotencyScope ''delete'' (ResourceKind r) (ID (GetMetadata r)) key')
        (sha256 (env_codec env') (ID (GetMetadata r) @ '':'' @ dec_int n)) = Inr None"
  shows "Update env' r' n key' s' = (s', Inl ErrPrecondition) \<and>
    BeginDelete env' (ResourceKind r) (ID (GetMetadata r)) n key' s' = (s', Inl ErrPrecondition)"
proof -
  have "ID (GetMetadata r) \<noteq> []" using assms(1) by (auto simp: Update_def split: if_splits)
  moreover have "lookup s' (ResourceKind r) (ID (GetMetadata r)) = Some x" "Revision (GetMetadata x) = n + 1"
    using assms(1) by (auto simp: Update_def Let_def updated_metadata_def split: sum.splits option.splits if_splits)
  ultimately show ?thesis using assms(2-) by (auto simp: Update_def BeginDelete_def Let_def)
qed

theorem no_lost_update_witness:
  "Update sample_env (Network sample_network) 1 [] updated_store = (updated_store, Inl ErrPrecondition) \<and>
   BeginDelete sample_env KindNetwork ''n'' 1 [] updated_store = (updated_store, Inl ErrPrecondition)"
proof -
  obtain x where "Update sample_env renamed_network 1 ''u'' sample_store = (updated_store, Inr (x, False))"
    using updated_store_ok by blast
  from no_lost_update [OF this, of "Network sample_network" sample_env "[]"] show ?thesis
    by (simp add: renamed_network_def sample_network_def sample_meta_def sample_env_def replayLocked_def idempotencyScope_def)
qed

section \<open>Deletion\<close>

text \<open>C26. A row being cleaned up gains no new referrers: in a reachable store, a create never
  returns a fresh row that refers to a row in state deleting or error, and an update leaves a
  row referring to one only if it did so before.\<close>

theorem no_new_reference_to_dying_row:
  assumes "reachable cd s" "lookup s k i = Some t" "State (GetMetadata t) \<in> {ResourceDeleting, ResourceError}"
  shows "(Create env r key s = (s', Inr (x, False)) \<longrightarrow> env_newID env \<noteq> [] \<longrightarrow> \<not> references x k i) \<and>
    (Update env r n key s = (s', Inr (x, False)) \<longrightarrow> references x k i \<longrightarrow>
      (\<exists>cur. lookup s (ResourceKind r) (ID (GetMetadata r)) = Some cur \<and> references cur k i))"
proof (intro conjI impI)
  note keys = store_invD(1) [OF store.reach_inv [OF assms(1)]]
  let ?c = "on_floating MarkPending (SetDefaults (with_id (env_newID env) (with_operation_key key r)))"
  show "\<not> references x k i" if "Create env r key s = (s', Inr (x, False))" "env_newID env \<noteq> []"
  proof -
    have x: "x = map_metadata (fresh_metadata (env_now env)) ?c"
      and "validateNewReferenceStatesLocked s ?c None = None"
      using that by (auto simp: Create_def Let_def lsp_name_set check_simps split: sum.splits option.splits if_splits)
    then have "\<not> references ?c k i" using assms(2,3) by (auto simp: validateNewReferenceStates_None [OF keys])
    then show ?thesis using x core_cong(2) [of x ?c] by simp
  qed
  let ?u = "on_floating MarkPending (SetDefaults r)"
  show "\<exists>cur. lookup s (ResourceKind r) (ID (GetMetadata r)) = Some cur \<and> references cur k i"
    if upd: "Update env r n key s = (s', Inr (x, False))" and ref: "references x k i"
  proof -
    obtain cur where cur: "lookup s (ResourceKind r) (ID (GetMetadata r)) = Some cur"
      and "x = map_metadata (updated_metadata (env_now env) (ID (GetMetadata r)) (GetMetadata cur)) ?u"
      and "validateNewReferenceStatesLocked s ?u (Some cur) = None"
      using upd by (auto simp: Update_def Let_def check_simps split: sum.splits option.splits if_splits)
    then have "references ?u k i" using ref core_cong(2) [of x ?u] by simp
    then show ?thesis
      using cur assms(2,3) \<open>validateNewReferenceStatesLocked s ?u (Some cur) = None\<close>
      by (auto simp: validateNewReferenceStates_None [OF keys])
  qed
qed

definition dying_store :: memory where
  "dying_store = fst (BeginDelete sample_env KindNetwork ''n'' 1 [] (create_all [Network sample_network, SecurityGroup sample_group] NewMemory))"

lemma dying_store_reachable: "reachable sample_codec dying_store"
  unfolding dying_store_def
  by (rule reach_step [OF create_all_reachable step_BeginDelete]) (simp add: reach_first first_memory_def)

theorem no_new_reference_to_dying_row_witness:
  "\<exists>t x s'. lookup dying_store KindNetwork ''n'' = Some t \<and> State (GetMetadata t) = ResourceDeleting \<and>
     Create sample_env second_network [] dying_store = (s', Inr (x, False)) \<and> \<not> references x KindNetwork ''n''"
proof -
  have *: "case lookup dying_store KindNetwork ''n'' of Some t \<Rightarrow> State (GetMetadata t) = ResourceDeleting | None \<Rightarrow> False"
    by code_simp
  then obtain t where t: "lookup dying_store KindNetwork ''n'' = Some t" "State (GetMetadata t) = ResourceDeleting"
    by (auto split: option.splits)
  have "snd (Create sample_env second_network [] dying_store) = Inr (stored second_network, False)" by code_simp
  then obtain s' where s': "Create sample_env second_network [] dying_store = (s', Inr (stored second_network, False))"
    by (metis prod.collapse)
  have "env_newID sample_env \<noteq> []" by (simp add: sample_env_def)
  with no_new_reference_to_dying_row [OF dying_store_reachable t(1)] t s' show ?thesis by blast
qed

text \<open>C27. A purge removes only what is safe to remove. If a purge of a stored row succeeds in a
  reachable store, the row had the given revision and was marked for deletion or failed, no
  other row refers to it, and no operation is running on it; it is then gone and every other
  row is as before.\<close>

theorem Purge_effect:
  assumes "reachable cd s" "lookup s k i = Some r" "Purge env k i n s = (s', None)"
  shows "Revision (GetMetadata r) = n \<and> State (GetMetadata r) \<in> {ResourceDeleting, ResourceError} \<and>
    (\<forall>k' i' b. lookup s k' i' = Some b \<longrightarrow> (k', i') \<noteq> (k, i) \<longrightarrow> \<not> references b k i) \<and>
    (\<forall>i' o'. lookup s KindOperation i' = Some (Operation o') \<longrightarrow> op_OperationStatus o' = OperationRunning \<longrightarrow>
       (op_TargetKind o', op_TargetID o') \<noteq> (k, i)) \<and>
    (\<forall>k' i'. lookup s' k' i' = (if (k', i') = (k, i) then None else lookup s k' i'))"
proof -
  note inv = store.reach_inv [OF assms(1)]
  have p: "Revision (GetMetadata r) = n" "State (GetMetadata r) \<in> {ResourceDeleting, ResourceError}"
    "\<not> firstReferenceLocked s k i" "\<not> purge_protected s k i" "s' = store_remove k i s"
    using assms(2,3) by (auto simp: Purge_def Let_def split: if_splits)
  have "(op_TargetKind o', op_TargetID o') \<noteq> (k, i)"
    if "lookup s KindOperation i' = Some (Operation o')" "op_OperationStatus o' = OperationRunning" for i' o'
    using that p(4) by (auto simp: purge_protected_def list_ex_iff mem_all_of [OF store_invD(1) [OF inv]])
  with p firstReference_False [OF store_invD(1) [OF inv] p(3)] show ?thesis by auto
qed

theorem Purge_effect_witness:
  "\<exists>s'. Purge sample_env KindNetwork ''n'' 2 dying_store = (s', None) \<and> lookup s' KindNetwork ''n'' = None"
proof -
  have "case lookup dying_store KindNetwork ''n'' of None \<Rightarrow> False | Some r \<Rightarrow> True" by code_simp
  then obtain r where r: "lookup dying_store KindNetwork ''n'' = Some r" by (auto split: option.splits)
  have "snd (Purge sample_env KindNetwork ''n'' 2 dying_store) = None" by code_simp
  then obtain s' where s': "Purge sample_env KindNetwork ''n'' 2 dying_store = (s', None)" by (metis prod.collapse)
  with Purge_effect [OF dying_store_reachable r s'] show ?thesis by auto
qed

section \<open>Fencing, recovery and retention\<close>

lemma fold_put_lookup:
  "distinct (map fst ps) \<Longrightarrow> lookup (fold (\<lambda>(i, p). store_put KindOperation i (Operation p)) ps s) k i =
     (if k = KindOperation then (case map_of ps i of Some p \<Rightarrow> Some (Operation p) | None \<Rightarrow> lookup s k i) else lookup s k i)"
proof (induction ps arbitrary: s)
  case (Cons x ps)
  obtain a b where x: "x = (a, b)" by fastforce
  have "map_of ps a = None" using Cons.prems x by (simp add: map_of_eq_None_iff)
  with Cons x show ?case by (simp del: map_of_eq_Some_iff split: option.split)
qed simp

lemma FenceReconciles_lookup:
  assumes "store_inv cd s" "FenceReconciles env kind ident cutoff t s = (s', Inr (active, recovered))"
  shows "lookup s' k i =
      (case get_as as_operation s k i of
         Some o' \<Rightarrow>
           if k = KindOperation \<and> fence_targets kind ident o' \<and> \<not> reconcileLeaseIsLive o' cutoff
           then Some (Operation (fail_operation ''reconcile lease expired while target was deleting'' t o'))
           else lookup s k i
       | None \<Rightarrow> lookup s k i)"
proof -
  let ?ps = "map (\<lambda>(i, o'). (i, fail_operation ''reconcile lease expired while target was deleting'' t o'))
               (fenced kind ident cutoff (rows s KindOperation))"
  note keys = store_invD(1) [OF assms(1)]
  have s': "s' = fst (fence_loop kind ident cutoff t (rows s KindOperation) False False s)"
    using assms(2) by (auto simp: FenceReconciles_def split: if_splits prod.splits)
  have d: "distinct (map fst (fenced kind ident cutoff (rows s KindOperation)))"
    using distinct_fenced distinct_rows [OF keys] by blast
  have dp: "distinct (map fst ?ps)"
    using d by (simp add: comp_def case_prod_unfold)
  have in_ps: "map_of ?ps i = Some p \<longleftrightarrow> (\<exists>o'. lookup s KindOperation i = Some (Operation o') \<and> fence_targets kind ident o' \<and>
      \<not> reconcileLeaseIsLive o' cutoff \<and> p = fail_operation ''reconcile lease expired while target was deleting'' t o')" for p
  proof -
    have "map_of ?ps i = Some p \<longleftrightarrow> (i, p) \<in> set ?ps" by (rule map_of_eq_Some_iff [OF dp])
    also have "\<dots> \<longleftrightarrow> (\<exists>o'. (i, o') \<in> set (fenced kind ident cutoff (rows s KindOperation)) \<and>
        p = fail_operation ''reconcile lease expired while target was deleting'' t o')" by auto
    finally show ?thesis by (simp add: mem_fenced mem_rows [OF keys])
  qed
  have look: "lookup s' k i = (if k = KindOperation then
      (case map_of ?ps i of Some p \<Rightarrow> Some (Operation p) | None \<Rightarrow> lookup s k i) else lookup s k i)"
    unfolding s' fence_loop_state by (rule fold_put_lookup [OF dp])
  show ?thesis
  proof (cases "map_of ?ps i")
    case (Some p)
    with in_ps [of p] look show ?thesis by (auto simp: get_as_def simp del: map_of_eq_Some_iff split: option.split)
  next
    case None
    with in_ps look show ?thesis by (auto simp: get_as_Some simp del: map_of_eq_Some_iff split: option.split)
  qed
qed

lemma fail_not_fenced [simp]: "\<not> fence_targets kind ident (fail_operation m t p)"
  by (simp add: fence_targets_def fail_operation_def)

text \<open>C28. Fencing decides whether a deletion may go on: after a fence of a target, the returned
  flag tells exactly whether a reconcile of that target is still running, each such reconcile
  has a live lease, and the only rows that changed are abandoned claims on that target, now
  failed.\<close>

theorem FenceReconciles_effect:
  assumes "reachable cd s" "FenceReconciles env kind ident cutoff t s = (s', Inr (active, recovered))"
  shows "(active \<longleftrightarrow> (\<exists>i o'. lookup s' KindOperation i = Some (Operation o') \<and> fence_targets kind ident o')) \<and>
    (\<forall>i o'. lookup s' KindOperation i = Some (Operation o') \<longrightarrow> fence_targets kind ident o' \<longrightarrow> reconcileLeaseIsLive o' cutoff) \<and>
    (\<forall>k i. lookup s' k i = lookup s k i \<or>
       (\<exists>o'. lookup s k i = Some (Operation o') \<and> fence_targets kind ident o' \<and> \<not> reconcileLeaseIsLive o' cutoff \<and>
          lookup s' k i = Some (Operation (fail_operation ''reconcile lease expired while target was deleting'' t o'))))"
proof -
  note inv = store.reach_inv [OF assms(1)]
  note look = FenceReconciles_lookup [OF inv assms(2)]
  have kept: "lookup s' KindOperation i = Some (Operation o') \<and> fence_targets kind ident o' \<longleftrightarrow>
      lookup s KindOperation i = Some (Operation o') \<and> fence_targets kind ident o' \<and> reconcileLeaseIsLive o' cutoff" for i o'
    unfolding look by (auto simp: get_as_Some get_as_def split: option.splits if_splits)
  have "active \<longleftrightarrow> (\<exists>i o'. (i, Operation o') \<in> set (rows s KindOperation) \<and> fence_targets kind ident o' \<and>
      reconcileLeaseIsLive o' cutoff)"
    using assms(2) fence_loop_active [of kind ident cutoff t "rows s KindOperation" False False s]
    by (auto simp: FenceReconciles_def split: if_splits prod.splits)
  then have "active \<longleftrightarrow> (\<exists>i o'. lookup s' KindOperation i = Some (Operation o') \<and> fence_targets kind ident o')"
    unfolding mem_rows [OF store_invD(1) [OF inv]] kept .
  moreover have "lookup s' k i = lookup s k i \<or>
       (\<exists>o'. lookup s k i = Some (Operation o') \<and> fence_targets kind ident o' \<and> \<not> reconcileLeaseIsLive o' cutoff \<and>
          lookup s' k i = Some (Operation (fail_operation ''reconcile lease expired while target was deleting'' t o')))" for k i
    unfolding look by (auto simp: get_as_Some split: option.splits if_splits)
  ultimately show ?thesis using kept by blast
qed

theorem FenceReconciles_effect_witness:
  "\<exists>s'. FenceReconciles sample_env KindNetwork ''n'' 25 30 claimed_store = (s', Inr (False, True)) \<and>
     \<not> (\<exists>i o'. lookup s' KindOperation i = Some (Operation o') \<and> fence_targets KindNetwork ''n'' o')"
proof -
  have "snd (FenceReconciles sample_env KindNetwork ''n'' 25 30 claimed_store) = Inr (False, True)" by code_simp
  then obtain s' where s': "FenceReconciles sample_env KindNetwork ''n'' 25 30 claimed_store = (s', Inr (False, True))"
    by (metis prod.collapse)
  with FenceReconciles_effect [OF claimed_store_reachable s'] show ?thesis by blast
qed

lemma recovered_lookup:
  assumes "store_inv cd s" "\<forall>o' \<in> set ops. lookup s KindOperation (ID (op_meta o')) = Some (Operation o')"
  shows "lookup (fold (\<lambda>o'. store_put KindOperation (ID (op_meta o')) (Operation o')) (map f ops) s) k i = lookup s k i \<or>
    (\<exists>o' \<in> set ops. k = KindOperation \<and> i = ID (op_meta (f o')) \<and>
      lookup (fold (\<lambda>o'. store_put KindOperation (ID (op_meta o')) (Operation o')) (map f ops) s) k i = Some (Operation (f o')))"
proof -
  have "lookup (fold (\<lambda>o'. store_put KindOperation (ID (op_meta o')) (Operation o')) ps t) k i = lookup t k i \<or>
    (\<exists>p \<in> set ps. k = KindOperation \<and> i = ID (op_meta p) \<and>
      lookup (fold (\<lambda>o'. store_put KindOperation (ID (op_meta o')) (Operation o')) ps t) k i = Some (Operation p))" for ps t
  proof (induction ps arbitrary: t)
    case (Cons p ps)
    from Cons [of "store_put KindOperation (ID (op_meta p)) (Operation p) t"] show ?case by (auto split: if_splits)
  qed simp
  from this [of "map f ops" s] show ?thesis by auto
qed

lemma recovery_candidates_dead:
  "o' \<in> set (recovery_candidates s cutoff n) \<Longrightarrow>
     running_claim o' \<and> \<not> reconcileLeaseIsLive o' cutoff \<or>
     op_Action o' = ''reconcile'' \<and> op_OperationStatus o' = OperationQueued \<and> operationSupersededLocked s o'"
  by (auto simp: recovery_candidates_def Let_def expiredRunningOperations_def supersededQueuedReconcilesLocked_def
      running_claim_def dest!: in_set_takeD split: if_splits)



text \<open>The rows a prune may take: terminal reconciles outside the newest \<open>keep\<close>.\<close>

lemma prune_loop_count: "n \<le> maxOperationPruneBatch \<Longrightarrow> snd (prune_loop before ops n s) \<le> maxOperationPruneBatch"
  by (induction before ops n s rule: prune_loop.induct) (auto simp: Let_def)

lemma prune_loop_lookup:
  assumes "\<forall>o' \<in> set ops. op_TargetKind o' \<noteq> KindOperation"
  shows "lookup (fst (prune_loop before ops n s)) k i = lookup s k i \<or>
    (lookup (fst (prune_loop before ops n s)) k i = None \<and> k = KindOperation \<and>
     (\<exists>o' \<in> set ops. i = ID (op_meta o') \<and> operationSupersededLocked s o' \<and> (\<exists>c. op_CompletedAt o' = Some c \<and> c < before)))"
  using assms
proof (induction before ops n s rule: prune_loop.induct)
  case (2 before p ops n s)
  let ?t = "(store_remove KindOperation (ID (op_meta p)) s)
    \<lparr>idempotency := AList.delete (idempotencyScope ''create'' KindOperation [] (op_IdempotencyKey p)) (idempotency s)\<rparr>"
  show ?case
  proof (cases "n \<noteq> maxOperationPruneBatch \<and> prune_eligible before s p")
    case True
    have sup: "operationSupersededLocked ?t o' = operationSupersededLocked s o'" if "o' \<in> set ops" for o'
      using that 2(3) by (intro superseded_cong) auto
    have p: "operationSupersededLocked s p" "\<exists>c. op_CompletedAt p = Some c \<and> c < before"
      using True by (auto simp: prune_eligible_def split: option.splits)
    have "lookup (fst (prune_loop before ops (Suc n) ?t)) k i = lookup ?t k i \<or>
      (lookup (fst (prune_loop before ops (Suc n) ?t)) k i = None \<and> k = KindOperation \<and>
       (\<exists>o' \<in> set ops. i = ID (op_meta o') \<and> operationSupersededLocked ?t o' \<and> (\<exists>c. op_CompletedAt o' = Some c \<and> c < before)))"
      using 2(2) 2(3) True by (simp add: Let_def)
    with p sup True show ?thesis by (auto simp: Let_def split: if_splits)
  qed (use 2 in auto)
qed simp


definition finished_store :: memory where
  "finished_store = fst (FenceReconciles sample_env KindNetwork ''n'' 25 30 claimed_store)"


section \<open>Liveness reports and reconciliation results\<close>

text \<open>A heartbeat is observation only: it changes nothing but the last-seen time of the node it
  names, never backwards, and in particular neither its revision nor its state, so it cannot
  trigger or hide a reconciliation.\<close>

theorem ObserveNodeHeartbeat_effect:
  assumes "ObserveNodeHeartbeat env i n t s = (s', Inr x)"
  shows "\<exists>m. lookup s KindNode i = Some (Node m) \<and> Revision (node_meta m) = n \<and>
    x = m\<lparr>node_LastSeenAt := node_LastSeenAt x\<rparr> \<and> (\<exists>seen. node_LastSeenAt x = Some seen \<and> t \<le> seen) \<and>
    (node_LastSeenAt m = None \<or> (\<exists>a b. node_LastSeenAt m = Some a \<and> node_LastSeenAt x = Some b \<and> a \<le> b)) \<and>
    (\<forall>k j. lookup s' k j = (if (k, j) = (KindNode, i) then Some (Node x) else lookup s k j))"
  using assms by (auto simp: ObserveNodeHeartbeat_def Let_def get_as_Some split: if_splits option.splits)

text \<open>Recording a rendering result never overtakes the desired state: it is refused for a
  revision newer than the row's; on success the row's revision and core are unchanged, the
  applied revision is the larger of the old one and the rendered one, and the row becomes
  ready exactly when the rendered revision is the current one. A failure of the current
  revision is recorded as the row's error and does not raise the applied revision; a failure
  of an older revision changes nothing.\<close>

theorem MarkReconciled_effect:
  assumes "MarkReconciled env k i n e s = (s', Inr x)"
  shows "\<exists>r. lookup s k i = Some r \<and> n \<le> Revision (GetMetadata r) \<and> core x = core r \<and>
    Revision (GetMetadata x) = Revision (GetMetadata r) \<and>
    AppliedRevision (GetMetadata x) = (if e = None then max n (AppliedRevision (GetMetadata r)) else AppliedRevision (GetMetadata r)) \<and>
    State (GetMetadata x) = (if n \<noteq> Revision (GetMetadata r) then State (GetMetadata r)
      else if e = None then ResourceReady else ResourceError) \<and>
    lookup s' k i = Some x"
proof -
  obtain r where r: "lookup s k i = Some r"
    using assms by (cases "lookup s k i") (auto simp: MarkReconciled_def split: if_splits)
  have "n \<le> Revision (GetMetadata r)" "lookup s' k i = Some x" "x = reconciled_resource (env_now env) n e r"
    using assms r by (simp_all add: MarkReconciled_def Let_def split: if_splits) auto
  with r show ?thesis
    by (cases e; cases "n = Revision (GetMetadata r)"; cases "n > AppliedRevision (GetMetadata r)")
       (simp_all add: reconciled_resource_def Let_def)
qed

section \<open>Reads\<close>

lemma distinct_row_resources:
  assumes "store_inv cd s"
  shows "distinct (map snd (rows s k))"
proof (rule distinct_map [THEN iffD2], rule conjI)
  note keys = store_invD(1) [OF assms]
  show "distinct (rows s k)" using distinct_rows [OF keys] by (simp add: distinct_map)
  show "inj_on snd (set (rows s k))"
    using row_okD(3) [OF assms] by (auto simp: inj_on_def mem_rows [OF keys]) metis
qed

text \<open>A listing is complete and ordered: in a reachable store, for a known kind and a limit that is
  not negative, the rows of that kind that match the filters are returned without duplicates,
  by id or newest first, and a positive limit returns the first of exactly that list.\<close>

theorem ListResources_effect:
  assumes "reachable cd s" "kind_valid kind" "\<not> env_cancelled env" "0 \<le> opt_Limit options"
  shows "\<exists>full. ListResources env kind options s =
      Inr (if opt_Limit options = 0 then full else take (nat (opt_Limit options)) full) \<and>
    set full = {r. (\<exists>i. lookup s kind i = Some r) \<and> row_matches r options} \<and> distinct full \<and>
    sorted (map (list_key options) full)"
proof -
  note inv = store.reach_inv [OF assms(1)]
  let ?full = "sort_key (list_key options) (filter (\<lambda>r. row_matches r options) (map snd (rows s kind)))"
  have "ListResources env kind options s = Inr (if opt_Limit options = 0 then ?full else take (nat (opt_Limit options)) ?full)"
    using assms by (auto simp: ListResources_def Snapshot_def list_kind_def Let_def)
  moreover have "set ?full = {r. (\<exists>i. lookup s kind i = Some r) \<and> row_matches r options}"
    using mem_rows [OF store_invD(1) [OF inv]] by (force simp: image_iff)
  moreover have "distinct ?full" using distinct_row_resources [OF inv] by simp
  moreover have "sorted (map (list_key options) ?full)" by (rule sorted_sort_key)
  ultimately show ?thesis by blast
qed

definition all_options :: list_options where
  "all_options = \<lparr>opt_NetworkID = [], opt_SubnetID = [], opt_RouterID = [], opt_SecurityGroupID = [],
     opt_ProviderNetworkID = [], opt_NodeID = [], opt_VMID = 0, opt_NIC = [], opt_RecentFirst = True, opt_Limit = 1\<rparr>"

text \<open>The runtime lookup of a VM's NIC resolves node aliases: it returns exactly the stored ports
  with that VM and NIC that are placed on, or request the chassis of, a node known under the
  given identity by id, name or chassis, each once and ordered by id.\<close>

theorem LookupRuntimePorts_effect:
  assumes "reachable cd s" "LookupRuntimePorts env who vmid nic s = Inr ps"
  shows "sorted (map (\<lambda>p. ID (port_meta p)) ps) \<and> distinct ps \<and>
    (\<forall>p. p \<in> set ps \<longleftrightarrow>
       (\<exists>i. lookup s KindPort i = Some (Port p)) \<and> port_VMID p = vmid \<and> port_NIC p = nic \<and>
       (\<exists>alias. (alias = port_NodeID p \<or> alias \<in> set (requestedChassisOrEmpty (port_RequestedChassis p))) \<and>
          (alias = who \<or>
           (\<exists>j n. lookup s KindNode j = Some (Node n) \<and> who \<in> {ID (node_meta n), node_Name n, node_ChassisID n} \<and>
              alias \<in> {ID (node_meta n), node_Name n, node_ChassisID n}))))"
proof -
  note inv = store.reach_inv [OF assms(1)]
  note keys = store_invD(1) [OF inv]
  have ps: "ps = sort_key (\<lambda>p. ID (port_meta p)) (filter (\<lambda>p. port_VMID p = vmid \<and> port_NIC p = nic \<and>
      (port_NodeID p \<in> set (accepted_nodes s who) \<or>
       (\<exists>c \<in> set (requestedChassisOrEmpty (port_RequestedChassis p)). c \<in> set (accepted_nodes s who)))) (all_of as_port s KindPort))"
    using assms(2) by (auto simp: LookupRuntimePorts_def Let_def list_ex_iff split: if_splits intro!: arg_cong [where f = "sort_key _"] filter_cong)
  have acc: "a \<in> set (accepted_nodes s who) \<longleftrightarrow> a = who \<or>
      (\<exists>j n. lookup s KindNode j = Some (Node n) \<and> who \<in> {ID (node_meta n), node_Name n, node_ChassisID n} \<and>
         a \<in> {ID (node_meta n), node_Name n, node_ChassisID n})" for a
  proof -
    have "a \<in> set (accepted_nodes s who) \<longleftrightarrow> a = who \<or>
        (\<exists>n \<in> set (all_of as_node s KindNode). who \<in> {ID (node_meta n), node_Name n, node_ChassisID n} \<and>
           a \<in> {ID (node_meta n), node_Name n, node_ChassisID n})"
      by (fastforce simp: accepted_nodes_def)
    then show ?thesis by (simp only: Bex_def mem_all_of [OF keys] as_Some) blast
  qed
  have "map Port (all_of as_port s KindPort) = map snd (rows s KindPort)"
  proof -
    have "\<forall>(i, r) \<in> set xs. \<exists>p. r = Port p \<Longrightarrow> map Port (List.map_filter (\<lambda>(_, r). as_port r) xs) = map snd xs" for xs
      by (induction xs) (auto simp: List.map_filter_simps)
    moreover have "\<exists>p. r = Port p" if "(i, r) \<in> set (rows s KindPort)" for i r
      using row_okD(2) [OF inv, of KindPort i r] that mem_rows [OF keys] by (cases r) auto
    ultimately show ?thesis by (auto simp: all_of_def)
  qed
  then have "distinct (all_of as_port s KindPort)"
    using distinct_row_resources [OF inv, of KindPort] by (metis distinct_map)
  then have "distinct ps" by (simp add: ps)
  moreover have "sorted (map (\<lambda>p. ID (port_meta p)) ps)" unfolding ps by (rule sorted_sort_key)
  moreover have "p \<in> set ps \<longleftrightarrow>
       (\<exists>i. lookup s KindPort i = Some (Port p)) \<and> port_VMID p = vmid \<and> port_NIC p = nic \<and>
       (\<exists>alias. (alias = port_NodeID p \<or> alias \<in> set (requestedChassisOrEmpty (port_RequestedChassis p))) \<and>
          (alias = who \<or>
           (\<exists>j n. lookup s KindNode j = Some (Node n) \<and> who \<in> {ID (node_meta n), node_Name n, node_ChassisID n} \<and>
              alias \<in> {ID (node_meta n), node_Name n, node_ChassisID n})))" for p
    unfolding acc [symmetric] ps by (auto simp: mem_all_of [OF keys])
  ultimately show ?thesis by blast
qed

section \<open>A gap in the protection of nodes\<close>

definition node_gone :: memory where
  "node_gone = fst (Purge sample_env KindNode ''h'' 2 (fst (BeginDelete sample_env KindNode ''h'' 1 [] sample_store)))"


end
