(* ===== verification/Reconcile_Controller.thy ===== *)
theory Reconcile_Controller
  imports Store_Properties
begin

text \<open>
  The reconciliation controller (\<open>internal/reconcile/reconcile.go\<close>). A manager works on a
  store and on an OVN database that other managers use at the same time. The record
  \<open>world\<close> holds both, with the heartbeat that renews the manager's lease; \<open>w_pos\<close> counts the
  interactions of the manager with its surroundings. Interaction \<open>n\<close> is preceded by the
  events of \<open>c_tick c n\<close>: writes of other managers, firings of the heartbeat ticker, the
  heartbeat noticing a cancelled context. A store call is atomic (the store's lock), a call
  of the renderer takes effect at one instant. The renderer is a parameter: it gets whether
  its context is cancelled, the resource and the OVN state. The in-process lock of a resource
  only excludes some of the interference and is left out.
\<close>

section \<open>Managers, worlds and interference\<close>

definition second :: time where "second = 1000000000"
definition minute :: time where "minute = 60 * second"
definition operationLease :: time where "operationLease = 5 * minute"
definition forcedClaimWaitTimeout :: time where "forcedClaimWaitTimeout = 5 * second"
definition maxConvergencePasses :: nat where "maxConvergencePasses = 8"
definition maxHeartbeatInterval :: time where "maxHeartbeatInterval = 30 * second"
definition defaultOperationKeep :: int where "defaultOperationKeep = 1000"
definition defaultOperationAge :: time where "defaultOperationAge = 24 * 60 * minute"
definition operationRecoveryBatch :: int where "operationRecoveryBatch = 256"

datatype 'o event = Others "memory \<times> 'o \<Rightarrow> memory \<times> 'o" | Beat time | Notice

record 'o tick =
  tk_events :: "'o event list"
  tk_cancelled :: bool
  tk_expired :: bool
  tk_now :: time
  tk_newID :: string
  tk_owner :: string

record 'o controller =
  c_configured :: bool
  c_codec :: codec
  c_message :: "err \<Rightarrow> string"
  c_render :: "bool \<Rightarrow> resource \<Rightarrow> 'o \<Rightarrow> 'o \<times> err option"
  c_remove :: "bool \<Rightarrow> resource \<Rightarrow> 'o \<Rightarrow> 'o \<times> err option"
  c_lease :: time
  c_heartbeat :: time
  c_forcedClaimWait :: time
  c_keep :: int
  c_age :: time
  c_tick :: "nat \<Rightarrow> 'o tick"

record heartbeat =
  hb_operation :: operation
  hb_err :: "err option"
  hb_parentStopped :: bool

record 'o world =
  w_store :: memory
  w_ovn :: 'o
  w_pos :: nat
  w_heart :: "heartbeat option"

section \<open>Construction\<close>

text \<open>Go's integer division truncates where \<open>div\<close> rounds down; both are at most zero for a negative
  lease, where the interval is raised to one nanosecond.\<close>

definition heartbeatInterval :: "time \<Rightarrow> time" where
  "heartbeatInterval lease =
     (let interval = lease div 3;
          interval = (if interval \<le> 0 then 1 else interval)
      in if interval > maxHeartbeatInterval then maxHeartbeatInterval else interval)"

datatype option_setting = WithLeaseDuration time | WithOperationRetention int time

fun apply_option :: "option_setting \<Rightarrow> 'o controller \<Rightarrow> 'o controller" where
  "apply_option (WithLeaseDuration duration) c =
     (if duration > 0 then c\<lparr>c_lease := duration, c_heartbeat := heartbeatInterval duration\<rparr> else c)"
| "apply_option (WithOperationRetention keep age) c =
     (if keep \<ge> 0 \<and> age > 0 then c\<lparr>c_keep := keep, c_age := age\<rparr> else c)"

definition NewController ::
  "codec \<Rightarrow> (err \<Rightarrow> string) \<Rightarrow> (bool \<Rightarrow> resource \<Rightarrow> 'o \<Rightarrow> 'o \<times> err option) \<Rightarrow> (bool \<Rightarrow> resource \<Rightarrow> 'o \<Rightarrow> 'o \<times> err option) \<Rightarrow>
   (nat \<Rightarrow> 'o tick) \<Rightarrow> option_setting list \<Rightarrow> 'o controller" where
  "NewController cd message render remove ticks options =
     fold apply_option options
       \<lparr>c_configured = True, c_codec = cd, c_message = message, c_render = render, c_remove = remove,
        c_lease = operationLease, c_heartbeat = heartbeatInterval operationLease,
        c_forcedClaimWait = forcedClaimWaitTimeout, c_keep = defaultOperationKeep, c_age = defaultOperationAge,
        c_tick = ticks\<rparr>"

definition operationKey :: "kind \<Rightarrow> string \<Rightarrow> int \<Rightarrow> string" where
  "operationKey kind ident revision = ''reconcile:'' @ kind_string kind @ '':'' @ ident @ '':'' @ dec_int revision"

definition deleteOperationKey :: "kind \<Rightarrow> string \<Rightarrow> int \<Rightarrow> string" where
  "deleteOperationKey kind ident revision = ''delete:'' @ kind_string kind @ '':'' @ ident @ '':'' @ dec_int revision"

definition dependencyOrder :: "kind list" where
  "dependencyOrder =
     [KindProviderNetwork, KindNetwork, KindProviderSegment, KindSubnet, KindSecurityGroup, KindSecurityGroupRule,
      KindRouter, KindRouterInterface, KindPort, KindIPAllocation, KindFloatingIP, KindNode]"

section \<open>Interactions\<close>

text \<open>The heartbeat goroutine runs until it fails or is stopped: a tick renews the lease under
  the work context, a failed renewal is recorded and cancels the work context, and a
  cancelled parent is recorded as such.\<close>

definition heart_running :: "'o world \<Rightarrow> bool" where
  "heart_running w = (case w_heart w of None \<Rightarrow> False | Some h \<Rightarrow> hb_err h = None)"

definition heart_failed :: "'o world \<Rightarrow> bool" where
  "heart_failed w = (case w_heart w of None \<Rightarrow> False | Some h \<Rightarrow> hb_err h \<noteq> None)"

definition heartbeat_fail :: "err \<Rightarrow> bool \<Rightarrow> heartbeat \<Rightarrow> heartbeat" where
  "heartbeat_fail e parentStopped h =
     (if hb_err h = None then h\<lparr>hb_err := Some e, hb_parentStopped := parentStopped\<rparr> else h)"

definition heartbeat_tick :: "call_env \<Rightarrow> time \<Rightarrow> 'o world \<Rightarrow> 'o world" where
  "heartbeat_tick env t w =
     (case w_heart w of
        None \<Rightarrow> w
      | Some h \<Rightarrow>
          if hb_err h \<noteq> None then w
          else
            let current = hb_operation h
            in case RenewOperationLease env (ID (op_meta current)) (Revision (op_meta current)) (op_LeaseOwner current) t (w_store w) of
                 (s', Inl e) \<Rightarrow> w\<lparr>w_store := s', w_heart := Some (heartbeat_fail e False h)\<rparr>
               | (s', Inr renewed) \<Rightarrow> w\<lparr>w_store := s', w_heart := Some (h\<lparr>hb_operation := renewed\<rparr>)\<rparr>)"

fun do_event :: "call_env \<Rightarrow> 'o event \<Rightarrow> 'o world \<Rightarrow> 'o world" where
  "do_event env (Others f) w = (let (s', o') = f (w_store w, w_ovn w) in w\<lparr>w_store := s', w_ovn := o'\<rparr>)"
| "do_event env (Beat t) w = heartbeat_tick env t w"
| "do_event env Notice w =
     (if env_cancelled env then w\<lparr>w_heart := map_option (heartbeat_fail ErrContext True) (w_heart w)\<rparr> else w)"

definition tick_env :: "'o controller \<Rightarrow> bool \<Rightarrow> 'o tick \<Rightarrow> call_env" where
  "tick_env c cancelled t =
     \<lparr>env_cancelled = cancelled, env_now = tk_now t, env_newID = tk_newID t, env_codec = c_codec c\<rparr>"

definition advance :: "'o controller \<Rightarrow> 'o world \<Rightarrow> 'o tick \<times> 'o world" where
  "advance c w =
     (let t = c_tick c (w_pos w)
      in (t, fold (do_event (tick_env c (tk_cancelled t) t)) (tk_events t) (w\<lparr>w_pos := Suc (w_pos w)\<rparr>)))"

text \<open>The contexts of the source: the caller's, the work context of a claim (cancelled with the
  caller's, or when the lease is lost), and the detached one of \<open>completeOperation\<close>, which only
  expires.\<close>

datatype ctx = ParentCtx | WorkCtx | DetachedCtx

fun ctx_done :: "ctx \<Rightarrow> 'o tick \<Rightarrow> 'o world \<Rightarrow> bool" where
  "ctx_done ParentCtx t w = tk_cancelled t"
| "ctx_done WorkCtx t w = (tk_cancelled t \<or> heart_failed w)"
| "ctx_done DetachedCtx t w = tk_expired t"

definition store_call :: "'o controller \<Rightarrow> ctx \<Rightarrow> (call_env \<Rightarrow> memory \<Rightarrow> memory \<times> 'a) \<Rightarrow> 'o world \<Rightarrow> 'o world \<times> 'a" where
  "store_call c x f w =
     (let (t, w1) = advance c w; (s', a) = f (tick_env c (ctx_done x t w1) t) (w_store w1) in (w1\<lparr>w_store := s'\<rparr>, a))"

definition get_call :: "'o controller \<Rightarrow> ctx \<Rightarrow> kind \<Rightarrow> string \<Rightarrow> 'o world \<Rightarrow> 'o world \<times> (err + resource)" where
  "get_call c x kind ident = store_call c x (\<lambda>env s. (s, Get env kind ident s))"

definition ovn_call ::
  "'o controller \<Rightarrow> ctx \<Rightarrow> (bool \<Rightarrow> resource \<Rightarrow> 'o \<Rightarrow> 'o \<times> err option) \<Rightarrow> resource \<Rightarrow> 'o world \<Rightarrow> 'o world \<times> err option" where
  "ovn_call c x f r w =
     (let (t, w1) = advance c w; (o', e) = f (ctx_done x t w1) r (w_ovn w1) in (w1\<lparr>w_ovn := o'\<rparr>, e))"

definition clock :: "'o controller \<Rightarrow> 'o world \<Rightarrow> 'o world \<times> 'o tick" where
  "clock c w = (let (t, w1) = advance c w in (w1, t))"

definition startHeartbeat :: "operation \<Rightarrow> 'o world \<Rightarrow> 'o world" where
  "startHeartbeat op w = w\<lparr>w_heart := Some \<lparr>hb_operation = op, hb_err = None, hb_parentStopped = False\<rparr>\<rparr>"

definition stopHeartbeat :: "'o controller \<Rightarrow> operation \<Rightarrow> 'o world \<Rightarrow> 'o world \<times> operation \<times> err option \<times> bool" where
  "stopHeartbeat c op w =
     (let (t, w1) = advance c w
      in (w1\<lparr>w_heart := None\<rparr>,
          case w_heart w1 of None \<Rightarrow> (op, None, False) | Some h \<Rightarrow> (hb_operation h, hb_err h, hb_parentStopped h)))"

section \<open>Rendering until the desired state is stable\<close>

abbreviation err_of :: "err + 'a \<Rightarrow> err option" where
  "err_of v \<equiv> (case v of Inl e \<Rightarrow> Some e | Inr _ \<Rightarrow> None)"

definition desired_gone :: "err + resource \<Rightarrow> bool" where
  "desired_gone v = (case v of Inl e \<Rightarrow> e = ErrNotFound | Inr r \<Rightarrow> State (GetMetadata r) = ResourceDeleting)"

definition mark_call ::
  "'o controller \<Rightarrow> ctx \<Rightarrow> resource \<Rightarrow> err option \<Rightarrow> 'o world \<Rightarrow> 'o world \<times> err option" where
  "mark_call c x desired renderErr w =
     (let (w1, marked) = store_call c x (\<lambda>env. MarkReconciled env (ResourceKind desired) (ID (GetMetadata desired))
            (Revision (GetMetadata desired)) (map_option (c_message c) renderErr)) w
      in (w1, err_of marked))"

definition remove_call :: "'o controller \<Rightarrow> resource \<Rightarrow> 'o world \<Rightarrow> 'o world \<times> err option \<times> err option" where
  "remove_call c desired w = (let (w1, e) = ovn_call c WorkCtx (c_remove c) desired w in (w1, e, None))"

text \<open>The loop with the number of passes that are left. The result is the pair of the render and
  the mark error.\<close>

fun render_passes :: "'o controller \<Rightarrow> nat \<Rightarrow> resource \<Rightarrow> 'o world \<Rightarrow> 'o world \<times> err option \<times> err option" where
  "render_passes c 0 desired w =
     (let e = ErrOther ''changed during consecutive render passes'';
          (w1, markErr) = mark_call c WorkCtx desired (Some e) w
      in (w1, Some e, markErr))"
| "render_passes c (Suc passes) desired w =
     (let kind = ResourceKind desired; ident = ID (GetMetadata desired); revision = Revision (GetMetadata desired);
          (w1, renderErr) = ovn_call c WorkCtx (c_render c) desired w;
          (w2, latest) = get_call c WorkCtx kind ident w1
      in if desired_gone latest then remove_call c desired w2
         else case latest of
                Inl latestErr \<Rightarrow> (w2, renderErr, Some latestErr)
              | Inr latest' \<Rightarrow>
                  if Revision (GetMetadata latest') \<noteq> revision then render_passes c passes latest' w2
                  else
                    let (w3, markErr) = mark_call c WorkCtx desired renderErr w2
                    in if renderErr \<noteq> None \<or> markErr \<noteq> None then (w3, renderErr, markErr)
                       else
                         let (w4, confirmed) = get_call c WorkCtx kind ident w3
                         in if desired_gone confirmed then remove_call c desired w4
                            else case confirmed of
                                   Inl confirmErr \<Rightarrow> (w4, None, Some confirmErr)
                                 | Inr confirmed' \<Rightarrow>
                                     if Revision (GetMetadata confirmed') \<noteq> revision
                                     then render_passes c passes confirmed' w4
                                     else (w4, None, None))"

definition renderUntilStable :: "'o controller \<Rightarrow> resource \<Rightarrow> 'o world \<Rightarrow> 'o world \<times> err option \<times> err option" where
  "renderUntilStable c initial w = render_passes c maxConvergencePasses initial w"

section \<open>Completion of an operation\<close>

definition completed_operation :: "('e \<Rightarrow> string) \<Rightarrow> time \<Rightarrow> 'e option \<Rightarrow> operation \<Rightarrow> operation" where
  "completed_operation message completed workErr op =
     (case workErr of
        Some e \<Rightarrow> op\<lparr>op_CompletedAt := Some completed, op_OperationStatus := OperationFailed, op_Error := message e\<rparr>
      | None \<Rightarrow> op\<lparr>op_CompletedAt := Some completed, op_OperationStatus := OperationSucceeded, op_Error := []\<rparr>)"

definition completeOperation :: "'o controller \<Rightarrow> operation \<Rightarrow> err option \<Rightarrow> 'o world \<Rightarrow> 'o world \<times> err option" where
  "completeOperation c op workErr w =
     (let (w1, t) = clock c w;
          (w2, updated) = store_call c DetachedCtx (\<lambda>env. Update env
             (Operation (completed_operation (c_message c) (tk_now t) workErr op)) (Revision (op_meta op)) []) w1
      in (w2, err_of updated))"

text \<open>The errors the controller returns: a store, renderer or context error, one of the two
  sentinels, a lost lease, or several joined.\<close>

datatype rerr = Failure err | RetryForced | LeaseActive | LostLease err | Joined "rerr list"

definition join_errors :: "rerr list \<Rightarrow> rerr option" where
  "join_errors es = (case es of [] \<Rightarrow> None | _ \<Rightarrow> Some (Joined es))"

definition lost_lease :: "err option \<Rightarrow> bool \<Rightarrow> bool \<Rightarrow> bool" where
  "lost_lease leaseErr leaseStoppedByParent parentCancelled \<longleftrightarrow>
     leaseErr \<noteq> None \<and> (\<not> leaseStoppedByParent \<or> \<not> parentCancelled \<or> leaseErr \<noteq> Some ErrContext)"

text \<open>The end of a claim, the same in \<open>reconcileAttempt\<close> and in \<open>Delete\<close>: stop the heartbeat; a
  lost lease ends the call; otherwise complete the operation with the error of the work and
  combine the errors.\<close>

definition finish_claim ::
  "'o controller \<Rightarrow> operation \<Rightarrow> err option \<Rightarrow> err option \<Rightarrow> 'o world \<Rightarrow> 'o world \<times> rerr option" where
  "finish_claim c op renderErr markErr w =
     (let (w1, op', leaseErr, leaseStoppedByParent) = stopHeartbeat c op w;
          (w2, t) = clock c w1;
          parentErr = tk_cancelled t
      in if lost_lease leaseErr leaseStoppedByParent parentErr
         then (w2, Some (LostLease (the leaseErr)))
         else
           let workErr = (if renderErr = None then markErr else renderErr);
               (w3, operationErr) = completeOperation c op' workErr w2;
               (w4, t') = clock c w3;
               parentErr' = (parentErr \<or> tk_cancelled t');
               resultErr = (case workErr of Some e \<Rightarrow> [Failure e] | None \<Rightarrow> if parentErr' then [Failure ErrContext] else [])
           in case operationErr of
                None \<Rightarrow> (w4, case resultErr of [] \<Rightarrow> None | e # _ \<Rightarrow> Some e)
              | Some e \<Rightarrow> (w4, join_errors (resultErr @ [Failure e])))"

section \<open>Deletion\<close>

definition not_configured :: rerr where
  "not_configured = Failure (ErrOther ''reconciler is not configured'')"

definition queued_operation :: "string \<Rightarrow> kind \<Rightarrow> string \<Rightarrow> int \<Rightarrow> string \<Rightarrow> operation" where
  "queued_operation action kind ident revision key =
     \<lparr>op_meta = \<lparr>ID = [], Revision = 0, AppliedRevision = 0, State = ResourceUnset, LastError = [],
                CreatedAt = zero_time, UpdatedAt = zero_time\<rparr>,
      op_Action = action, op_TargetKind = kind, op_TargetID = ident, op_TargetRevision = revision,
      op_OperationStatus = OperationQueued, op_IdempotencyKey = key, op_Error = [], op_LeaseOwner = [],
      op_StartedAt = None, op_CompletedAt = None, op_Payload = []\<rparr>"

text \<open>Creation of the operation row and, for a replay, the load of its latest state. A failed
  type assertion is a panic.\<close>

definition assert_operation :: "resource \<Rightarrow> err + operation" where
  "assert_operation r = (case as_operation r of None \<Rightarrow> Inl (ErrOther ''panic'') | Some op \<Rightarrow> Inr op)"

definition open_operation ::
  "'o controller \<Rightarrow> string \<Rightarrow> kind \<Rightarrow> string \<Rightarrow> int \<Rightarrow> string \<Rightarrow> 'o world \<Rightarrow> 'o world \<times> (err + operation \<times> bool)" where
  "open_operation c action kind ident revision key w =
     (case store_call c ParentCtx (\<lambda>env. Create env (Operation (queued_operation action kind ident revision key)) key) w of
        (w1, Inl e) \<Rightarrow> (w1, Inl e)
      | (w1, Inr (created, replayed)) \<Rightarrow>
          (case assert_operation created of
             Inl e \<Rightarrow> (w1, Inl e)
           | Inr op \<Rightarrow>
               if \<not> replayed then (w1, Inr (op, replayed))
               else (case get_call c ParentCtx KindOperation (ID (op_meta op)) w1 of
                       (w2, Inl e) \<Rightarrow> (w2, Inl e)
                     | (w2, Inr latest) \<Rightarrow>
                         (case assert_operation latest of Inl e \<Rightarrow> (w2, Inl e) | Inr op' \<Rightarrow> (w2, Inr (op', replayed))))))"

definition delete_claimed :: "'o controller \<Rightarrow> resource \<Rightarrow> operation \<Rightarrow> 'o world \<Rightarrow> 'o world \<times> rerr option" where
  "delete_claimed c r op w =
     (let (w1, t) = clock c w;
          (w2, claimed) = store_call c ParentCtx (\<lambda>env. ClaimDelete env (ID (op_meta op)) (Revision (op_meta op)) (tk_owner t)
             (tk_now t) (tk_now t - c_lease c)) w1
      in case claimed of
           Inl e \<Rightarrow> (w2, Some (if e = ErrPrecondition \<or> e = ErrConflict then LeaseActive else Failure e))
         | Inr op' \<Rightarrow>
             let (w3, renderErr) = ovn_call c WorkCtx (c_remove c) r (startHeartbeat op' w2)
             in finish_claim c op' renderErr None w3)"

definition controller_Delete :: "'o controller \<Rightarrow> resource \<Rightarrow> 'o world \<Rightarrow> 'o world \<times> rerr option" where
  "controller_Delete c r w =
     (if \<not> c_configured c then (w, Some not_configured)
      else if State (GetMetadata r) \<noteq> ResourceDeleting
      then (w, Some (Failure (ErrOther ''delete reconciliation requires a deleting resource'')))
      else
        let kind = ResourceKind r; ident = ID (GetMetadata r); revision = Revision (GetMetadata r);
            (w1, t) = clock c w;
            (w2, fenced) = store_call c ParentCtx (\<lambda>env. FenceReconciles env kind ident (tk_now t - c_lease c) (tk_now t)) w1
        in case fenced of
             Inl e \<Rightarrow> (w2, Some (Failure e))
           | Inr (active, recovered) \<Rightarrow>
               if active then (w2, Some LeaseActive)
               else (case open_operation c ''delete'' kind ident revision (deleteOperationKey kind ident revision) w2 of
                       (w3, Inl e) \<Rightarrow> (w3, Some (Failure e))
                     | (w3, Inr (op, replayed)) \<Rightarrow>
                         if replayed \<and> op_OperationStatus op = OperationSucceeded \<and> \<not> recovered then (w3, None)
                         else delete_claimed c r op w3))"

section \<open>One reconciliation\<close>

datatype attempt = Returned "rerr option" | WaitFor string int

text \<open>The tombstone branch: finish the durable delete, then purge.\<close>

definition reconcile_tombstone :: "'o controller \<Rightarrow> resource \<Rightarrow> 'o world \<Rightarrow> 'o world \<times> rerr option" where
  "reconcile_tombstone c r w =
     (case controller_Delete c r w of
        (w1, Some e) \<Rightarrow> (w1, if e = LeaseActive then None else Some e)
      | (w1, None) \<Rightarrow>
          (case store_call c ParentCtx (\<lambda>env. Purge env (ResourceKind r) (ID (GetMetadata r)) (Revision (GetMetadata r))) w1 of
             (w2, Some e) \<Rightarrow> (w2, if e = ErrNotFound then None else Some (Failure e))
           | (w2, None) \<Rightarrow> (w2, None)))"

definition reconcile_claimed :: "'o controller \<Rightarrow> resource \<Rightarrow> operation \<Rightarrow> 'o world \<Rightarrow> 'o world \<times> rerr option" where
  "reconcile_claimed c r op w =
     (let (w1, renderErr, markErr) = renderUntilStable c r (startHeartbeat op w)
      in finish_claim c op renderErr markErr w1)"

definition claim_refused :: "bool \<Rightarrow> operation \<Rightarrow> err \<Rightarrow> int \<Rightarrow> attempt" where
  "claim_refused waitForClaim op claimErr revision =
     (if waitForClaim
      then (if claimErr = ErrConflict then WaitFor (ID (op_meta op)) revision else Returned (Some (Failure claimErr)))
      else if claimErr = ErrPrecondition \<or> claimErr = ErrConflict \<or> claimErr = ErrNotFound then Returned None
      else Returned (Some (Failure claimErr)))"

definition audit_fresh :: "time \<Rightarrow> metadata \<Rightarrow> operation \<Rightarrow> bool" where
  "audit_fresh freshSince meta op \<longleftrightarrow>
     freshSince \<noteq> zero_time \<and> State meta = ResourceReady \<and> AppliedRevision meta \<ge> Revision meta \<and>
     op_OperationStatus op = OperationSucceeded \<and>
     (case op_CompletedAt op of None \<Rightarrow> False | Some completed \<Rightarrow> \<not> completed < freshSince)"

definition reconcile_live ::
  "'o controller \<Rightarrow> resource \<Rightarrow> bool \<Rightarrow> time \<Rightarrow> bool \<Rightarrow> 'o world \<Rightarrow> 'o world \<times> attempt" where
  "reconcile_live c r force freshSince waitForClaim w =
     (let kind = ResourceKind r; meta = GetMetadata r; ident = ID meta; revision = Revision meta
      in if \<not> force \<and> AppliedRevision meta \<ge> revision \<and> State meta = ResourceReady then (w, Returned None)
         else case open_operation c ''reconcile'' kind ident revision (operationKey kind ident revision) w of
                (w1, Inl e) \<Rightarrow> (w1, Returned (Some (Failure e)))
              | (w1, Inr (op, replayed)) \<Rightarrow>
                  if audit_fresh freshSince meta op then (w1, Returned None)
                  else if op_OperationStatus op = OperationSucceeded \<and> \<not> force
                  then (let (w2, markErr) = mark_call c ParentCtx r None w1 in (w2, Returned (map_option Failure markErr)))
                  else
                    let (w2, t) = clock c w1;
                        (w3, claimed) = store_call c ParentCtx (\<lambda>env. ClaimReconcile env (ID (op_meta op)) (Revision (op_meta op))
                           (tk_owner t) (tk_now t) (tk_now t - c_lease c)) w2
                    in case claimed of
                         Inl claimErr \<Rightarrow> (w3, claim_refused waitForClaim op claimErr revision)
                       | Inr op' \<Rightarrow> (let (w4, e) = reconcile_claimed c r op' w3 in (w4, Returned e)))"

definition reconcile_once ::
  "'o controller \<Rightarrow> kind \<Rightarrow> string \<Rightarrow> bool \<Rightarrow> time \<Rightarrow> bool \<Rightarrow> 'o world \<Rightarrow> 'o world \<times> attempt" where
  "reconcile_once c kind ident force freshSince waitForClaim w =
     (if \<not> c_configured c then (w, Returned (Some not_configured))
      else case get_call c ParentCtx kind ident w of
             (w1, Inl e) \<Rightarrow> (w1, Returned (Some (Failure e)))
           | (w1, Inr r) \<Rightarrow>
               if State (GetMetadata r) = ResourceDeleting
               then if waitForClaim then (w1, Returned (Some (Failure ErrPrecondition)))
                    else (let (w2, e) = reconcile_tombstone c r w1 in (w2, Returned e))
               else reconcile_live c r force freshSince waitForClaim w1)"

section \<open>Forced reconciliation\<close>

text \<open>One look at the operation that holds the claim: \<^term>\<open>None\<close> to keep waiting, otherwise the
  result of the wait.\<close>

definition watch_winner ::
  "'o controller \<Rightarrow> operation \<Rightarrow> kind \<Rightarrow> string \<Rightarrow> int \<Rightarrow> 'o world \<Rightarrow> 'o world \<times> rerr option option" where
  "watch_winner c op kind ident revision w =
     (if op_Action op \<noteq> ''reconcile'' \<or> op_TargetKind op \<noteq> kind \<or> op_TargetID op \<noteq> ident \<or> op_TargetRevision op \<noteq> revision
      then (w, Some (Some (Failure ErrConflict)))
      else case op_OperationStatus op of
             OperationSucceeded \<Rightarrow>
               (case get_call c ParentCtx kind ident w of
                  (w1, Inl e) \<Rightarrow> (w1, Some (Some (Failure e)))
                | (w1, Inr current) \<Rightarrow>
                    let meta = GetMetadata current
                    in (w1, Some (if Revision meta = revision \<and> AppliedRevision meta = revision \<and> State meta = ResourceReady
                                  then None else Some RetryForced)))
           | OperationRunning \<Rightarrow>
               (let (w1, t) = clock c w
                in (w1, if op_StartedAt op = None \<or> \<not> UpdatedAt (op_meta op) > tk_now t - c_lease c
                        then Some (Some RetryForced) else None))
           | OperationQueued \<Rightarrow> (w, Some (Some RetryForced))
           | OperationFailed \<Rightarrow> (w, Some (Some RetryForced))
           | _ \<Rightarrow> (w, Some (Some (Failure ErrConflict))))"

definition wait_round ::
  "'o controller \<Rightarrow> string \<Rightarrow> kind \<Rightarrow> string \<Rightarrow> int \<Rightarrow> time \<Rightarrow> 'o world \<Rightarrow> 'o world \<times> rerr option option" where
  "wait_round c operationID kind ident revision deadline w =
     (case get_call c ParentCtx KindOperation operationID w of
        (w1, Inl e) \<Rightarrow> (w1, Some (Some (Failure e)))
      | (w1, Inr r) \<Rightarrow>
          (case assert_operation r of
             Inl e \<Rightarrow> (w1, Some (Some (Failure e)))
           | Inr op \<Rightarrow>
               (case watch_winner c op kind ident revision w1 of
                  (w2, Some result) \<Rightarrow> (w2, Some result)
                | (w2, None) \<Rightarrow>
                    let (w3, t) = clock c w2
                    in if deadline - tk_now t \<le> 0 then (w3, Some (Some (Failure (ErrOther ''deadline exceeded''))))
                       else let (w4, t') = clock c w3
                            in (w4, if tk_cancelled t' then Some (Some (Failure ErrContext)) else None))))"

partial_function (option) waitForForcedClaim ::
  "'o controller \<Rightarrow> string \<Rightarrow> kind \<Rightarrow> string \<Rightarrow> int \<Rightarrow> time \<Rightarrow> 'o world \<Rightarrow> ('o world \<times> rerr option) option" where
  "waitForForcedClaim c operationID kind ident revision deadline w =
     (case wait_round c operationID kind ident revision deadline w of
        (w', Some result) \<Rightarrow> Some (w', result)
      | (w', None) \<Rightarrow> waitForForcedClaim c operationID kind ident revision deadline w')"

definition reconcileAttempt ::
  "'o controller \<Rightarrow> kind \<Rightarrow> string \<Rightarrow> bool \<Rightarrow> time \<Rightarrow> bool \<Rightarrow> time \<Rightarrow> 'o world \<Rightarrow> ('o world \<times> rerr option) option" where
  "reconcileAttempt c kind ident force freshSince waitForClaim claimDeadline w =
     (case reconcile_once c kind ident force freshSince waitForClaim w of
        (w', Returned e) \<Rightarrow> Some (w', e)
      | (w', WaitFor operationID revision) \<Rightarrow> waitForForcedClaim c operationID kind ident revision claimDeadline w')"

partial_function (option) forced_loop ::
  "'o controller \<Rightarrow> kind \<Rightarrow> string \<Rightarrow> time \<Rightarrow> 'o world \<Rightarrow> ('o world \<times> rerr option) option" where
  "forced_loop c kind ident deadline w =
     Option.bind (reconcileAttempt c kind ident True zero_time True deadline w)
       (\<lambda>(w', e). if e = Some RetryForced then forced_loop c kind ident deadline w' else Some (w', e))"

definition ReconcileForced :: "'o controller \<Rightarrow> kind \<Rightarrow> string \<Rightarrow> 'o world \<Rightarrow> ('o world \<times> rerr option) option" where
  "ReconcileForced c kind ident w =
     (let wait = (if c_forcedClaimWait c > 0 then c_forcedClaimWait c else forcedClaimWaitTimeout);
          (w1, t) = clock c w
      in forced_loop c kind ident (tk_now t + wait) w1)"

section \<open>Reconciliation of everything\<close>

text \<open>Without \<open>waitForClaim\<close> an attempt never waits.\<close>

definition reconcile :: "'o controller \<Rightarrow> kind \<Rightarrow> string \<Rightarrow> bool \<Rightarrow> time \<Rightarrow> 'o world \<Rightarrow> 'o world \<times> rerr option" where
  "reconcile c kind ident force freshSince w =
     (case reconcile_once c kind ident force freshSince False w of
        (w', Returned e) \<Rightarrow> (w', e)
      | (w', WaitFor _ _) \<Rightarrow> (w', None))"

definition Reconcile :: "'o controller \<Rightarrow> kind \<Rightarrow> string \<Rightarrow> 'o world \<Rightarrow> 'o world \<times> rerr option" where
  "Reconcile c kind ident w = reconcile c kind ident False zero_time w"

definition recent_keys :: "time \<Rightarrow> resource list \<Rightarrow> string list" where
  "recent_keys cutoff operations =
     map (\<lambda>op. operationKey (op_TargetKind op) (op_TargetID op) (op_TargetRevision op))
       (filter (\<lambda>op. \<not> (op_Action op \<noteq> ''reconcile'' \<or> op_OperationStatus op \<noteq> OperationSucceeded \<or>
                       (case op_CompletedAt op of None \<Rightarrow> True | Some completed \<Rightarrow> completed < cutoff)))
         (List.map_filter as_operation operations))"

definition audit_skipped :: "time \<Rightarrow> string list \<Rightarrow> kind \<Rightarrow> metadata \<Rightarrow> bool" where
  "audit_skipped freshness recent kind meta \<longleftrightarrow>
     freshness > 0 \<and> State meta = ResourceReady \<and> AppliedRevision meta \<ge> Revision meta \<and>
     operationKey kind (ID meta) (Revision meta) \<in> set recent"

fun reconcile_rows ::
  "'o controller \<Rightarrow> time \<Rightarrow> time \<Rightarrow> string list \<Rightarrow> (kind \<times> resource) list \<Rightarrow> 'o world \<Rightarrow> 'o world \<times> rerr list" where
  "reconcile_rows c freshness now recent [] w = (w, [])"
| "reconcile_rows c freshness now recent ((kind, r) # rest) w =
     (let meta = GetMetadata r
      in if audit_skipped freshness recent kind meta then reconcile_rows c freshness now recent rest w
         else
           let (w1, e) = reconcile c kind (ID meta) True (if freshness > 0 then now - freshness else zero_time) w;
               (w2, es) = reconcile_rows c freshness now recent rest w1
           in (w2, (case e of None \<Rightarrow> es | Some e' \<Rightarrow> e' # es)))"

definition no_options :: list_options where
  "no_options = \<lparr>opt_NetworkID = [], opt_SubnetID = [], opt_RouterID = [], opt_SecurityGroupID = [],
     opt_ProviderNetworkID = [], opt_NodeID = [], opt_VMID = 0, opt_NIC = [], opt_RecentFirst = False, opt_Limit = 0\<rparr>"

definition snapshot_of :: "(kind \<times> resource list) list \<Rightarrow> kind \<Rightarrow> resource list" where
  "snapshot_of snapshot kind = (case map_of snapshot kind of None \<Rightarrow> [] | Some rs \<Rightarrow> rs)"

definition audit_snapshot ::
  "'o controller \<Rightarrow> time \<Rightarrow> time \<Rightarrow> (kind \<times> resource list) list \<Rightarrow> 'o world \<Rightarrow> 'o world \<times> rerr list" where
  "audit_snapshot c freshness now snapshot w =
     (let recent = (if freshness > 0 then recent_keys (now - freshness) (snapshot_of snapshot KindOperation) else [])
      in reconcile_rows c freshness now recent
           (concat (map (\<lambda>kind. map (Pair kind) (snapshot_of snapshot kind)) dependencyOrder)) w)"

definition reconcileAll :: "'o controller \<Rightarrow> time \<Rightarrow> 'o world \<Rightarrow> 'o world \<times> rerr option" where
  "reconcileAll c freshness w =
     (if \<not> c_configured c then (w, Some not_configured)
      else
        let (w1, t) = clock c w; now = tk_now t;
            (w2, recovered) = store_call c ParentCtx
              (\<lambda>env. RecoverExpiredOperations env (now - c_lease c) now operationRecoveryBatch) w1;
            kinds = (if freshness > 0 then KindOperation # dependencyOrder else dependencyOrder);
            (w3, snapshot) = store_call c ParentCtx (\<lambda>env s. (s, Snapshot env kinds no_options s)) w2;
            (w4, failures) =
              (case snapshot of Inl e \<Rightarrow> (w3, [Failure e]) | Inr view \<Rightarrow> audit_snapshot c freshness now view w3);
            (w5, pruned) = store_call c ParentCtx (\<lambda>env. PruneOperations env (now - c_age c) (c_keep c)) w4
        in (w5, join_errors
              ((case recovered of Inl e \<Rightarrow> [Failure e] | Inr _ \<Rightarrow> []) @ failures @
               (case pruned of Inl e \<Rightarrow> [Failure e] | Inr _ \<Rightarrow> []))))"

definition ReconcileAll :: "'o controller \<Rightarrow> 'o world \<Rightarrow> 'o world \<times> rerr option" where
  "ReconcileAll c w = reconcileAll c 0 w"

definition ReconcilePeriodic :: "'o controller \<Rightarrow> time \<Rightarrow> 'o world \<Rightarrow> 'o world \<times> rerr option" where
  "ReconcilePeriodic c freshness w =
     (if freshness \<le> 0 then (w, Some (Failure (ErrOther ''periodic reconciliation freshness must be positive'')))
      else reconcileAll c freshness w)"

end
