(* ===== verification/Reconcile_Properties.thy ===== *)
theory Reconcile_Properties
  imports Reconcile_Controller
begin

text \<open>
  What the reconciliation controller guarantees: the keys and intervals it computes, that its
  loops end, what a successful pass has confirmed, that a manager which lost its lease writes
  nothing more, and that all of it keeps the store among its reachable states, whatever other
  managers do in between.
\<close>

section \<open>Keys and intervals\<close>

text \<open>The heartbeat interval is positive, at most thirty seconds, and three of them fit into the
  lease unless the lease is shorter than three nanoseconds: a live manager renews its claim
  at least twice before anyone may take it over.\<close>

theorem heartbeatInterval_bounds:
  "0 < heartbeatInterval lease \<and> heartbeatInterval lease \<le> 30 * second \<and> 3 * heartbeatInterval lease \<le> max 3 lease"
  by (auto simp: heartbeatInterval_def maxHeartbeatInterval_def second_def Let_def max_def)

lemma kind_string_no_colon: "kind_valid k \<Longrightarrow> CHR '':'' \<notin> set (kind_string k)"
  by (cases k) (simp_all add: kind_valid_def kindToCollection_def)

lemma kind_string_inject: "kind_valid k \<Longrightarrow> kind_valid k' \<Longrightarrow> kind_string k = kind_string k' \<Longrightarrow> k = k'"
  by (cases k; cases k') (simp_all add: kind_valid_def kindToCollection_def)

lemma dec_int_no_colon: "CHR '':'' \<notin> set (dec_int n)"
proof -
  have "CHR '':'' \<notin> set (dec m)" for m using dec_digits [of "CHR '':''" m] by (auto simp: is_digit_iff)
  then show ?thesis by (simp add: dec_int_def)
qed

lemma append_split_unique: "c \<notin> set a \<Longrightarrow> c \<notin> set b \<Longrightarrow> a @ c # x = b @ c # y \<longleftrightarrow> a = b \<and> x = y"
  by (auto simp: append_eq_append_conv2 append_eq_Cons_conv Cons_eq_append_conv)

lemma append_split_last: "c \<notin> set x \<Longrightarrow> c \<notin> set y \<Longrightarrow> a @ c # x = b @ c # y \<longleftrightarrow> a = b \<and> x = y"
  by (auto simp: append_eq_append_conv2 append_eq_Cons_conv Cons_eq_append_conv)

text \<open>C37. The idempotency key of an operation identifies its target exactly: for known kinds, two
  reconcile keys, or two delete keys, are equal only for the same kind, id and revision, and a
  reconcile key is never a delete key. This holds although an id may itself contain colons.\<close>

theorem operation_keys_exact:
  assumes "kind_valid k" "kind_valid k'"
  shows "(operationKey k i n = operationKey k' i' n' \<longleftrightarrow> k = k' \<and> i = i' \<and> n = n') \<and>
    (deleteOperationKey k i n = deleteOperationKey k' i' n' \<longleftrightarrow> k = k' \<and> i = i' \<and> n = n') \<and>
    operationKey k i n \<noteq> deleteOperationKey k' i' n'"
proof -
  have "kind_string k @ '':'' @ i @ '':'' @ dec_int n = kind_string k' @ '':'' @ i' @ '':'' @ dec_int n' \<longleftrightarrow>
      k = k' \<and> i = i' \<and> n = n'"
    using append_split_unique [OF kind_string_no_colon [OF assms(1)] kind_string_no_colon [OF assms(2)]]
      append_split_last [OF dec_int_no_colon [of n] dec_int_no_colon [of n']] kind_string_inject [OF assms]
    by (auto simp: dec_int_inject)
  then show ?thesis by (simp add: operationKey_def deleteOperationKey_def)
qed

theorem operation_keys_exact_witness:
  "operationKey KindPort ''a:1'' 2 \<noteq> operationKey KindPort ''a'' 12"
proof -
  have "kind_valid KindPort" by (simp add: kind_valid_def kindToCollection_def)
  from operation_keys_exact [OF this this, of "''a:1''" 2 "''a''" 12] show ?thesis by simp
qed

section \<open>Interactions\<close>

lemma do_event_pos [simp]: "w_pos (do_event env e w) = w_pos w"
  by (cases e) (auto simp: heartbeat_tick_def Let_def split: prod.splits option.splits sum.splits)

lemma do_events_pos [simp]: "w_pos (fold (do_event env) es w) = w_pos w"
  by (induction es arbitrary: w) simp_all

lemma advance_tick: "advance c w = (t, w') \<Longrightarrow> t = c_tick c (w_pos w) \<and> w_pos w' = Suc (w_pos w)"
  by (auto simp: advance_def Let_def)

lemma clock_tick: "clock c w = (w', t) \<Longrightarrow> t = c_tick c (w_pos w) \<and> w_pos w' = Suc (w_pos w)"
  by (auto simp: clock_def split: prod.splits dest: advance_tick)

lemma store_call_pos: "store_call c x f w = (w', a) \<Longrightarrow> w_pos w' = Suc (w_pos w)"
  by (auto simp: store_call_def Let_def split: prod.splits dest: advance_tick)

lemma get_call_pos: "get_call c x k i w = (w', a) \<Longrightarrow> w_pos w' = Suc (w_pos w)"
  by (auto simp: get_call_def dest: store_call_pos)

section \<open>Waiting for a competing claim\<close>

lemma watch_winner_pos: "watch_winner c op k i n w = (w', a) \<Longrightarrow> w_pos w \<le> w_pos w'"
  by (auto simp: watch_winner_def Let_def split: if_splits prod.splits sum.splits operation_status.splits
      dest!: get_call_pos clock_tick)

lemma wait_round_continues:
  assumes "wait_round c oid k i n deadline w = (w', None)"
  shows "w_pos w < w_pos w' \<and> (\<exists>p. w_pos w \<le> p \<and> tk_now (c_tick c p) < deadline)"
proof -
  obtain w1 r where r: "get_call c ParentCtx KindOperation oid w = (w1, Inr r)"
    using assms by (auto simp: wait_round_def split: prod.splits sum.splits)
  obtain op where op: "assert_operation r = Inr op"
    using assms r by (auto simp: wait_round_def split: sum.splits)
  obtain w2 where w2: "watch_winner c op k i n w1 = (w2, None)"
    using assms r op by (auto simp: wait_round_def split: prod.splits option.splits)
  obtain w3 t where w3: "clock c w2 = (w3, t)" by fastforce
  obtain w4 t' where w4: "clock c w3 = (w4, t')" by fastforce
  have "tk_now t < deadline \<and> w' = w4"
    using assms r op w2 w3 w4 by (auto simp: wait_round_def split: if_splits)
  moreover note get_call_pos [OF r] watch_winner_pos [OF w2] clock_tick [OF w3] clock_tick [OF w4]
  ultimately show ?thesis by (intro conjI exI [of _ "w_pos w2"]) auto
qed

text \<open>C19. The wait for a competing claim ends: if from some point on the clock has passed the
  deadline, \<open>waitForForcedClaim\<close> returns, whatever the other managers and the store do.\<close>

theorem waitForForcedClaim_returns:
  assumes "\<And>n. N \<le> n \<Longrightarrow> deadline \<le> tk_now (c_tick c n)"
  shows "\<exists>w' result. waitForForcedClaim c oid k i revision deadline w = Some (w', result)"
proof (induction "N - w_pos w" arbitrary: w rule: less_induct)
  case less
  show ?case
  proof (cases "wait_round c oid k i revision deadline w")
    case (Pair w' a)
    show ?thesis
    proof (cases a)
      case None
      with Pair wait_round_continues obtain p where p: "w_pos w < w_pos w'" "w_pos w \<le> p" "tk_now (c_tick c p) < deadline"
        by blast
      with assms [of p] have "w_pos w < N" by (meson leD le_trans linorder_not_le)
      with p(1) have "N - w_pos w' < N - w_pos w" by simp
      from less [OF this] Pair None show ?thesis by (simp add: waitForForcedClaim.simps [of c oid k i revision deadline w])
    next
      case (Some b)
      with Pair show ?thesis by (simp add: waitForForcedClaim.simps [of c oid k i revision deadline w])
    qed
  qed
qed

section \<open>What every store call keeps, every manager keeps\<close>

text \<open>The interfaces the controller relies on: a property of the store that the methods it calls
  keep. \<open>live_calls\<close> are the methods used for a live row, \<open>store_contract\<close> adds those of deletion,
  recovery and pruning. The other managers are assumed to keep the property too.\<close>

definition peers_keep :: "(memory \<Rightarrow> bool) \<Rightarrow> 'o controller \<Rightarrow> bool" where
  "peers_keep ok c \<longleftrightarrow> (\<forall>n. tk_newID (c_tick c n) \<noteq> [] \<and>
     (\<forall>f s o'. Others f \<in> set (tk_events (c_tick c n)) \<longrightarrow> ok s \<longrightarrow> ok (fst (f (s, o')))))"

definition call_keeps :: "(memory \<Rightarrow> bool) \<Rightarrow> codec \<Rightarrow> (call_env \<Rightarrow> memory \<Rightarrow> memory \<times> 'a) \<Rightarrow> bool" where
  "call_keeps ok cd f \<longleftrightarrow>
     (\<forall>env s. env_codec env = cd \<longrightarrow> env_newID env \<noteq> [] \<longrightarrow> ok s \<longrightarrow> ok (fst (f env s)))"

locale live_calls =
  fixes cd :: codec
    and ok :: "memory \<Rightarrow> bool"
  assumes ok_Create: "ok s \<Longrightarrow> env_codec env = cd \<Longrightarrow> env_newID env \<noteq> [] \<Longrightarrow> ok (fst (Create env (Operation op) key s))"
    and ok_Update: "ok s \<Longrightarrow> env_codec env = cd \<Longrightarrow> ok (fst (Update env (Operation op) n key s))"
    and ok_Mark: "ok s \<Longrightarrow> ok (fst (MarkReconciled env k i n e s))"
    and ok_ClaimReconcile: "ok s \<Longrightarrow> ok (fst (ClaimReconcile env i n u t cutoff s))"
    and ok_ClaimDelete: "ok s \<Longrightarrow> ok (fst (ClaimDelete env i n u t cutoff s))"
    and ok_Renew: "ok s \<Longrightarrow> ok (fst (RenewOperationLease env i n u t s))"
begin

lemma keeps_methods:
  "call_keeps ok cd (\<lambda>env. Create env (Operation op) key)" "call_keeps ok cd (\<lambda>env. Update env (Operation op) n key)"
  "call_keeps ok cd (\<lambda>env. MarkReconciled env k i n e)" "call_keeps ok cd (\<lambda>env. ClaimReconcile env i n w t cutoff)"
  "call_keeps ok cd (\<lambda>env. ClaimDelete env i n w t cutoff)" "call_keeps ok cd (\<lambda>env s. (s, g env s))"
  by (auto simp: call_keeps_def intro: ok_Create ok_Update ok_Mark ok_ClaimReconcile ok_ClaimDelete)

lemma do_event_keeps:
  assumes "peers_keep ok c" "e \<in> set (tk_events (c_tick c n))" "ok (w_store w)"
  shows "ok (w_store (do_event env e w))"
proof (cases e)
  case (Others f)
  with assms have "ok (fst (f (w_store w, w_ovn w)))" unfolding peers_keep_def by blast
  with Others show ?thesis by (simp add: case_prod_beta)
next
  case (Beat t)
  have "ok (fst (RenewOperationLease env i m u t (w_store w)))" for i m u
    by (rule ok_Renew [OF assms(3)])
  with Beat assms(3) show ?thesis
    by (auto simp: heartbeat_tick_def Let_def split: option.splits prod.splits sum.splits) (metis fst_conv)+
qed (use assms in simp)

lemma do_events_keeps:
  "peers_keep ok c \<Longrightarrow> set es \<subseteq> set (tk_events (c_tick c n)) \<Longrightarrow> ok (w_store w) \<Longrightarrow> ok (w_store (fold (do_event env) es w))"
  by (induction es arbitrary: w) (auto simp: do_event_keeps)

lemma advance_keeps: "peers_keep ok c \<Longrightarrow> ok (w_store w) \<Longrightarrow> ok (w_store (snd (advance c w)))"
  by (simp add: advance_def Let_def do_events_keeps [OF _ subset_refl])

lemma clock_keeps: "peers_keep ok c \<Longrightarrow> ok (w_store w) \<Longrightarrow> ok (w_store (fst (clock c w)))"
  by (simp add: clock_def case_prod_beta advance_keeps)

lemma store_call_keeps:
  assumes "call_keeps ok cd f" "peers_keep ok c" "c_codec c = cd" "ok (w_store w)"
  shows "ok (w_store (fst (store_call c x f w)))"
proof -
  obtain t w1 where t: "advance c w = (t, w1)" by fastforce
  have "ok (w_store w1)" "tk_newID t \<noteq> []"
    using advance_keeps [OF assms(2,4)] advance_tick [OF t] assms(2) t by (auto simp: peers_keep_def)
  then have "ok (fst (f (tick_env c b t) (w_store w1)))" for b
    using assms(1,3) by (simp add: call_keeps_def tick_env_def)
  with t show ?thesis by (simp add: store_call_def case_prod_beta)
qed

lemma ovn_call_keeps: "peers_keep ok c \<Longrightarrow> ok (w_store w) \<Longrightarrow> ok (w_store (fst (ovn_call c x f r w)))"
  by (simp add: ovn_call_def Let_def case_prod_beta advance_keeps)

lemmas calls_keep = keeps_methods [THEN store_call_keeps]

lemma get_call_keeps: "peers_keep ok c \<Longrightarrow> c_codec c = cd \<Longrightarrow> ok (w_store w) \<Longrightarrow> ok (w_store (fst (get_call c x k i w)))"
  unfolding get_call_def by (rule calls_keep(6))

lemma mark_call_keeps: "peers_keep ok c \<Longrightarrow> c_codec c = cd \<Longrightarrow> ok (w_store w) \<Longrightarrow> ok (w_store (fst (mark_call c x r e w)))"
  by (simp add: mark_call_def case_prod_beta calls_keep)

lemma heart_keeps:
  "ok (w_store (startHeartbeat op w)) = ok (w_store w)"
  "peers_keep ok c \<Longrightarrow> ok (w_store w) \<Longrightarrow> ok (w_store (fst (stopHeartbeat c op w)))"
  by (simp_all add: startHeartbeat_def stopHeartbeat_def case_prod_beta advance_keeps)

lemmas keep_simps = case_prod_beta clock_keeps ovn_call_keeps calls_keep get_call_keeps mark_call_keeps heart_keeps

lemma render_passes_keeps:
  "peers_keep ok c \<Longrightarrow> c_codec c = cd \<Longrightarrow> ok (w_store w) \<Longrightarrow> ok (w_store (fst (render_passes c n r w)))"
  by (induction n arbitrary: r w) (simp_all add: keep_simps remove_call_def Let_def split: sum.split)

lemma finish_claim_keeps:
  "peers_keep ok c \<Longrightarrow> c_codec c = cd \<Longrightarrow> ok (w_store w) \<Longrightarrow> ok (w_store (fst (finish_claim c op e m w)))"
  by (simp add: finish_claim_def completeOperation_def keep_simps Let_def split: option.split)

lemma open_operation_keeps:
  "peers_keep ok c \<Longrightarrow> c_codec c = cd \<Longrightarrow> ok (w_store w) \<Longrightarrow> ok (w_store (fst (open_operation c a k i n key w)))"
  by (simp add: open_operation_def keep_simps split: sum.split)

lemma delete_claimed_keeps:
  "peers_keep ok c \<Longrightarrow> c_codec c = cd \<Longrightarrow> ok (w_store w) \<Longrightarrow> ok (w_store (fst (delete_claimed c r op w)))"
  by (simp add: delete_claimed_def keep_simps finish_claim_keeps Let_def split: sum.split)

lemma reconcile_live_keeps:
  assumes "peers_keep ok c" "c_codec c = cd" "ok (w_store w)"
  shows "ok (w_store (fst (reconcile_live c r force fresh wait w)))"
proof -
  have "ok (w_store (fst (reconcile_claimed c r op v)))" if "ok (w_store v)" for op v
    using assms that
    by (simp add: reconcile_claimed_def renderUntilStable_def keep_simps finish_claim_keeps render_passes_keeps)
  with assms show ?thesis
    by (simp add: reconcile_live_def keep_simps open_operation_keeps Let_def split: sum.split)
qed

end

locale store_contract = live_calls +
  assumes ok_Fence: "ok s \<Longrightarrow> ok (fst (FenceReconciles env k i cutoff t s))"
    and ok_Purge: "ok s \<Longrightarrow> ok (fst (Purge env k i n s))"
    and ok_Prune: "ok s \<Longrightarrow> ok (fst (PruneOperations env t m s))"
    and ok_Recover: "ok s \<Longrightarrow> ok (fst (RecoverExpiredOperations env cutoff t m s))"
begin

lemma keeps_maintenance:
  "call_keeps ok cd (\<lambda>env. FenceReconciles env k i cutoff t)" "call_keeps ok cd (\<lambda>env. Purge env k i n)"
  "call_keeps ok cd (\<lambda>env. PruneOperations env t m)" "call_keeps ok cd (\<lambda>env. RecoverExpiredOperations env cutoff t m)"
  by (auto simp: call_keeps_def intro: ok_Fence ok_Purge ok_Prune ok_Recover)

lemmas all_keep = keep_simps keeps_maintenance [THEN store_call_keeps]

lemma controller_Delete_keeps:
  "peers_keep ok c \<Longrightarrow> c_codec c = cd \<Longrightarrow> ok (w_store w) \<Longrightarrow> ok (w_store (fst (controller_Delete c r w)))"
  by (simp add: controller_Delete_def all_keep open_operation_keeps delete_claimed_keeps Let_def split: sum.split)

lemma reconcile_once_keeps:
  assumes "peers_keep ok c" "c_codec c = cd" "ok (w_store w)"
  shows "ok (w_store (fst (reconcile_once c k i force fresh wait w)))"
proof -
  have "ok (w_store (fst (reconcile_tombstone c r v)))" if "ok (w_store v)" for r v
    using assms that by (simp add: reconcile_tombstone_def all_keep controller_Delete_keeps split: option.split)
  with assms show ?thesis
    by (simp add: reconcile_once_def all_keep reconcile_live_keeps split: sum.split)
qed

lemma reconcile_keeps:
  "peers_keep ok c \<Longrightarrow> c_codec c = cd \<Longrightarrow> ok (w_store w) \<Longrightarrow> ok (w_store (fst (reconcile c k i force fresh w)))"
  using reconcile_once_keeps [of c w k i force fresh False] by (simp add: reconcile_def case_prod_beta split: attempt.split)

lemma reconcile_rows_keeps:
  "peers_keep ok c \<Longrightarrow> c_codec c = cd \<Longrightarrow> ok (w_store w) \<Longrightarrow> ok (w_store (fst (reconcile_rows c fr now recent rs w)))"
  by (induction rs arbitrary: w) (auto simp: case_prod_beta Let_def reconcile_keeps)

lemma reconcileAll_keeps:
  "peers_keep ok c \<Longrightarrow> c_codec c = cd \<Longrightarrow> ok (w_store w) \<Longrightarrow> ok (w_store (fst (reconcileAll c fr w)))"
  by (simp add: reconcileAll_def audit_snapshot_def all_keep reconcile_rows_keeps Let_def split: sum.split)

lemma wait_round_keeps:
  "peers_keep ok c \<Longrightarrow> c_codec c = cd \<Longrightarrow> ok (w_store w) \<Longrightarrow> ok (w_store (fst (wait_round c oid k i n d w)))"
  by (simp add: wait_round_def watch_winner_def keep_simps Let_def split: sum.split option.split operation_status.split)

lemma wait_keeps:
  assumes "waitForForcedClaim c oid k i n d w = Some y"
  shows "peers_keep ok c \<longrightarrow> c_codec c = cd \<longrightarrow> ok (w_store w) \<longrightarrow> ok (w_store (fst y))"
proof (rule waitForForcedClaim.raw_induct [where P = "\<lambda>c _ _ _ _ _ w y. peers_keep ok c \<longrightarrow> c_codec c = cd \<longrightarrow>
    ok (w_store w) \<longrightarrow> ok (w_store (fst y))", OF _ assms], intro impI)
  fix wait :: "'o controller \<Rightarrow> string \<Rightarrow> kind \<Rightarrow> string \<Rightarrow> int \<Rightarrow> time \<Rightarrow> 'o world \<Rightarrow> ('o world \<times> rerr option) option"
    and c :: "'o controller" and oid k i n d and w :: "'o world" and y
  assume IH: "\<And>c oid k i n d w y. wait c oid k i n d w = Some y \<Longrightarrow>
      peers_keep ok c \<longrightarrow> c_codec c = cd \<longrightarrow> ok (w_store w) \<longrightarrow> ok (w_store (fst y))"
    and body: "(case wait_round c oid k i n d w of (w', None) \<Rightarrow> wait c oid k i n d w' | (w', Some result) \<Rightarrow> Some (w', result)) = Some y"
    and ok: "peers_keep ok c" "c_codec c = cd" "ok (w_store w)"
  obtain w' a where w': "wait_round c oid k i n d w = (w', a)" by fastforce
  with wait_round_keeps [OF ok, of oid k i n d] have "ok (w_store w')" by simp
  with body IH ok w' show "ok (w_store (fst y))" by (cases a) auto
qed

lemma attempt_keeps:
  assumes "reconcileAttempt c k i force fresh wait d w = Some y" "peers_keep ok c" "c_codec c = cd" "ok (w_store w)"
  shows "ok (w_store (fst y))"
proof -
  obtain v b where v: "reconcile_once c k i force fresh wait w = (v, b)" by fastforce
  have "ok (w_store v)" using reconcile_once_keeps [OF assms(2-), of k i force fresh wait] v by simp
  with v assms show ?thesis using wait_keeps [of c _ k i _ d v y] by (cases b) (auto simp: reconcileAttempt_def)
qed

lemma forced_keeps:
  assumes "forced_loop c k i d w = Some y"
  shows "peers_keep ok c \<longrightarrow> c_codec c = cd \<longrightarrow> ok (w_store w) \<longrightarrow> ok (w_store (fst y))"
proof (rule forced_loop.raw_induct [where P = "\<lambda>c _ _ _ w y. peers_keep ok c \<longrightarrow> c_codec c = cd \<longrightarrow>
    ok (w_store w) \<longrightarrow> ok (w_store (fst y))", OF _ assms], intro impI)
  fix loop :: "'o controller \<Rightarrow> kind \<Rightarrow> string \<Rightarrow> time \<Rightarrow> 'o world \<Rightarrow> ('o world \<times> rerr option) option"
    and c :: "'o controller" and k i d and w :: "'o world" and y
  assume IH: "\<And>c k i d w y. loop c k i d w = Some y \<Longrightarrow>
      peers_keep ok c \<longrightarrow> c_codec c = cd \<longrightarrow> ok (w_store w) \<longrightarrow> ok (w_store (fst y))"
    and body: "Option.bind (reconcileAttempt c k i True zero_time True d w)
      (\<lambda>(w', e). if e = Some RetryForced then loop c k i d w' else Some (w', e)) = Some y"
    and ok: "peers_keep ok c" "c_codec c = cd" "ok (w_store w)"
  obtain w' e where a: "reconcileAttempt c k i True zero_time True d w = Some (w', e)"
    using body by (auto split: bind_splits)
  from attempt_keeps [OF this ok] have "ok (w_store w')" by simp
  with body IH ok a show "ok (w_store (fst y))" by (auto split: if_splits)
qed

end

interpretation reach: store_contract cd "reachable cd" for cd
  by unfold_locales (auto intro: reach_step mem_step.intros)


definition sample_tick :: "nat tick" where
  "sample_tick = \<lparr>tk_events = [], tk_cancelled = False, tk_expired = False, tk_now = 50, tk_newID = ''y'', tk_owner = ''m1''\<rparr>"

definition sample_controller :: "nat controller" where
  "sample_controller = NewController sample_codec (\<lambda>_. ''e'') (\<lambda>_ r n. (Suc n, None)) (\<lambda>_ r n. (n - 1, None)) (\<lambda>_. sample_tick) []"

definition sample_world :: "nat world" where
  "sample_world = \<lparr>w_store = sample_store, w_ovn = 0, w_pos = 0, w_heart = None\<rparr>"

lemma sample_controller_simps [simp]:
  "c_codec sample_controller = sample_codec" "c_tick sample_controller = (\<lambda>_. sample_tick)"
  by (simp_all add: sample_controller_def NewController_def)

lemma sample_peers: "peers_keep ok sample_controller"
  by (simp add: peers_keep_def sample_tick_def)


section \<open>A pass that succeeds has confirmed what it rendered\<close>

lemma get_call_result:
  "get_call c x k i w = (w', Inr r) \<Longrightarrow> lookup (w_store w') k i = Some r"
  by (auto simp: get_call_def store_call_def Get_def Let_def split: prod.splits if_splits option.splits)

lemma stored_key: "reachable cd s \<Longrightarrow> lookup s k i = Some r \<Longrightarrow> ResourceKind r = k \<and> ID (GetMetadata r) = i"
  using store.reach_inv row_okD by blast

definition rendered_row :: "'o controller \<Rightarrow> kind \<Rightarrow> string \<Rightarrow> 'o world \<Rightarrow> bool" where
  "rendered_row c k i w \<longleftrightarrow> (\<exists>row desired b o'. lookup (w_store w) k i = Some row \<and> State (GetMetadata row) \<noteq> ResourceDeleting \<and>
     ResourceKind desired = k \<and> ID (GetMetadata desired) = i \<and> Revision (GetMetadata desired) = Revision (GetMetadata row) \<and>
     snd (c_render c b desired o') = None)"

definition removed_row :: "'o controller \<Rightarrow> kind \<Rightarrow> string \<Rightarrow> 'o world \<Rightarrow> bool" where
  "removed_row c k i w \<longleftrightarrow> (\<exists>desired b o'. ResourceKind desired = k \<and> ID (GetMetadata desired) = i \<and>
     c_remove c b desired o' = (w_ovn w, None))"

lemma remove_call_result:
  "remove_call c r w = (w', None, None) \<Longrightarrow> removed_row c (ResourceKind r) (ID (GetMetadata r)) w'"
  by (auto simp: remove_call_def ovn_call_def Let_def removed_row_def split: prod.splits) metis

lemma ovn_call_result: "ovn_call c x f r w = (w', e) \<Longrightarrow> \<exists>b o'. f b r o' = (w_ovn w', e)"
  by (auto simp: ovn_call_def Let_def split: prod.splits) blast

lemma reachable_calls:
  assumes "peers_keep (reachable (c_codec c)) c" "reachable (c_codec c) (w_store w)"
  shows "ovn_call c x f r w = (w', e) \<Longrightarrow> reachable (c_codec c) (w_store w')"
    and "get_call c x k i w = (w', a) \<Longrightarrow> reachable (c_codec c) (w_store w')"
    and "mark_call c x r m w = (w', e) \<Longrightarrow> reachable (c_codec c) (w_store w')"
  using reach.ovn_call_keeps [OF assms, of x f r] reach.get_call_keeps [OF assms(1) refl assms(2), of x k i]
    reach.mark_call_keeps [OF assms(1) refl assms(2), of x r m]
  by auto

lemma get_call_stored:
  assumes "peers_keep (reachable (c_codec c)) c" "reachable (c_codec c) (w_store w)" "get_call c x k i w = (w', Inr r)"
  shows "lookup (w_store w') k i = Some r \<and> ResourceKind r = k \<and> ID (GetMetadata r) = i"
  using get_call_result [OF assms(3)] stored_key [OF reachable_calls(2) [OF assms]] by blast

text \<open>One pass that contributes to a success either removes the row, hands over to the next pass
  with the row it read, or confirms the revision it rendered.\<close>

lemma render_pass_cases:
  assumes peers: "peers_keep (reachable (c_codec c)) c" and w: "reachable (c_codec c) (w_store w)"
    and result: "render_passes c (Suc n) r w = (w', None, None)"
  shows "removed_row c (ResourceKind r) (ID (GetMetadata r)) w' \<or> rendered_row c (ResourceKind r) (ID (GetMetadata r)) w' \<or>
    (\<exists>x v. render_passes c n x v = (w', None, None) \<and> reachable (c_codec c) (w_store v) \<and>
       ResourceKind x = ResourceKind r \<and> ID (GetMetadata x) = ID (GetMetadata r))"
proof -
  let ?k = "ResourceKind r" and ?i = "ID (GetMetadata r)"
  obtain w1 e where e: "ovn_call c WorkCtx (c_render c) r w = (w1, e)" by fastforce
  obtain w2 l where l: "get_call c WorkCtx ?k ?i w1 = (w2, l)" by fastforce
  obtain w3 m where m: "mark_call c WorkCtx r e w2 = (w3, m)" by fastforce
  obtain w4 q where q: "get_call c WorkCtx ?k ?i w3 = (w4, q)" by fastforce
  note r1 = reachable_calls(1) [OF peers w e]
  note r2 = reachable_calls(2) [OF peers r1 l]
  note r3 = reachable_calls(3) [OF peers r2 m]
  note r4 = reachable_calls(2) [OF peers r3 q]
  note body = result [unfolded render_passes.simps Let_def e l m q prod.case]
  have "remove_call c r w2 = (w', None, None) \<or> remove_call c r w4 = (w', None, None) \<or>
    (\<exists>x. l = Inr x \<and> render_passes c n x w2 = (w', None, None)) \<or>
    (\<exists>y. q = Inr y \<and> render_passes c n y w4 = (w', None, None)) \<or>
    (\<exists>y. q = Inr y \<and> Revision (GetMetadata y) = Revision (GetMetadata r) \<and> \<not> desired_gone q \<and> e = None \<and> w' = w4)"
    using body by (cases "desired_gone l"; cases l; cases "desired_gone q"; cases q) (simp_all split: if_split_asm)
  then consider "remove_call c r w2 = (w', None, None)" | "remove_call c r w4 = (w', None, None)"
    | x where "l = Inr x" "render_passes c n x w2 = (w', None, None)"
    | y where "q = Inr y" "render_passes c n y w4 = (w', None, None)"
    | y where "q = Inr y" "Revision (GetMetadata y) = Revision (GetMetadata r)" "\<not> desired_gone q" "e = None" "w' = w4"
    by blast
  then show ?thesis
  proof cases
    case 3
    with r2 get_call_stored [OF peers r1 l [unfolded 3]] show ?thesis by blast
  next
    case 4
    with r4 get_call_stored [OF peers r3 q [unfolded 4]] show ?thesis by blast
  next
    case 5
    from ovn_call_result [OF e] 5 obtain b o' where "snd (c_render c b r o') = None" by (metis snd_conv)
    with 5 get_call_stored [OF peers r3 q [unfolded 5(1)]] show ?thesis
      unfolding rendered_row_def desired_gone_def by (auto split: sum.splits)
  qed (auto dest: remove_call_result)
qed

lemma render_passes_confirmed:
  assumes "peers_keep (reachable (c_codec c)) c"
  shows "reachable (c_codec c) (w_store w) \<Longrightarrow> render_passes c n r w = (w', None, None) \<Longrightarrow>
    rendered_row c (ResourceKind r) (ID (GetMetadata r)) w' \<or> removed_row c (ResourceKind r) (ID (GetMetadata r)) w'"
proof (induction n arbitrary: r w)
  case 0
  then show ?case by (simp add: Let_def split: prod.splits)
next
  case (Suc n)
  from render_pass_cases [OF assms Suc(2,3)] Suc.IH show ?case by metis
qed


definition stored_network :: resource where
  "stored_network = stored (Network sample_network)"


section \<open>A lost lease stops the writer\<close>

text \<open>One interaction in which the manager itself does nothing.\<close>

definition drift :: "'o controller \<Rightarrow> 'o world \<Rightarrow> 'o world" where
  "drift c w = snd (advance c w)"

lemma heart_failed_event: "heart_failed w \<Longrightarrow> heart_failed (do_event env e w)"
  by (cases e) (auto simp: heart_failed_def heartbeat_tick_def heartbeat_fail_def case_prod_beta split: option.splits)

lemma heart_failed_events: "heart_failed w \<Longrightarrow> heart_failed (fold (do_event env) es w)"
  by (induction es arbitrary: w) (auto simp: heart_failed_event)

lemma heart_failed_drift: "heart_failed w \<Longrightarrow> heart_failed (drift c w)"
  using heart_failed_events [of "w\<lparr>w_pos := n\<rparr>" for n]
  by (auto simp: drift_def advance_def Let_def heart_failed_def)

lemma store_call_failed:
  assumes "heart_failed w" "\<And>env s. env_cancelled env \<Longrightarrow> f env s = (s, a)"
  shows "store_call c WorkCtx f w = (drift c w, a)"
  using heart_failed_drift [OF assms(1), of c] assms(2)
  by (auto simp: store_call_def drift_def case_prod_beta tick_env_def Let_def)

lemma get_call_failed: "heart_failed w \<Longrightarrow> get_call c WorkCtx k i w = (drift c w, Inl ErrContext)"
  unfolding get_call_def by (rule store_call_failed) (simp_all add: Get_def)

lemma mark_call_failed: "heart_failed w \<Longrightarrow> mark_call c WorkCtx r e w = (drift c w, Some ErrContext)"
  by (simp add: mark_call_def store_call_failed [where a = "Inl ErrContext"] MarkReconciled_def)

lemma ovn_call_failed:
  "heart_failed w \<Longrightarrow> (\<And>o'. fst (f True r o') = o') \<Longrightarrow> \<exists>e. ovn_call c WorkCtx f r w = (drift c w, e)"
  using heart_failed_drift [of w c] by (auto simp: ovn_call_def drift_def case_prod_beta Let_def)


definition failed_world :: "nat world" where
  "failed_world = sample_world\<lparr>w_heart := Some \<lparr>hb_operation = claimed_operation, hb_err = Some ErrPrecondition, hb_parentStopped = False\<rparr>\<rparr>"

definition careful_controller :: "nat controller" where
  "careful_controller = sample_controller\<lparr>c_render := (\<lambda>cancelled r n. if cancelled then (n, Some ErrContext) else (Suc n, None))\<rparr>"


section \<open>An undisturbed reconciliation realizes the row\<close>

definition quiet :: "'o controller \<Rightarrow> bool" where
  "quiet c \<longleftrightarrow> (\<forall>n. tk_events (c_tick c n) = [] \<and> \<not> tk_cancelled (c_tick c n) \<and> \<not> tk_expired (c_tick c n) \<and>
     validLeaseOwner (tk_owner (c_tick c n)) \<and> tk_newID (c_tick c n) \<noteq> [])"

lemma quiet_advance: "quiet c \<Longrightarrow> advance c w = (c_tick c (w_pos w), w\<lparr>w_pos := Suc (w_pos w)\<rparr>)"
  by (simp add: advance_def quiet_def)

lemma quiet_clock: "quiet c \<Longrightarrow> clock c w = (w\<lparr>w_pos := Suc (w_pos w)\<rparr>, c_tick c (w_pos w))"
  by (simp add: clock_def quiet_advance)

lemma quiet_done: "quiet c \<Longrightarrow> \<not> heart_failed w \<Longrightarrow> \<not> ctx_done x (c_tick c n) w"
  by (cases x) (simp_all add: quiet_def)

definition quiet_env :: "'o controller \<Rightarrow> 'o world \<Rightarrow> call_env" where
  "quiet_env c w = tick_env c False (c_tick c (w_pos w))"

lemma quiet_env_simps [simp]:
  "\<not> env_cancelled (quiet_env c w)" "env_codec (quiet_env c w) = c_codec c" "env_newID (quiet_env c w) = tk_newID (c_tick c (w_pos w))"
  by (simp_all add: quiet_env_def tick_env_def)

lemma quiet_store_call:
  "quiet c \<Longrightarrow> \<not> heart_failed w \<Longrightarrow> store_call c x f w =
     (w\<lparr>w_pos := Suc (w_pos w), w_store := fst (f (quiet_env c w) (w_store w))\<rparr>, snd (f (quiet_env c w) (w_store w)))"
  using quiet_done [of c "w\<lparr>w_pos := Suc (w_pos w)\<rparr>" x "w_pos w"]
  by (simp add: store_call_def quiet_advance quiet_env_def case_prod_beta heart_failed_def)

lemma quiet_get:
  "quiet c \<Longrightarrow> \<not> heart_failed w \<Longrightarrow> lookup (w_store w) k i = Some r \<Longrightarrow> get_call c x k i w = (w\<lparr>w_pos := Suc (w_pos w)\<rparr>, Inr r)"
  by (simp add: get_call_def quiet_store_call Get_def)

lemma quiet_ovn:
  "quiet c \<Longrightarrow> \<not> heart_failed w \<Longrightarrow> ovn_call c x f r w =
     (w\<lparr>w_pos := Suc (w_pos w), w_ovn := fst (f False r (w_ovn w))\<rparr>, snd (f False r (w_ovn w)))"
  using quiet_done [of c "w\<lparr>w_pos := Suc (w_pos w)\<rparr>" x "w_pos w"]
  by (simp add: ovn_call_def quiet_advance case_prod_beta heart_failed_def)

text \<open>No operation has been recorded for this target revision.\<close>

definition no_operation_yet :: "memory \<Rightarrow> resource \<Rightarrow> bool" where
  "no_operation_yet s r \<longleftrightarrow>
     (let k = ResourceKind r; i = ID (GetMetadata r); n = Revision (GetMetadata r)
      in map_of (idempotency s) (idempotencyScope ''create'' KindOperation [] (operationKey k i n)) = None \<and>
         (\<forall>j op. lookup s KindOperation j = Some (Operation op) \<longrightarrow>
            op_IdempotencyKey op \<noteq> operationKey k i n \<and>
            \<not> (op_TargetKind op = k \<and> op_TargetID op = i \<and> op_TargetRevision op = n)))"

abbreviation new_reconcile :: "resource \<Rightarrow> operation" where
  "new_reconcile r \<equiv> queued_operation ''reconcile'' (ResourceKind r) (ID (GetMetadata r)) (Revision (GetMetadata r))
     (operationKey (ResourceKind r) (ID (GetMetadata r)) (Revision (GetMetadata r)))"

definition created_reconcile :: "call_env \<Rightarrow> resource \<Rightarrow> operation" where
  "created_reconcile env r = (new_reconcile r)\<lparr>op_meta := \<lparr>ID = env_newID env, Revision = 1, AppliedRevision = 0,
     State = ResourcePending, LastError = [], CreatedAt = env_now env, UpdatedAt = env_now env\<rparr>\<rparr>"

definition realizable :: "codec \<Rightarrow> memory \<Rightarrow> resource \<Rightarrow> bool" where
  "realizable cd s r \<longleftrightarrow> reachable cd s \<and> lookup s (ResourceKind r) (ID (GetMetadata r)) = Some r \<and>
     ResourceKind r \<noteq> KindOperation \<and> State (GetMetadata r) \<noteq> ResourceDeleting \<and>
     trim_space (ID (GetMetadata r)) \<noteq> [] \<and> no_operation_yet s r"

lemma realizable_row:
  assumes "realizable cd s r"
  shows "store_inv cd s" "ID (GetMetadata r) \<noteq> []" "1 \<le> Revision (GetMetadata r)" "AppliedRevision (GetMetadata r) \<le> Revision (GetMetadata r)"
proof -
  show inv: "store_inv cd s" using assms store.reach_inv by (auto simp: realizable_def)
  from assms have row: "lookup s (ResourceKind r) (ID (GetMetadata r)) = Some r" by (simp add: realizable_def)
  from row_okD(1,4) [OF inv row] show "ID (GetMetadata r) \<noteq> []" "1 \<le> Revision (GetMetadata r)"
      "AppliedRevision (GetMetadata r) \<le> Revision (GetMetadata r)"
    by (auto simp: row_ok_def)
qed

lemma trim_space_nonempty: "\<not> is_space c \<Longrightarrow> trim_space (c # s) \<noteq> []"
  by (auto simp: trim_space_def dropWhile_eq_Nil_conv)

lemma reconcile_row_valid:
  assumes "realizable cd s r"
  shows "Validate cd (Operation ((new_reconcile r)\<lparr>op_meta := m\<rparr>)) = None"
proof -
  have "trim_space ''reconcile'' \<noteq> []" "trim_space (operationKey k i n) \<noteq> []" for k i n
    unfolding operationKey_def using trim_space_nonempty [of "CHR ''r''"] by (simp_all add: is_space_def)
  then show ?thesis
    using assms realizable_row(2,3) [OF assms]
    by (simp add: realizable_def validateOperation_def queued_operation_def required_def fail_if_def
        ValidateOperationPayload_def)
qed

lemma reconcile_row_unique:
  assumes "realizable cd s r"
  shows "validateUniqueLocked s (Operation ((new_reconcile r)\<lparr>op_meta := m\<rparr>)) [] = None"
proof -
  note inv = realizable_row(1) [OF assms]
  have "apart s (Operation ((new_reconcile r)\<lparr>op_meta := m\<rparr>)) b" if b: "lookup s k' i' = Some b" for k' i' b
  proof (cases b)
    case (Operation op)
    with b have "lookup s KindOperation i' = Some (Operation op)" using row_okD(2) [OF inv b] by simp
    with assms have "op_IdempotencyKey op \<noteq> op_IdempotencyKey (new_reconcile r)"
      "\<not> (op_TargetKind op = ResourceKind r \<and> op_TargetID op = ID (GetMetadata r) \<and> op_TargetRevision op = Revision (GetMetadata r))"
      by (auto simp: realizable_def no_operation_yet_def Let_def queued_operation_def)
    with Operation show ?thesis
      by (auto simp: apart_def same_type_def queued_operation_def externalAddressClaimsLocked_def)
  qed (simp_all add: apart_def externalAddressClaimsLocked_def)
  then show ?thesis using store_invD [OF inv] by (simp add: validateUnique_None)
qed

lemma Create_reconcile:
  assumes "realizable cd s r" "env_codec env = cd" "\<not> env_cancelled env" "env_newID env \<noteq> []"
    and fresh: "lookup s KindOperation (env_newID env) = None"
  shows "\<exists>s'. Create env (Operation (new_reconcile r)) (op_IdempotencyKey (new_reconcile r)) s =
      (s', Inr (Operation (created_reconcile env r), False)) \<and>
    (\<forall>k i. lookup s' k i = (if (k, i) = (KindOperation, env_newID env) then Some (Operation (created_reconcile env r)) else lookup s k i))"
proof -
  let ?key = "op_IdempotencyKey (new_reconcile r)"
  let ?op = "Operation ((new_reconcile r)\<lparr>op_meta := (op_meta (new_reconcile r))\<lparr>ID := env_newID env, State := ResourcePending\<rparr>\<rparr>)"
  have copy: "with_operation_key ?key (Operation (new_reconcile r)) = Operation (new_reconcile r)"
    "SetDefaults (with_id (env_newID env) (Operation (new_reconcile r))) = ?op"
    using assms(4) by (simp_all add: SetDefaults_def with_id_def with_operation_key_def queued_operation_def)
  have result: "with_lsp_name (map_metadata (fresh_metadata (env_now env)) ?op) = Operation (created_reconcile env r)"
    by (simp add: with_lsp_name_def fresh_metadata_def created_reconcile_def queued_operation_def)
  have replay: "replayLocked s (idempotencyScope ''create'' KindOperation [] ?key) fp = Inr None" for fp
    using assms(1) by (simp add: realizable_def no_operation_yet_def Let_def replayLocked_def queued_operation_def)
  have checks: "first_err [Validate (env_codec env) ?op, validateReferencesLocked s ?op, validateNewReferenceStatesLocked s ?op None,
      validateUniqueLocked s ?op []] = None"
    using reconcile_row_valid [OF assms(1)] reconcile_row_unique [OF assms(1)] assms(2) store_invD(1) [OF realizable_row(1) [OF assms(1)]]
    by (simp add: validateNewReferenceStates_None first_err_None del: first_err.simps)
  have "\<not> created_unqueued (Operation (new_reconcile r))" "ID (GetMetadata ?op) = env_newID env"
    "ID (GetMetadata (with_id (env_newID env) (Operation (new_reconcile r)))) = env_newID env"
    using assms(4) by (simp_all add: created_unqueued_def queued_operation_def with_id_def)
  then show ?thesis
    unfolding Create_def
    using assms(3) fresh
    by (simp add: Let_def copy replay checks result kind_valid_def kindToCollection_def
        del: first_err.simps Validate.simps validateReferencesLocked.simps map_metadata.simps)
qed

lemma claim_created:
  assumes "realizable cd s r" "\<not> env_cancelled env" "validLeaseOwner owner"
    and s': "\<And>k i. lookup s' k i = (if (k, i) = (KindOperation, ident) then Some (Operation (created_reconcile env' r)) else lookup s k i)"
  shows "ClaimReconcile env ident 1 owner t cutoff s' =
    (store_put KindOperation ident (Operation (claim_operation_record owner t (created_reconcile env' r))) s',
     Inr (claim_operation_record owner t (created_reconcile env' r)))"
proof -
  have "get_as as_operation s' KindOperation ident = Some (created_reconcile env' r)"
    by (simp add: get_as_def s')
  moreover have "lookup s' (ResourceKind r) (ID (GetMetadata r)) = Some r"
    using assms(1) by (simp add: realizable_def s')
  ultimately show ?thesis
    using assms(1-3)
    by (simp add: ClaimReconcile_def claimOperation_def created_reconcile_def queued_operation_def operationTargetClaimable_def
        realizable_def Let_def)
qed

lemma quiet_mark:
  assumes "quiet c" "\<not> heart_failed w" "lookup (w_store w) (ResourceKind r) (ID (GetMetadata r)) = Some r"
  shows "\<exists>x w'. mark_call c y r None w = (w', None) \<and> w_ovn w' = w_ovn w \<and> w_heart w' = w_heart w \<and>
    lookup (w_store w') (ResourceKind r) (ID (GetMetadata r)) = Some x \<and>
    Revision (GetMetadata x) = Revision (GetMetadata r) \<and> State (GetMetadata x) = ResourceReady \<and>
    AppliedRevision (GetMetadata x) = max (Revision (GetMetadata r)) (AppliedRevision (GetMetadata r)) \<and> core x = core r"
  using assms
  by (auto simp: mark_call_def quiet_store_call MarkReconciled_def reconciled_resource_def Let_def)

lemma quiet_render:
  assumes "quiet c" "\<not> heart_failed w" "lookup (w_store w) (ResourceKind r) (ID (GetMetadata r)) = Some r"
    and "State (GetMetadata r) \<noteq> ResourceDeleting" "snd (c_render c False r (w_ovn w)) = None"
  shows "\<exists>x w'. renderUntilStable c r w = (w', None, None) \<and> w_ovn w' = fst (c_render c False r (w_ovn w)) \<and>
    w_heart w' = w_heart w \<and> lookup (w_store w') (ResourceKind r) (ID (GetMetadata r)) = Some x \<and>
    Revision (GetMetadata x) = Revision (GetMetadata r) \<and> State (GetMetadata x) = ResourceReady \<and>
    AppliedRevision (GetMetadata x) = max (Revision (GetMetadata r)) (AppliedRevision (GetMetadata r)) \<and> core x = core r"
proof -
  define w1 where "w1 = w\<lparr>w_pos := Suc (w_pos w), w_ovn := fst (c_render c False r (w_ovn w))\<rparr>"
  define w2 where "w2 = w1\<lparr>w_pos := Suc (w_pos w1)\<rparr>"
  have hf: "\<not> heart_failed w1" "\<not> heart_failed w2" using assms(2) by (simp_all add: w1_def w2_def heart_failed_def)
  have e: "ovn_call c WorkCtx (c_render c) r w = (w1, None)"
    using assms by (simp add: quiet_ovn w1_def)
  have l: "get_call c WorkCtx (ResourceKind r) (ID (GetMetadata r)) w1 = (w2, Inr r)"
    unfolding w2_def using assms(3) by (intro quiet_get [OF assms(1) hf(1)]) (simp add: w1_def)
  obtain x w3 where m: "mark_call c WorkCtx r None w2 = (w3, None)" and w3: "w_ovn w3 = w_ovn w2" "w_heart w3 = w_heart w2"
      "lookup (w_store w3) (ResourceKind r) (ID (GetMetadata r)) = Some x" "Revision (GetMetadata x) = Revision (GetMetadata r)"
      "State (GetMetadata x) = ResourceReady" "core x = core r"
      "AppliedRevision (GetMetadata x) = max (Revision (GetMetadata r)) (AppliedRevision (GetMetadata r))"
    using quiet_mark [OF assms(1) hf(2), of r WorkCtx] assms(3) by (auto simp: w1_def w2_def)
  have q: "get_call c WorkCtx (ResourceKind r) (ID (GetMetadata r)) w3 = (w3\<lparr>w_pos := Suc (w_pos w3)\<rparr>, Inr x)"
    using hf w3 by (intro quiet_get [OF assms(1)]) (simp_all add: heart_failed_def)
  have "renderUntilStable c r w = (w3\<lparr>w_pos := Suc (w_pos w3)\<rparr>, None, None)"
    using assms(4) w3 by (simp add: renderUntilStable_def maxConvergencePasses_def eval_nat_numeral e l m q desired_gone_def)
  with w3 show ?thesis by (auto simp: w1_def w2_def)
qed

lemma Update_other_rows:
  "k \<noteq> ResourceKind r \<Longrightarrow> lookup (fst (Update env r n key s)) k i = lookup s k i"
  by (auto simp: Update_def Let_def split: sum.split option.split)

lemma quiet_finish:
  assumes "quiet c" "w_heart w = Some h" "hb_err h = None" "k \<noteq> KindOperation"
  shows "lookup (w_store (fst (finish_claim c op e m w))) k i = lookup (w_store w) k i \<and>
    w_ovn (fst (finish_claim c op e m w)) = w_ovn w"
proof -
  have "ResourceKind (Operation (completed_operation f t e' op')) \<noteq> k" for f t and e' :: "err option" and op'
    using assms(4) by simp
  with assms show ?thesis
    by (simp add: finish_claim_def stopHeartbeat_def quiet_advance quiet_clock lost_lease_def completeOperation_def
        quiet_store_call heart_failed_def Let_def case_prod_beta Update_other_rows split: option.split)
qed

lemma quiet_open:
  assumes "quiet c" "\<not> heart_failed w" "realizable (c_codec c) (w_store w) r"
    and "lookup (w_store w) KindOperation (tk_newID (c_tick c (w_pos w))) = None"
  shows "\<exists>w' env. open_operation c ''reconcile'' (ResourceKind r) (ID (GetMetadata r)) (Revision (GetMetadata r))
      (op_IdempotencyKey (new_reconcile r)) w = (w', Inr (created_reconcile env r, False)) \<and>
    w_ovn w' = w_ovn w \<and> w_heart w' = w_heart w \<and>
    (\<forall>k i. lookup (w_store w') k i =
       (if (k, i) = (KindOperation, env_newID env) then Some (Operation (created_reconcile env r)) else lookup (w_store w) k i))"
proof -
  have "env_newID (quiet_env c w) \<noteq> []" using assms(1) by (simp add: quiet_def)
  then obtain s' where s': "Create (quiet_env c w) (Operation (new_reconcile r)) (op_IdempotencyKey (new_reconcile r)) (w_store w) =
      (s', Inr (Operation (created_reconcile (quiet_env c w) r), False))"
    "\<forall>k i. lookup s' k i = (if (k, i) = (KindOperation, env_newID (quiet_env c w))
       then Some (Operation (created_reconcile (quiet_env c w) r)) else lookup (w_store w) k i)"
    using Create_reconcile [OF assms(3), of "quiet_env c w"] assms(4) by auto
  moreover have "op_IdempotencyKey (new_reconcile r) = operationKey (ResourceKind r) (ID (GetMetadata r)) (Revision (GetMetadata r))"
    by (simp add: queued_operation_def)
  ultimately show ?thesis
    using assms(1,2)
    by (intro exI [of _ "w\<lparr>w_pos := Suc (w_pos w), w_store := s'\<rparr>"] exI [of _ "quiet_env c w"])
       (simp add: open_operation_def quiet_store_call assert_operation_def)
qed

lemma quiet_live:
  assumes "quiet c" "w_heart w = None" "realizable (c_codec c) (w_store w) r"
    and "lookup (w_store w) KindOperation (tk_newID (c_tick c (w_pos w))) = None"
    and "snd (c_render c False r (w_ovn w)) = None"
    and "\<not> (AppliedRevision (GetMetadata r) \<ge> Revision (GetMetadata r) \<and> State (GetMetadata r) = ResourceReady)"
  shows "\<exists>w' e x. reconcile_live c r False zero_time False w = (w', Returned e) \<and> w_ovn w' = fst (c_render c False r (w_ovn w)) \<and>
    lookup (w_store w') (ResourceKind r) (ID (GetMetadata r)) = Some x \<and> State (GetMetadata x) = ResourceReady \<and>
    Revision (GetMetadata x) = Revision (GetMetadata r) \<and> AppliedRevision (GetMetadata x) = Revision (GetMetadata r) \<and> core x = core r"
proof -
  have row: "lookup (w_store w) (ResourceKind r) (ID (GetMetadata r)) = Some r" "ResourceKind r \<noteq> KindOperation"
      "State (GetMetadata r) \<noteq> ResourceDeleting"
    using assms(3) by (auto simp: realizable_def)
  have hf: "\<not> heart_failed w" using assms(2) by (simp add: heart_failed_def)
  obtain w1 env where w1: "open_operation c ''reconcile'' (ResourceKind r) (ID (GetMetadata r)) (Revision (GetMetadata r))
      (op_IdempotencyKey (new_reconcile r)) w = (w1, Inr (created_reconcile env r, False))"
      "w_ovn w1 = w_ovn w" "w_heart w1 = None"
      "\<And>k i. lookup (w_store w1) k i =
         (if (k, i) = (KindOperation, env_newID env) then Some (Operation (created_reconcile env r)) else lookup (w_store w) k i)"
    using quiet_open [OF assms(1) hf assms(3,4)] assms(2) by metis
  define t where "t = c_tick c (w_pos w1)"
  define w2 where "w2 = w1\<lparr>w_pos := Suc (w_pos w1)\<rparr>"
  define op where "op = claim_operation_record (tk_owner t) (tk_now t) (created_reconcile env r)"
  define w3 where "w3 = w2\<lparr>w_pos := Suc (w_pos w2), w_store := store_put KindOperation (env_newID env) (Operation op) (w_store w1)\<rparr>"
  have clk: "clock c w1 = (w2, t)" by (simp add: quiet_clock [OF assms(1)] w2_def t_def)
  have owner: "validLeaseOwner (tk_owner t)" using assms(1) by (simp add: quiet_def t_def)
  have claim: "store_call c ParentCtx (\<lambda>env'. ClaimReconcile env' (env_newID env) 1 (tk_owner t) (tk_now t) (tk_now t - c_lease c)) w2 = (w3, Inr op)"
    using claim_created [OF assms(3) _ owner w1(4), of "quiet_env c w2"] w1(3)
    by (simp add: quiet_store_call [OF assms(1)] heart_failed_def w2_def w3_def op_def)
  have "lookup (w_store (startHeartbeat op w3)) (ResourceKind r) (ID (GetMetadata r)) = Some r"
      "\<not> heart_failed (startHeartbeat op w3)" "w_ovn (startHeartbeat op w3) = w_ovn w"
    using row w1 by (simp_all add: w3_def w2_def startHeartbeat_def heart_failed_def)
  with quiet_render [OF assms(1), of "startHeartbeat op w3" r] row assms(5) obtain x w4 where
    w4: "renderUntilStable c r (startHeartbeat op w3) = (w4, None, None)" "w_ovn w4 = fst (c_render c False r (w_ovn w))"
      "w_heart w4 = w_heart (startHeartbeat op w3)" "lookup (w_store w4) (ResourceKind r) (ID (GetMetadata r)) = Some x"
      "Revision (GetMetadata x) = Revision (GetMetadata r)" "State (GetMetadata x) = ResourceReady" "core x = core r"
      "AppliedRevision (GetMetadata x) = max (Revision (GetMetadata r)) (AppliedRevision (GetMetadata r))"
    by auto
  have fin: "lookup (w_store (fst (finish_claim c op None None w4))) (ResourceKind r) (ID (GetMetadata r)) = Some x"
      "w_ovn (fst (finish_claim c op None None w4)) = fst (c_render c False r (w_ovn w))"
    using quiet_finish [OF assms(1), of w4 _ "ResourceKind r" op None None] w4(2-4) row by (auto simp: startHeartbeat_def)
  have "op_IdempotencyKey (new_reconcile r) = operationKey (ResourceKind r) (ID (GetMetadata r)) (Revision (GetMetadata r))"
    by (simp add: queued_operation_def)
  with w1(1) have "reconcile_live c r False zero_time False w = (fst (finish_claim c op None None w4), Returned (snd (finish_claim c op None None w4)))"
    using assms(6) clk claim w4(1)
    by (auto simp: reconcile_live_def audit_fresh_def reconcile_claimed_def case_prod_beta Let_def created_reconcile_def queued_operation_def)
  then show ?thesis
    using fin w4 realizable_row(4) [OF assms(3)] by auto
qed


definition stored_group :: resource where
  "stored_group = stored (SecurityGroup sample_group)"

lemma stored_group_simps:
  "ResourceKind stored_group = KindSecurityGroup" "ID (GetMetadata stored_group) = ''g''" "Revision (GetMetadata stored_group) = 1"
  "AppliedRevision (GetMetadata stored_group) = 0" "State (GetMetadata stored_group) = ResourcePending"
  by code_simp+

lemma stored_group_realizable: "realizable sample_codec sample_store stored_group"
proof -
  have "lookup sample_store KindOperation j = Some (Operation op) \<Longrightarrow> op_TargetKind op = KindNetwork \<and> op_IdempotencyKey op = ''k''" for j op
    by (auto simp: lookup_def sample_store_rows stored_def sample_operation_def SetDefaults_def split: if_splits)
  moreover have "map_of (idempotency sample_store) x = None" for x
  proof -
    have "idempotency sample_store = []" by code_simp
    then show ?thesis by simp
  qed
  moreover have "lookup sample_store KindSecurityGroup ''g'' = Some stored_group" by code_simp
  moreover have "trim_space ''g'' \<noteq> []" by (rule trim_space_nonempty) (simp add: is_space_def)
  ultimately show ?thesis
    using sample_store_reachable
    by (fastforce simp: realizable_def no_operation_yet_def stored_group_simps operationKey_def)
qed


theorem waitForForcedClaim_returns_witness:
  "\<exists>w' result. waitForForcedClaim sample_controller ''o'' KindNetwork ''n'' 1 50 sample_world = Some (w', result)"
  by (rule waitForForcedClaim_returns [where N = 0]) (simp add: sample_tick_def)

definition ready_at :: "kind \<Rightarrow> string \<Rightarrow> int \<Rightarrow> 'o world \<Rightarrow> bool" where
  "ready_at k i revision w \<longleftrightarrow> (\<exists>x. lookup (w_store w) k i = Some x \<and> Revision (GetMetadata x) = revision \<and>
     AppliedRevision (GetMetadata x) = revision \<and> State (GetMetadata x) = ResourceReady)"

lemma watch_winner_accepts: "watch_winner c op k i revision w = (w', Some None) \<Longrightarrow> ready_at k i revision w'"
  by (auto simp: watch_winner_def ready_at_def Let_def dest: get_call_result
      split: if_split_asm prod.split_asm sum.split_asm operation_status.split_asm)

lemma wait_round_accepts: "wait_round c oid k i revision d w = (w', Some None) \<Longrightarrow> ready_at k i revision w'"
  by (auto simp: wait_round_def Let_def dest: watch_winner_accepts
      split: if_split_asm prod.split_asm sum.split_asm option.split_asm)

text \<open>C20. A forced reconciliation that lost the claim may only be satisfied by the winner when, in the
  very store it last read, the row is ready with exactly the demanded revision stored and
  applied. So a VM is never started on a state that only a failed, expired or superseded
  operation stands for.\<close>

theorem waitForForcedClaim_accepts:
  assumes "waitForForcedClaim c oid k i revision d w = Some (w', None)"
  shows "ready_at k i revision w'"
proof -
  have "snd (w', None) = (None :: rerr option) \<longrightarrow> ready_at k i revision (fst (w', None :: rerr option))"
  proof (rule waitForForcedClaim.raw_induct [where
        P = "\<lambda>_ _ k i revision _ _ y. snd y = None \<longrightarrow> ready_at k i revision (fst y)", OF _ assms], intro impI)
    fix wait :: "'o controller \<Rightarrow> string \<Rightarrow> kind \<Rightarrow> string \<Rightarrow> int \<Rightarrow> time \<Rightarrow> 'o world \<Rightarrow> ('o world \<times> rerr option) option"
      and c :: "'o controller" and oid k i revision d and w :: "'o world" and y
    assume IH: "\<And>c oid k i n d w y. wait c oid k i n d w = Some y \<Longrightarrow> snd y = None \<longrightarrow> ready_at k i n (fst y)"
      and body: "(case wait_round c oid k i revision d w of (w', None) \<Rightarrow> wait c oid k i revision d w'
        | (w', Some result) \<Rightarrow> Some (w', result)) = Some y" and "snd y = None"
    then show "ready_at k i revision (fst y)"
      by (auto split: prod.split_asm option.split_asm dest: IH wait_round_accepts)
  qed
  then show ?thesis by simp
qed

definition winner_done :: "nat world" where
  "winner_done = sample_world\<lparr>w_store := fst (Update sample_env (Operation (claimed_operation\<lparr>op_OperationStatus := OperationSucceeded\<rparr>)) 2 []
     (fst (MarkReconciled sample_env KindNetwork ''n'' 1 None claimed_store)))\<rparr>"

theorem waitForForcedClaim_accepts_witness:
  "\<exists>w'. waitForForcedClaim sample_controller ''o'' KindNetwork ''n'' 1 60 winner_done = Some (w', None) \<and>
     ready_at KindNetwork ''n'' 1 w'"
proof -
  have "snd (wait_round sample_controller ''o'' KindNetwork ''n'' 1 60 winner_done) = Some None" by code_simp
  then have "waitForForcedClaim sample_controller ''o'' KindNetwork ''n'' 1 60 winner_done =
      Some (fst (wait_round sample_controller ''o'' KindNetwork ''n'' 1 60 winner_done), None)"
    by (subst waitForForcedClaim.simps) (simp add: case_prod_beta)
  with waitForForcedClaim_accepts [OF this] show ?thesis by blast
qed

section \<open>Realization does not touch the desired state\<close>

text \<open>The abstract view of a store is its desired state: for each row that is not an operation,
  the content without the server-managed metadata, and the revision.\<close>

definition desired_state :: "memory \<Rightarrow> kind \<Rightarrow> string \<Rightarrow> (resource \<times> int) option" where
  "desired_state s k i =
     (if k = KindOperation then None else map_option (\<lambda>r. (core r, Revision (GetMetadata r))) (lookup s k i))"

lemma desired_put_operation [simp]: "desired_state (store_put KindOperation i r s) = desired_state s"
  by (auto simp: desired_state_def fun_eq_iff)

lemma desired_remember [simp]: "desired_state (rememberLocked scope fp r d s) = desired_state s"
  by (simp add: desired_state_def fun_eq_iff)

lemma desired_Create: "desired_state (fst (Create env (Operation op) key s)) = desired_state s"
  by (auto simp: Create_def Let_def split: sum.split option.split)

lemma desired_Update: "desired_state (fst (Update env (Operation op) n key s)) = desired_state s"
  by (auto simp: Update_def Let_def split: sum.split option.split)

lemma desired_Mark: "desired_state (fst (MarkReconciled env k i n e s)) = desired_state s"
proof -
  have "core (reconciled_resource t n e r) = core r \<and> Revision (GetMetadata (reconciled_resource t n e r)) = Revision (GetMetadata r)" for t r
    by (cases e) (simp_all add: reconciled_resource_def Let_def)
  then show ?thesis
    by (auto simp: MarkReconciled_def desired_state_def fun_eq_iff Let_def split: option.split)
qed

lemma desired_lease:
  "desired_state (fst (claimOperation env i n a u t cutoff s)) = desired_state s"
  "desired_state (fst (RenewOperationLease env i n u t s)) = desired_state s"
  by (auto simp: claimOperation_def RenewOperationLease_def Let_def split: option.split)

interpretation desired: live_calls cd "\<lambda>s. desired_state s = d" for cd d
  by unfold_locales (simp_all add: desired_Create desired_Update desired_Mark desired_lease ClaimReconcile_def ClaimDelete_def)

text \<open>C17. Realizing a live row refines doing nothing on the desired state: operations are recorded,
  claimed, renewed and completed, rows are marked ready or failed, but as long as the others
  do not change it, no content and no revision of any row changes, and no row appears or
  disappears, however the attempt ends.\<close>

theorem realization_refines_skip:
  assumes "peers_keep (\<lambda>s. desired_state s = desired_state (w_store w)) c"
  shows "desired_state (w_store (fst (reconcile_live c r force fresh wait w))) = desired_state (w_store w)"
  by (rule desired.reconcile_live_keeps [OF assms refl refl])

theorem realization_refines_skip_witness:
  "desired_state (w_store (fst (reconcile_live sample_controller stored_group True 0 False sample_world))) = desired_state sample_store"
  using realization_refines_skip [where w = sample_world, OF sample_peers] by (simp add: sample_world_def)

end
