(* ===== verification/Default_Security.thy ===== *)
theory Default_Security
  imports Reconcile_Properties "HOL-Library.Word"
begin

unbundle bit_operations_syntax

text \<open>
  The cluster-wide default security policy (\<open>internal/defaultsecurity/defaultsecurity.go\<close>): the
  deterministic group and its two rules, their inspection, and the repair that creates and
  realizes them. The policy manager works on the same store as the reconciliation controller
  and calls it as its reconciler; both are the record \<open>policy_manager\<close>. SHA-256 is a parameter
  from byte strings to bytes, of which the code relies on the digest having 32 bytes. The free
  text \<open>Detail\<close> of an inspection is left out, like all message texts.
\<close>

section \<open>Identifiers\<close>

type_synonym hash = "string \<Rightarrow> 8 word list"

definition hex_digit :: "nat \<Rightarrow> char" where
  "hex_digit n = (if n < 10 then char_of (48 + n) else char_of (87 + n))"

definition EncodeToString :: "8 word list \<Rightarrow> string" where
  "EncodeToString bs = concat (map (\<lambda>b. [hex_digit (unat (drop_bit 4 b)), hex_digit (unat (b AND 15))]) bs)"

definition substring :: "nat \<Rightarrow> nat \<Rightarrow> string \<Rightarrow> string" where
  "substring i j s = take (j - i) (drop i s)"

definition deterministicUUID :: "hash \<Rightarrow> string \<Rightarrow> string" where
  "deterministicUUID sha domain =
     (let digest = sha domain;
          digest = digest[6 := ((digest ! 6) AND 0x0F) OR 0x50];
          digest = digest[8 := ((digest ! 8) AND 0x3F) OR 0x80];
          encoded = EncodeToString (take 16 digest)
      in substring 0 8 encoded @ ''-'' @ substring 8 12 encoded @ ''-'' @ substring 12 16 encoded @ ''-'' @
         substring 16 20 encoded @ ''-'' @ substring 20 32 encoded)"

definition DefaultSecurityGroupID :: "hash \<Rightarrow> string" where
  "DefaultSecurityGroupID sha = deterministicUUID sha ''pvn/default-security-group/cluster/v1''"

definition DefaultEgressRuleID :: "hash \<Rightarrow> string" where
  "DefaultEgressRuleID sha = deterministicUUID sha ''pvn/default-security-group-rule/cluster-egress-ipv4/v1''"

definition DefaultIngressRuleID :: "hash \<Rightarrow> string" where
  "DefaultIngressRuleID sha = deterministicUUID sha ''pvn/default-security-group-rule/cluster-ingress-self-ipv4/v1''"

definition IsReserved :: "hash \<Rightarrow> resource option \<Rightarrow> bool" where
  "IsReserved sha resource' =
     (case resource' of
        None \<Rightarrow> False
      | Some r \<Rightarrow>
          (case ResourceKind r of
             KindSecurityGroup \<Rightarrow> ID (GetMetadata r) = DefaultSecurityGroupID sha
           | KindSecurityGroupRule \<Rightarrow>
               ID (GetMetadata r) = DefaultEgressRuleID sha \<or> ID (GetMetadata r) = DefaultIngressRuleID sha
           | _ \<Rightarrow> False))"

section \<open>The desired policy\<close>

definition DefaultSecurityGroupName :: string where "DefaultSecurityGroupName = ''default''"
definition DefaultSecurityGroupDescription :: string where
  "DefaultSecurityGroupDescription = ''PVN managed cluster default security group''"
definition DefaultEgressDescription :: string where "DefaultEgressDescription = ''Allow all IPv4 egress''"
definition DefaultIngressDescription :: string where
  "DefaultIngressDescription = ''Allow IPv4 ingress from all ports in the cluster default trust domain''"

definition id_metadata :: "string \<Rightarrow> metadata" where
  "id_metadata ident = \<lparr>ID = ident, Revision = 0, AppliedRevision = 0, State = ResourceUnset, LastError = [],
     CreatedAt = zero_time, UpdatedAt = zero_time\<rparr>"

definition desiredGroup :: "hash \<Rightarrow> security_group" where
  "desiredGroup sha = \<lparr>sg_meta = id_metadata (DefaultSecurityGroupID sha), sg_Name = DefaultSecurityGroupName,
     sg_Description = DefaultSecurityGroupDescription, sg_Stateful = True\<rparr>"

definition desiredEgressRule :: "hash \<Rightarrow> security_group_rule" where
  "desiredEgressRule sha = \<lparr>sgr_meta = id_metadata (DefaultEgressRuleID sha), sgr_SecurityGroupID = DefaultSecurityGroupID sha,
     sgr_Direction = DirectionEgress, sgr_EtherType = EtherTypeIPv4, sgr_Protocol = [], sgr_PortRangeMin = 0,
     sgr_PortRangeMax = 0, sgr_RemoteCIDR = [], sgr_RemoteGroupID = [], sgr_Action = ActionAllow,
     sgr_Description = DefaultEgressDescription\<rparr>"

definition desiredIngressRule :: "hash \<Rightarrow> security_group_rule" where
  "desiredIngressRule sha = \<lparr>sgr_meta = id_metadata (DefaultIngressRuleID sha), sgr_SecurityGroupID = DefaultSecurityGroupID sha,
     sgr_Direction = DirectionIngress, sgr_EtherType = EtherTypeIPv4, sgr_Protocol = [], sgr_PortRangeMin = 0,
     sgr_PortRangeMax = 0, sgr_RemoteCIDR = [], sgr_RemoteGroupID = DefaultSecurityGroupID sha, sgr_Action = ActionAllow,
     sgr_Description = DefaultIngressDescription\<rparr>"

definition sameGroup :: "security_group \<Rightarrow> security_group \<Rightarrow> err option" where
  "sameGroup current desired = first_err
     [conflict_if (State (sg_meta current) = ResourceDeleting),
      conflict_if (sg_Name current \<noteq> sg_Name desired \<or> sg_Description current \<noteq> sg_Description desired \<or> \<not> sg_Stateful current)]"

definition sameRule :: "security_group_rule \<Rightarrow> security_group_rule \<Rightarrow> err option" where
  "sameRule current desired = first_err
     [conflict_if (State (sgr_meta current) = ResourceDeleting),
      conflict_if (sgr_SecurityGroupID current \<noteq> sgr_SecurityGroupID desired \<or> sgr_Direction current \<noteq> sgr_Direction desired \<or>
        sgr_EtherType current \<noteq> sgr_EtherType desired \<or> sgr_Protocol current \<noteq> [] \<or>
        sgr_PortRangeMin current \<noteq> 0 \<or> sgr_PortRangeMax current \<noteq> 0 \<or> sgr_RemoteCIDR current \<noteq> [] \<or>
        sgr_RemoteGroupID current \<noteq> sgr_RemoteGroupID desired \<or> sgr_Action current \<noteq> sgr_Action desired \<or>
        sgr_Description current \<noteq> sgr_Description desired)]"

definition resourceReady :: "resource \<Rightarrow> bool" where
  "resourceReady r \<longleftrightarrow> State (GetMetadata r) = ResourceReady \<and> AppliedRevision (GetMetadata r) = Revision (GetMetadata r)"

text \<open>The comparison of a stored row with the desired one, by the type of the desired one. A row
  of another type fails the type assertion of the source.\<close>

fun as_security_group_rule :: "resource \<Rightarrow> security_group_rule option" where
  "as_security_group_rule (SecurityGroupRule x) = Some x"
| "as_security_group_rule _ = None"

definition verify :: "resource \<Rightarrow> resource \<Rightarrow> err option" where
  "verify current desired =
     (case desired of
        SecurityGroup d \<Rightarrow> (case as_security_group current of Some x \<Rightarrow> sameGroup x d | None \<Rightarrow> Some (ErrOther ''panic''))
      | SecurityGroupRule d \<Rightarrow> (case as_security_group_rule current of Some x \<Rightarrow> sameRule x d | None \<Rightarrow> Some (ErrOther ''panic''))
      | _ \<Rightarrow> None)"

section \<open>The policy manager\<close>

record 'o policy_manager =
  pm_configured :: bool
  pm_sha :: hash
  pm_controller :: "'o controller"
  pm_reconciles :: bool

datatype blocked_reason = BlockedNone | BlockedNameCollision | BlockedMalformedGroup | BlockedMalformedRule

record inspection =
  in_GroupID :: string
  in_MissingResourceIDs :: "string list"
  in_Ready :: bool
  in_BlockedReason :: blocked_reason

definition policy_not_configured :: err where
  "policy_not_configured = ErrOther ''default security policy store is not configured''"

definition list_groups :: "'o policy_manager \<Rightarrow> 'o world \<Rightarrow> 'o world \<times> (err + resource list)" where
  "list_groups m w = store_call (pm_controller m) ParentCtx (\<lambda>env s. (s, ListResources env KindSecurityGroup no_options s)) w"

definition name_taken :: "hash \<Rightarrow> resource list \<Rightarrow> bool" where
  "name_taken sha groups = list_ex (\<lambda>r. case as_security_group r of None \<Rightarrow> False
     | Some g \<Rightarrow> sg_Name g = DefaultSecurityGroupName \<and> ID (sg_meta g) \<noteq> DefaultSecurityGroupID sha) groups"

fun inspect_rows :: "'o policy_manager \<Rightarrow> resource list \<Rightarrow> inspection \<Rightarrow> 'o world \<Rightarrow> 'o world \<times> inspection \<times> err option" where
  "inspect_rows m [] ins w = (w, ins, None)"
| "inspect_rows m (desired # rest) ins w =
     (case get_call (pm_controller m) ParentCtx (ResourceKind desired) (ID (GetMetadata desired)) w of
        (w1, Inl e) \<Rightarrow>
          if e = ErrNotFound
          then inspect_rows m rest
                 (ins\<lparr>in_Ready := False, in_MissingResourceIDs := in_MissingResourceIDs ins @ [ID (GetMetadata desired)]\<rparr>) w1
          else (w1, ins, Some e)
      | (w1, Inr current) \<Rightarrow>
          if verify current desired \<noteq> None
          then (w1, ins\<lparr>in_Ready := False, in_BlockedReason :=
                  (if ResourceKind desired = KindSecurityGroup then BlockedMalformedGroup else BlockedMalformedRule)\<rparr>, None)
          else inspect_rows m rest (if resourceReady current then ins else ins\<lparr>in_Ready := False\<rparr>) w1)"

definition baseline :: "hash \<Rightarrow> resource list" where
  "baseline sha = [SecurityGroup (desiredGroup sha), SecurityGroupRule (desiredEgressRule sha), SecurityGroupRule (desiredIngressRule sha)]"

definition policy_Inspect :: "'o policy_manager \<Rightarrow> 'o world \<Rightarrow> 'o world \<times> inspection \<times> err option" where
  "policy_Inspect m w =
     (let ins = \<lparr>in_GroupID = DefaultSecurityGroupID (pm_sha m), in_MissingResourceIDs = [], in_Ready = True,
                 in_BlockedReason = BlockedNone\<rparr>
      in if \<not> pm_configured m then (w, ins, Some policy_not_configured)
         else case list_groups m w of
                (w1, Inl e) \<Rightarrow> (w1, ins, Some e)
              | (w1, Inr groups) \<Rightarrow>
                  if name_taken (pm_sha m) groups
                  then (w1, ins\<lparr>in_Ready := False, in_BlockedReason := BlockedNameCollision\<rparr>, None)
                  else inspect_rows m (baseline (pm_sha m)) ins w1)"

definition Probe :: "'o policy_manager \<Rightarrow> 'o world \<Rightarrow> 'o world \<times> err option" where
  "Probe m w =
     (case policy_Inspect m w of
        (w1, ins, Some e) \<Rightarrow> (w1, Some e)
      | (w1, ins, None) \<Rightarrow>
          (w1, if in_BlockedReason ins \<noteq> BlockedNone then Some (ErrOther ''default security policy is blocked'')
               else if \<not> in_Ready ins then Some (ErrOther ''default security policy is incomplete or not realized'')
               else None))"

section \<open>Repair\<close>

definition rejectNameCollision :: "'o policy_manager \<Rightarrow> 'o world \<Rightarrow> 'o world \<times> err option" where
  "rejectNameCollision m w =
     (case list_groups m w of
        (w1, Inl e) \<Rightarrow> (w1, Some e)
      | (w1, Inr groups) \<Rightarrow> (w1, conflict_if (name_taken (pm_sha m) groups)))"

definition adopt_or_fail :: "'o policy_manager \<Rightarrow> resource \<Rightarrow> err \<Rightarrow> 'o world \<Rightarrow> 'o world \<times> (err + resource)" where
  "adopt_or_fail m desired e w =
     (if e \<noteq> ErrAlreadyExists \<and> e \<noteq> ErrConflict then (w, Inl e)
      else case get_call (pm_controller m) ParentCtx (ResourceKind desired) (ID (GetMetadata desired)) w of
             (w1, Inr existing) \<Rightarrow> (w1, Inr existing)
           | (w1, Inl _) \<Rightarrow>
               if ResourceKind desired = KindSecurityGroup
               then (case rejectNameCollision m w1 of (w2, Some collision) \<Rightarrow> (w2, Inl collision) | (w2, None) \<Rightarrow> (w2, Inl e))
               else (w1, Inl e))"

definition ensureResource :: "'o policy_manager \<Rightarrow> resource \<Rightarrow> 'o world \<Rightarrow> 'o world \<times> (err + resource)" where
  "ensureResource m desired w =
     (case get_call (pm_controller m) ParentCtx (ResourceKind desired) (ID (GetMetadata desired)) w of
        (w1, Inr existing) \<Rightarrow> (w1, Inr existing)
      | (w1, Inl e) \<Rightarrow>
          if e \<noteq> ErrNotFound then (w1, Inl e)
          else case store_call (pm_controller m) ParentCtx (\<lambda>env. Create env desired []) w1 of
                 (w2, Inr (created, _)) \<Rightarrow> (w2, Inr created)
               | (w2, Inl createErr) \<Rightarrow> adopt_or_fail m desired createErr w2)"

definition reconcileAndRequireReady :: "'o policy_manager \<Rightarrow> resource \<Rightarrow> 'o world \<Rightarrow> 'o world \<times> (rerr + resource)" where
  "reconcileAndRequireReady m r w =
     (if resourceReady r then (w, Inr r)
      else if \<not> pm_reconciles m then (w, Inr r)
      else case Reconcile (pm_controller m) (ResourceKind r) (ID (GetMetadata r)) w of
             (w1, Some e) \<Rightarrow> (w1, Inl e)
           | (w1, None) \<Rightarrow>
               (case get_call (pm_controller m) ParentCtx (ResourceKind r) (ID (GetMetadata r)) w1 of
                  (w2, Inl e) \<Rightarrow> (w2, Inl (Failure e))
                | (w2, Inr latest) \<Rightarrow>
                    (w2, if resourceReady latest then Inr latest
                         else Inl (Failure (ErrOther ''default security policy was not fully realized'')))))"

text \<open>One element of the baseline: ensure, verify, realize.\<close>

definition ensure_row :: "'o policy_manager \<Rightarrow> resource \<Rightarrow> 'o world \<Rightarrow> 'o world \<times> (rerr + resource)" where
  "ensure_row m desired w =
     (case ensureResource m desired w of
        (w1, Inl e) \<Rightarrow> (w1, Inl (Failure e))
      | (w1, Inr ensured) \<Rightarrow>
          (case verify ensured desired of
             Some e \<Rightarrow> (w1, Inl (Failure e))
           | None \<Rightarrow> reconcileAndRequireReady m ensured w1))"

fun ensure_rows :: "'o policy_manager \<Rightarrow> resource list \<Rightarrow> 'o world \<Rightarrow> 'o world \<times> rerr option" where
  "ensure_rows m [] w = (w, None)"
| "ensure_rows m (desired # rest) w =
     (case ensure_row m desired w of (w1, Inl e) \<Rightarrow> (w1, Some e) | (w1, Inr _) \<Rightarrow> ensure_rows m rest w1)"

definition Ensure :: "'o policy_manager \<Rightarrow> 'o world \<Rightarrow> 'o world \<times> (rerr + security_group)" where
  "Ensure m w =
     (if \<not> pm_configured m then (w, Inl (Failure policy_not_configured))
      else case rejectNameCollision m w of
             (w1, Some e) \<Rightarrow> (w1, Inl (Failure e))
           | (w1, None) \<Rightarrow>
               (case ensure_rows m (baseline (pm_sha m)) w1 of
                  (w2, Some e) \<Rightarrow> (w2, Inl e)
                | (w2, None) \<Rightarrow>
                    (case get_call (pm_controller m) ParentCtx KindSecurityGroup (DefaultSecurityGroupID (pm_sha m)) w2 of
                       (w3, Inl e) \<Rightarrow> (w3, Inl (Failure e))
                     | (w3, Inr latest) \<Rightarrow>
                         (w3, case as_security_group latest of
                                Some g \<Rightarrow> Inr g | None \<Rightarrow> Inl (Failure (ErrOther ''panic''))))))"

definition EnsureAll :: "'o policy_manager \<Rightarrow> 'o world \<Rightarrow> 'o world \<times> rerr option" where
  "EnsureAll m w = (case Ensure m w of (w1, Inl e) \<Rightarrow> (w1, Some e) | (w1, Inr _) \<Rightarrow> (w1, None))"

section \<open>The identifiers are version 5 UUIDs\<close>

definition lower_hex :: "char \<Rightarrow> bool" where
  "lower_hex c \<longleftrightarrow> c \<in> set ''0123456789abcdef''"

definition uuid_v5 :: "string \<Rightarrow> bool" where
  "uuid_v5 u \<longleftrightarrow>
     (\<exists>a b c d e. u = a @ ''-'' @ b @ ''-'' @ (CHR ''5'' # c) @ ''-'' @ d @ ''-'' @ e \<and>
        map length [a, b, c, d, e] = [8, 4, 3, 4, 12] \<and> list_all (list_all lower_hex) [a, b, c, d, e] \<and> hd d \<in> set ''89ab'')"

lemma hex_digit_lower: "n < 16 \<Longrightarrow> lower_hex (hex_digit n)"
proof -
  assume "n < 16"
  then have "n \<in> set [0..<16]" by simp
  moreover have "list_all (\<lambda>n. lower_hex (hex_digit n)) [0..<16]" by code_simp
  ultimately show ?thesis unfolding list_all_iff by blast
qed

lemma byte_hex:
  "lower_hex (hex_digit (unat (drop_bit 4 (b :: 8 word))))" "lower_hex (hex_digit (unat (b AND 15)))"
proof -
  have "b AND 15 \<le> 15" by (rule word_and_le1)
  then show "lower_hex (hex_digit (unat (b AND 15)))" by (intro hex_digit_lower) (simp add: word_le_nat_alt)
  have "unat b < 256" using unsigned_less [of b, where ?'a = nat] by simp
  then show "lower_hex (hex_digit (unat (drop_bit 4 b)))"
    by (intro hex_digit_lower) (simp add: drop_bit_eq_div unat_div_distrib)
qed

lemma version_nibble: "drop_bit 4 ((b AND 15) OR 80 :: 8 word) = 5"
  by (simp add: drop_bit_or drop_bit_and)

lemma variant_nibble: "hex_digit (unat (drop_bit 4 ((b AND 63) OR 128 :: 8 word))) \<in> set ''89ab''"
proof -
  have "drop_bit 4 ((b AND 63) OR 128) = (drop_bit 4 b AND 3) OR (8 :: 8 word)" by (simp add: drop_bit_or drop_bit_and)
  moreover have "drop_bit 4 b AND 3 \<in> word_of_nat ` {0, 1, 2, 3 :: nat}"
  proof (rule image_eqI)
    have "drop_bit 4 b AND 3 \<le> (3 :: 8 word)" by (rule word_and_le1)
    then show "unat (drop_bit 4 b AND 3) \<in> {0, 1, 2, 3}" by (auto simp: word_le_nat_alt)
  qed simp
  moreover have "hex_digit 8 = CHR ''8''" "hex_digit 9 = CHR ''9''" "hex_digit 10 = CHR ''a''" "hex_digit 11 = CHR ''b''"
    by code_simp+
  ultimately show ?thesis by auto
qed

lemma length_16:
  assumes "length xs = 16"
  obtains a b c d e f g h i j k l m n p q where "xs = [a, b, c, d, e, f, g, h, i, j, k, l, m, n, p, q]"
  using assms by (auto simp: numeral_eq_Suc length_Suc_conv)

text \<open>C39. Whatever the hash, as long as it has 32 bytes, the identifier of a default policy object is
  a well-formed UUID in lower case, of version 5 and with the RFC 4122 variant.\<close>

theorem deterministicUUID_type:
  assumes "length (sha domain) = 32"
  shows "uuid_v5 (deterministicUUID sha domain)"
proof -
  have "length (take 16 (sha domain)) = 16" using assms by simp
  then obtain a b c d e f g h i j k l m n p q where
    bytes: "take 16 (sha domain) = [a, b, c, d, e, f, g, h, i, j, k, l, m, n, p, q]" by (rule length_16)
  have nth: "sha domain ! 6 = g" "sha domain ! 8 = i"
    using arg_cong [OF bytes, of "\<lambda>xs. xs ! 6"] arg_cong [OF bytes, of "\<lambda>xs. xs ! 8"] by simp_all
  define hi where "hi = (\<lambda>b :: 8 word. hex_digit (unat (drop_bit 4 b)))"
  define lo where "lo = (\<lambda>b :: 8 word. hex_digit (unat (b AND 15)))"
  define g' where "g' = (g AND 15) OR 80"
  define i' where "i' = (i AND 63) OR 128"
  have hex: "lower_hex (hi x)" "lower_hex (lo x)" for x using byte_hex by (simp_all add: hi_def lo_def)
  have five: "hi g' = CHR ''5''" unfolding hi_def g'_def version_nibble by code_simp
  have variant: "hi i' \<in> set ''89ab''" unfolding hi_def i'_def by (rule variant_nibble)
  have "take 16 ((sha domain)[6 := g', 8 := i']) = [a, b, c, d, e, f, g', h, i', j, k, l, m, n, p, q]"
    by (simp add: take_update_swap bytes)
  then have "EncodeToString (take 16 ((sha domain)[6 := g', 8 := i'])) =
      [hi a, lo a, hi b, lo b, hi c, lo c, hi d, lo d, hi e, lo e, hi f, lo f, CHR ''5'', lo g', hi h, lo h, hi i', lo i', hi j, lo j,
       hi k, lo k, hi l, lo l, hi m, lo m, hi n, lo n, hi p, lo p, hi q, lo q]"
    unfolding EncodeToString_def hi_def [symmetric] lo_def [symmetric]
    using five by (simp add: hi_def [THEN fun_cong, symmetric] lo_def [THEN fun_cong, symmetric])
  then have u: "deterministicUUID sha domain = [hi a, lo a, hi b, lo b, hi c, lo c, hi d, lo d] @ ''-'' @ [hi e, lo e, hi f, lo f] @ ''-'' @
      (CHR ''5'' # [lo g', hi h, lo h]) @ ''-'' @ [hi i', lo i', hi j, lo j] @ ''-'' @
      [hi k, lo k, hi l, lo l, hi m, lo m, hi n, lo n, hi p, lo p, hi q, lo q]"
    by (simp add: deterministicUUID_def substring_def nth g'_def [symmetric] i'_def [symmetric])
  show ?thesis
    unfolding uuid_v5_def by (intro exI conjI, rule u) (use hex variant in simp_all)
qed

theorem deterministicUUID_type_witness: "uuid_v5 (deterministicUUID (\<lambda>_. replicate 32 0xFF) ''x'')"
  by (rule deterministicUUID_type) simp

section \<open>Repair keeps what exists and establishes the baseline\<close>

text \<open>A baseline row is in place when a row under its key carries its policy and is not being
  deleted.\<close>

definition in_place :: "resource \<Rightarrow> memory \<Rightarrow> bool" where
  "in_place d s \<longleftrightarrow> (\<exists>x. lookup s (ResourceKind d) (ID (GetMetadata d)) = Some x \<and> verify x d = None)"

definition policy_ok :: "memory \<Rightarrow> resource set \<Rightarrow> memory \<Rightarrow> bool" where
  "policy_ok s0 ds s \<longleftrightarrow> (\<forall>k i v. desired_state s0 k i = Some v \<longrightarrow> desired_state s k i = Some v) \<and>
     (\<forall>d \<in> ds. ResourceKind d \<noteq> KindOperation \<longrightarrow> in_place d s)"

lemma verify_reconciled: "verify x d = None \<Longrightarrow> verify (reconciled_resource t n e x) d = None"
  by (cases d; cases x; cases e)
     (auto simp: verify_def sameGroup_def sameRule_def reconciled_resource_def on_floating_def Let_def check_simps)

lemma policy_ok_cong:
  assumes "policy_ok s0 ds s" "desired_state t = desired_state s" "\<And>k i. k \<noteq> KindOperation \<Longrightarrow> lookup t k i = lookup s k i"
  shows "policy_ok s0 ds t"
  using assms by (simp add: policy_ok_def in_place_def)

lemma policy_ok_operation_put [simp]: "policy_ok s0 ds (store_put KindOperation i r s) = policy_ok s0 ds s"
  by (auto intro: policy_ok_cong)

lemma policy_ok_remember [simp]: "policy_ok s0 ds (rememberLocked scope fp r b s) = policy_ok s0 ds s"
  by (auto intro: policy_ok_cong)

lemma policy_ok_Mark: "policy_ok s0 ds s \<Longrightarrow> policy_ok s0 ds (fst (MarkReconciled env k i n e s))"
proof -
  assume ok: "policy_ok s0 ds s"
  have "in_place d (fst (MarkReconciled env k i n e s))" if "in_place d s" for d
    using that by (auto simp: in_place_def MarkReconciled_def Let_def verify_reconciled split: option.split)
  with ok show ?thesis by (simp add: policy_ok_def desired_Mark)
qed

interpretation policy0: live_calls cd "policy_ok s0 ds" for cd s0 ds
proof
  show "policy_ok s0 ds (fst (Create env (Operation op) key s))" if "policy_ok s0 ds s" for env op key s
    using that by (auto simp: Create_def Let_def split: sum.split option.split)
  show "policy_ok s0 ds (fst (Update env (Operation op) n key s))" if "policy_ok s0 ds s" for env op n key s
    using that by (auto simp: Update_def Let_def split: sum.split option.split)
  show "policy_ok s0 ds (fst (RenewOperationLease env i n u t s))" if "policy_ok s0 ds s" for env i n u t s
    using that by (auto simp: RenewOperationLease_def Let_def split: option.split)
qed (auto simp: policy_ok_Mark ClaimReconcile_def ClaimDelete_def claimOperation_def Let_def split: option.split)

definition managed :: "codec \<Rightarrow> memory \<Rightarrow> resource set \<Rightarrow> memory \<Rightarrow> bool" where
  "managed cd s0 ds s \<longleftrightarrow> reachable cd s \<and> policy_ok s0 ds s"

interpretation policy: live_calls cd "managed cd s0 ds" for cd s0 ds
  by unfold_locales
     (simp_all add: managed_def reach.ok_Create reach.ok_Update reach.ok_Mark reach.ok_ClaimReconcile reach.ok_ClaimDelete reach.ok_Renew
        policy0.ok_Create policy0.ok_Update policy0.ok_Mark policy0.ok_ClaimReconcile policy0.ok_ClaimDelete policy0.ok_Renew)

lemma verify_live: "ResourceKind d \<in> {KindSecurityGroup, KindSecurityGroupRule} \<Longrightarrow> verify x d = None \<Longrightarrow>
    State (GetMetadata x) \<noteq> ResourceDeleting"
  by (cases d; cases x) (auto simp: verify_def sameGroup_def sameRule_def check_simps)

lemma baseline_kinds: "d \<in> set (baseline sha) \<Longrightarrow> ResourceKind d \<in> {KindSecurityGroup, KindSecurityGroupRule}"
  by (auto simp: baseline_def)

lemma baseline_ids: "d \<in> set (baseline sha) \<Longrightarrow> ID (GetMetadata d) \<noteq> []"
  by (auto simp: baseline_def desiredGroup_def desiredEgressRule_def desiredIngressRule_def id_metadata_def
      DefaultSecurityGroupID_def DefaultEgressRuleID_def DefaultIngressRuleID_def deterministicUUID_def Let_def)

abbreviation safe_peers :: "memory \<Rightarrow> resource set \<Rightarrow> 'o controller \<Rightarrow> bool" where
  "safe_peers s0 ds c \<equiv> peers_keep (managed (c_codec c) s0 ds) c"

abbreviation managed_by :: "'o controller \<Rightarrow> memory \<Rightarrow> resource set \<Rightarrow> 'o world \<Rightarrow> bool" where
  "managed_by c s0 ds w \<equiv> managed (c_codec c) s0 ds (w_store w)"

text \<open>A reconciliation of a row that is in place takes the live path.\<close>

lemma Reconcile_managed:
  assumes "safe_peers s0 ds c" "managed_by c s0 ds w" "d \<in> ds" "ResourceKind d \<in> {KindSecurityGroup, KindSecurityGroupRule}"
  shows "managed_by c s0 ds (fst (Reconcile c (ResourceKind d) (ID (GetMetadata d)) w))"
proof -
  obtain w1 a where g: "get_call c ParentCtx (ResourceKind d) (ID (GetMetadata d)) w = (w1, a)" by fastforce
  have w1: "managed_by c s0 ds w1"
    using policy.get_call_keeps [OF assms(1) refl assms(2), of ParentCtx "ResourceKind d" "ID (GetMetadata d)"] g by simp
  have "State (GetMetadata r) \<noteq> ResourceDeleting" if "a = Inr r" for r
  proof -
    have "lookup (w_store w1) (ResourceKind d) (ID (GetMetadata d)) = Some r" using get_call_result g that by metis
    moreover have "in_place d (w_store w1)" using w1 assms(3,4) by (auto simp: managed_def policy_ok_def)
    ultimately show ?thesis using verify_live [OF assms(4)] by (auto simp: in_place_def)
  qed
  then show ?thesis
    using g w1 assms(2) policy.reconcile_live_keeps [OF assms(1) refl w1]
    by (auto simp: Reconcile_def reconcile_def reconcile_once_def case_prod_beta split: sum.split attempt.split)
qed

lemma Create_keeps_rows: "lookup s k i = Some x \<Longrightarrow> lookup (fst (Create env r key s)) k i = Some x"
  by (auto simp: Create_def Let_def split: sum.split option.split)

lemma Create_stores:
  assumes "Create env r [] s = (s', Inr (x, b))" "ID (GetMetadata r) \<noteq> []"
  shows "lookup s' (ResourceKind r) (ID (GetMetadata r)) = Some x"
proof -
  have "ID (GetMetadata (with_id i (with_operation_key [] r))) = ID (GetMetadata r)" for i
    using assms(2) by (cases r) (simp_all add: with_id_def with_operation_key_def)
  then show ?thesis
    using assms(1) by (auto simp: Create_def Let_def replayLocked_def idempotencyScope_def split: if_splits option.splits)
qed

lemma policy_ok_Create:
  assumes "policy_ok s0 ds s"
  shows "policy_ok s0 ds (fst (Create env r key s))"
proof -
  have "desired_state (fst (Create env r key s)) k i = Some v" if "desired_state s k i = Some v" for k i v
    using that Create_keeps_rows [of s k i _ env r key] by (auto simp: desired_state_def split: if_splits)
  moreover have "in_place d (fst (Create env r key s))" if "in_place d s" for d
    using that Create_keeps_rows [of s _ _ _ env r key] by (auto simp: in_place_def)
  ultimately show ?thesis using assms by (simp add: policy_ok_def)
qed

lemma policy_calls:
  assumes "safe_peers s0 ds c" "managed_by c s0 ds w"
  shows "managed_by c s0 ds (fst (get_call c x k i w))"
    "managed_by c s0 ds (fst (store_call c x (\<lambda>env. Create env r key) w))"
    "managed_by c s0 ds (fst (store_call c x (\<lambda>env s. (s, g env s)) w))"
proof -
  show "managed_by c s0 ds (fst (get_call c x k i w))" "managed_by c s0 ds (fst (store_call c x (\<lambda>env s. (s, g env s)) w))"
    using policy.get_call_keeps [OF assms(1) refl assms(2)] policy.calls_keep(6) [OF assms(1) refl assms(2)] by auto
  show "managed_by c s0 ds (fst (store_call c x (\<lambda>env. Create env r key) w))"
    by (rule policy.store_call_keeps [OF _ assms(1) refl assms(2)])
       (auto simp: call_keeps_def managed_def policy_ok_Create intro: reach_step step_Create)
qed

lemma rejectNameCollision_ok:
  "safe_peers s0 ds (pm_controller m) \<Longrightarrow> managed_by (pm_controller m) s0 ds w \<Longrightarrow>
     managed_by (pm_controller m) s0 ds (fst (rejectNameCollision m w))"
  by (simp add: rejectNameCollision_def list_groups_def case_prod_beta policy_calls split: sum.split)

lemma ensureResource_ok:
  "safe_peers s0 ds (pm_controller m) \<Longrightarrow> managed_by (pm_controller m) s0 ds w \<Longrightarrow>
     managed_by (pm_controller m) s0 ds (fst (ensureResource m d w))"
  by (simp add: ensureResource_def adopt_or_fail_def case_prod_beta policy_calls rejectNameCollision_ok
      split: sum.split option.split)

lemma store_call_Create:
  "store_call c x (\<lambda>env. Create env r []) w = (w', Inr (y, b)) \<Longrightarrow> ID (GetMetadata r) \<noteq> [] \<Longrightarrow>
     lookup (w_store w') (ResourceKind r) (ID (GetMetadata r)) = Some y"
  by (auto simp: store_call_def Let_def split: prod.splits intro: Create_stores)

lemma ensureResource_stored:
  assumes "ensureResource m d w = (w', Inr x)" "ID (GetMetadata d) \<noteq> []"
  shows "lookup (w_store w') (ResourceKind d) (ID (GetMetadata d)) = Some x"
  using assms
  by (auto simp: ensureResource_def adopt_or_fail_def split: prod.splits sum.splits if_splits option.splits
      dest: get_call_result store_call_Create)

lemma reconcileAndRequireReady_ok:
  assumes "safe_peers s0 ds (pm_controller m)" "managed_by (pm_controller m) s0 ds w" "d \<in> ds"
    and "ResourceKind d \<in> {KindSecurityGroup, KindSecurityGroupRule}" "ResourceKind x = ResourceKind d" "ID (GetMetadata x) = ID (GetMetadata d)"
  shows "managed_by (pm_controller m) s0 ds (fst (reconcileAndRequireReady m x w))"
  using assms(2) Reconcile_managed [OF assms(1-4)] policy_calls(1) [OF assms(1)]
  by (simp add: reconcileAndRequireReady_def assms(5,6) case_prod_beta split: option.split sum.split)

lemma managed_mono: "managed cd s0 (insert d ds) s \<Longrightarrow> managed cd s0 ds s"
  by (auto simp: managed_def policy_ok_def)

lemma ensure_row_ok:
  assumes "safe_peers s0 ds (pm_controller m)" "safe_peers s0 (insert d ds) (pm_controller m)"
    and "managed_by (pm_controller m) s0 ds w" "d \<in> set (baseline sha)" "ensure_row m d w = (w', r)"
  shows "managed_by (pm_controller m) s0 ds w' \<and> (\<forall>x. r = Inr x \<longrightarrow> managed_by (pm_controller m) s0 (insert d ds) w')"
proof -
  obtain w1 a where a: "ensureResource m d w = (w1, a)" by fastforce
  have w1: "managed_by (pm_controller m) s0 ds w1" using ensureResource_ok [OF assms(1,3), of d] a by simp
  show ?thesis
  proof (cases "\<exists>x. a = Inr x \<and> verify x d = None")
    case False
    with a w1 assms(5) show ?thesis by (auto simp: ensure_row_def split: sum.splits option.splits)
  next
    case True
    then obtain x where x: "a = Inr x" "verify x d = None" by blast
    have look: "lookup (w_store w1) (ResourceKind d) (ID (GetMetadata d)) = Some x"
      using ensureResource_stored a x(1) baseline_ids [OF assms(4)] by blast
    with w1 x(2) have in1: "managed_by (pm_controller m) s0 (insert d ds) w1"
      by (auto simp: managed_def policy_ok_def in_place_def)
    have "ResourceKind x = ResourceKind d" "ID (GetMetadata x) = ID (GetMetadata d)"
      using stored_key look w1 by (auto simp: managed_def)
    from reconcileAndRequireReady_ok [OF assms(2) in1 insertI1 baseline_kinds [OF assms(4)] this]
    have "managed_by (pm_controller m) s0 (insert d ds) w'"
      using assms(5) a x by (simp add: ensure_row_def)
    then show ?thesis using managed_mono by blast
  qed
qed

lemma ensure_rows_ok:
  assumes "\<And>ds. ds \<subseteq> set (baseline sha) \<Longrightarrow> safe_peers s0 ds (pm_controller m)"
  shows "set rows' \<subseteq> set (baseline sha) \<Longrightarrow> ds \<subseteq> set (baseline sha) \<Longrightarrow> managed_by (pm_controller m) s0 ds w \<Longrightarrow>
    ensure_rows m rows' w = (w', e) \<Longrightarrow>
    managed_by (pm_controller m) s0 ds w' \<and> (e = None \<longrightarrow> managed_by (pm_controller m) s0 (set rows' \<union> ds) w')"
proof (induction rows' arbitrary: ds w)
  case (Cons d rest)
  obtain w1 r where r: "ensure_row m d w = (w1, r)" by fastforce
  have ds: "insert d ds \<subseteq> set (baseline sha)" "d \<in> set (baseline sha)" using Cons.prems by auto
  note row = ensure_row_ok [OF assms [OF Cons.prems(2)] assms [OF ds(1)] Cons.prems(3) ds(2) r]
  show ?case
  proof (cases r)
    case (Inl x)
    with row r Cons.prems(4) show ?thesis by auto
  next
    case (Inr x)
    with row Cons.IH [of "insert d ds" w1] Cons.prems ds r show ?thesis using managed_mono by auto
  qed
qed auto

text \<open>C18. The repair of the default security policy never overwrites anything and establishes the
  baseline: however it ends, every row that existed keeps its content and revision; and when
  it succeeds, the group and its two rules are stored with exactly the baseline policy and are
  not being deleted. Other managers may create, realize and mark rows meanwhile; they are only
  assumed not to touch existing desired state and not to undo baseline rows, which the API
  reserves.\<close>

theorem Ensure_establishes_policy:
  assumes "\<And>ds. ds \<subseteq> set (baseline (pm_sha m)) \<Longrightarrow>
      peers_keep (managed (c_codec (pm_controller m)) (w_store w) ds) (pm_controller m)"
    and "reachable (c_codec (pm_controller m)) (w_store w)" "Ensure m w = (w', result)"
  shows "(\<forall>k i v. desired_state (w_store w) k i = Some v \<longrightarrow> desired_state (w_store w') k i = Some v) \<and>
    (\<forall>g. result = Inr g \<longrightarrow> (\<forall>d \<in> set (baseline (pm_sha m)). in_place d (w_store w')))"
proof -
  let ?c = "pm_controller m"
  note peers = assms(1)
  have w: "managed_by ?c (w_store w) {} w" using assms(2) by (simp add: managed_def policy_ok_def)
  have w1: "managed_by ?c (w_store w) {} (fst (rejectNameCollision m w))"
    by (rule rejectNameCollision_ok [OF peers [OF empty_subsetI] w])
  obtain v e where v: "ensure_rows m (baseline (pm_sha m)) (fst (rejectNameCollision m w)) = (v, e)" by fastforce
  note rows' = ensure_rows_ok [where sha = "pm_sha m", OF peers order_refl empty_subsetI w1 v]
  have get: "managed_by ?c (w_store w) ds (fst (get_call ?c x k i v))"
    if "ds \<subseteq> set (baseline (pm_sha m))" "managed_by ?c (w_store w) ds v" for ds x k i and v :: "'a world"
    by (rule policy_calls(1) [OF peers [OF that(1)] that(2)])
  have "managed_by ?c (w_store w) {} w' \<and> (\<forall>g. result = Inr g \<longrightarrow> managed_by ?c (w_store w) (set (baseline (pm_sha m))) w')"
    using assms(3) w w1 rows' get [OF empty_subsetI] get [OF order_refl]
    unfolding Ensure_def by (auto simp: v case_prod_beta split: if_split_asm option.split_asm sum.split_asm)
  then show ?thesis
    using baseline_kinds [of _ "pm_sha m"] unfolding managed_def policy_ok_def by fastforce
qed

definition flat_hash :: hash where
  "flat_hash s = replicate 32 (word_of_nat (length s))"

definition policy_controller :: "nat controller" where
  "policy_controller = sample_controller\<lparr>c_tick := (\<lambda>n. sample_tick\<lparr>tk_newID := replicate (Suc n) (CHR ''y'')\<rparr>)\<rparr>"

definition sample_policy :: "nat policy_manager" where
  "sample_policy = \<lparr>pm_configured = True, pm_sha = flat_hash, pm_controller = policy_controller, pm_reconciles = True\<rparr>"

theorem Ensure_establishes_policy_witness:
  "\<exists>w' g. Ensure sample_policy sample_world = (w', Inr g) \<and>
     (\<forall>d \<in> set (baseline flat_hash). in_place d (w_store w')) \<and> desired_state (w_store w') KindNetwork ''n'' \<noteq> None"
proof -
  have "case snd (Ensure sample_policy sample_world) of Inl _ \<Rightarrow> False | Inr _ \<Rightarrow> True" by code_simp
  then obtain w' g where e: "Ensure sample_policy sample_world = (w', Inr g)"
    by (cases "Ensure sample_policy sample_world") (auto split: sum.splits)
  have simps: "pm_controller sample_policy = policy_controller" "pm_sha sample_policy = flat_hash" "c_codec policy_controller = sample_codec"
    "peers_keep ok policy_controller" for ok
    by (simp_all add: sample_policy_def policy_controller_def peers_keep_def sample_tick_def)
  have "desired_state sample_store KindNetwork ''n'' = Some (core (stored (Network sample_network)), 1)" by code_simp
  with Ensure_establishes_policy [of sample_policy sample_world, OF _ _ e] sample_store_reachable
  have "\<forall>d \<in> set (baseline flat_hash). in_place d (w_store w')" "desired_state (w_store w') KindNetwork ''n'' \<noteq> None"
    by (auto simp: simps sample_world_def)
  with e show ?thesis by auto
qed

end
