(* ===== verification/Ovsdb_Snapshot.thy ===== *)
theory Ovsdb_Snapshot
  imports Memory_Ops
begin

text \<open>
  The decoded view of the durable store (\<open>internal/ovsdbstore/codec.go\<close>, types
  \<open>storedResource\<close> and \<open>snapshot\<close>) and the checks of \<open>internal/ovsdbstore/validation.go\<close> on it.

  Every call of the durable store decodes the whole database into a snapshot, decides on the
  snapshot, and commits. The checks are a second implementation of those of the in-memory
  store: where the two texts are the same function of resources alone (\<open>references\<close>,
  \<open>portHasFixedIP\<close>, \<open>portHasSubnet\<close>, \<open>portHasAddress\<close>, \<open>resourceFields\<close> and its neighbours, the
  lease helpers, \<open>idempotencyScope\<close>), the definition of the in-memory store is used; all the checks that
  read the state are defined again here, over the snapshot.
\<close>

section \<open>State\<close>

record storedResource =
  sr_uuid :: string
  sr_resource :: resource

record snapshot =
  sn_epoch :: int
  sn_hasLock :: bool
  sn_resources :: "((kind \<times> string) \<times> storedResource) list"
  sn_uuidToID :: "((kind \<times> string) \<times> string) list"
  sn_idempotency :: "(string \<times> idempotencyRecord) list"

definition newSnapshot :: snapshot where
  "newSnapshot = \<lparr>sn_epoch = 0, sn_hasLock = False, sn_resources = [], sn_uuidToID = [], sn_idempotency = []\<rparr>"

definition snap_lookup :: "snapshot \<Rightarrow> kind \<Rightarrow> string \<Rightarrow> resource option" where
  "snap_lookup s kind ident = map_option sr_resource (map_of (sn_resources s) (kind, ident))"

definition snap_entries :: "snapshot \<Rightarrow> ((kind \<times> string) \<times> resource) list" where
  "snap_entries s = map (\<lambda>(key, entry). (key, sr_resource entry)) (sn_resources s)"

definition snap_rows :: "snapshot \<Rightarrow> kind \<Rightarrow> (string \<times> resource) list" where
  "snap_rows s kind = map (\<lambda>((_, ident), r). (ident, r)) (filter (\<lambda>((k, _), _). k = kind) (snap_entries s))"

definition snap_all :: "(resource \<Rightarrow> 'a option) \<Rightarrow> snapshot \<Rightarrow> kind \<Rightarrow> 'a list" where
  "snap_all as s kind = List.map_filter (\<lambda>(_, r). as r) (snap_rows s kind)"

definition snap_get :: "(resource \<Rightarrow> 'a option) \<Rightarrow> snapshot \<Rightarrow> kind \<Rightarrow> string \<Rightarrow> 'a option" where
  "snap_get as s kind ident = Option.bind (snap_lookup s kind ident) as"

text \<open>\<open>require\<close>, with the type assertion its callers make on the result.\<close>

definition snap_require :: "(resource \<Rightarrow> 'a option) \<Rightarrow> snapshot \<Rightarrow> kind \<Rightarrow> string \<Rightarrow> err + 'a" where
  "snap_require as s kind ident = (case snap_get as s kind ident of None \<Rightarrow> Inl ErrConflict | Some x \<Rightarrow> Inr x)"

section \<open>References\<close>

definition snapshotHasChassis :: "snapshot \<Rightarrow> string \<Rightarrow> bool" where
  "snapshotHasChassis s chassisID = list_ex (\<lambda>n. node_ChassisID n = chassisID) (snap_all as_node s KindNode)"

definition providerHasAllocatableAddress :: "snapshot \<Rightarrow> string \<Rightarrow> string \<Rightarrow> string \<Rightarrow> bool" where
  "providerHasAllocatableAddress s providerID address ignoredSubnetID =
     list_ex (\<lambda>network.
         \<not> (State (net_meta network) = ResourceDeleting \<or> \<not> net_External network \<or>
            net_ProviderNetworkID network \<noteq> providerID) \<and>
         list_ex (\<lambda>(subnetID, r). subnetID \<noteq> ignoredSubnetID \<and>
             (case as_subnet r of None \<Rightarrow> False | Some subnet \<Rightarrow>
                State (sub_meta subnet) \<noteq> ResourceDeleting \<and>
                sub_NetworkID subnet = ID (net_meta network) \<and>
                ValidateIPv4AllocationAddress subnet address = None))
           (snap_rows s KindSubnet))
       (snap_all as_network s KindNetwork)"

definition routerReachesPortAddress :: "snapshot \<Rightarrow> string \<Rightarrow> port \<Rightarrow> string \<Rightarrow> bool" where
  "routerReachesPortAddress s routerID p address =
     list_ex (\<lambda>ri. rif_RouterID ri = routerID \<and> portHasFixedIP p (rif_SubnetID ri) address)
       (snap_all as_router_interface s KindRouterInterface)"

definition snap_external_route :: "snapshot \<Rightarrow> router \<Rightarrow> static_route \<Rightarrow> bool" where
  "snap_external_route s r route =
     (rtr_ExternalSubnetID r \<noteq> [] \<and>
      (case snap_get as_subnet s KindSubnet (rtr_ExternalSubnetID r) of
         None \<Rightarrow> False
       | Some subnet \<Rightarrow> State (sub_meta subnet) \<noteq> ResourceDeleting \<and>
           ValidateIPv4NextHop subnet (rt_NextHop route) (rtr_ExternalIPAddress r) = None))"

definition snap_interface_route :: "snapshot \<Rightarrow> router \<Rightarrow> static_route \<Rightarrow> router_interface \<Rightarrow> bool" where
  "snap_interface_route s r route ri =
     (\<not> (rif_RouterID ri \<noteq> ID (rtr_meta r) \<or> State (rif_meta ri) = ResourceDeleting) \<and>
      (case snap_get as_subnet s KindSubnet (rif_SubnetID ri) of
         None \<Rightarrow> False
       | Some subnet \<Rightarrow> State (sub_meta subnet) \<noteq> ResourceDeleting \<and> next_hop_via_gateway subnet (rt_NextHop route)))"

definition snap_route_matches :: "snapshot \<Rightarrow> router \<Rightarrow> static_route \<Rightarrow> nat" where
  "snap_route_matches s r route =
     (if snap_external_route s r route then 1 else 0) +
     length (filter (snap_interface_route s r route) (snap_all as_router_interface s KindRouterInterface))"

definition validateRouterStaticRoutes :: "snapshot \<Rightarrow> router \<Rightarrow> err option" where
  "validateRouterStaticRoutes s r = check_each (\<lambda>index route. first_err
       [conflict_if (rtr_ExternalSubnetID r \<noteq> [] \<and> rt_Destination route = ''0.0.0.0/0''),
        conflict_if (snap_route_matches s r route = 0),
        conflict_if (snap_route_matches s r route > 1)]) 0 (rtr_StaticRoutes r)"

definition snap_port_refs :: "snapshot \<Rightarrow> port \<Rightarrow> err option" where
  "snap_port_refs s p =
     and_then (snap_require as_network s KindNetwork (port_NetworkID p)) (\<lambda>portNetwork. first_err
       [conflict_if (net_External portNetwork \<or> net_ProviderNetworkID portNetwork \<noteq> []),
        check_each (\<lambda>_ fixed.
          and_then (snap_require as_subnet s KindSubnet (fip_SubnetID fixed)) (\<lambda>subnet. first_err
            [conflict_if (sub_NetworkID subnet \<noteq> port_NetworkID p),
             conflict_if (fip_Address fixed \<noteq> [] \<and>
               ValidateIPv4AllocationAddress subnet (fip_Address fixed) \<noteq> None)])) 0 (port_FixedIPs p),
        conflict_if (port_SecurityGroupIDs p = []),
        check_each (\<lambda>_ groupID.
          and_then (snap_require Some s KindSecurityGroup groupID) (\<lambda>_. None)) 0 (port_SecurityGroupIDs p),
        (if port_NodeID p \<noteq> [] then
           and_then (snap_require as_node s KindNode (port_NodeID p)) (\<lambda>node.
             case ParseRequestedChassis (port_RequestedChassis p) of
               Inl _ \<Rightarrow> Some ErrConflict
             | Inr requested \<Rightarrow> first_err
                [conflict_if (requested \<noteq> [] \<and>
                   \<not> RequestedChassisContains (port_RequestedChassis p) (node_ChassisID node)),
                 check_each (\<lambda>_ chassisID. conflict_if (\<not> snapshotHasChassis s chassisID)) 0 requested])
         else conflict_if (port_RequestedChassis p \<noteq> []))])"

definition snap_allocation_refs :: "snapshot \<Rightarrow> ip_allocation \<Rightarrow> err option" where
  "snap_allocation_refs s a =
     and_then (snap_require as_subnet s KindSubnet (ipa_SubnetID a)) (\<lambda>subnet. first_err
       [conflict_if (ValidateIPv4AllocationAddress subnet (ipa_Address a) \<noteq> None),
        (if ipa_PortID a \<noteq> [] then
           and_then (snap_require as_port s KindPort (ipa_PortID a)) (\<lambda>p. first_err
             [conflict_if (port_NetworkID p \<noteq> sub_NetworkID subnet),
              conflict_if (\<not> portHasFixedIP p (ipa_SubnetID a) (ipa_Address a))])
         else None)])"

definition snap_router_refs :: "snapshot \<Rightarrow> router \<Rightarrow> err option" where
  "snap_router_refs s r = first_err
     [(if rtr_ExternalNetworkID r \<noteq> [] then
         and_then (snap_require as_network s KindNetwork (rtr_ExternalNetworkID r)) (\<lambda>network. first_err
           [conflict_if (\<not> net_External network \<or> net_ProviderNetworkID network = []),
            and_then (snap_require Some s KindProviderNetwork (net_ProviderNetworkID network)) (\<lambda>_. None),
            and_then (snap_require as_subnet s KindSubnet (rtr_ExternalSubnetID r)) (\<lambda>subnet. first_err
              [conflict_if (sub_NetworkID subnet \<noteq> rtr_ExternalNetworkID r),
               conflict_if (ValidateIPv4AllocationAddress subnet (rtr_ExternalIPAddress r) \<noteq> None)])])
       else None),
      validateRouterStaticRoutes s r]"

definition snap_interface_refs :: "snapshot \<Rightarrow> router_interface \<Rightarrow> err option" where
  "snap_interface_refs s r = first_err
     [and_then (snap_require Some s KindRouter (rif_RouterID r)) (\<lambda>_. None),
      and_then (snap_require as_subnet s KindSubnet (rif_SubnetID r)) (\<lambda>subnet.
        and_then (snap_require as_network s KindNetwork (sub_NetworkID subnet)) (\<lambda>network. first_err
          [conflict_if (net_External network),
           (if rif_PortID r \<noteq> [] then
              and_then (snap_require as_port s KindPort (rif_PortID r)) (\<lambda>p. first_err
                [conflict_if (port_NetworkID p \<noteq> sub_NetworkID subnet),
                 conflict_if (\<not> portHasSubnet p (rif_SubnetID r))])
            else None)]))]"

definition snap_floating_refs :: "snapshot \<Rightarrow> floating_ip \<Rightarrow> err option" where
  "snap_floating_refs s f = first_err
     [and_then (snap_require Some s KindProviderNetwork (flt_ProviderNetworkID f)) (\<lambda>_. None),
      conflict_if (\<not> providerHasAllocatableAddress s (flt_ProviderNetworkID f) (flt_Address f) []),
      conflict_if ((flt_PortID f = []) \<noteq> (flt_FixedIPAddress f = [])),
      conflict_if (flt_PortID f \<noteq> [] \<and> flt_RouterID f = []),
      (if flt_RouterID f \<noteq> [] then
         and_then (snap_require as_router s KindRouter (flt_RouterID f)) (\<lambda>router. first_err
           [conflict_if (rtr_ExternalNetworkID router = [] \<or> rtr_ExternalSubnetID router = []),
            and_then (snap_require as_network s KindNetwork (rtr_ExternalNetworkID router)) (\<lambda>externalNetwork. first_err
              [conflict_if (\<not> net_External externalNetwork \<or>
                 net_ProviderNetworkID externalNetwork \<noteq> flt_ProviderNetworkID f),
               and_then (snap_require as_subnet s KindSubnet (rtr_ExternalSubnetID router)) (\<lambda>externalSubnet. first_err
                 [conflict_if (sub_NetworkID externalSubnet \<noteq> ID (net_meta externalNetwork)),
                  conflict_if (ValidateIPv4AllocationAddress externalSubnet (flt_Address f) \<noteq> None)])])])
       else None),
      (if flt_PortID f \<noteq> [] then
         and_then (snap_require as_port s KindPort (flt_PortID f)) (\<lambda>p. first_err
           [conflict_if (\<not> portHasAddress p (flt_FixedIPAddress f)),
            conflict_if (\<not> routerReachesPortAddress s (flt_RouterID f) p (flt_FixedIPAddress f))])
       else None)]"

fun validateReferences :: "snapshot \<Rightarrow> resource \<Rightarrow> err option" where
  "validateReferences s (Node _) = None"
| "validateReferences s (Operation _) = None"
| "validateReferences s (ProviderNetwork x) =
     (if pn_DefaultSegmentID x = [] then None
      else and_then (snap_require as_provider_segment s KindProviderSegment (pn_DefaultSegmentID x)) (\<lambda>segment.
        conflict_if (ps_ProviderNetworkID segment \<noteq> ID (pn_meta x))))"
| "validateReferences s (Network x) =
     (if net_ProviderNetworkID x \<noteq> []
      then and_then (snap_require Some s KindProviderNetwork (net_ProviderNetworkID x)) (\<lambda>_. None) else None)"
| "validateReferences s (Subnet x) =
     and_then (snap_require Some s KindNetwork (sub_NetworkID x)) (\<lambda>_. None)"
| "validateReferences s (Port x) = snap_port_refs s x"
| "validateReferences s (IPAllocation x) = snap_allocation_refs s x"
| "validateReferences s (Router x) = snap_router_refs s x"
| "validateReferences s (RouterInterface x) = snap_interface_refs s x"
| "validateReferences s (FloatingIP x) = snap_floating_refs s x"
| "validateReferences s (ProviderSegment x) =
     and_then (snap_require Some s KindProviderNetwork (ps_ProviderNetworkID x)) (\<lambda>_. None)"
| "validateReferences s (SecurityGroup _) = None"
| "validateReferences s (SecurityGroupRule x) = first_err
     [and_then (snap_require Some s KindSecurityGroup (sgr_SecurityGroupID x)) (\<lambda>_. None),
      (if sgr_RemoteGroupID x \<noteq> []
       then and_then (snap_require Some s KindSecurityGroup (sgr_RemoteGroupID x)) (\<lambda>_. None) else None)]"


text \<open>\<open>previous\<close> is \<open>nil\<close> on a create.\<close>

definition validateNewReferenceStates :: "snapshot \<Rightarrow> resource \<Rightarrow> resource option \<Rightarrow> err option" where
  "validateNewReferenceStates s candidate previous = conflict_if
     (list_ex (\<lambda>((kind, ident), target).
        \<not> (\<not> references candidate kind ident \<or> (case previous of None \<Rightarrow> False | Some p \<Rightarrow> references p kind ident)) \<and>
        State (GetMetadata target) \<in> {ResourceDeleting, ResourceError})
      (snap_entries s))"


section \<open>Uniqueness\<close>

definition externalAddressClaims :: "snapshot \<Rightarrow> resource \<Rightarrow> string list" where
  "externalAddressClaims s r =
     (let (providerID, address) =
        (case r of
           Subnet x \<Rightarrow>
             (case snap_get as_network s KindNetwork (sub_NetworkID x) of
                None \<Rightarrow> ([], [])
              | Some network \<Rightarrow> (net_ProviderNetworkID network,
                  case EffectiveIPv4Gateway x of Inl _ \<Rightarrow> [] | Inr gateway \<Rightarrow> addr_string gateway))
         | Router x \<Rightarrow>
             (case snap_get as_network s KindNetwork (rtr_ExternalNetworkID x) of
                None \<Rightarrow> ([], [])
              | Some network \<Rightarrow> (net_ProviderNetworkID network, rtr_ExternalIPAddress x))
         | FloatingIP x \<Rightarrow> (flt_ProviderNetworkID x, flt_Address x)
         | _ \<Rightarrow> ([], []))
      in if providerID = [] \<or> address = [] then [] else [providerID @ [CHR 0x00] @ address])"


definition snap_port_conflict :: "port \<Rightarrow> port \<Rightarrow> string" where
  "snap_port_conflict left right =
     (if equal_fold (port_MACAddress left) (port_MACAddress right) then ''mac_address''
      else if port_LSPName left \<noteq> [] \<and> port_LSPName left = port_LSPName right then ''lsp_name''
      else if port_NodeID left \<noteq> [] \<and> port_VMID left > 0 \<and> port_NIC left \<noteq> [] \<and>
              port_NodeID left = port_NodeID right \<and> port_VMID left = port_VMID right \<and> port_NIC left = port_NIC right
      then ''node_id,vmid,nic''
      else if list_ex (\<lambda>leftIP. fip_Address leftIP \<noteq> [] \<and>
                list_ex (\<lambda>rightIP. fip_SubnetID leftIP = fip_SubnetID rightIP \<and>
                                   fip_Address leftIP = fip_Address rightIP) (port_FixedIPs right)) (port_FixedIPs left)
      then ''fixed_ips.subnet_id,address''
      else [])"


fun snap_conflictField :: "resource \<Rightarrow> resource \<Rightarrow> string" where
  "snap_conflictField (Network l) existing = same_type as_network existing (\<lambda>r. (if net_Name l = net_Name r then ''name'' else []))"
| "snap_conflictField (Subnet l) existing = same_type as_subnet existing (\<lambda>r.
     (if sub_NetworkID l = sub_NetworkID r \<and> IPv4PrefixesOverlap (sub_CIDR l) (sub_CIDR r) then ''network_id,cidr-overlap''
      else if sub_NetworkID l = sub_NetworkID r \<and> sub_Name l = sub_Name r then ''network_id,name''
      else []))"
| "snap_conflictField (Port l) existing = same_type as_port existing (\<lambda>r. snap_port_conflict l r)"
| "snap_conflictField (IPAllocation l) existing = same_type as_ip_allocation existing (\<lambda>r.
     (if ipa_SubnetID l = ipa_SubnetID r \<and> ipa_Address l = ipa_Address r then ''subnet_id,address'' else []))"
| "snap_conflictField (Router l) existing = same_type as_router existing (\<lambda>r. (if rtr_Name l = rtr_Name r then ''name'' else []))"
| "snap_conflictField (RouterInterface l) existing = same_type as_router_interface existing (\<lambda>r.
     (if rif_RouterID l = rif_RouterID r \<and> rif_SubnetID l = rif_SubnetID r then ''router_id,subnet_id'' else []))"
| "snap_conflictField (FloatingIP l) existing = same_type as_floating_ip existing (\<lambda>r.
     (if flt_ProviderNetworkID l = flt_ProviderNetworkID r \<and> flt_Address l = flt_Address r
      then ''provider_network_id,address'' else []))"
| "snap_conflictField (ProviderNetwork l) existing = same_type as_provider_network existing (\<lambda>r. (if pn_Name l = pn_Name r then ''name'' else []))"
| "snap_conflictField (ProviderSegment l) existing = same_type as_provider_segment existing (\<lambda>r.
     (if ps_ProviderNetworkID l = ps_ProviderNetworkID r \<and> ps_Name l = ps_Name r then ''provider_network_id,name''
      else if ps_PhysicalNetwork l = ps_PhysicalNetwork r \<and> ps_NetworkType l = ps_NetworkType r \<and> ps_VLANID l = ps_VLANID r
      then ''physical_network,network_type,vlan_id''
      else []))"
| "snap_conflictField (SecurityGroup l) existing = same_type as_security_group existing (\<lambda>r. (if sg_Name l = sg_Name r then ''name'' else []))"
| "snap_conflictField (Operation l) existing = same_type as_operation existing (\<lambda>r.
     (if op_IdempotencyKey l = op_IdempotencyKey r then ''idempotency_key''
      else if op_TargetKind l = op_TargetKind r \<and> op_TargetID l = op_TargetID r \<and> op_TargetRevision l = op_TargetRevision r
      then ''target_kind,target_id,target_revision''
      else []))"
| "snap_conflictField (Node l) existing = same_type as_node existing (\<lambda>r.
     (if node_Name l = node_Name r then ''name''
      else if node_ChassisID l = node_ChassisID r then ''chassis_id''
      else []))"
| "snap_conflictField (SecurityGroupRule _) existing = []"


definition validateUnique :: "snapshot \<Rightarrow> resource \<Rightarrow> string \<Rightarrow> err option" where
  "validateUnique s candidate ignoredID = first_err
     [fail_if (list_ex (\<lambda>(ident, existing). ident \<noteq> ignoredID \<and> snap_conflictField candidate existing \<noteq> [])
                 (snap_rows s (ResourceKind candidate))) ErrAlreadyExists,
      fail_if (list_ex (\<lambda>candidateClaim.
          list_ex (\<lambda>kind. list_ex (\<lambda>(ident, existing).
              \<not> (kind = ResourceKind candidate \<and> ident = ignoredID) \<and>
              candidateClaim \<in> set (externalAddressClaims s existing)) (snap_rows s kind))
            [KindSubnet, KindRouter, KindFloatingIP])
        (externalAddressClaims s candidate)) ErrAlreadyExists]"


text \<open>\<open>uniqueKeys\<close>: the keys under which a row is entered into the table of seen keys.\<close>

definition nul :: string where "nul = [CHR 0x00]"

fun provider_type_string :: "provider_network_type \<Rightarrow> string" where
  "provider_type_string ProviderFlat = ''flat''"
| "provider_type_string ProviderVLAN = ''vlan''"
| "provider_type_string (ProviderTypeOther s) = s"

definition fixed_ip_key :: "fixed_ip \<Rightarrow> string" where
  "fixed_ip_key fixed = ''fixed_ips.subnet_id,address='' @ fip_SubnetID fixed @ nul @ fip_Address fixed"

definition port_keys :: "port \<Rightarrow> string list" where
  "port_keys p =
     [''mac_address='' @ to_lower (port_MACAddress p), ''lsp_name='' @ port_LSPName p] @
     (if port_NodeID p \<noteq> [] \<and> port_VMID p > 0 \<and> port_NIC p \<noteq> []
      then [''node_id,vmid,nic='' @ port_NodeID p @ nul @ dec_int (port_VMID p) @ nul @ port_NIC p] else []) @
     map fixed_ip_key (filter (\<lambda>fixed. fip_Address fixed \<noteq> []) (port_FixedIPs p))"

fun uniqueKeys :: "resource \<Rightarrow> string list" where
  "uniqueKeys (Network x) = [''name='' @ net_Name x]"
| "uniqueKeys (Subnet x) =
     [''network_id,cidr='' @ sub_NetworkID x @ nul @ sub_CIDR x,
      ''network_id,name='' @ sub_NetworkID x @ nul @ sub_Name x]"
| "uniqueKeys (Port x) = port_keys x"
| "uniqueKeys (IPAllocation x) = [''subnet_id,address='' @ ipa_SubnetID x @ nul @ ipa_Address x]"
| "uniqueKeys (Router x) = [''name='' @ rtr_Name x]"
| "uniqueKeys (RouterInterface x) = [''router_id,subnet_id='' @ rif_RouterID x @ nul @ rif_SubnetID x]"
| "uniqueKeys (FloatingIP x) = [''provider_network_id,address='' @ flt_ProviderNetworkID x @ nul @ flt_Address x]"
| "uniqueKeys (ProviderNetwork x) = [''name='' @ pn_Name x]"
| "uniqueKeys (ProviderSegment x) =
     [''provider_network_id,name='' @ ps_ProviderNetworkID x @ nul @ ps_Name x,
      ''physical_network,network_type,vlan_id='' @ ps_PhysicalNetwork x @ nul @
        provider_type_string (ps_NetworkType x) @ nul @ dec_int (ps_VLANID x)]"
| "uniqueKeys (SecurityGroup x) = [''name='' @ sg_Name x]"
| "uniqueKeys (Operation x) =
     [''idempotency_key='' @ op_IdempotencyKey x,
      ''target_kind,target_id,target_revision='' @ kind_string (op_TargetKind x) @ nul @ op_TargetID x @ nul @
        dec_int (op_TargetRevision x)]"
| "uniqueKeys (Node x) = [''name='' @ node_Name x, ''chassis_id='' @ node_ChassisID x]"
| "uniqueKeys (SecurityGroupRule x) = []"

text \<open>The loop over keys with the map of the keys \<open>seen\<close> so far: whether one comes twice.\<close>

fun repeats :: "string list \<Rightarrow> string list \<Rightarrow> bool" where
  "repeats seen [] = False"
| "repeats seen (key # keys) = (if key \<in> set seen then True else repeats (key # seen) keys)"

text \<open>The loop over the pairs of sorted subnet ids.\<close>

fun subnets_overlap :: "subnet list \<Rightarrow> bool" where
  "subnets_overlap [] = False"
| "subnets_overlap (left # rights) =
     (list_ex (\<lambda>right. sub_NetworkID left = sub_NetworkID right \<and> IPv4PrefixesOverlap (sub_CIDR left) (sub_CIDR right)) rights \<or>
      subnets_overlap rights)"

definition validateSnapshotUnique :: "snapshot \<Rightarrow> err option" where
  "validateSnapshotUnique s = first_err
     [fail_if (list_ex (\<lambda>kind. repeats [] (concat (map (\<lambda>(_, r). uniqueKeys r) (snap_rows s kind)))) Kinds) (ErrOther ''unique''),
      fail_if (repeats [] (concat (map (\<lambda>kind. concat (map (\<lambda>(_, r). externalAddressClaims s r) (snap_rows s kind)))
        [KindSubnet, KindRouter, KindFloatingIP]))) (ErrOther ''unique''),
      fail_if (subnets_overlap (List.map_filter (\<lambda>(_, r). as_subnet r) (sort_key fst (snap_rows s KindSubnet)))) (ErrOther ''unique'')]"

text \<open>The candidate stands in for the stored row while the whole snapshot is checked, and the
  stored row is put back by the deferred call.\<close>

definition validateReplacement :: "snapshot \<Rightarrow> resource \<Rightarrow> err option" where
  "validateReplacement s candidate =
     (let kind = ResourceKind candidate; ident = ID (GetMetadata candidate) in
      case map_of (sn_resources s) (kind, ident) of
        None \<Rightarrow> Some ErrNotFound
      | Some previous \<Rightarrow>
          let s' = s\<lparr>sn_resources := AList.update (kind, ident) (previous\<lparr>sr_resource := candidate\<rparr>) (sn_resources s)\<rparr>
          in first_err
               [conflict_if (list_ex (\<lambda>(_, r). validateReferences s' r \<noteq> None) (snap_entries s')),
                conflict_if (validateSnapshotUnique s' \<noteq> None)])"

section \<open>Referrers of a row to be deleted\<close>

definition snap_segment_needed :: "snapshot \<Rightarrow> string \<Rightarrow> bool" where
  "snap_segment_needed s ident =
     (case snap_get as_provider_segment s KindProviderSegment ident of
        None \<Rightarrow> False
      | Some segment \<Rightarrow>
          (case snap_get as_provider_network s KindProviderNetwork (ps_ProviderNetworkID segment) of
             None \<Rightarrow> False
           | Some provider \<Rightarrow>
               pn_DefaultSegmentID provider = [] \<and>
               length (filter (\<lambda>x. ps_ProviderNetworkID x = ps_ProviderNetworkID segment)
                         (snap_all as_provider_segment s KindProviderSegment)) = 1 \<and>
               list_ex (\<lambda>network. net_ProviderNetworkID network = ps_ProviderNetworkID segment)
                 (snap_all as_network s KindNetwork)))"

definition snap_interface_needed :: "snapshot \<Rightarrow> string \<Rightarrow> bool" where
  "snap_interface_needed s ident =
     (case snap_get as_router_interface s KindRouterInterface ident of
        None \<Rightarrow> False
      | Some ri \<Rightarrow>
          (case (snap_get as_router s KindRouter (rif_RouterID ri), snap_get as_subnet s KindSubnet (rif_SubnetID ri)) of
             (Some router, Some subnet) \<Rightarrow>
               list_ex (\<lambda>route. next_hop_via_gateway subnet (rt_NextHop route)) (rtr_StaticRoutes router)
           | _ \<Rightarrow> False) \<or>
          list_ex (\<lambda>floating.
              \<not> (flt_RouterID floating \<noteq> rif_RouterID ri \<or> flt_PortID floating = []) \<and>
              (case snap_get as_port s KindPort (flt_PortID floating) of
                 None \<Rightarrow> False
               | Some p \<Rightarrow> portHasFixedIP p (rif_SubnetID ri) (flt_FixedIPAddress floating)))
            (snap_all as_floating_ip s KindFloatingIP))"

definition snap_subnet_needed :: "snapshot \<Rightarrow> string \<Rightarrow> bool" where
  "snap_subnet_needed s ident =
     (case snap_get as_subnet s KindSubnet ident of
        None \<Rightarrow> False
      | Some subnet \<Rightarrow>
          (case snap_get as_network s KindNetwork (sub_NetworkID subnet) of
             None \<Rightarrow> False
           | Some network \<Rightarrow>
               net_External network \<and> net_ProviderNetworkID network \<noteq> [] \<and>
               list_ex (\<lambda>floating.
                   flt_ProviderNetworkID floating = net_ProviderNetworkID network \<and>
                   ValidateIPv4AllocationAddress subnet (flt_Address floating) = None \<and>
                   \<not> providerHasAllocatableAddress s (net_ProviderNetworkID network) (flt_Address floating) ident)
                 (snap_all as_floating_ip s KindFloatingIP)))"

text \<open>Whether the Go function returns a non-empty description of a referrer.\<close>

definition firstReference :: "snapshot \<Rightarrow> kind \<Rightarrow> string \<Rightarrow> bool" where
  "firstReference s kind ident =
     (list_ex (\<lambda>((candidateKind, candidateID), r).
         \<not> (candidateKind = kind \<and> candidateID = ident) \<and> references r kind ident) (snap_entries s) \<or>
      (kind = KindProviderSegment \<and> snap_segment_needed s ident) \<or>
      (kind = KindRouterInterface \<and> snap_interface_needed s ident) \<or>
      (kind = KindSubnet \<and> snap_subnet_needed s ident))"

end
