(* ===== verification/Ovsdb_Row.thy ===== *)
theory Ovsdb_Row
  imports Model_Types "HOL-Library.Monad_Syntax" "HOL-Library.Multiset" Complex_Main
begin

text \<open>
  Rows of the database and the typed reading of their columns (\<open>internal/ovsdbstore/row.go\<close>).

  A cell of an \<open>ovsdb.Row\<close> is an \<open>interface{}\<close>; \<open>ovs_value\<close> has one constructor per dynamic type
  the readers tell apart. The signed integer types share \<open>VInt\<close>, the unsigned ones \<open>VUint\<close>; a
  \<open>float64\<close> is its rational value, or \<^term>\<open>None\<close> for an infinity or NaN; \<open>VOther\<close> is any other type.
  A reader returns an option: its errors are plain (\<open>fmt.Errorf\<close>), so only their presence matters.
\<close>

datatype ovs_value =
    VString string
  | VBool bool
  | VInt int
  | VUint nat
  | VFloat "rat option"
  | VUUID string
  | VUUIDPtr "string option"
  | VSet "ovs_value list"
  | VSetPtr "ovs_value list option"
  | VMap "(ovs_value \<times> ovs_value) list"
  | VMapPtr "(ovs_value \<times> ovs_value) list option"
  | VGoMap "(ovs_value \<times> ovs_value) list"
  | VStringMap "(string \<times> string) list"
  | VOther

type_synonym row = "(string \<times> ovs_value) list"

definition rowString :: "row \<Rightarrow> string \<Rightarrow> string option" where
  "rowString row column =
     (case map_of row column of
        None \<Rightarrow> Some []
      | Some (VString s) \<Rightarrow> Some s
      | Some _ \<Rightarrow> None)"

definition rowBool :: "row \<Rightarrow> string \<Rightarrow> bool option" where
  "rowBool row column =
     (case map_of row column of
        None \<Rightarrow> Some False
      | Some (VBool b) \<Rightarrow> Some b
      | Some _ \<Rightarrow> None)"

text \<open>\<open>math.MinInt64\<close> and \<open>math.MaxInt64\<close>. Against a \<open>float64\<close> the latter is converted, which
  rounds it to 2^63; the conversion of that one value to \<open>int64\<close> overflows (to \<open>math.MinInt64\<close> on amd64).\<close>

definition minInt64 :: int where "minInt64 = - (2 ^ 63)"
definition maxInt64 :: int where "maxInt64 = 2 ^ 63 - 1"

definition int64_of_float :: "rat \<Rightarrow> int" where
  "int64_of_float number = (if \<lfloor>number\<rfloor> > maxInt64 then minInt64 else \<lfloor>number\<rfloor>)"

definition rowInt64 :: "row \<Rightarrow> string \<Rightarrow> int option" where
  "rowInt64 row column =
     (case map_of row column of
        None \<Rightarrow> Some 0
      | Some (VInt number) \<Rightarrow> Some number
      | Some (VUint number) \<Rightarrow> if int number > maxInt64 then None else Some (int number)
      | Some (VFloat (Some number)) \<Rightarrow>
          if of_int \<lfloor>number\<rfloor> = number \<and> minInt64 \<le> \<lfloor>number\<rfloor> \<and> \<lfloor>number\<rfloor> \<le> maxInt64 + 1
          then Some (int64_of_float number) else None
      | Some _ \<Rightarrow> None)"

definition valueUUID :: "ovs_value \<Rightarrow> string option" where
  "valueUUID value =
     (case value of
        VUUID uuid \<Rightarrow> if uuid = [] then None else Some uuid
      | VUUIDPtr (Some uuid) \<Rightarrow> if uuid = [] then None else Some uuid
      | _ \<Rightarrow> None)"

definition rowUUID :: "row \<Rightarrow> string \<Rightarrow> string option" where
  "rowUUID row column = Option.bind (map_of row column) valueUUID"

text \<open>A singleton set may arrive as its element (RFC 7047).\<close>

definition valueSet :: "ovs_value \<Rightarrow> ovs_value list option" where
  "valueSet value =
     (case value of
        VSet vs \<Rightarrow> Some vs
      | VSetPtr vs \<Rightarrow> vs
      | _ \<Rightarrow> Some [value])"

definition rowReference :: "row \<Rightarrow> string \<Rightarrow> bool \<Rightarrow> string option" where
  "rowReference row column optional =
     (case map_of row column of
        None \<Rightarrow> if optional then Some [] else None
      | Some value \<Rightarrow>
          if \<not> optional then valueUUID value
          else (case valueSet value of
                  None \<Rightarrow> None
                | Some [] \<Rightarrow> Some []
                | Some [v] \<Rightarrow> valueUUID v
                | Some _ \<Rightarrow> None))"

definition rowSet :: "row \<Rightarrow> string \<Rightarrow> ovs_value list option" where
  "rowSet row column = (case map_of row column of None \<Rightarrow> Some [] | Some value \<Rightarrow> valueSet value)"

fun valueString :: "ovs_value \<Rightarrow> string option" where
  "valueString (VString s) = Some s" | "valueString _ = None"

text \<open>A loop that reads each element and stops at the first error.\<close>

fun read_all :: "('a \<Rightarrow> 'b option) \<Rightarrow> 'a list \<Rightarrow> 'b list option" where
  "read_all f [] = Some []"
| "read_all f (x # xs) = do { y \<leftarrow> f x; ys \<leftarrow> read_all f xs; Some (y # ys) }"

definition rowStringSet :: "row \<Rightarrow> string \<Rightarrow> string list option" where
  "rowStringSet row column = do {
     values \<leftarrow> rowSet row column;
     items \<leftarrow> read_all valueString values;
     if distinct items then Some (sort items) else None }"

definition rowMap :: "row \<Rightarrow> string \<Rightarrow> (ovs_value \<times> ovs_value) list option" where
  "rowMap row column =
     (case map_of row column of
        None \<Rightarrow> Some []
      | Some (VMap m) \<Rightarrow> Some m
      | Some (VMapPtr m) \<Rightarrow> m
      | Some (VGoMap m) \<Rightarrow> Some m
      | Some (VStringMap m) \<Rightarrow> Some (map (\<lambda>(k, v). (VString k, VString v)) m)
      | Some _ \<Rightarrow> None)"

definition rowStringMap :: "row \<Rightarrow> string \<Rightarrow> (string \<times> string) list option" where
  "rowStringMap row column = do {
     values \<leftarrow> rowMap row column;
     read_all (\<lambda>(rawKey, rawValue). do { key \<leftarrow> valueString rawKey; value \<leftarrow> valueString rawValue; Some (key, value) }) values }"

text \<open>\<open>parse\<close> is \<open>time.Parse(time.RFC3339Nano, _)\<close>.\<close>

definition rowTime :: "(string \<Rightarrow> time option) \<Rightarrow> row \<Rightarrow> string \<Rightarrow> time option" where
  "rowTime parse row column = do { value \<leftarrow> rowString row column; parse value }"

definition rowOptionalTime :: "(string \<Rightarrow> time option) \<Rightarrow> row \<Rightarrow> string \<Rightarrow> time option option" where
  "rowOptionalTime parse row column = do {
     value \<leftarrow> rowString row column;
     if value = [] then Some None else map_option Some (parse value) }"

section \<open>What the server may send back\<close>

text \<open>The forms in which a written cell may be read: numbers arrive as JSON numbers, decoded to
  \<open>float64\<close>, which holds an integer exactly up to 2^53; the elements of sets and maps come in any
  order; a set of one element may come as the element.\<close>

inductive wire :: "ovs_value \<Rightarrow> ovs_value \<Rightarrow> bool" where
  wire_string: "wire (VString s) (VString s)"
| wire_bool: "wire (VBool b) (VBool b)"
| wire_int: "\<bar>n\<bar> \<le> 2 ^ 53 \<Longrightarrow> wire (VInt n) (VFloat (Some (of_int n)))"
| wire_uuid: "wire (VUUID u) (VUUID u)"
| wire_set: "mset ws = mset vs \<Longrightarrow> wire (VSet vs) (VSet ws)"
| wire_singleton: "wire (VSet [VString s]) (VString s)"
| wire_reference: "wire (VSet [VUUID u]) (VUUID u)"
| wire_map: "mset ws = mset vs \<Longrightarrow> wire (VMap vs) (VMap ws)"

inductive_cases wire_stringE: "wire (VString s) w"
inductive_cases wire_boolE: "wire (VBool b) w"
inductive_cases wire_intE: "wire (VInt n) w"
inductive_cases wire_uuidE: "wire (VUUID u) w"
inductive_cases wire_setE: "wire (VSet vs) w"
inductive_cases wire_mapE: "wire (VMap vs) w"

definition sent :: "row \<Rightarrow> row \<Rightarrow> bool" where
  "sent row row' \<longleftrightarrow> (\<forall>column v. map_of row column = Some v \<longrightarrow> (\<exists>w. map_of row' column = Some w \<and> wire v w))"

lemma sentE:
  assumes "sent row row'" "map_of row column = Some v"
  obtains w where "map_of row' column = Some w" "wire v w"
  using assms unfolding sent_def by blast

end
