(* ===== verification/Ovsdb_Codec.thy ===== *)
theory Ovsdb_Codec
  imports Ovsdb_Snapshot Ovsdb_Row
begin

text \<open>
  The representation of resources as database rows (\<open>internal/ovsdbstore/codec.go\<close>) and the
  lookup of runtime ports (\<open>runtime_port.go\<close>).

  References are stored as row identifiers; decoding resolves them through the table of all
  identifiers, encoding through the entries of the snapshot. Two kinds of internal row live in
  the operation table beside the operations: the store lock, whose revision is the epoch of the
  database, and one row per remembered idempotency key.

  Text formats of the Go library that the codec calls are the record \<open>wire_codec\<close>: RFC 3339
  timestamps and JSON of the four types it marshals. Errors of decoding are plain, so decoding
  returns an option.
\<close>

record wire_codec =
  wc_codec :: codec
  wc_formatTime :: "time \<Rightarrow> string"  \<comment> \<open>\<open>Format(time.RFC3339Nano)\<close>\<close>
  wc_parseTime :: "string \<Rightarrow> time option"  \<comment> \<open>\<open>time.Parse(time.RFC3339Nano, _)\<close>\<close>
  wc_marshalStrings :: "string list \<Rightarrow> string"  \<comment> \<open>\<open>json.Marshal\<close> and \<open>json.Unmarshal\<close> of a \<open>[]string\<close>\<close>
  wc_unmarshalStrings :: "string \<Rightarrow> string list option"
  wc_marshalRoutes :: "static_route list \<Rightarrow> string"  \<comment> \<open>of a \<open>[]model.StaticRoute\<close>\<close>
  wc_unmarshalRoutes :: "string \<Rightarrow> static_route list option"
  wc_marshalRange :: "ip_range \<Rightarrow> string"  \<comment> \<open>of a \<open>model.IPRange\<close>\<close>
  wc_unmarshalRange :: "string \<Rightarrow> ip_range option"
  wc_unmarshal :: "kind \<Rightarrow> string \<Rightarrow> resource option"  \<comment> \<open>\<open>json.Unmarshal\<close> into \<open>model.New(kind)\<close>\<close>

section \<open>Names\<close>

definition storeLockID :: string where "storeLockID = ''__pvn_store_lock__''"
definition internalIDPrefix :: string where "internalIDPrefix = ''__pvn_internal_''"
definition internalScopeKey :: string where "internalScopeKey = ''__pvn_internal_idem_scope__/''"
definition internalTypeKey :: string where "internalTypeKey = ''pvn:internal-type''"
definition internalLockType :: string where "internalLockType = ''store-lock''"
definition internalIdemType :: string where "internalIdemType = ''idempotency''"
definition idemFingerprint :: string where "idemFingerprint = ''pvn:fingerprint''"
definition idemResource :: string where "idemResource = ''pvn:resource''"
definition idemResourceKind :: string where "idemResourceKind = ''pvn:resource-kind''"
definition idemDeleted :: string where "idemDeleted = ''pvn:deleted''"
definition subnetDNSDomainKey :: string where "subnetDNSDomainKey = ''pvn:dns-domain''"
definition subnetDNSSearchDomainsKey :: string where "subnetDNSSearchDomainsKey = ''pvn:dns-search-domains''"
definition routerStaticRoutesKey :: string where "routerStaticRoutesKey = ''pvn:static-routes''"
definition operationComputePayloadKey :: string where "operationComputePayloadKey = ''pvn:compute-payload''"
definition maxResourceExternalJSONLen :: nat where "maxResourceExternalJSONLen = 64 * 1024"

definition kindTables :: "(kind \<times> string) list" where
  "kindTables =
     [(KindNetwork, ''Network''), (KindSubnet, ''Subnet''), (KindPort, ''Port''), (KindIPAllocation, ''IPAllocation''),
      (KindRouter, ''Router''), (KindRouterInterface, ''RouterInterface''), (KindFloatingIP, ''FloatingIP''),
      (KindProviderNetwork, ''ProviderNetwork''), (KindProviderSegment, ''ProviderSegment''),
      (KindSecurityGroup, ''SecurityGroup''), (KindSecurityGroupRule, ''SecurityGroupRule''),
      (KindNode, ''Node''), (KindOperation, ''Operation'')]"

definition tableKinds :: "(string \<times> kind) list" where
  "tableKinds = map (\<lambda>(kind, table). (table, kind)) kindTables"

definition allTables :: "string list" where
  "allTables = sort (map snd kindTables)"

definition tableForKind :: "kind \<Rightarrow> err + string" where
  "tableForKind kind = (case map_of kindTables kind of None \<Rightarrow> Inl ErrNotFound | Some table \<Rightarrow> Inr table)"

definition isReservedID :: "string \<Rightarrow> bool" where
  "isReservedID ident \<longleftrightarrow> ident = storeLockID \<or> has_prefix ident internalIDPrefix"

section \<open>Named string constants of the model\<close>

text \<open>Conversions between the named string types of \<open>internal/model\<close> and \<open>string\<close>.\<close>

fun state_string :: "resource_state \<Rightarrow> string" where
  "state_string ResourceUnset = []" | "state_string ResourcePending = ''pending''"
| "state_string ResourceReady = ''ready''" | "state_string ResourceError = ''error''"
| "state_string ResourceDeleting = ''deleting''" | "state_string (ResourceStateOther s) = s"

definition state_of :: "string \<Rightarrow> resource_state" where
  "state_of s = (if s = [] then ResourceUnset else if s = ''pending'' then ResourcePending
     else if s = ''ready'' then ResourceReady else if s = ''error'' then ResourceError
     else if s = ''deleting'' then ResourceDeleting else ResourceStateOther s)"

fun binding_string :: "port_binding_status \<Rightarrow> string" where
  "binding_string PortStatusUnset = []" | "binding_string PortUnbound = ''unbound''"
| "binding_string PortBinding = ''binding''" | "binding_string PortBound = ''bound''"
| "binding_string PortDetaching = ''detaching''" | "binding_string PortBindingError = ''error''"
| "binding_string (PortStatusOther s) = s"

definition binding_of :: "string \<Rightarrow> port_binding_status" where
  "binding_of s = (if s = [] then PortStatusUnset else if s = ''unbound'' then PortUnbound
     else if s = ''binding'' then PortBinding else if s = ''bound'' then PortBound
     else if s = ''detaching'' then PortDetaching else if s = ''error'' then PortBindingError else PortStatusOther s)"

fun allocation_string :: "ip_allocation_state \<Rightarrow> string" where
  "allocation_string IPStateUnset = []" | "allocation_string IPReserved = ''reserved''"
| "allocation_string IPAllocated = ''allocated''" | "allocation_string (IPStateOther s) = s"

definition allocation_of :: "string \<Rightarrow> ip_allocation_state" where
  "allocation_of s = (if s = [] then IPStateUnset else if s = ''reserved'' then IPReserved
     else if s = ''allocated'' then IPAllocated else IPStateOther s)"

fun floating_string :: "floating_ip_status \<Rightarrow> string" where
  "floating_string FloatingIPUnset = []" | "floating_string FloatingIPDown = ''down''"
| "floating_string FloatingIPActive = ''active''" | "floating_string FloatingIPError = ''error''"
| "floating_string (FloatingIPOther s) = s"

definition floating_of :: "string \<Rightarrow> floating_ip_status" where
  "floating_of s = (if s = [] then FloatingIPUnset else if s = ''down'' then FloatingIPDown
     else if s = ''active'' then FloatingIPActive else if s = ''error'' then FloatingIPError else FloatingIPOther s)"

definition provider_type_of :: "string \<Rightarrow> provider_network_type" where
  "provider_type_of s = (if s = ''flat'' then ProviderFlat else if s = ''vlan'' then ProviderVLAN else ProviderTypeOther s)"

fun direction_string :: "rule_direction \<Rightarrow> string" where
  "direction_string DirectionIngress = ''ingress''" | "direction_string DirectionEgress = ''egress''"
| "direction_string (DirectionOther s) = s"

definition direction_of :: "string \<Rightarrow> rule_direction" where
  "direction_of s = (if s = ''ingress'' then DirectionIngress else if s = ''egress'' then DirectionEgress else DirectionOther s)"

fun ether_string :: "ether_type \<Rightarrow> string" where
  "ether_string EtherTypeUnset = []" | "ether_string EtherTypeIPv4 = ''IPv4''" | "ether_string (EtherTypeOther s) = s"

definition ether_of :: "string \<Rightarrow> ether_type" where
  "ether_of s = (if s = [] then EtherTypeUnset else if s = ''IPv4'' then EtherTypeIPv4 else EtherTypeOther s)"

fun action_string :: "rule_action \<Rightarrow> string" where
  "action_string ActionUnset = []" | "action_string ActionAllow = ''allow''" | "action_string ActionDrop = ''drop''"
| "action_string (ActionOther s) = s"

definition action_of :: "string \<Rightarrow> rule_action" where
  "action_of s = (if s = [] then ActionUnset else if s = ''allow'' then ActionAllow
     else if s = ''drop'' then ActionDrop else ActionOther s)"

fun role_string :: "node_role \<Rightarrow> string" where
  "role_string NodeRoleCompute = ''compute''" | "role_string NodeRoleGateway = ''gateway''"
| "role_string NodeRoleCentral = ''central''" | "role_string (NodeRoleOther s) = s"

definition role_of :: "string \<Rightarrow> node_role" where
  "role_of s = (if s = ''compute'' then NodeRoleCompute else if s = ''gateway'' then NodeRoleGateway
     else if s = ''central'' then NodeRoleCentral else NodeRoleOther s)"

fun status_string :: "operation_status \<Rightarrow> string" where
  "status_string OperationUnset = []" | "status_string OperationQueued = ''queued''"
| "status_string OperationRunning = ''running''" | "status_string OperationSucceeded = ''succeeded''"
| "status_string OperationFailed = ''failed''" | "status_string (OperationStatusOther s) = s"

definition status_of :: "string \<Rightarrow> operation_status" where
  "status_of s = (if s = [] then OperationUnset else if s = ''queued'' then OperationQueued
     else if s = ''running'' then OperationRunning else if s = ''succeeded'' then OperationSucceeded
     else if s = ''failed'' then OperationFailed else OperationStatusOther s)"

definition kind_of :: "string \<Rightarrow> kind" where
  "kind_of s = (case List.find (\<lambda>k. kind_string k = s) (map fst kindToCollection) of None \<Rightarrow> KindOther s | Some k \<Rightarrow> k)"

section \<open>Encoding\<close>

text \<open>The columns of a row in the order of their assignments, each with the error its encoding may
  raise; after the first error the remaining steps are skipped.\<close>

fun collect :: "(string \<times> (err + ovs_value)) list \<Rightarrow> err + row" where
  "collect [] = Inr []"
| "collect ((column, Inl e) # rest) = Inl e"
| "collect ((column, Inr v) # rest) = (case collect rest of Inl e \<Rightarrow> Inl e | Inr row \<Rightarrow> Inr ((column, v) # row))"

definition text_col :: "string \<Rightarrow> string \<Rightarrow> string \<times> (err + ovs_value)" where
  "text_col column s = (column, Inr (VString s))"
definition int_col :: "string \<Rightarrow> int \<Rightarrow> string \<times> (err + ovs_value)" where
  "int_col column n = (column, Inr (VInt n))"
definition bool_col :: "string \<Rightarrow> bool \<Rightarrow> string \<times> (err + ovs_value)" where
  "bool_col column b = (column, Inr (VBool b))"

definition encode_ref :: "snapshot \<Rightarrow> kind \<Rightarrow> string \<Rightarrow> bool \<Rightarrow> err + ovs_value" where
  "encode_ref refs kind ident optional =
     (if ident = [] \<and> optional then Inr (VSet [])
      else case map_of (sn_resources refs) (kind, ident) of
             None \<Rightarrow> Inl ErrConflict
           | Some entry \<Rightarrow> Inr (if optional then VSet [VUUID (sr_uuid entry)] else VUUID (sr_uuid entry)))"

definition ref_col :: "snapshot \<Rightarrow> string \<Rightarrow> kind \<Rightarrow> string \<Rightarrow> bool \<Rightarrow> string \<times> (err + ovs_value)" where
  "ref_col refs column kind ident optional = (column, encode_ref refs kind ident optional)"

definition encodeStringSet :: "string list \<Rightarrow> ovs_value" where
  "encodeStringSet values = VSet (map VString values)"

definition encodeUniqueStringSet :: "string list \<Rightarrow> err + ovs_value" where
  "encodeUniqueStringSet values = (if repeats [] values then Inl ErrConflict else Inr (encodeStringSet values))"

definition encodeStringMap :: "(string \<times> string) list \<Rightarrow> ovs_value" where
  "encodeStringMap values = VMap (map (\<lambda>(k, v). (VString k, VString v)) values)"

definition encodeIPRanges :: "wire_codec \<Rightarrow> ip_range list \<Rightarrow> err + ovs_value" where
  "encodeIPRanges wc values =
     (let encoded = map (wc_marshalRange wc) values
      in if repeats [] encoded then Inl ErrConflict else Inr (encodeStringSet encoded))"

text \<open>The loop of \<open>encodeFixedIPs\<close> with the subnets \<open>seen\<close>.\<close>

fun encode_fixed :: "snapshot \<Rightarrow> string list \<Rightarrow> fixed_ip list \<Rightarrow> err + (ovs_value \<times> ovs_value) list" where
  "encode_fixed refs seen [] = Inr []"
| "encode_fixed refs seen (value # values) =
     (if fip_SubnetID value \<in> set seen then Inl ErrConflict
      else case map_of (sn_resources refs) (KindSubnet, fip_SubnetID value) of
             None \<Rightarrow> Inl ErrConflict
           | Some entry \<Rightarrow>
               (case encode_fixed refs (fip_SubnetID value # seen) values of
                  Inl e \<Rightarrow> Inl e
                | Inr rest \<Rightarrow> Inr ((VUUID (sr_uuid entry), VString (fip_Address value)) # rest)))"

definition encodeFixedIPs :: "snapshot \<Rightarrow> fixed_ip list \<Rightarrow> err + ovs_value" where
  "encodeFixedIPs refs values = map_sum id VMap (encode_fixed refs [] values)"

fun encode_references :: "snapshot \<Rightarrow> kind \<Rightarrow> string list \<Rightarrow> string list \<Rightarrow> err + ovs_value list" where
  "encode_references refs kind seen [] = Inr []"
| "encode_references refs kind seen (ident # idents) =
     (if ident \<in> set seen then Inl ErrConflict
      else case map_of (sn_resources refs) (kind, ident) of
             None \<Rightarrow> Inl ErrConflict
           | Some entry \<Rightarrow>
               (case encode_references refs kind (ident # seen) idents of
                  Inl e \<Rightarrow> Inl e
                | Inr rest \<Rightarrow> Inr (VUUID (sr_uuid entry) # rest)))"

definition encodeReferenceSet :: "snapshot \<Rightarrow> kind \<Rightarrow> string list \<Rightarrow> err + ovs_value" where
  "encodeReferenceSet refs kind idents = map_sum id VSet (encode_references refs kind [] idents)"

text \<open>\<open>encodeExternalJSON\<close> and \<open>encodeOperationPayload\<close> add an entry to \<open>externalIDs\<close>.\<close>

definition encodeExternalJSON :: "('a list \<Rightarrow> string) \<Rightarrow> string \<Rightarrow> 'a list \<Rightarrow> err + (string \<times> string) list" where
  "encodeExternalJSON marshal key values =
     (if values = [] then Inr []
      else let encoded = marshal values
           in if length encoded > maxResourceExternalJSONLen then Inl (ErrOther ''external_ids'') else Inr [(key, encoded)])"

definition encodeOperationPayload :: "codec \<Rightarrow> string \<Rightarrow> err + (string \<times> string) list" where
  "encodeOperationPayload cd payload =
     (if payload = [] then Inr []
      else case ValidateOperationPayload cd payload of
             Some e \<Rightarrow> Inl e
           | None \<Rightarrow> Inr [(operationComputePayloadKey, payload)])"

definition external_col :: "err + (string \<times> string) list \<Rightarrow> string \<times> (err + ovs_value)" where
  "external_col entries = (''external_ids'', map_sum id encodeStringMap entries)"

definition encodeOptionalTime :: "wire_codec \<Rightarrow> time option \<Rightarrow> string" where
  "encodeOptionalTime wc value = (case value of None \<Rightarrow> [] | Some t \<Rightarrow> wc_formatTime wc t)"

definition encodeMetadata :: "wire_codec \<Rightarrow> metadata \<Rightarrow> err + row" where
  "encodeMetadata wc meta =
     (if ID meta = [] \<or> Revision meta < 1 \<or> CreatedAt meta = zero_time \<or> UpdatedAt meta = zero_time
      then Inl (ErrOther ''metadata'')
      else Inr
        [(''id'', VString (ID meta)),
         (''revision'', VInt (Revision meta)),
         (''applied_revision'', VInt (AppliedRevision meta)),
         (''state'', VString (state_string (State meta))),
         (''last_error'', VString (LastError meta)),
         (''created_at'', VString (wc_formatTime wc (CreatedAt meta))),
         (''updated_at'', VString (wc_formatTime wc (UpdatedAt meta)))])"

fun encode_columns :: "wire_codec \<Rightarrow> snapshot \<Rightarrow> resource \<Rightarrow> (string \<times> (err + ovs_value)) list" where
  "encode_columns wc refs (Network x) =
     [text_col ''name'' (net_Name x), text_col ''description'' (net_Description x), int_col ''mtu'' (net_MTU x),
      bool_col ''external'' (net_External x),
      ref_col refs ''provider_network'' KindProviderNetwork (net_ProviderNetworkID x) True,
      external_col (Inr [])]"
| "encode_columns wc refs (Subnet x) =
     [ref_col refs ''network'' KindNetwork (sub_NetworkID x) False,
      text_col ''name'' (sub_Name x), text_col ''cidr'' (sub_CIDR x), text_col ''gateway_ip'' (sub_GatewayIP x),
      bool_col ''enable_dhcp'' (sub_EnableDHCP x),
      (''dns_nameservers'', encodeUniqueStringSet (sub_DNSNameservers x)),
      (''allocation_pools'', encodeIPRanges wc (sub_AllocationPools x)),
      external_col (map_sum id ((@) (if sub_DNSDomain x \<noteq> [] then [(subnetDNSDomainKey, sub_DNSDomain x)] else []))
        (encodeExternalJSON (wc_marshalStrings wc) subnetDNSSearchDomainsKey (sub_DNSSearchDomains x)))]"
| "encode_columns wc refs (Port x) =
     [ref_col refs ''network'' KindNetwork (port_NetworkID x) False,
      text_col ''name'' (port_Name x), text_col ''mac_address'' (port_MACAddress x),
      (''fixed_ips'', encodeFixedIPs refs (port_FixedIPs x)),
      (''security_groups'', encodeReferenceSet refs KindSecurityGroup (port_SecurityGroupIDs x)),
      bool_col ''admin_state_up'' (port_AdminStateUp x),
      text_col ''binding_status'' (binding_string (port_BindingStatus x)),
      ref_col refs ''node'' KindNode (port_NodeID x) True,
      int_col ''vmid'' (port_VMID x), text_col ''nic'' (port_NIC x), text_col ''lsp_name'' (port_LSPName x),
      int_col ''generation'' (port_Generation x), text_col ''requested_chassis'' (port_RequestedChassis x),
      external_col (Inr [])]"
| "encode_columns wc refs (IPAllocation x) =
     [ref_col refs ''subnet'' KindSubnet (ipa_SubnetID x) False,
      ref_col refs ''port'' KindPort (ipa_PortID x) True,
      text_col ''address'' (ipa_Address x), text_col ''allocation_state'' (allocation_string (ipa_State x)),
      external_col (Inr [])]"
| "encode_columns wc refs (Router x) =
     [text_col ''name'' (rtr_Name x), text_col ''description'' (rtr_Description x),
      ref_col refs ''external_network'' KindNetwork (rtr_ExternalNetworkID x) True,
      ref_col refs ''external_subnet'' KindSubnet (rtr_ExternalSubnetID x) True,
      text_col ''external_ip_address'' (rtr_ExternalIPAddress x), bool_col ''enable_snat'' (rtr_EnableSNAT x),
      external_col (encodeExternalJSON (wc_marshalRoutes wc) routerStaticRoutesKey (rtr_StaticRoutes x))]"
| "encode_columns wc refs (RouterInterface x) =
     [ref_col refs ''router'' KindRouter (rif_RouterID x) False,
      ref_col refs ''subnet'' KindSubnet (rif_SubnetID x) False,
      ref_col refs ''port'' KindPort (rif_PortID x) True,
      external_col (Inr [])]"
| "encode_columns wc refs (FloatingIP x) =
     [ref_col refs ''provider_network'' KindProviderNetwork (flt_ProviderNetworkID x) False,
      text_col ''address'' (flt_Address x),
      ref_col refs ''port'' KindPort (flt_PortID x) True,
      text_col ''fixed_ip_address'' (flt_FixedIPAddress x),
      ref_col refs ''router'' KindRouter (flt_RouterID x) True,
      text_col ''floating_status'' (floating_string (flt_FloatingStatus x)),
      external_col (Inr [])]"
| "encode_columns wc refs (ProviderNetwork x) =
     [text_col ''name'' (pn_Name x), text_col ''description'' (pn_Description x),
      ref_col refs ''default_segment'' KindProviderSegment (pn_DefaultSegmentID x) True,
      external_col (Inr [])]"
| "encode_columns wc refs (ProviderSegment x) =
     [ref_col refs ''provider_network'' KindProviderNetwork (ps_ProviderNetworkID x) False,
      text_col ''name'' (ps_Name x), text_col ''physical_network'' (ps_PhysicalNetwork x),
      text_col ''network_type'' (provider_type_string (ps_NetworkType x)), int_col ''vlan_id'' (ps_VLANID x),
      external_col (Inr [])]"
| "encode_columns wc refs (SecurityGroup x) =
     [text_col ''name'' (sg_Name x), text_col ''description'' (sg_Description x), bool_col ''stateful'' (sg_Stateful x),
      external_col (Inr [])]"
| "encode_columns wc refs (SecurityGroupRule x) =
     [ref_col refs ''security_group'' KindSecurityGroup (sgr_SecurityGroupID x) False,
      text_col ''direction'' (direction_string (sgr_Direction x)), text_col ''ethertype'' (ether_string (sgr_EtherType x)),
      text_col ''protocol'' (sgr_Protocol x), int_col ''port_range_min'' (sgr_PortRangeMin x),
      int_col ''port_range_max'' (sgr_PortRangeMax x), text_col ''remote_cidr'' (sgr_RemoteCIDR x),
      ref_col refs ''remote_group'' KindSecurityGroup (sgr_RemoteGroupID x) True,
      text_col ''action'' (action_string (sgr_Action x)), text_col ''description'' (sgr_Description x),
      external_col (Inr [])]"
| "encode_columns wc refs (Node x) =
     [text_col ''name'' (node_Name x), text_col ''chassis_id'' (node_ChassisID x),
      text_col ''management_address'' (node_ManagementAddress x),
      (''roles'', Inr (encodeStringSet (map role_string (node_Roles x)))), bool_col ''enabled'' (node_Enabled x),
      text_col ''last_seen_at'' (encodeOptionalTime wc (node_LastSeenAt x)),
      external_col (Inr [])]"
| "encode_columns wc refs (Operation x) =
     [text_col ''action'' (op_Action x), text_col ''target_kind'' (kind_string (op_TargetKind x)),
      text_col ''target_id'' (op_TargetID x), int_col ''target_revision'' (op_TargetRevision x),
      text_col ''operation_status'' (status_string (op_OperationStatus x)),
      text_col ''idempotency_key'' (op_IdempotencyKey x), text_col ''error'' (op_Error x),
      text_col ''lease_owner'' (op_LeaseOwner x), text_col ''started_at'' (encodeOptionalTime wc (op_StartedAt x)),
      text_col ''completed_at'' (encodeOptionalTime wc (op_CompletedAt x)),
      external_col (encodeOperationPayload (wc_codec wc) (op_Payload x))]"

definition encodeResource :: "wire_codec \<Rightarrow> resource \<Rightarrow> snapshot \<Rightarrow> err + row" where
  "encodeResource wc r refs =
     (case encodeMetadata wc (GetMetadata r) of
        Inl e \<Rightarrow> Inl e
      | Inr meta \<Rightarrow> map_sum id (\<lambda>cols. meta @ cols) (collect (encode_columns wc refs r)))"

section \<open>Decoding\<close>

definition external_entry :: "(string \<times> string) list \<Rightarrow> string \<Rightarrow> string" where
  "external_entry external key = (case map_of external key of None \<Rightarrow> [] | Some v \<Rightarrow> v)"

definition decodeExternalJSON :: "(string \<Rightarrow> 'a list option) \<Rightarrow> (string \<times> string) list \<Rightarrow> string \<Rightarrow> 'a list option" where
  "decodeExternalJSON unmarshal external key =
     (let encoded = external_entry external key in if encoded = [] then Some [] else unmarshal encoded)"

definition decodeOperationPayload :: "codec \<Rightarrow> (string \<times> string) list \<Rightarrow> string option" where
  "decodeOperationPayload cd external =
     (if list_ex (\<lambda>(key, _). key \<noteq> operationComputePayloadKey) external then None
      else let payload = external_entry external operationComputePayloadKey
           in if ValidateOperationPayload cd payload \<noteq> None then None else Some payload)"

definition decodeMetadata :: "wire_codec \<Rightarrow> row \<Rightarrow> metadata option" where
  "decodeMetadata wc row = do {
     ident \<leftarrow> rowString row ''id'';
     revision \<leftarrow> rowInt64 row ''revision'';
     applied \<leftarrow> rowInt64 row ''applied_revision'';
     state \<leftarrow> rowString row ''state'';
     lastError \<leftarrow> rowString row ''last_error'';
     created \<leftarrow> rowTime (wc_parseTime wc) row ''created_at'';
     updated \<leftarrow> rowTime (wc_parseTime wc) row ''updated_at'';
     if ident = [] \<or> revision < 1 \<or> applied < 0 \<or> applied > revision then None
     else if state_of state \<notin> {ResourcePending, ResourceReady, ResourceError, ResourceDeleting} then None
     else Some \<lparr>ID = ident, Revision = revision, AppliedRevision = applied, State = state_of state,
                LastError = lastError, CreatedAt = created, UpdatedAt = updated\<rparr> }"

definition decodeIPRanges :: "wire_codec \<Rightarrow> row \<Rightarrow> string \<Rightarrow> ip_range list option" where
  "decodeIPRanges wc row column = do {
     values \<leftarrow> rowStringSet row column;
     result \<leftarrow> read_all (wc_unmarshalRange wc) values;
     Some (sort_key (\<lambda>r. (rng_Start r, rng_End r)) result) }"

text \<open>The resolution of a row identifier to an id, \<open>refs.uuidToID[target][uuid]\<close>.\<close>

definition resolve :: "snapshot \<Rightarrow> kind \<Rightarrow> string \<Rightarrow> string option" where
  "resolve refs kind uuid = map_of (sn_uuidToID refs) (kind, uuid)"

definition decodeFixedIPs :: "row \<Rightarrow> snapshot \<Rightarrow> fixed_ip list option" where
  "decodeFixedIPs row refs = do {
     values \<leftarrow> rowMap row ''fixed_ips'';
     result \<leftarrow> read_all (\<lambda>(key, rawAddress). do {
       uuid \<leftarrow> valueUUID key;
       subnetID \<leftarrow> resolve refs KindSubnet uuid;
       address \<leftarrow> valueString rawAddress;
       Some \<lparr>fip_SubnetID = subnetID, fip_Address = address\<rparr> }) values;
     Some (sort_key fip_SubnetID result) }"

definition decodeReferenceSet :: "row \<Rightarrow> string \<Rightarrow> kind \<Rightarrow> snapshot \<Rightarrow> string list option" where
  "decodeReferenceSet row column kind refs = do {
     values \<leftarrow> rowSet row column;
     result \<leftarrow> read_all (\<lambda>value. do { uuid \<leftarrow> valueUUID value; resolve refs kind uuid }) values;
     Some (sort result) }"

definition decode_ref :: "row \<Rightarrow> snapshot \<Rightarrow> kind \<Rightarrow> string \<Rightarrow> bool \<Rightarrow> string option" where
  "decode_ref row refs target column optional = do {
     uuid \<leftarrow> rowReference row column optional;
     if uuid = [] then Some [] else resolve refs target uuid }"

definition decode_network :: "wire_codec \<Rightarrow> row \<Rightarrow> snapshot \<Rightarrow> metadata \<Rightarrow> resource option" where
  "decode_network wc row refs meta = do {
     name \<leftarrow> rowString row ''name'';
     description \<leftarrow> rowString row ''description'';
     mtu \<leftarrow> rowInt64 row ''mtu'';
     external \<leftarrow> rowBool row ''external'';
     providerID \<leftarrow> decode_ref row refs KindProviderNetwork ''provider_network'' True;
     Some (Network \<lparr>net_meta = meta, net_Name = name, net_Description = description, net_MTU = mtu,
                    net_External = external, net_ProviderNetworkID = providerID\<rparr>) }"

definition decode_subnet :: "wire_codec \<Rightarrow> row \<Rightarrow> snapshot \<Rightarrow> metadata \<Rightarrow> resource option" where
  "decode_subnet wc row refs meta = do {
     networkID \<leftarrow> decode_ref row refs KindNetwork ''network'' False;
     name \<leftarrow> rowString row ''name'';
     cidr \<leftarrow> rowString row ''cidr'';
     gateway \<leftarrow> rowString row ''gateway_ip'';
     dhcp \<leftarrow> rowBool row ''enable_dhcp'';
     dns \<leftarrow> rowStringSet row ''dns_nameservers'';
     pools \<leftarrow> decodeIPRanges wc row ''allocation_pools'';
     external \<leftarrow> rowStringMap row ''external_ids'';
     searchDomains \<leftarrow> decodeExternalJSON (wc_unmarshalStrings wc) external subnetDNSSearchDomainsKey;
     Some (Subnet \<lparr>sub_meta = meta, sub_NetworkID = networkID, sub_Name = name, sub_CIDR = cidr, sub_GatewayIP = gateway,
                   sub_EnableDHCP = dhcp, sub_DNSNameservers = dns, sub_DNSDomain = external_entry external subnetDNSDomainKey,
                   sub_DNSSearchDomains = searchDomains, sub_AllocationPools = pools\<rparr>) }"

definition decode_port :: "wire_codec \<Rightarrow> row \<Rightarrow> snapshot \<Rightarrow> metadata \<Rightarrow> resource option" where
  "decode_port wc row refs meta = do {
     networkID \<leftarrow> decode_ref row refs KindNetwork ''network'' False;
     name \<leftarrow> rowString row ''name'';
     mac \<leftarrow> rowString row ''mac_address'';
     fixed \<leftarrow> decodeFixedIPs row refs;
     groups \<leftarrow> decodeReferenceSet row ''security_groups'' KindSecurityGroup refs;
     adminUp \<leftarrow> rowBool row ''admin_state_up'';
     binding \<leftarrow> rowString row ''binding_status'';
     nodeID \<leftarrow> decode_ref row refs KindNode ''node'' True;
     vmid \<leftarrow> rowInt64 row ''vmid'';
     nic \<leftarrow> rowString row ''nic'';
     lsp \<leftarrow> rowString row ''lsp_name'';
     generation \<leftarrow> rowInt64 row ''generation'';
     requested \<leftarrow> rowString row ''requested_chassis'';
     Some (Port \<lparr>port_meta = meta, port_NetworkID = networkID, port_Name = name, port_MACAddress = mac, port_FixedIPs = fixed,
                 port_SecurityGroupIDs = groups, port_AdminStateUp = adminUp, port_BindingStatus = binding_of binding,
                 port_NodeID = nodeID, port_VMID = vmid, port_NIC = nic, port_LSPName = lsp, port_Generation = generation,
                 port_RequestedChassis = requested\<rparr>) }"

definition decode_allocation :: "wire_codec \<Rightarrow> row \<Rightarrow> snapshot \<Rightarrow> metadata \<Rightarrow> resource option" where
  "decode_allocation wc row refs meta = do {
     subnetID \<leftarrow> decode_ref row refs KindSubnet ''subnet'' False;
     portID \<leftarrow> decode_ref row refs KindPort ''port'' True;
     address \<leftarrow> rowString row ''address'';
     state \<leftarrow> rowString row ''allocation_state'';
     Some (IPAllocation \<lparr>ipa_meta = meta, ipa_SubnetID = subnetID, ipa_PortID = portID, ipa_Address = address,
                         ipa_State = allocation_of state\<rparr>) }"

definition decode_router :: "wire_codec \<Rightarrow> row \<Rightarrow> snapshot \<Rightarrow> metadata \<Rightarrow> resource option" where
  "decode_router wc row refs meta = do {
     name \<leftarrow> rowString row ''name'';
     description \<leftarrow> rowString row ''description'';
     externalID \<leftarrow> decode_ref row refs KindNetwork ''external_network'' True;
     externalSubnetID \<leftarrow> decode_ref row refs KindSubnet ''external_subnet'' True;
     externalIPAddress \<leftarrow> rowString row ''external_ip_address'';
     snat \<leftarrow> rowBool row ''enable_snat'';
     external \<leftarrow> rowStringMap row ''external_ids'';
     staticRoutes \<leftarrow> decodeExternalJSON (wc_unmarshalRoutes wc) external routerStaticRoutesKey;
     Some (Router \<lparr>rtr_meta = meta, rtr_Name = name, rtr_Description = description, rtr_ExternalNetworkID = externalID,
                   rtr_ExternalSubnetID = externalSubnetID, rtr_ExternalIPAddress = externalIPAddress, rtr_EnableSNAT = snat,
                   rtr_StaticRoutes = staticRoutes\<rparr>) }"

definition decode_interface :: "wire_codec \<Rightarrow> row \<Rightarrow> snapshot \<Rightarrow> metadata \<Rightarrow> resource option" where
  "decode_interface wc row refs meta = do {
     routerID \<leftarrow> decode_ref row refs KindRouter ''router'' False;
     subnetID \<leftarrow> decode_ref row refs KindSubnet ''subnet'' False;
     portID \<leftarrow> decode_ref row refs KindPort ''port'' True;
     Some (RouterInterface \<lparr>rif_meta = meta, rif_RouterID = routerID, rif_SubnetID = subnetID, rif_PortID = portID\<rparr>) }"

definition decode_floating :: "wire_codec \<Rightarrow> row \<Rightarrow> snapshot \<Rightarrow> metadata \<Rightarrow> resource option" where
  "decode_floating wc row refs meta = do {
     providerID \<leftarrow> decode_ref row refs KindProviderNetwork ''provider_network'' False;
     address \<leftarrow> rowString row ''address'';
     portID \<leftarrow> decode_ref row refs KindPort ''port'' True;
     fixed \<leftarrow> rowString row ''fixed_ip_address'';
     routerID \<leftarrow> decode_ref row refs KindRouter ''router'' True;
     status \<leftarrow> rowString row ''floating_status'';
     Some (FloatingIP \<lparr>flt_meta = meta, flt_ProviderNetworkID = providerID, flt_Address = address, flt_PortID = portID,
                       flt_FixedIPAddress = fixed, flt_RouterID = routerID, flt_FloatingStatus = floating_of status\<rparr>) }"

definition decode_provider :: "wire_codec \<Rightarrow> row \<Rightarrow> snapshot \<Rightarrow> metadata \<Rightarrow> resource option" where
  "decode_provider wc row refs meta = do {
     name \<leftarrow> rowString row ''name'';
     description \<leftarrow> rowString row ''description'';
     segmentID \<leftarrow> decode_ref row refs KindProviderSegment ''default_segment'' True;
     Some (ProviderNetwork \<lparr>pn_meta = meta, pn_Name = name, pn_Description = description, pn_DefaultSegmentID = segmentID\<rparr>) }"

definition decode_segment :: "wire_codec \<Rightarrow> row \<Rightarrow> snapshot \<Rightarrow> metadata \<Rightarrow> resource option" where
  "decode_segment wc row refs meta = do {
     providerID \<leftarrow> decode_ref row refs KindProviderNetwork ''provider_network'' False;
     name \<leftarrow> rowString row ''name'';
     physical \<leftarrow> rowString row ''physical_network'';
     networkType \<leftarrow> rowString row ''network_type'';
     vlanID \<leftarrow> rowInt64 row ''vlan_id'';
     Some (ProviderSegment \<lparr>ps_meta = meta, ps_ProviderNetworkID = providerID, ps_Name = name, ps_PhysicalNetwork = physical,
                            ps_NetworkType = provider_type_of networkType, ps_VLANID = vlanID\<rparr>) }"

definition decode_group :: "wire_codec \<Rightarrow> row \<Rightarrow> snapshot \<Rightarrow> metadata \<Rightarrow> resource option" where
  "decode_group wc row refs meta = do {
     name \<leftarrow> rowString row ''name'';
     description \<leftarrow> rowString row ''description'';
     stateful \<leftarrow> rowBool row ''stateful'';
     Some (SecurityGroup \<lparr>sg_meta = meta, sg_Name = name, sg_Description = description, sg_Stateful = stateful\<rparr>) }"

definition decode_rule :: "wire_codec \<Rightarrow> row \<Rightarrow> snapshot \<Rightarrow> metadata \<Rightarrow> resource option" where
  "decode_rule wc row refs meta = do {
     groupID \<leftarrow> decode_ref row refs KindSecurityGroup ''security_group'' False;
     direction \<leftarrow> rowString row ''direction'';
     ethertype \<leftarrow> rowString row ''ethertype'';
     protocol \<leftarrow> rowString row ''protocol'';
     minPort \<leftarrow> rowInt64 row ''port_range_min'';
     maxPort \<leftarrow> rowInt64 row ''port_range_max'';
     remoteCIDR \<leftarrow> rowString row ''remote_cidr'';
     remoteGroup \<leftarrow> decode_ref row refs KindSecurityGroup ''remote_group'' True;
     action \<leftarrow> rowString row ''action'';
     description \<leftarrow> rowString row ''description'';
     Some (SecurityGroupRule \<lparr>sgr_meta = meta, sgr_SecurityGroupID = groupID, sgr_Direction = direction_of direction,
             sgr_EtherType = ether_of ethertype, sgr_Protocol = protocol, sgr_PortRangeMin = minPort,
             sgr_PortRangeMax = maxPort, sgr_RemoteCIDR = remoteCIDR, sgr_RemoteGroupID = remoteGroup,
             sgr_Action = action_of action, sgr_Description = description\<rparr>) }"

definition decode_node :: "wire_codec \<Rightarrow> row \<Rightarrow> snapshot \<Rightarrow> metadata \<Rightarrow> resource option" where
  "decode_node wc row refs meta = do {
     name \<leftarrow> rowString row ''name'';
     chassis \<leftarrow> rowString row ''chassis_id'';
     address \<leftarrow> rowString row ''management_address'';
     roleValues \<leftarrow> rowStringSet row ''roles'';
     enabled \<leftarrow> rowBool row ''enabled'';
     lastSeen \<leftarrow> rowOptionalTime (wc_parseTime wc) row ''last_seen_at'';
     Some (Node \<lparr>node_meta = meta, node_Name = name, node_ChassisID = chassis, node_ManagementAddress = address,
                 node_Roles = map role_of roleValues, node_Enabled = enabled, node_LastSeenAt = lastSeen\<rparr>) }"

definition decode_operation :: "wire_codec \<Rightarrow> row \<Rightarrow> snapshot \<Rightarrow> metadata \<Rightarrow> resource option" where
  "decode_operation wc row refs meta = do {
     action \<leftarrow> rowString row ''action'';
     targetKind \<leftarrow> rowString row ''target_kind'';
     targetID \<leftarrow> rowString row ''target_id'';
     targetRevision \<leftarrow> rowInt64 row ''target_revision'';
     status \<leftarrow> rowString row ''operation_status'';
     key \<leftarrow> rowString row ''idempotency_key'';
     errorText \<leftarrow> rowString row ''error'';
     leaseOwner \<leftarrow> rowString row ''lease_owner'';
     started \<leftarrow> rowOptionalTime (wc_parseTime wc) row ''started_at'';
     completed \<leftarrow> rowOptionalTime (wc_parseTime wc) row ''completed_at'';
     external \<leftarrow> rowStringMap row ''external_ids'';
     payload \<leftarrow> decodeOperationPayload (wc_codec wc) external;
     Some (Operation \<lparr>op_meta = meta, op_Action = action, op_TargetKind = kind_of targetKind, op_TargetID = targetID,
             op_TargetRevision = targetRevision, op_OperationStatus = status_of status, op_IdempotencyKey = key,
             op_Error = errorText, op_LeaseOwner = leaseOwner, op_StartedAt = started, op_CompletedAt = completed,
             op_Payload = payload\<rparr>) }"

definition decodeResource :: "wire_codec \<Rightarrow> kind \<Rightarrow> row \<Rightarrow> snapshot \<Rightarrow> resource option" where
  "decodeResource wc kind row refs = do {
     meta \<leftarrow> decodeMetadata wc row;
     (case kind of
        KindNetwork \<Rightarrow> decode_network wc row refs meta
      | KindSubnet \<Rightarrow> decode_subnet wc row refs meta
      | KindPort \<Rightarrow> decode_port wc row refs meta
      | KindIPAllocation \<Rightarrow> decode_allocation wc row refs meta
      | KindRouter \<Rightarrow> decode_router wc row refs meta
      | KindRouterInterface \<Rightarrow> decode_interface wc row refs meta
      | KindFloatingIP \<Rightarrow> decode_floating wc row refs meta
      | KindProviderNetwork \<Rightarrow> decode_provider wc row refs meta
      | KindProviderSegment \<Rightarrow> decode_segment wc row refs meta
      | KindSecurityGroup \<Rightarrow> decode_group wc row refs meta
      | KindSecurityGroupRule \<Rightarrow> decode_rule wc row refs meta
      | KindNode \<Rightarrow> decode_node wc row refs meta
      | KindOperation \<Rightarrow> decode_operation wc row refs meta
      | KindOther _ \<Rightarrow> None) }"

section \<open>Internal rows\<close>

definition encodeLockRow :: "wire_codec \<Rightarrow> time \<Rightarrow> row" where
  "encodeLockRow wc now =
     (let timestamp = wc_formatTime wc now in
      [(''id'', VString storeLockID), (''action'', VString ''internal-lock''), (''target_kind'', VString ''internal''),
       (''target_id'', VString storeLockID), (''target_revision'', VInt 1),
       (''operation_status'', VString (status_string OperationSucceeded)),
       (''idempotency_key'', VString storeLockID), (''error'', VString []), (''started_at'', VString []),
       (''completed_at'', VString []), (''revision'', VInt 1), (''applied_revision'', VInt 1),
       (''state'', VString (state_string ResourceReady)), (''last_error'', VString []),
       (''created_at'', VString timestamp), (''updated_at'', VString timestamp),
       (''external_ids'', encodeStringMap [(internalTypeKey, internalLockType)])])"

text \<open>\<open>hex.EncodeToString\<close> and \<open>hex.DecodeString\<close> on byte strings.\<close>

definition hex_char :: "nat \<Rightarrow> char" where
  "hex_char n = (if n < 10 then char_of (48 + n) else char_of (87 + n))"

definition hex_encode :: "string \<Rightarrow> string" where
  "hex_encode s = concat (map (\<lambda>c. [hex_char (of_char c div 16), hex_char (of_char c mod 16)]) s)"

definition hex_nibble :: "char \<Rightarrow> nat option" where
  "hex_nibble c =
     (let n = of_char c in
      if 48 \<le> n \<and> n \<le> 57 then Some (n - 48)
      else if 97 \<le> n \<and> n \<le> 102 then Some (n - 87)
      else if 65 \<le> n \<and> n \<le> 70 then Some (n - 55)
      else None)"

fun hex_decode :: "string \<Rightarrow> string option" where
  "hex_decode [] = Some []"
| "hex_decode [_] = None"
| "hex_decode (a # b # rest) = do {
     hi \<leftarrow> hex_nibble a; lo \<leftarrow> hex_nibble b; tail \<leftarrow> hex_decode rest; Some (char_of (16 * hi + lo) # tail) }"

definition format_bool :: "bool \<Rightarrow> string" where
  "format_bool b = (if b then ''true'' else ''false'')"

text \<open>\<open>strconv.ParseBool\<close>.\<close>

definition parse_bool :: "string \<Rightarrow> bool option" where
  "parse_bool s =
     (if s \<in> set [''1'', ''t'', ''T'', ''true'', ''TRUE'', ''True''] then Some True
      else if s \<in> set [''0'', ''f'', ''F'', ''false'', ''FALSE'', ''False''] then Some False
      else None)"

definition idempotencyRowID :: "codec \<Rightarrow> string \<Rightarrow> string" where
  "idempotencyRowID cd scope = internalIDPrefix @ ''idem_'' @ hex_encode (sha256 cd scope)"

definition resource_payload :: "resource \<Rightarrow> string" where
  "resource_payload r = (case r of Operation o' \<Rightarrow> op_Payload o' | _ \<Rightarrow> [])"

definition encodeIdempotencyRow :: "wire_codec \<Rightarrow> string \<Rightarrow> string \<Rightarrow> resource \<Rightarrow> bool \<Rightarrow> time \<Rightarrow> err + row" where
  "encodeIdempotencyRow wc scope fp r deleted now =
     (let cd = wc_codec wc;
          externalIDs = [(internalTypeKey, internalIdemType), (idemFingerprint, hex_encode fp),
            (idemResource, json_marshal cd r), (idemResourceKind, kind_string (ResourceKind r)),
            (idemDeleted, format_bool deleted)];
          ident = idempotencyRowID cd scope;
          timestamp = wc_formatTime wc now
      in map_sum id (\<lambda>payload.
           [(''id'', VString ident), (''action'', VString ''idempotency''),
            (''target_kind'', VString (kind_string (ResourceKind r))), (''target_id'', VString ident),
            (''target_revision'', VInt (Revision (GetMetadata r))),
            (''operation_status'', VString (status_string OperationSucceeded)),
            (''idempotency_key'', VString (internalScopeKey @ scope)), (''error'', VString []),
            (''started_at'', VString []), (''completed_at'', VString timestamp),
            (''revision'', VInt 1), (''applied_revision'', VInt 1), (''state'', VString (state_string ResourceReady)),
            (''last_error'', VString []), (''created_at'', VString timestamp), (''updated_at'', VString timestamp),
            (''external_ids'', encodeStringMap (externalIDs @ payload))])
         (encodeOperationPayload cd (resource_payload r)))"

definition with_payload :: "string \<Rightarrow> resource \<Rightarrow> resource" where
  "with_payload payload r = (case r of Operation o' \<Rightarrow> Operation (o'\<lparr>op_Payload := payload\<rparr>) | _ \<Rightarrow> r)"

definition decode_lock :: "row \<Rightarrow> string \<Rightarrow> snapshot \<Rightarrow> snapshot option" where
  "decode_lock row ident result =
     (if ident \<noteq> storeLockID \<or> sn_hasLock result then None
     else do {
       action \<leftarrow> rowString row ''action'';
       targetKind \<leftarrow> rowString row ''target_kind'';
       targetID \<leftarrow> rowString row ''target_id'';
       key \<leftarrow> rowString row ''idempotency_key'';
       status \<leftarrow> rowString row ''operation_status'';
       state \<leftarrow> rowString row ''state'';
       if action \<noteq> ''internal-lock'' \<or> targetKind \<noteq> ''internal'' \<or> targetID \<noteq> storeLockID \<or> key \<noteq> storeLockID \<or>
          status \<noteq> status_string OperationSucceeded \<or> state \<noteq> state_string ResourceReady then None
       else do {
         epoch \<leftarrow> rowInt64 row ''revision'';
         if epoch < 1 then None else Some (result\<lparr>sn_epoch := epoch, sn_hasLock := True\<rparr>) } })"

definition decode_idempotency :: "wire_codec \<Rightarrow> row \<Rightarrow> (string \<times> string) list \<Rightarrow> snapshot \<Rightarrow> snapshot option" where
  "decode_idempotency wc row external result = do {
     storedScope \<leftarrow> rowString row ''idempotency_key'';
     if \<not> has_prefix storedScope internalScopeKey \<or> length storedScope = length internalScopeKey then None
     else do {
       let scope = trim_prefix storedScope internalScopeKey;
       fp \<leftarrow> hex_decode (external_entry external idemFingerprint);
       if length fp \<noteq> 32 then None
       else do {
         let kind = kind_of (external_entry external idemResourceKind);
         if \<not> kind_valid kind then None
         else do {
           decoded \<leftarrow> wc_unmarshal wc kind (external_entry external idemResource);
           let payload = external_entry external operationComputePayloadKey;
           let r = with_payload payload decoded;
           let meta = GetMetadata r;
           if (case r of Operation _ \<Rightarrow> ValidateOperationPayload (wc_codec wc) payload \<noteq> None | _ \<Rightarrow> False) then None
           else if ID meta = [] \<or> Revision meta < 1 \<or> AppliedRevision meta < 0 \<or> AppliedRevision meta > Revision meta \<or>
                   CreatedAt meta = zero_time \<or> UpdatedAt meta = zero_time then None
           else if State meta \<notin> {ResourcePending, ResourceReady, ResourceError, ResourceDeleting} then None
           else if Validate (wc_codec wc) r \<noteq> None then None
           else if map_of (sn_idempotency result) scope \<noteq> None then None
           else do {
             deleted \<leftarrow> parse_bool (external_entry external idemDeleted);
             Some (result\<lparr>sn_idempotency := AList.update scope \<lparr>fingerprint_of = fp, resource_of = r, deleted_of = deleted\<rparr>
                            (sn_idempotency result)\<rparr>) } } } } }"

text \<open>\<^term>\<open>Some None\<close>: the row is not internal. \<^term>\<open>None\<close>: an error.\<close>

definition decodeInternalOperation :: "wire_codec \<Rightarrow> row \<Rightarrow> snapshot \<Rightarrow> snapshot option option" where
  "decodeInternalOperation wc row result = do {
     external \<leftarrow> rowStringMap row ''external_ids'';
     let typeName = external_entry external internalTypeKey;
     if typeName = [] then Some None
     else do {
       ident \<leftarrow> rowString row ''id'';
       if typeName = internalLockType then map_option Some (decode_lock row ident result)
       else if typeName = internalIdemType then map_option Some (decode_idempotency wc row external result)
       else None } }"

section \<open>The whole database\<close>

type_synonym raw_database = "(string \<times> row list) list"

text \<open>First pass: the row identifiers of every table. Second pass: the rows. Third pass: validation.\<close>

fun index_rows :: "kind \<Rightarrow> row list \<Rightarrow> snapshot \<Rightarrow> snapshot option" where
  "index_rows kind [] result = Some result"
| "index_rows kind (row # rest) result = do {
     ident \<leftarrow> rowString row ''id'';
     uuid \<leftarrow> rowUUID row ''_uuid'';
     if map_of (sn_uuidToID result) (kind, uuid) \<noteq> None then None
     else index_rows kind rest (result\<lparr>sn_uuidToID := AList.update (kind, uuid) ident (sn_uuidToID result)\<rparr>) }"

fun index_tables :: "raw_database \<Rightarrow> string list \<Rightarrow> snapshot \<Rightarrow> snapshot option" where
  "index_tables raw [] result = Some result"
| "index_tables raw (table # tables) result = do {
     kind \<leftarrow> map_of tableKinds table;
     stored \<leftarrow> map_of raw table;
     result' \<leftarrow> index_rows kind stored result;
     index_tables raw tables result' }"

definition decode_row :: "wire_codec \<Rightarrow> kind \<Rightarrow> row \<Rightarrow> snapshot \<Rightarrow> snapshot option" where
  "decode_row wc kind row result = do {
     r \<leftarrow> decodeResource wc kind row result;
     let ident = ID (GetMetadata r);
     if has_prefix ident internalIDPrefix \<or> ident = storeLockID then None
     else if map_of (sn_resources result) (kind, ident) \<noteq> None then None
     else do {
       uuid \<leftarrow> rowUUID row ''_uuid'';
       Some (result\<lparr>sn_resources := AList.update (kind, ident) \<lparr>sr_uuid = uuid, sr_resource = r\<rparr> (sn_resources result)\<rparr>) } }"

fun decode_rows :: "wire_codec \<Rightarrow> kind \<Rightarrow> row list \<Rightarrow> snapshot \<Rightarrow> snapshot option" where
  "decode_rows wc kind [] result = Some result"
| "decode_rows wc kind (row # rest) result = do {
     handled \<leftarrow> (if kind = KindOperation then decodeInternalOperation wc row result else Some None);
     (case handled of
        Some result' \<Rightarrow> decode_rows wc kind rest result'
      | None \<Rightarrow> do { result' \<leftarrow> decode_row wc kind row result; decode_rows wc kind rest result' }) }"

fun decode_tables :: "wire_codec \<Rightarrow> raw_database \<Rightarrow> string list \<Rightarrow> snapshot \<Rightarrow> snapshot option" where
  "decode_tables wc raw [] result = Some result"
| "decode_tables wc raw (table # tables) result = do {
     kind \<leftarrow> map_of tableKinds table;
     result' \<leftarrow> decode_rows wc kind (case map_of raw table of None \<Rightarrow> [] | Some stored \<Rightarrow> stored) result;
     decode_tables wc raw tables result' }"

definition validate_stored :: "wire_codec \<Rightarrow> snapshot \<Rightarrow> bool" where
  "validate_stored wc result \<longleftrightarrow>
     list_all (\<lambda>(_, r). Validate (wc_codec wc) r = None \<and> validateReferences result r = None) (snap_entries result) \<and>
     validateSnapshotUnique result = None"

definition decodeDatabase :: "wire_codec \<Rightarrow> raw_database \<Rightarrow> snapshot option" where
  "decodeDatabase wc raw = do {
     indexed \<leftarrow> index_tables raw allTables newSnapshot;
     result \<leftarrow> decode_tables wc raw allTables indexed;
     if validate_stored wc result then Some result else None }"

section \<open>Runtime ports\<close>

definition decodeRuntimePort :: "row \<Rightarrow> (string \<times> string) list \<Rightarrow> port option" where
  "decodeRuntimePort row nodeIDs = do {
     ident \<leftarrow> rowString row ''id'';
     revision \<leftarrow> rowInt64 row ''revision'';
     appliedRevision \<leftarrow> rowInt64 row ''applied_revision'';
     stateValue \<leftarrow> rowString row ''state'';
     nodeUUID \<leftarrow> rowReference row ''node'' True;
     vmid \<leftarrow> rowInt64 row ''vmid'';
     nic \<leftarrow> rowString row ''nic'';
     lspName \<leftarrow> rowString row ''lsp_name'';
     generation \<leftarrow> rowInt64 row ''generation'';
     requestedChassis \<leftarrow> rowString row ''requested_chassis'';
     macAddress \<leftarrow> rowString row ''mac_address'';
     adminStateUp \<leftarrow> rowBool row ''admin_state_up'';
     bindingStatus \<leftarrow> rowString row ''binding_status'';
     nodeID \<leftarrow> (if nodeUUID \<noteq> [] then map_of nodeIDs nodeUUID else Some []);
     if ident = [] \<or> revision < 1 \<or> appliedRevision < 0 \<or> appliedRevision > revision then None
     else if state_of stateValue \<notin> {ResourcePending, ResourceReady, ResourceError, ResourceDeleting} then None
     else Some \<lparr>port_meta = \<lparr>ID = ident, Revision = revision, AppliedRevision = appliedRevision, State = state_of stateValue,
                             LastError = [], CreatedAt = zero_time, UpdatedAt = zero_time\<rparr>,
       port_NetworkID = [], port_Name = [], port_MACAddress = macAddress, port_FixedIPs = [], port_SecurityGroupIDs = [],
       port_AdminStateUp = adminStateUp, port_BindingStatus = binding_of bindingStatus, port_NodeID = nodeID,
       port_VMID = vmid, port_NIC = nic, port_LSPName = lspName, port_Generation = generation,
       port_RequestedChassis = requestedChassis\<rparr> }"

text \<open>The loop over the node rows: the ids by row identifier, and the accepted node names.\<close>

fun runtime_nodes :: "string \<Rightarrow> row list \<Rightarrow> (string \<times> string) list \<Rightarrow> string list \<Rightarrow> ((string \<times> string) list \<times> string list) option" where
  "runtime_nodes nodeIdentity [] nodeIDs accepted = Some (nodeIDs, accepted)"
| "runtime_nodes nodeIdentity (row # rest) nodeIDs accepted = do {
     uuid \<leftarrow> rowUUID row ''_uuid'';
     ident \<leftarrow> rowString row ''id'';
     name \<leftarrow> rowString row ''name'';
     chassis \<leftarrow> rowString row ''chassis_id'';
     if ident = [] then None
     else if map_of nodeIDs uuid \<noteq> None then None
     else runtime_nodes nodeIdentity rest (AList.update uuid ident nodeIDs)
            (if ident = nodeIdentity \<or> name = nodeIdentity \<or> chassis = nodeIdentity
             then [ident, name, chassis] @ accepted else accepted) }"

definition runtime_port_row :: "(string \<times> string) list \<Rightarrow> string list \<Rightarrow> row \<Rightarrow> port option option" where
  "runtime_port_row nodeIDs accepted row = do {
     p \<leftarrow> decodeRuntimePort row nodeIDs;
     (case ParseRequestedChassis (port_RequestedChassis p) of
        Inl _ \<Rightarrow> None
      | Inr requested \<Rightarrow>
          let requestedLocal = list_ex (\<lambda>chassisID. chassisID \<in> set accepted) requested
          in Some (if port_NodeID p \<in> set accepted \<or> requestedLocal then Some p else None)) }"

definition decodeRuntimePortLookup :: "row list \<Rightarrow> row list \<Rightarrow> string \<Rightarrow> port list option" where
  "decodeRuntimePortLookup nodes ports nodeIdentity = do {
     (nodeIDs, accepted) \<leftarrow> runtime_nodes nodeIdentity nodes [] [nodeIdentity];
     found \<leftarrow> read_all (runtime_port_row nodeIDs accepted) ports;
     Some (sort_key (\<lambda>p. ID (port_meta p)) (List.map_filter id found)) }"

end
