(* ===== verification/Ovsdb_Store.thy ===== *)
theory Ovsdb_Store
  imports Ovsdb_Codec
begin

text \<open>
  The durable control store (\<open>internal/ovsdbstore/store.go\<close>) over the interface \<open>database\<close> of
  \<open>database.go\<close>.

  Every writing method has the same shape: check the request, then up to
  \<open>maxWriteAttempts\<close> times load and decode the whole database, decide on that snapshot, and commit
  the changes on condition that the epoch is still the one of the snapshot. The decision of a
  method is a function from the snapshot to a \<open>verdict\<close>: a result without a write, or changes
  to commit and the result if they are committed. \<open>attempts\<close> is the loop around it.

  The surroundings of a call are a state \<open>'w\<close> that the database transforms; what other managers
  do to the database between two interactions is part of these transformations.
\<close>

section \<open>The database interface\<close>

datatype changeType = changeInsert | changeUpdate | changeDelete

record change =
  ch_type :: changeType
  ch_table :: string
  ch_id :: string
  ch_expectedRevision :: int
  ch_row :: row

datatype commit_error = errSerialization | constraintError bool | CommitOther err

record 'w database =
  db_load :: "'w \<Rightarrow> 'w \<times> (err + raw_database)"
  db_lookupRuntimePorts :: "int \<Rightarrow> string \<Rightarrow> 'w \<Rightarrow> 'w \<times> (err + row list \<times> row list)"
  db_initialize :: "row \<Rightarrow> 'w \<Rightarrow> 'w \<times> commit_error option"
  db_commit :: "int \<Rightarrow> change list \<Rightarrow> string \<Rightarrow> 'w \<Rightarrow> 'w \<times> commit_error option"

record 'w store =
  st_database :: "'w database"
  st_now :: "'w \<Rightarrow> time"
  st_newID :: "'w \<Rightarrow> string"
  st_cancelled :: "'w \<Rightarrow> bool"
  st_wire :: wire_codec

definition maxWriteAttempts :: nat where "maxWriteAttempts = 64"
definition maxStoredErrorLen :: nat where "maxStoredErrorLen = 16 * 1024"

definition truncateError :: "string \<Rightarrow> string" where
  "truncateError value = (if length value \<le> maxStoredErrorLen then value else take maxStoredErrorLen value)"

fun load_attempts :: "'w store \<Rightarrow> nat \<Rightarrow> 'w \<Rightarrow> 'w \<times> (err + snapshot)" where
  "load_attempts st 0 w = (w, Inl ErrConflict)"
| "load_attempts st (Suc n) w =
     (if st_cancelled st w then (w, Inl ErrContext)
      else case db_load (st_database st) w of
             (w1, Inl e) \<Rightarrow> (w1, Inl e)
           | (w1, Inr raw) \<Rightarrow>
               (case decodeDatabase (st_wire st) raw of
                  None \<Rightarrow> (w1, Inl (ErrOther ''decode''))
                | Some current \<Rightarrow>
                    if sn_hasLock current
                    then (if sn_epoch current = maxInt64 then (w1, Inl (ErrOther ''epoch'')) else (w1, Inr current))
                    else (case db_initialize (st_database st) (encodeLockRow (st_wire st) (st_now st w1)) w1 of
                            (w2, None) \<Rightarrow> load_attempts st n w2
                          | (w2, Some errSerialization) \<Rightarrow> load_attempts st n w2
                          | (w2, Some (constraintError _)) \<Rightarrow> (w2, Inl (ErrOther ''initialize''))
                          | (w2, Some (CommitOther e)) \<Rightarrow> (w2, Inl e))))"

definition store_load :: "'w store \<Rightarrow> 'w \<Rightarrow> 'w \<times> (err + snapshot)" where
  "store_load st w = load_attempts st maxWriteAttempts w"

section \<open>The loop of a write\<close>

datatype 'a verdict = Return "err + 'a" | Commit "change list" time 'a

fun attempts ::
  "'w store \<Rightarrow> (bool \<Rightarrow> err) \<Rightarrow> ('w \<Rightarrow> snapshot \<Rightarrow> 'a verdict) \<Rightarrow> nat \<Rightarrow> 'w \<Rightarrow> 'w \<times> (err + 'a)" where
  "attempts st constraint decide 0 w = (w, Inl ErrConflict)"
| "attempts st constraint decide (Suc n) w =
     (case store_load st w of
        (w1, Inl e) \<Rightarrow> (w1, Inl e)
      | (w1, Inr current) \<Rightarrow>
          (case decide w1 current of
             Return result \<Rightarrow> (w1, result)
           | Commit changes updatedAt result \<Rightarrow>
               (case db_commit (st_database st) (sn_epoch current) changes (wc_formatTime (st_wire st) updatedAt) w1 of
                  (w2, None) \<Rightarrow> (w2, Inr result)
                | (w2, Some errSerialization) \<Rightarrow> attempts st constraint decide n w2
                | (w2, Some (constraintError reference)) \<Rightarrow> (w2, Inl (constraint reference))
                | (w2, Some (CommitOther e)) \<Rightarrow> (w2, Inl e))))"

text \<open>The constraint errors of \<open>Create\<close> and \<open>Update\<close>, of \<open>Purge\<close>, and of the other methods,
  which pass the database's error on.\<close>

definition write_constraint :: "bool \<Rightarrow> err" where
  "write_constraint reference = (if reference then ErrConflict else ErrAlreadyExists)"
definition purge_constraint :: "bool \<Rightarrow> err" where
  "purge_constraint reference = ErrConflict"
definition plain_constraint :: "bool \<Rightarrow> err" where
  "plain_constraint reference = ErrOther ''constraint''"

definition table_of :: "kind \<Rightarrow> string" where
  "table_of kind = (case map_of kindTables kind of None \<Rightarrow> [] | Some table \<Rightarrow> table)"

definition insert_change :: "string \<Rightarrow> string \<Rightarrow> row \<Rightarrow> change" where
  "insert_change table ident row =
     \<lparr>ch_type = changeInsert, ch_table = table, ch_id = ident, ch_expectedRevision = 0, ch_row = row\<rparr>"
definition update_change :: "string \<Rightarrow> string \<Rightarrow> int \<Rightarrow> row \<Rightarrow> change" where
  "update_change table ident expected row =
     \<lparr>ch_type = changeUpdate, ch_table = table, ch_id = ident, ch_expectedRevision = expected, ch_row = row\<rparr>"
definition delete_change :: "string \<Rightarrow> string \<Rightarrow> int \<Rightarrow> change" where
  "delete_change table ident expected =
     \<lparr>ch_type = changeDelete, ch_table = table, ch_id = ident, ch_expectedRevision = expected, ch_row = []\<rparr>"

text \<open>\<open>row, err := encodeResource(...); if err != nil { return err }\<close> and the like.\<close>

definition verdict_of :: "err + 'b \<Rightarrow> ('b \<Rightarrow> 'a verdict) \<Rightarrow> 'a verdict" where
  "verdict_of v f = (case v of Inl e \<Rightarrow> Return (Inl e) | Inr x \<Rightarrow> f x)"

definition appendIdempotency ::
  "wire_codec \<Rightarrow> change list \<Rightarrow> string \<Rightarrow> string \<Rightarrow> resource \<Rightarrow> bool \<Rightarrow> time \<Rightarrow> err + change list" where
  "appendIdempotency wc changes scope fp r deleted now =
     (if scope = [] then Inr changes
      else map_sum id (\<lambda>row. changes @ [insert_change (table_of KindOperation) (idempotencyRowID (wc_codec wc) scope) row])
             (encodeIdempotencyRow wc scope fp r deleted now))"

definition replay :: "snapshot \<Rightarrow> string \<Rightarrow> string \<Rightarrow> err + resource option" where
  "replay current scope fp =
     (if scope = [] then Inr None
      else case map_of (sn_idempotency current) scope of
             None \<Rightarrow> Inr None
           | Some record' \<Rightarrow>
               if fingerprint_of record' \<noteq> fp then Inl ErrIdempotencyConflict else Inr (Some (resource_of record')))"

definition snap_get_operation :: "snapshot \<Rightarrow> string \<Rightarrow> operation option" where
  "snap_get_operation current ident = snap_get as_operation current KindOperation ident"

definition operationSuperseded :: "snapshot \<Rightarrow> operation \<Rightarrow> bool" where
  "operationSuperseded current o' =
     (case snap_lookup current (op_TargetKind o') (op_TargetID o') of
        None \<Rightarrow> True
      | Some target \<Rightarrow> Revision (GetMetadata target) > op_TargetRevision o')"

section \<open>Create\<close>

definition reserved_key :: "resource \<Rightarrow> bool" where
  "reserved_key r = (case r of Operation o' \<Rightarrow> isReservedID (op_IdempotencyKey o') | _ \<Rightarrow> False)"

definition keyless_operation :: "resource \<Rightarrow> bool" where
  "keyless_operation r = (case r of Operation o' \<Rightarrow> op_IdempotencyKey o' = [] | _ \<Rightarrow> False)"

text \<open>The candidate as it is prepared before the loop, and the checks made on the way.\<close>

definition create_candidate :: "string \<Rightarrow> string \<Rightarrow> resource \<Rightarrow> resource" where
  "create_candidate newID key r = on_floating MarkPending (SetDefaults (with_operation_key key (with_id newID r)))"

definition create_refusal :: "codec \<Rightarrow> string \<Rightarrow> string \<Rightarrow> resource \<Rightarrow> err option" where
  "create_refusal cd newID key r =
     (let named = with_id newID r; keyed = with_operation_key key named in first_err
        [conflict_if (isReservedID (ID (GetMetadata named))),
         conflict_if (keyless_operation keyed),
         conflict_if (created_unqueued keyed),
         conflict_if (reserved_key keyed),
         Validate cd (create_candidate newID key r)])"

definition create_decision :: "wire_codec \<Rightarrow> time \<Rightarrow> string \<Rightarrow> string \<Rightarrow> resource \<Rightarrow> snapshot \<Rightarrow> (resource \<times> bool) verdict" where
  "create_decision wc now scope fp candidate current =
     verdict_of (replay current scope fp) (\<lambda>replayed.
       case replayed of
         Some r \<Rightarrow> Return (Inr (r, True))
       | None \<Rightarrow>
           let kind = ResourceKind candidate; ident = ID (GetMetadata candidate) in
           if snap_lookup current kind ident \<noteq> None then Return (Inl ErrAlreadyExists)
           else case first_err
                  [validateReferences current candidate,
                   validateNewReferenceStates current candidate None,
                   validateUnique current candidate []] of
                  Some e \<Rightarrow> Return (Inl e)
                | None \<Rightarrow>
                    verdict_of (encodeResource wc candidate current) (\<lambda>row.
                      verdict_of (appendIdempotency wc [insert_change (table_of kind) ident row] scope fp candidate False now) (\<lambda>changes.
                        Commit changes now (candidate, False))))"

definition durable_Create :: "'w store \<Rightarrow> resource \<Rightarrow> string \<Rightarrow> 'w \<Rightarrow> 'w \<times> (err + resource \<times> bool)" where
  "durable_Create st r key w =
     (if st_cancelled st w then (w, Inl ErrContext)
      else if \<not> kind_valid (ResourceKind r) then (w, Inl ErrConflict)
      else
        let wc = st_wire st; cd = wc_codec wc;
            fp = resource_fingerprint cd r [];
            scope = idempotencyScope ''create'' (ResourceKind r) [] key;
            newID = st_newID st w
        in case create_refusal cd newID key r of
             Some e \<Rightarrow> (w, Inl e)
           | None \<Rightarrow>
               let now = st_now st w;
                   candidate = with_lsp_name (map_metadata (fresh_metadata now) (create_candidate newID key r))
               in attempts st write_constraint (\<lambda>_. create_decision wc now scope fp candidate) maxWriteAttempts w)"

section \<open>Reads\<close>

definition durable_Get :: "'w store \<Rightarrow> kind \<Rightarrow> string \<Rightarrow> 'w \<Rightarrow> 'w \<times> (err + resource)" where
  "durable_Get st kind ident w =
     (if st_cancelled st w then (w, Inl ErrContext)
      else if \<not> kind_valid kind then (w, Inl ErrNotFound)
      else case store_load st w of
             (w1, Inl e) \<Rightarrow> (w1, Inl e)
           | (w1, Inr current) \<Rightarrow>
               (w1, case snap_lookup current kind ident of None \<Rightarrow> Inl ErrNotFound | Some r \<Rightarrow> Inr r))"

definition snap_list_kind :: "snapshot \<Rightarrow> kind \<Rightarrow> list_options \<Rightarrow> resource list" where
  "snap_list_kind current kind options =
     (let sorted' = sort_key (list_key options) (filter (\<lambda>r. row_matches r options) (map snd (snap_rows current kind)))
      in if opt_Limit options > 0 \<and> int (length sorted') > opt_Limit options
         then take (nat (opt_Limit options)) sorted' else sorted')"

definition durable_Snapshot ::
  "'w store \<Rightarrow> kind list \<Rightarrow> list_options \<Rightarrow> 'w \<Rightarrow> 'w \<times> (err + (kind \<times> resource list) list)" where
  "durable_Snapshot st kinds options w =
     (if st_cancelled st w then (w, Inl ErrContext)
      else if \<not> list_all kind_valid kinds then (w, Inl ErrNotFound)
      else if opt_Limit options < 0 then (w, Inl ErrConflict)
      else if remdups kinds = [] then (w, Inr [])
      else case store_load st w of
             (w1, Inl e) \<Rightarrow> (w1, Inl e)
           | (w1, Inr current) \<Rightarrow> (w1, Inr (map (\<lambda>kind. (kind, snap_list_kind current kind options)) (remdups kinds))))"

definition durable_List :: "'w store \<Rightarrow> kind \<Rightarrow> list_options \<Rightarrow> 'w \<Rightarrow> 'w \<times> (err + resource list)" where
  "durable_List st kind options w =
     (case durable_Snapshot st [kind] options w of
        (w1, Inl e) \<Rightarrow> (w1, Inl e)
      | (w1, Inr result) \<Rightarrow> (w1, Inr (case map_of result kind of None \<Rightarrow> [] | Some rs \<Rightarrow> rs)))"

definition durable_LookupRuntimePorts :: "'w store \<Rightarrow> string \<Rightarrow> int \<Rightarrow> string \<Rightarrow> 'w \<Rightarrow> 'w \<times> (err + port list)" where
  "durable_LookupRuntimePorts st nodeIdentity vmid nic w =
     (if st_cancelled st w then (w, Inl ErrContext)
      else case db_lookupRuntimePorts (st_database st) vmid nic w of
             (w1, Inl e) \<Rightarrow> (w1, Inl e)
           | (w1, Inr (nodes, ports)) \<Rightarrow>
               (w1, case decodeRuntimePortLookup nodes ports nodeIdentity of
                      None \<Rightarrow> Inl (ErrOther ''decode'') | Some result \<Rightarrow> Inr result))"

section \<open>Node heartbeats\<close>

definition heartbeat_decision :: "wire_codec \<Rightarrow> string \<Rightarrow> int \<Rightarrow> time \<Rightarrow> snapshot \<Rightarrow> node verdict" where
  "heartbeat_decision wc ident expectedRevision observedAt current =
     (case snap_get as_node current KindNode ident of
        None \<Rightarrow> Return (Inl ErrNotFound)
      | Some stored \<Rightarrow>
          if expectedRevision < 1 \<or> Revision (node_meta stored) \<noteq> expectedRevision then Return (Inl ErrPrecondition)
          else if (case node_LastSeenAt stored of None \<Rightarrow> False | Some seen \<Rightarrow> \<not> seen < observedAt) then Return (Inr stored)
          else
            let candidate = stored\<lparr>node_LastSeenAt := Some observedAt\<rparr>
            in verdict_of (encodeResource wc (Node candidate) current) (\<lambda>row.
                 Commit [update_change (table_of KindNode) ident expectedRevision row] observedAt candidate))"

definition durable_ObserveNodeHeartbeat :: "'w store \<Rightarrow> string \<Rightarrow> int \<Rightarrow> time \<Rightarrow> 'w \<Rightarrow> 'w \<times> (err + node)" where
  "durable_ObserveNodeHeartbeat st ident expectedRevision observedAt w =
     (if st_cancelled st w then (w, Inl ErrContext)
      else if ident = [] \<or> observedAt = zero_time then (w, Inl ErrConflict)
      else if isReservedID ident then (w, Inl ErrNotFound)
      else attempts st plain_constraint (\<lambda>_. heartbeat_decision (st_wire st) ident expectedRevision observedAt) maxWriteAttempts w)"

section \<open>Retention and recovery of operations\<close>

definition snap_terminal_operations :: "snapshot \<Rightarrow> operation list" where
  "snap_terminal_operations current =
     sort_key completed_key (filter terminal_reconcile (snap_all as_operation current KindOperation))"

definition snap_prune_eligible :: "time \<Rightarrow> snapshot \<Rightarrow> operation \<Rightarrow> bool" where
  "snap_prune_eligible before current o' =
     (\<not> ((case op_CompletedAt o' of None \<Rightarrow> True | Some completed \<Rightarrow> \<not> completed < before) \<or>
         \<not> operationSuperseded current o') \<and>
      (case map_of (sn_idempotency current) (idempotencyScope ''create'' KindOperation [] (op_IdempotencyKey o')) of
         None \<Rightarrow> False
       | Some record' \<Rightarrow> ID (GetMetadata (resource_of record')) = ID (op_meta o')))"

fun prune_changes :: "codec \<Rightarrow> time \<Rightarrow> snapshot \<Rightarrow> operation list \<Rightarrow> nat \<Rightarrow> change list \<times> nat" where
  "prune_changes cd before current [] pruned = ([], pruned)"
| "prune_changes cd before current (o' # ops) pruned =
     (if pruned = maxOperationPruneBatch then ([], pruned)
      else if \<not> snap_prune_eligible before current o' then prune_changes cd before current ops pruned
      else
        let scope = idempotencyScope ''create'' KindOperation [] (op_IdempotencyKey o');
            (changes, total) = prune_changes cd before current ops (Suc pruned)
        in (delete_change (table_of KindOperation) (ID (op_meta o')) (Revision (op_meta o')) #
            delete_change (table_of KindOperation) (idempotencyRowID cd scope) 1 # changes, total))"

definition prune_decision :: "codec \<Rightarrow> time \<Rightarrow> time \<Rightarrow> int \<Rightarrow> snapshot \<Rightarrow> nat verdict" where
  "prune_decision cd now before keep current =
     (let operations = snap_terminal_operations current
      in if int (length operations) \<le> keep then Return (Inr 0)
         else
           let (changes, pruned) = prune_changes cd before current (drop (nat keep) operations) 0
           in if pruned = 0 then Return (Inr 0) else Commit changes now pruned)"

definition durable_PruneOperations :: "'w store \<Rightarrow> time \<Rightarrow> int \<Rightarrow> 'w \<Rightarrow> 'w \<times> (err + nat)" where
  "durable_PruneOperations st before keep w =
     (if st_cancelled st w then (w, Inl ErrContext)
      else if before = zero_time \<or> keep < 0 then (w, Inl ErrConflict)
      else attempts st plain_constraint (\<lambda>w1. prune_decision (wc_codec (st_wire st)) (st_now st w1) before keep) maxWriteAttempts w)"

definition snap_expired_operations :: "snapshot \<Rightarrow> time \<Rightarrow> operation list" where
  "snap_expired_operations current leaseCutoff = sort_key updated_key
     (filter (\<lambda>o'. leaseProtectedAction (op_Action o') \<and> op_OperationStatus o' = OperationRunning \<and>
                  \<not> reconcileLeaseIsLive o' leaseCutoff) (snap_all as_operation current KindOperation))"

definition snap_queued_operations :: "snapshot \<Rightarrow> time \<Rightarrow> operation list" where
  "snap_queued_operations current leaseCutoff = sort_key updated_key
     (filter (\<lambda>o'. \<not> (leaseProtectedAction (op_Action o') \<and> op_OperationStatus o' = OperationRunning \<and>
                     \<not> reconcileLeaseIsLive o' leaseCutoff) \<and>
                  op_Action o' = ''reconcile'' \<and> op_OperationStatus o' = OperationQueued \<and> operationSuperseded current o')
       (snap_all as_operation current KindOperation))"

definition snap_recovery_candidates :: "snapshot \<Rightarrow> time \<Rightarrow> nat \<Rightarrow> operation list" where
  "snap_recovery_candidates current leaseCutoff limit =
     (let expired = snap_expired_operations current leaseCutoff;
          candidates =
            (if length expired < limit
             then expired @ take (limit - length expired) (snap_queued_operations current leaseCutoff) else expired)
      in take limit candidates)"

text \<open>The loop that encodes each recovered operation, with the revision its update expects.\<close>

fun recovery_changes :: "wire_codec \<Rightarrow> snapshot \<Rightarrow> (string \<times> operation \<times> operation) list \<Rightarrow> err + change list" where
  "recovery_changes wc current [] = Inr []"
| "recovery_changes wc current ((ident, stored, recovered) # rest) =
     (case encodeResource wc (Operation recovered) current of
        Inl e \<Rightarrow> Inl e
      | Inr row \<Rightarrow>
          (case recovery_changes wc current rest of
             Inl e \<Rightarrow> Inl e
           | Inr changes \<Rightarrow> Inr (update_change (table_of KindOperation) ident (Revision (op_meta stored)) row # changes)))"

definition recover_decision :: "wire_codec \<Rightarrow> time \<Rightarrow> time \<Rightarrow> nat \<Rightarrow> snapshot \<Rightarrow> nat verdict" where
  "recover_decision wc leaseCutoff completed limit current =
     (let candidates = snap_recovery_candidates current leaseCutoff limit
      in if candidates = [] then Return (Inr 0)
         else verdict_of (recovery_changes wc current
                (map (\<lambda>o'. (ID (op_meta o'), o', fail_operation (operationRecoveryError o') completed o')) candidates)) (\<lambda>changes.
           Commit changes completed (length candidates)))"

definition durable_RecoverExpiredOperations :: "'w store \<Rightarrow> time \<Rightarrow> time \<Rightarrow> int \<Rightarrow> 'w \<Rightarrow> 'w \<times> (err + nat)" where
  "durable_RecoverExpiredOperations st leaseCutoff recoveredAt limit w =
     (if st_cancelled st w then (w, Inl ErrContext)
      else if leaseCutoff = zero_time \<or> recoveredAt = zero_time \<or> limit < 1 then (w, Inl ErrConflict)
      else
        let limit' = (if limit > int maxExpiredOperationRecoverBatch then maxExpiredOperationRecoverBatch else nat limit)
        in attempts st plain_constraint (\<lambda>_. recover_decision (st_wire st) leaseCutoff recoveredAt limit') maxWriteAttempts w)"

section \<open>Update\<close>

definition update_refusal :: "codec \<Rightarrow> resource \<Rightarrow> err option" where
  "update_refusal cd r =
     (let requested = on_floating MarkPending (SetDefaults r) in first_err
        [conflict_if (reserved_key r),
         conflict_if (unclaimed_start requested),
         Validate cd requested])"

definition update_decision ::
  "wire_codec \<Rightarrow> time \<Rightarrow> string \<Rightarrow> string \<Rightarrow> string \<Rightarrow> int \<Rightarrow> resource \<Rightarrow> snapshot \<Rightarrow> (resource \<times> bool) verdict" where
  "update_decision wc now scope fp ident expectedRevision requested current =
     verdict_of (replay current scope fp) (\<lambda>replayed.
       case replayed of
         Some r \<Rightarrow> Return (Inr (r, True))
       | None \<Rightarrow>
           let kind = ResourceKind requested in
           (case snap_lookup current kind ident of
              None \<Rightarrow> Return (Inl ErrNotFound)
            | Some stored \<Rightarrow>
                if expectedRevision < 1 \<or> Revision (GetMetadata stored) \<noteq> expectedRevision then Return (Inl ErrPrecondition)
                else if foreign_lease requested stored then Return (Inl ErrConflict)
                else
                  let candidate = map_metadata (updated_metadata now ident (GetMetadata stored)) requested
                  in case first_err
                       [validateReferences current candidate,
                        validateNewReferenceStates current candidate (Some stored),
                        validateUnique current candidate ident,
                        validateReplacement current candidate] of
                       Some e \<Rightarrow> Return (Inl e)
                     | None \<Rightarrow>
                         verdict_of (encodeResource wc candidate current) (\<lambda>row.
                           verdict_of (appendIdempotency wc [update_change (table_of kind) ident expectedRevision row]
                                         scope fp candidate False now) (\<lambda>changes.
                             Commit changes now (candidate, False)))))"

definition durable_Update :: "'w store \<Rightarrow> resource \<Rightarrow> int \<Rightarrow> string \<Rightarrow> 'w \<Rightarrow> 'w \<times> (err + resource \<times> bool)" where
  "durable_Update st r expectedRevision key w =
     (if st_cancelled st w then (w, Inl ErrContext)
      else if \<not> kind_valid (ResourceKind r) \<or> ID (GetMetadata r) = [] then (w, Inl ErrConflict)
      else if isReservedID (ID (GetMetadata r)) then (w, Inl ErrConflict)
      else
        let wc = st_wire st; cd = wc_codec wc;
            fp = resource_fingerprint cd r (''expected='' @ dec_int expectedRevision);
            ident = ID (GetMetadata r);
            scope = idempotencyScope ''update'' (ResourceKind r) ident key
        in case update_refusal cd r of
             Some e \<Rightarrow> (w, Inl e)
           | None \<Rightarrow>
               attempts st write_constraint (\<lambda>_. update_decision wc (st_now st w) scope fp ident expectedRevision
                 (on_floating MarkPending (SetDefaults r))) maxWriteAttempts w)"

section \<open>Leases of operations\<close>

definition claim_decision ::
  "wire_codec \<Rightarrow> string \<Rightarrow> int \<Rightarrow> string \<Rightarrow> string \<Rightarrow> time \<Rightarrow> time \<Rightarrow> snapshot \<Rightarrow> operation verdict" where
  "claim_decision wc operationID expectedRevision action leaseOwner startedAt leaseCutoff current =
     (case snap_get_operation current operationID of
        None \<Rightarrow> Return (Inl ErrNotFound)
      | Some stored \<Rightarrow>
          if expectedRevision < 1 \<or> Revision (op_meta stored) \<noteq> expectedRevision then Return (Inl ErrPrecondition)
          else if op_Action stored \<noteq> action then Return (Inl ErrConflict)
          else if op_OperationStatus stored = OperationRunning \<and> reconcileLeaseIsLive stored leaseCutoff
          then Return (Inl ErrConflict)
          else (case snap_lookup current (op_TargetKind stored) (op_TargetID stored) of
                  None \<Rightarrow> Return (Inl ErrPrecondition)
                | Some target \<Rightarrow>
                    if \<not> operationTargetClaimable stored (GetMetadata target) True then Return (Inl ErrPrecondition)
                    else
                      let claimed = claim_operation_record leaseOwner startedAt stored
                      in verdict_of (encodeResource wc (Operation claimed) current) (\<lambda>row.
                           Commit [update_change (table_of KindOperation) operationID expectedRevision row] startedAt claimed)))"

definition durable_claimOperation ::
  "'w store \<Rightarrow> string \<Rightarrow> int \<Rightarrow> string \<Rightarrow> string \<Rightarrow> time \<Rightarrow> time \<Rightarrow> 'w \<Rightarrow> 'w \<times> (err + operation)" where
  "durable_claimOperation st operationID expectedRevision action leaseOwner startedAt leaseCutoff w =
     (if st_cancelled st w then (w, Inl ErrContext)
      else if \<not> validLeaseOwner leaseOwner then (w, Inl ErrConflict)
      else if isReservedID operationID then (w, Inl ErrNotFound)
      else attempts st plain_constraint
             (\<lambda>_. claim_decision (st_wire st) operationID expectedRevision action leaseOwner startedAt leaseCutoff)
             maxWriteAttempts w)"

definition durable_ClaimReconcile ::
  "'w store \<Rightarrow> string \<Rightarrow> int \<Rightarrow> string \<Rightarrow> time \<Rightarrow> time \<Rightarrow> 'w \<Rightarrow> 'w \<times> (err + operation)" where
  "durable_ClaimReconcile st operationID expectedRevision leaseOwner startedAt leaseCutoff w =
     durable_claimOperation st operationID expectedRevision ''reconcile'' leaseOwner startedAt leaseCutoff w"

definition durable_ClaimDelete ::
  "'w store \<Rightarrow> string \<Rightarrow> int \<Rightarrow> string \<Rightarrow> time \<Rightarrow> time \<Rightarrow> 'w \<Rightarrow> 'w \<times> (err + operation)" where
  "durable_ClaimDelete st operationID expectedRevision leaseOwner startedAt leaseCutoff w =
     durable_claimOperation st operationID expectedRevision ''delete'' leaseOwner startedAt leaseCutoff w"

definition renew_decision :: "wire_codec \<Rightarrow> string \<Rightarrow> int \<Rightarrow> string \<Rightarrow> time \<Rightarrow> snapshot \<Rightarrow> operation verdict" where
  "renew_decision wc operationID expectedRevision leaseOwner renewedAt current =
     (case snap_get_operation current operationID of
        None \<Rightarrow> Return (Inl ErrNotFound)
      | Some stored \<Rightarrow>
          if expectedRevision < 1 \<or> Revision (op_meta stored) \<noteq> expectedRevision then Return (Inl ErrPrecondition)
          else if \<not> leaseProtectedAction (op_Action stored) \<or> op_OperationStatus stored \<noteq> OperationRunning \<or>
                  leaseOwner = [] \<or> op_LeaseOwner stored \<noteq> leaseOwner
          then Return (Inl ErrConflict)
          else if (case snap_lookup current (op_TargetKind stored) (op_TargetID stored) of
                     None \<Rightarrow> True
                   | Some target \<Rightarrow> \<not> operationTargetClaimable stored (GetMetadata target) False)
          then Return (Inl ErrPrecondition)
          else
            let renewed = stored\<lparr>op_meta := (op_meta stored)\<lparr>Revision := Revision (op_meta stored) + 1, UpdatedAt := renewedAt\<rparr>\<rparr>
            in verdict_of (encodeResource wc (Operation renewed) current) (\<lambda>row.
                 Commit [update_change (table_of KindOperation) operationID expectedRevision row] renewedAt renewed))"

definition durable_RenewOperationLease ::
  "'w store \<Rightarrow> string \<Rightarrow> int \<Rightarrow> string \<Rightarrow> time \<Rightarrow> 'w \<Rightarrow> 'w \<times> (err + operation)" where
  "durable_RenewOperationLease st operationID expectedRevision leaseOwner renewedAt w =
     (if st_cancelled st w then (w, Inl ErrContext)
      else if isReservedID operationID then (w, Inl ErrNotFound)
      else attempts st plain_constraint (\<lambda>_. renew_decision (st_wire st) operationID expectedRevision leaseOwner renewedAt)
             maxWriteAttempts w)"

text \<open>The loop over the operations: whether a live lease was seen, and the claims to end.\<close>

definition fence_live :: "kind \<Rightarrow> string \<Rightarrow> time \<Rightarrow> snapshot \<Rightarrow> bool" where
  "fence_live kind ident leaseCutoff current =
     list_ex (\<lambda>o'. fence_targets kind ident o' \<and> reconcileLeaseIsLive o' leaseCutoff) (snap_all as_operation current KindOperation)"

definition fence_expired :: "kind \<Rightarrow> string \<Rightarrow> time \<Rightarrow> snapshot \<Rightarrow> (string \<times> operation) list" where
  "fence_expired kind ident leaseCutoff current =
     filter (\<lambda>(_, o'). fence_targets kind ident o' \<and> \<not> reconcileLeaseIsLive o' leaseCutoff)
       (List.map_filter (\<lambda>(operationID, r). map_option (Pair operationID) (as_operation r)) (snap_rows current KindOperation))"

definition fence_decision :: "wire_codec \<Rightarrow> kind \<Rightarrow> string \<Rightarrow> time \<Rightarrow> time \<Rightarrow> snapshot \<Rightarrow> (bool \<times> bool) verdict" where
  "fence_decision wc kind ident leaseCutoff recoveredAt current =
     verdict_of (recovery_changes wc current
         (map (\<lambda>(operationID, o'). (operationID, o', fail_operation ''reconcile lease expired while target was deleting'' recoveredAt o'))
           (fence_expired kind ident leaseCutoff current))) (\<lambda>changes.
       if changes = [] then Return (Inr (fence_live kind ident leaseCutoff current, False))
       else Commit changes recoveredAt (fence_live kind ident leaseCutoff current, True))"

definition durable_FenceReconciles ::
  "'w store \<Rightarrow> kind \<Rightarrow> string \<Rightarrow> time \<Rightarrow> time \<Rightarrow> 'w \<Rightarrow> 'w \<times> (err + bool \<times> bool)" where
  "durable_FenceReconciles st kind ident leaseCutoff recoveredAt w =
     (if st_cancelled st w then (w, Inl ErrContext)
      else attempts st plain_constraint (\<lambda>_. fence_decision (st_wire st) kind ident leaseCutoff recoveredAt) maxWriteAttempts w)"

section \<open>Deletion\<close>

definition begin_delete_decision ::
  "wire_codec \<Rightarrow> time \<Rightarrow> string \<Rightarrow> string \<Rightarrow> kind \<Rightarrow> string \<Rightarrow> int \<Rightarrow> snapshot \<Rightarrow> (resource \<times> bool) verdict" where
  "begin_delete_decision wc now scope fp kind ident expectedRevision current =
     verdict_of (replay current scope fp) (\<lambda>replayed.
       case replayed of
         Some r \<Rightarrow> Return (Inr (r, True))
       | None \<Rightarrow>
           (case snap_lookup current kind ident of
              None \<Rightarrow> Return (Inl ErrNotFound)
            | Some stored \<Rightarrow>
                if expectedRevision < 1 \<or> Revision (GetMetadata stored) \<noteq> expectedRevision then Return (Inl ErrPrecondition)
                else if firstReference current kind ident then Return (Inl ErrConflict)
                else
                  let tombstone = on_floating MarkPending (map_metadata (tombstone_metadata now) stored)
                  in verdict_of (encodeResource wc tombstone current) (\<lambda>row.
                       verdict_of (appendIdempotency wc [update_change (table_of kind) ident expectedRevision row]
                                     scope fp tombstone True now) (\<lambda>changes.
                         Commit changes now (tombstone, False)))))"

definition durable_BeginDelete ::
  "'w store \<Rightarrow> kind \<Rightarrow> string \<Rightarrow> int \<Rightarrow> string \<Rightarrow> 'w \<Rightarrow> 'w \<times> (err + resource \<times> bool)" where
  "durable_BeginDelete st kind ident expectedRevision key w =
     (if st_cancelled st w then (w, Inl ErrContext)
      else if \<not> kind_valid kind \<or> isReservedID ident then (w, Inl ErrNotFound)
      else
        let wc = st_wire st;
            fp = sha256 (wc_codec wc) (ident @ '':'' @ dec_int expectedRevision);
            scope = idempotencyScope ''delete'' kind ident key
        in attempts st plain_constraint (\<lambda>_. begin_delete_decision wc (st_now st w) scope fp kind ident expectedRevision)
             maxWriteAttempts w)"

definition snap_purge_protected :: "snapshot \<Rightarrow> kind \<Rightarrow> string \<Rightarrow> bool" where
  "snap_purge_protected current kind ident =
     list_ex (\<lambda>o'. op_TargetKind o' = kind \<and> op_TargetID o' = ident \<and> op_OperationStatus o' = OperationRunning)
       (snap_all as_operation current KindOperation)"

definition purge_decision :: "time \<Rightarrow> kind \<Rightarrow> string \<Rightarrow> int \<Rightarrow> snapshot \<Rightarrow> unit verdict" where
  "purge_decision now kind ident deletionRevision current =
     (case snap_lookup current kind ident of
        None \<Rightarrow> Return (Inr ())
      | Some stored \<Rightarrow>
          let meta = GetMetadata stored in
          if Revision meta \<noteq> deletionRevision then Return (Inl ErrPrecondition)
          else if State meta \<noteq> ResourceDeleting \<and> State meta \<noteq> ResourceError then Return (Inl ErrConflict)
          else if firstReference current kind ident then Return (Inl ErrConflict)
          else if snap_purge_protected current kind ident then Return (Inl ErrConflict)
          else verdict_of (tableForKind kind) (\<lambda>table.
                 Commit [delete_change table ident deletionRevision] now ()))"

definition durable_Purge :: "'w store \<Rightarrow> kind \<Rightarrow> string \<Rightarrow> int \<Rightarrow> 'w \<Rightarrow> 'w \<times> (err + unit)" where
  "durable_Purge st kind ident deletionRevision w =
     (if st_cancelled st w then (w, Inl ErrContext)
      else attempts st purge_constraint (\<lambda>w1. purge_decision (st_now st w1) kind ident deletionRevision) maxWriteAttempts w)"

definition durable_Delete :: "'w store \<Rightarrow> kind \<Rightarrow> string \<Rightarrow> int \<Rightarrow> string \<Rightarrow> 'w \<Rightarrow> 'w \<times> (err + bool)" where
  "durable_Delete st kind ident expectedRevision key w =
     (case durable_BeginDelete st kind ident expectedRevision key w of
        (w1, Inl e) \<Rightarrow> (w1, Inl e)
      | (w1, Inr (tombstone, replayed)) \<Rightarrow>
          (case durable_Purge st kind ident (Revision (GetMetadata tombstone)) w1 of
             (w2, Inl e) \<Rightarrow> (w2, Inl e)
           | (w2, Inr _) \<Rightarrow> (w2, Inr replayed)))"

section \<open>Reconciliation results\<close>

text \<open>Whether \<open>MarkReconciled\<close> has something to write.\<close>

definition reconcile_changed :: "int \<Rightarrow> string option \<Rightarrow> metadata \<Rightarrow> bool" where
  "reconcile_changed revision renderErr meta =
     (case renderErr of
        Some _ \<Rightarrow> revision = Revision meta
      | None \<Rightarrow> revision > AppliedRevision meta \<or> revision = Revision meta)"

definition reconciled_decision :: "wire_codec \<Rightarrow> time \<Rightarrow> kind \<Rightarrow> string \<Rightarrow> int \<Rightarrow> string option \<Rightarrow> snapshot \<Rightarrow> resource verdict" where
  "reconciled_decision wc now kind ident revision renderErr current =
     (case snap_lookup current kind ident of
        None \<Rightarrow> Return (Inl ErrNotFound)
      | Some stored \<Rightarrow>
          let meta = GetMetadata stored in
          if revision > Revision meta then Return (Inl ErrPrecondition)
          else
            let r = reconciled_resource now revision (map_option truncateError renderErr) stored
            in if \<not> reconcile_changed revision renderErr meta then Return (Inr r)
               else verdict_of (encodeResource wc r current) (\<lambda>row.
                      verdict_of (tableForKind kind) (\<lambda>table.
                        Commit [update_change table ident (Revision (GetMetadata r)) row] now r)))"

definition durable_MarkReconciled ::
  "'w store \<Rightarrow> kind \<Rightarrow> string \<Rightarrow> int \<Rightarrow> string option \<Rightarrow> 'w \<Rightarrow> 'w \<times> (err + resource)" where
  "durable_MarkReconciled st kind ident revision renderErr w =
     (if st_cancelled st w then (w, Inl ErrContext)
      else attempts st plain_constraint (\<lambda>w1. reconciled_decision (st_wire st) (st_now st w1) kind ident revision renderErr)
             maxWriteAttempts w)"

end
