(* ===== verification/Ovsdb_Agreement.thy ===== *)
theory Ovsdb_Agreement
  imports Ovsdb_Snapshot Store_Facts
begin

text \<open>
  The checks of the durable store agree with those of the in-memory store. \<open>view\<close> forgets the
  database identifiers of a snapshot and leaves the state of an in-memory store; on the view
  each check of \<open>validation.go\<close> is the corresponding check of \<open>memory.go\<close>, with two differences
  that are stated as such: the two external-network comparisons of a router agree when a row is
  filed under its own id, and the durable store compares empty MAC addresses too.
\<close>

named_theorems view_simps \<open>reading of a snapshot through its view\<close>

definition view :: "snapshot \<Rightarrow> memory" where
  "view s = \<lparr>resources = snap_entries s, idempotency = sn_idempotency s\<rparr>"

lemma resources_view [simp]: "resources (view s) = snap_entries s"
  and idempotency_view [simp]: "idempotency (view s) = sn_idempotency s"
  by (simp_all add: view_def)

lemma snap_lookup_view [view_simps]: "snap_lookup s k i = lookup (view s) k i"
proof -
  have "map_of (map (\<lambda>(key, entry). (key, sr_resource entry)) xs) x = map_option sr_resource (map_of xs x)"
    for xs :: "((kind \<times> string) \<times> storedResource) list" and x
    by (induction xs) auto
  then show ?thesis by (simp add: snap_lookup_def lookup_def snap_entries_def)
qed

lemma snap_rows_view [view_simps]: "snap_rows s k = rows (view s) k"
  by (simp add: snap_rows_def rows_def)

lemma snap_all_view [view_simps]: "snap_all as s k = all_of as (view s) k"
  unfolding snap_all_def all_of_def view_simps by (rule refl)

lemma snap_get_view [view_simps]: "snap_get as s k i = get_as as (view s) k i"
  unfolding snap_get_def get_as_def view_simps by (rule refl)

lemma snap_require_view [view_simps]: "snap_require as s k i = requireLocked as (view s) k i"
  unfolding snap_require_def requireLocked_def view_simps by (rule refl)

lemma snapshotHasChassis_view [view_simps]: "snapshotHasChassis s c = hasChassisLocked (view s) c"
  unfolding snapshotHasChassis_def hasChassisLocked_def view_simps by (rule refl)

lemma providerHasAllocatableAddress_view [view_simps]:
  "providerHasAllocatableAddress s p a i = providerHasAllocatableAddressLocked (view s) p a i"
  unfolding providerHasAllocatableAddress_def providerHasAllocatableAddressLocked_def view_simps by (rule refl)

lemma routerReachesPortAddress_view [view_simps]:
  "routerReachesPortAddress s r p a = routerReachesPortAddressLocked (view s) r p a"
  unfolding routerReachesPortAddress_def routerReachesPortAddressLocked_def view_simps by (rule refl)

lemma snap_interface_route_view [view_simps]: "snap_interface_route s r route = interface_route_match (view s) r route"
  unfolding fun_eq_iff snap_interface_route_def interface_route_match_def view_simps by simp

lemma snap_route_matches_view [view_simps]: "snap_route_matches s r route = route_matches (view s) r route"
  unfolding snap_route_matches_def route_matches_def snap_external_route_def external_route_match_def view_simps
  by (rule refl)

lemma validateRouterStaticRoutes_view [view_simps]:
  "validateRouterStaticRoutes s r = validateRouterStaticRoutesLocked (view s) r"
  unfolding validateRouterStaticRoutes_def validateRouterStaticRoutesLocked_def view_simps by (rule refl)

lemma snap_port_refs_view [view_simps]: "snap_port_refs s p = validate_port_refs (view s) p"
  unfolding snap_port_refs_def validate_port_refs_def view_simps by (rule refl)

lemma snap_allocation_refs_view [view_simps]: "snap_allocation_refs s a = validate_allocation_refs (view s) a"
  unfolding snap_allocation_refs_def validate_allocation_refs_def view_simps by (rule refl)

lemma snap_interface_refs_view [view_simps]: "snap_interface_refs s r = validate_interface_refs (view s) r"
  unfolding snap_interface_refs_def validate_interface_refs_def view_simps by (rule refl)

lemma snap_floating_refs_view [view_simps]: "snap_floating_refs s f = validate_floating_refs (view s) f"
  unfolding snap_floating_refs_def validate_floating_refs_def view_simps by (rule refl)

text \<open>Every row is filed under its own kind and id.\<close>

definition filed :: "memory \<Rightarrow> bool" where
  "filed s \<longleftrightarrow> (\<forall>k i r. lookup s k i = Some r \<longrightarrow> ResourceKind r = k \<and> ID (GetMetadata r) = i)"

lemma filed_network: "filed s \<Longrightarrow> get_as as_network s KindNetwork i = Some n \<Longrightarrow> ID (net_meta n) = i"
  by (fastforce simp: filed_def get_as_Some)

lemma and_then_cong:
  "v = w \<Longrightarrow> (\<And>x. w = Inr x \<Longrightarrow> f x = g x) \<Longrightarrow> and_then v f = and_then w g"
  by (cases w) (simp_all add: and_then_def)

lemma snap_router_refs_view:
  assumes "filed (view s)"
  shows "snap_router_refs s r = validate_router_refs (view s) r"
proof -
  have "requireLocked as_network (view s) KindNetwork (rtr_ExternalNetworkID r) = Inr n \<Longrightarrow>
      ID (net_meta n) = rtr_ExternalNetworkID r" for n
    using filed_network [OF assms] by (simp add: check_simps)
  then show ?thesis
    unfolding snap_router_refs_def validate_router_refs_def view_simps
    by (simp cong: and_then_cong)
qed

lemma validateReferences_view: "filed (view s) \<Longrightarrow> validateReferences s r = validateReferencesLocked (view s) r"
  by (cases r) (simp_all add: view_simps snap_router_refs_view)

lemma validateNewReferenceStates_view [view_simps]:
  "validateNewReferenceStates s c p = validateNewReferenceStatesLocked (view s) c p"
  by (simp add: validateNewReferenceStates_def validateNewReferenceStatesLocked_def)

lemma externalAddressClaims_view [view_simps]: "externalAddressClaims s r = externalAddressClaimsLocked (view s) r"
  by (cases r) (simp_all add: externalAddressClaims_def externalAddressClaimsLocked_def view_simps)

lemma firstReference_view [view_simps]: "firstReference s k i = firstReferenceLocked (view s) k i"
  unfolding firstReference_def firstReferenceLocked_def snap_segment_needed_def segment_needed_def
    snap_interface_needed_def interface_needed_def snap_subnet_needed_def subnet_needed_def view_simps resources_view
  by (rule refl)

text \<open>The durable store reports a conflict wherever the in-memory store does, and more only
  between ports without a MAC address.\<close>

lemma snap_conflictField_weaker: "snap_conflictField a b = [] \<Longrightarrow> conflictField a b = []"
  by (cases a; cases b) (auto simp: same_type_def snap_port_conflict_def port_conflict_def split: if_splits)

lemma snap_conflictField_eq:
  "(\<And>p. a = Port p \<Longrightarrow> port_MACAddress p \<noteq> []) \<Longrightarrow> snap_conflictField a b = conflictField a b"
  by (cases a; cases b) (auto simp: same_type_def snap_port_conflict_def port_conflict_def)

lemma validateUnique_view:
  "(\<And>p. r = Port p \<Longrightarrow> port_MACAddress p \<noteq> []) \<Longrightarrow> validateUnique s r i = validateUniqueLocked (view s) r i"
  by (simp add: validateUnique_def validateUniqueLocked_def view_simps snap_conflictField_eq)

section \<open>Uniqueness of a whole snapshot\<close>

lemma repeats_distinct: "repeats seen keys \<longleftrightarrow> \<not> (distinct keys \<and> set seen \<inter> set keys = {})"
  by (induction seen keys rule: repeats.induct) auto

lemma distinct_concat_map:
  "distinct xs \<Longrightarrow> distinct (concat (map f xs)) \<longleftrightarrow>
     (\<forall>x \<in> set xs. distinct (f x)) \<and> (\<forall>x \<in> set xs. \<forall>y \<in> set xs. x \<noteq> y \<longrightarrow> set (f x) \<inter> set (f y) = {})"
proof (induction xs)
  case Nil
  then show ?case by simp
next
  case (Cons x xs)
  have "set (f x) \<inter> set (concat (map f xs)) = {} \<longleftrightarrow> (\<forall>y \<in> set xs. set (f x) \<inter> set (f y) = {})"
    by auto
  moreover have "x \<noteq> y" if "y \<in> set xs" for y using Cons.prems that by auto
  ultimately show ?case using Cons by (simp add: Int_commute) blast
qed

definition same_range :: "subnet \<Rightarrow> subnet \<Rightarrow> bool" where
  "same_range a b \<longleftrightarrow> sub_NetworkID a = sub_NetworkID b \<and> IPv4PrefixesOverlap (sub_CIDR a) (sub_CIDR b)"

lemma same_range_sym: "same_range a b \<longleftrightarrow> same_range b a"
  using overlap_sym by (auto simp: same_range_def)

lemma mem_subnets: "b \<in> set (List.map_filter (\<lambda>(_, r). as_subnet r) xs) \<longleftrightarrow> (\<exists>j. (j, Subnet b) \<in> set xs)"
  by (auto simp: mem_map_filter) force

lemma subnets_overlap_rows:
  "distinct (map fst xs) \<Longrightarrow> subnets_overlap (List.map_filter (\<lambda>(_, r). as_subnet r) xs) \<longleftrightarrow>
     (\<exists>i a j b. (i, Subnet a) \<in> set xs \<and> (j, Subnet b) \<in> set xs \<and> i \<noteq> j \<and> same_range a b)"
proof (induction xs)
  case Nil
  then show ?case by (simp add: List.map_filter_def)
next
  case (Cons x xs)
  obtain i r where x: "x = (i, r)" by (cases x)
  have i: "i \<noteq> j" if "(j, b) \<in> set xs" for j b
    using Cons.prems that x by (force)
  show ?case
  proof (cases "as_subnet r")
    case None
    then have r: "r \<noteq> Subnet a" for a by auto
    with Cons x None show ?thesis by (simp add: List.map_filter_def eq_commute [of "Subnet _" r])
  next
    case (Some a)
    then have r: "r = Subnet a" by (cases r) simp_all
    have "subnets_overlap (List.map_filter (\<lambda>(_, r). as_subnet r) (x # xs)) \<longleftrightarrow>
        (\<exists>j b. (j, Subnet b) \<in> set xs \<and> same_range a b) \<or> subnets_overlap (List.map_filter (\<lambda>(_, r). as_subnet r) xs)"
      using x r by (simp add: map_filter_simps list_ex_iff Bex_def mem_subnets same_range_def [symmetric]) blast
    also have "\<dots> \<longleftrightarrow> (\<exists>k c j b. (k, Subnet c) \<in> set (x # xs) \<and> (j, Subnet b) \<in> set (x # xs) \<and> k \<noteq> j \<and> same_range c b)"
      using Cons i x r same_range_sym by auto blast+
    finally show ?thesis .
  qed
qed

lemma claims_distinct: "distinct (externalAddressClaimsLocked s r)"
  by (cases r) (auto simp: externalAddressClaimsLocked_def Let_def split: option.splits sum.splits)

lemma mem_tagged: "(k, i, r) \<in> set (concat (map (\<lambda>k. map (\<lambda>(i, r). (k, i, r)) (f k)) ks)) \<longleftrightarrow> k \<in> set ks \<and> (i, r) \<in> set (f k)"
  by auto

lemma tagged_pairs:
  "(\<forall>x \<in> set (concat (map (\<lambda>k. map (\<lambda>(i, r). (k, i, r)) (f k)) ks)).
     \<forall>y \<in> set (concat (map (\<lambda>k. map (\<lambda>(i, r). (k, i, r)) (f k)) ks)). x \<noteq> y \<longrightarrow>
       set ((\<lambda>(k, i, r). g r) x) \<inter> set ((\<lambda>(k, i, r). g r) y) = {}) \<longleftrightarrow>
   (\<forall>k \<in> set ks. \<forall>l \<in> set ks. \<forall>i a j b. (i, a) \<in> set (f k) \<longrightarrow> (j, b) \<in> set (f l) \<longrightarrow> (k, i, a) \<noteq> (l, j, b) \<longrightarrow>
     set (g a) \<inter> set (g b) = {})"
  unfolding Ball_def split_paired_All mem_tagged prod.case by blast

lemma tagged_concat:
  "concat (map (\<lambda>k. concat (map (\<lambda>(_, r). g r) (f k))) ks) =
     concat (map (\<lambda>(k, i, r). g r) (concat (map (\<lambda>k. map (\<lambda>(i, r). (k, i, r)) (f k)) ks)))"
  by (induction ks) (simp_all add: comp_def case_prod_beta)

lemma validateSnapshotUnique_None:
  assumes "keys_ok (view s)"
  shows "validateSnapshotUnique s = None \<longleftrightarrow>
    (\<forall>k \<in> set Kinds. (\<forall>i a. lookup (view s) k i = Some a \<longrightarrow> distinct (uniqueKeys a)) \<and>
       (\<forall>i a j b. lookup (view s) k i = Some a \<longrightarrow> lookup (view s) k j = Some b \<longrightarrow> i \<noteq> j \<longrightarrow>
          set (uniqueKeys a) \<inter> set (uniqueKeys b) = {})) \<and>
    (\<forall>k \<in> {KindSubnet, KindRouter, KindFloatingIP}. \<forall>l \<in> {KindSubnet, KindRouter, KindFloatingIP}. \<forall>i a j b.
       lookup (view s) k i = Some a \<longrightarrow> lookup (view s) l j = Some b \<longrightarrow> (k, i) \<noteq> (l, j) \<longrightarrow>
       set (externalAddressClaimsLocked (view s) a) \<inter> set (externalAddressClaimsLocked (view s) b) = {}) \<and>
    (\<forall>i a j b. lookup (view s) KindSubnet i = Some (Subnet a) \<longrightarrow> lookup (view s) KindSubnet j = Some (Subnet b) \<longrightarrow>
       i \<noteq> j \<longrightarrow> \<not> same_range a b)"
    (is "_ \<longleftrightarrow> ?keys \<and> ?claims \<and> ?ranges")
proof -
  note rws = mem_rows [OF assms]
  have dist: "distinct (rows (view s) k)" for k
    using distinct_rows [OF assms, of k] by (simp add: distinct_map)
  have "\<not> repeats [] (concat (map (\<lambda>(_, r). uniqueKeys r) (rows (view s) k))) \<longleftrightarrow>
      (\<forall>i a. lookup (view s) k i = Some a \<longrightarrow> distinct (uniqueKeys a)) \<and>
      (\<forall>i a j b. lookup (view s) k i = Some a \<longrightarrow> lookup (view s) k j = Some b \<longrightarrow> i \<noteq> j \<longrightarrow>
          set (uniqueKeys a) \<inter> set (uniqueKeys b) = {})" for k
    unfolding repeats_distinct distinct_concat_map [OF dist] by (simp add: Ball_def rws) fastforce
  then have 1: "\<not> list_ex (\<lambda>k. repeats [] (concat (map (\<lambda>(_, r). uniqueKeys r) (rows (view s) k)))) Kinds \<longleftrightarrow> ?keys"
    by (simp add: list_ex_iff)
  have functional: "(lookup (view s) k i = Some a \<longrightarrow> lookup (view s) l j = Some b \<longrightarrow> (k, i, a) \<noteq> (l, j, b) \<longrightarrow> P) \<longleftrightarrow>
      (lookup (view s) k i = Some a \<longrightarrow> lookup (view s) l j = Some b \<longrightarrow> (k, i) \<noteq> (l, j) \<longrightarrow> P)" for k i a l j b P
    by auto
  let ?ks = "[KindSubnet, KindRouter, KindFloatingIP]"
  let ?tagged = "concat (map (\<lambda>k. map (\<lambda>(i, r). (k, i, r)) (rows (view s) k)) ?ks)"
  have tags: "distinct ?tagged"
    using dist by (auto simp: distinct_map inj_on_def)
  have each: "\<forall>x \<in> set ?tagged. distinct ((\<lambda>(k, i, r). externalAddressClaimsLocked (view s) r) x)"
    by (simp add: case_prod_beta claims_distinct)
  have "\<not> repeats [] (concat (map (\<lambda>k. concat (map (\<lambda>(_, r). externalAddressClaimsLocked (view s) r) (rows (view s) k))) ?ks)) \<longleftrightarrow>
      distinct (concat (map (\<lambda>(k, i, r). externalAddressClaimsLocked (view s) r) ?tagged))"
    by (simp only: tagged_concat repeats_distinct list.set Int_empty_left simp_thms)
  also have "\<dots> \<longleftrightarrow> (\<forall>x \<in> set ?tagged. \<forall>y \<in> set ?tagged. x \<noteq> y \<longrightarrow>
      set ((\<lambda>(k, i, r). externalAddressClaimsLocked (view s) r) x) \<inter> set ((\<lambda>(k, i, r). externalAddressClaimsLocked (view s) r) y) = {})"
    unfolding distinct_concat_map [OF tags] by (rule iffI, erule conjunct2, rule conjI [OF each])
  also have "\<dots> \<longleftrightarrow> ?claims"
    unfolding tagged_pairs rws list.set by (simp only: functional)
  finally have 2: "\<not> repeats [] (concat (map (\<lambda>k. concat (map (\<lambda>(_, r). externalAddressClaimsLocked (view s) r) (rows (view s) k))) ?ks)) \<longleftrightarrow> ?claims" .
  have 3: "\<not> subnets_overlap (List.map_filter (\<lambda>(_, r). as_subnet r) (sort_key fst (rows (view s) KindSubnet))) \<longleftrightarrow> ?ranges"
    using distinct_rows [OF assms, of KindSubnet] by (subst subnets_overlap_rows) (auto simp: rws distinct_map)
  show ?thesis
    unfolding validateSnapshotUnique_def view_simps using 1 2 3 by (simp add: check_simps del: list_ex_iff)
qed

lemma fixed_key_mem: "x \<in> set (port_FixedIPs p) \<Longrightarrow> fip_Address x \<noteq> [] \<Longrightarrow> fixed_ip_key x \<in> set (port_keys p)"
  by (simp add: port_keys_def)

lemma keys_apart_no_conflict:
  assumes "set (uniqueKeys a) \<inter> set (uniqueKeys b) = {}"
    and "\<And>x y. a = Subnet x \<Longrightarrow> b = Subnet y \<Longrightarrow> \<not> same_range x y"
  shows "conflictField a b = []"
proof (cases "ResourceKind a = ResourceKind b")
  case True
  show ?thesis
  proof (cases a)
    case (Port p)
    with True obtain q where b: "b = Port q" by (cases b) simp_all
    have disj: "x \<notin> set (port_keys q)" if "x \<in> set (port_keys p)" for x
      using assms(1) Port b that by auto
    have "port_conflict p q = []"
      unfolding port_conflict_Nil
    proof (intro conjI ballI)
      show "\<not> (port_MACAddress p \<noteq> [] \<and> equal_fold (port_MACAddress p) (port_MACAddress q))"
        using disj [of "''mac_address='' @ to_lower (port_MACAddress p)"] by (auto simp: port_keys_def equal_fold_def)
      show "\<not> (port_LSPName p \<noteq> [] \<and> port_LSPName p = port_LSPName q)"
        using disj [of "''lsp_name='' @ port_LSPName p"] by (auto simp: port_keys_def)
      show "\<not> (port_NodeID p \<noteq> [] \<and> port_VMID p > 0 \<and> port_NIC p \<noteq> [] \<and>
        port_NodeID p = port_NodeID q \<and> port_VMID p = port_VMID q \<and> port_NIC p = port_NIC q)"
        using disj [of "''node_id,vmid,nic='' @ port_NodeID p @ nul @ dec_int (port_VMID p) @ nul @ port_NIC p"]
        by (auto simp: port_keys_def)
      fix x y assume "x \<in> set (port_FixedIPs p)" "y \<in> set (port_FixedIPs q)"
      then show "fip_Address x = [] \<or> \<not> (fip_SubnetID x = fip_SubnetID y \<and> fip_Address x = fip_Address y)"
        using disj [of "fixed_ip_key x"] fixed_key_mem [of x p] fixed_key_mem [of y q] by (auto simp: fixed_ip_key_def)
    qed
    then show ?thesis using Port b by (simp add: same_type_def)
  qed (use assms True in \<open>cases b; auto simp: same_type_def same_range_def\<close>)+
qed (cases a; cases b; simp add: same_type_def)

text \<open>The joined keys are read back uniquely when the parts before a separator are free of it.\<close>

definition plain :: "string \<Rightarrow> bool" where
  "plain s \<longleftrightarrow> CHR 0x00 \<notin> set s"

lemma plain_split: "plain a \<Longrightarrow> plain b \<Longrightarrow> a @ nul @ x = b @ nul @ y \<longleftrightarrow> a = b \<and> x = y"
  by (induction a arbitrary: b; case_tac b) (auto simp: plain_def nul_def)

lemma plain_dec_int: "plain (dec_int n)"
  using dec_digits [of "CHR 0x00" "nat \<bar>n\<bar>"]
  by (auto simp: plain_def dec_int_def is_digit_iff)

fun keyable :: "resource \<Rightarrow> bool" where
  "keyable (Subnet x) \<longleftrightarrow> plain (sub_NetworkID x) \<and> parse_prefix (sub_CIDR x) \<noteq> None"
| "keyable (Port x) \<longleftrightarrow> port_MACAddress x \<noteq> [] \<and> port_LSPName x \<noteq> [] \<and> plain (port_NodeID x) \<and>
     list_all (\<lambda>fixed. plain (fip_SubnetID fixed)) (port_FixedIPs x) \<and>
     distinct (filter (\<lambda>fixed. fip_Address fixed \<noteq> []) (port_FixedIPs x))"
| "keyable (IPAllocation x) \<longleftrightarrow> plain (ipa_SubnetID x)"
| "keyable (RouterInterface x) \<longleftrightarrow> plain (rif_RouterID x)"
| "keyable (FloatingIP x) \<longleftrightarrow> plain (flt_ProviderNetworkID x)"
| "keyable (ProviderSegment x) \<longleftrightarrow> plain (ps_ProviderNetworkID x) \<and> plain (ps_PhysicalNetwork x) \<and>
     ps_NetworkType x \<in> {ProviderFlat, ProviderVLAN}"
| "keyable (Operation x) \<longleftrightarrow> kind_valid (op_TargetKind x) \<and> plain (op_TargetID x)"
| "keyable _ \<longleftrightarrow> True"

lemma overlap_refl: "parse_prefix c = Some p \<Longrightarrow> IPv4PrefixesOverlap c c"
  using contains_own_first [of "masked p"] by (simp add: IPv4PrefixesOverlap_def)

lemma kind_text_inject: "kind_valid k \<Longrightarrow> kind_valid l \<Longrightarrow> kind_string k = kind_string l \<longleftrightarrow> k = l"
  by (cases k; cases l) (simp_all add: kind_valid_def kindToCollection_def)

lemma plain_kind: "kind_valid k \<Longrightarrow> plain (kind_string k)"
  by (cases k) (simp_all add: kind_valid_def kindToCollection_def plain_def)

lemma fixed_ip_key_inject:
  "plain (fip_SubnetID x) \<Longrightarrow> plain (fip_SubnetID y) \<Longrightarrow> fixed_ip_key x = fixed_ip_key y \<longleftrightarrow> x = y"
  by (simp add: fixed_ip_key_def plain_split) (cases x; cases y; auto)

lemma port_keys_apart:
  assumes "keyable (Port p)" "keyable (Port q)" "port_conflict p q = []"
  shows "set (port_keys p) \<inter> set (port_keys q) = {}"
proof -
  have sub: "plain (fip_SubnetID x)" if "x \<in> set (port_FixedIPs p) \<or> x \<in> set (port_FixedIPs q)" for x
    using assms(1,2) that by (auto simp: list_all_iff)
  have "fixed_ip_key x \<noteq> fixed_ip_key y"
    if "x \<in> set (port_FixedIPs p)" "y \<in> set (port_FixedIPs q)" "fip_Address x \<noteq> []" for x y
    using assms(3) that sub by (auto simp: port_conflict_Nil fixed_ip_key_inject)
  moreover have "equal_fold (port_MACAddress p) (port_MACAddress q) = False" "port_LSPName p \<noteq> port_LSPName q"
    using assms by (simp_all add: port_conflict_Nil)
  ultimately show ?thesis
    using assms
    by (auto simp: port_keys_def equal_fold_def plain_split plain_dec_int dec_int_inject port_conflict_Nil fixed_ip_key_def)
qed

lemma keyable_keys_apart:
  assumes "keyable a" "keyable b" "ResourceKind a = ResourceKind b" "conflictField a b = []"
  shows "set (uniqueKeys a) \<inter> set (uniqueKeys b) = {}"
proof (cases a)
  case (Port p)
  with assms show ?thesis using port_keys_apart by (cases b) (auto simp: same_type_def)
next
  case (Subnet x)
  with assms show ?thesis by (cases b) (auto simp: same_type_def plain_split overlap_refl split: if_splits)
next
  case (ProviderSegment x)
  with assms show ?thesis by (cases b) (auto simp: same_type_def plain_split plain_def dec_int_inject split: if_splits) 
next
  case (Operation x)
  with assms show ?thesis
    by (cases b) (auto simp: same_type_def plain_split plain_kind kind_text_inject dec_int_inject split: if_splits)
qed (use assms in \<open>cases b; auto simp: same_type_def plain_split split: if_splits\<close>)+

lemma keyable_distinct: "keyable r \<Longrightarrow> distinct (uniqueKeys r)"
proof (cases r)
  case (Port p)
  assume "keyable r"
  with Port show ?thesis
    by (auto simp: port_keys_def distinct_map inj_on_def list_all_iff fixed_ip_key_inject) (auto simp: fixed_ip_key_def)
qed auto


lemma filed_typed: "filed s \<Longrightarrow> typed s"
  by (auto simp: filed_def typed_def)

text \<open>A snapshot that passes the durable store's test is one in which no two rows conflict for the
  in-memory store.\<close>

lemma snapshot_unique_pairwise:
  assumes ok: "keys_ok (view s)" and filed: "filed (view s)" and unique: "validateSnapshotUnique s = None"
  shows "pairwise_unique (view s)"
  unfolding pairwise_unique_def
proof (intro allI impI)
  fix k i a l j b
  assume a: "lookup (view s) k i = Some a" and b: "lookup (view s) l j = Some b" and ne: "(k, i) \<noteq> (l, j)"
  have ka: "ResourceKind a = k" and kb: "ResourceKind b = l" using filed a b by (auto simp: filed_def)
  note u = validateSnapshotUnique_None [OF ok, THEN iffD1, OF unique]
  note keys = u [THEN conjunct1, THEN bspec, THEN conjunct2, rule_format]
  note claims = u [THEN conjunct2, THEN conjunct1, THEN bspec, THEN bspec, rule_format]
  note ranges = u [THEN conjunct2, THEN conjunct2, rule_format]
  have "conflictField a b = []" if "k = l"
  proof (rule keys_apart_no_conflict)
    have "k \<in> set Kinds" unfolding Kinds_set using ka ResourceKind_valid by auto
    then show "set (uniqueKeys a) \<inter> set (uniqueKeys b) = {}" using a b ne that by (intro keys) auto
    show "\<not> same_range x y" if "a = Subnet x" "b = Subnet y" for x y
      using a b ne that ka kb \<open>k = l\<close> by (intro ranges) auto
  qed
  moreover have "set (externalAddressClaimsLocked (view s) a) \<inter> set (externalAddressClaimsLocked (view s) b) = {}"
  proof (rule ccontr)
    assume not: "\<not> ?thesis"
    then have "k \<in> {KindSubnet, KindRouter, KindFloatingIP}" "l \<in> {KindSubnet, KindRouter, KindFloatingIP}"
      using claims_kind [of _ "view s" a] claims_kind [of _ "view s" b] unfolding ka kb by (meson disjoint_iff)+
    from claims [OF this a b] ne not show False by blast
  qed
  ultimately show "apart (view s) a b" using ka kb by (simp add: apart_def)
qed

lemma pairwise_snapshot_unique:
  assumes ok: "keys_ok (view s)" and filed: "filed (view s)"
    and keyable: "\<And>k i r. lookup (view s) k i = Some r \<Longrightarrow> keyable r" and unique: "pairwise_unique (view s)"
  shows "validateSnapshotUnique s = None"
proof -
  have ap: "apart (view s) a b" if "lookup (view s) k i = Some a" "lookup (view s) l j = Some b" "(k, i) \<noteq> (l, j)" for k i a l j b
    using unique that unfolding pairwise_unique_def by blast
  have kind: "ResourceKind a = k" if "lookup (view s) k i = Some a" for k i a
    using filed that by (simp add: filed_def)
  have keys: "set (uniqueKeys a) \<inter> set (uniqueKeys b) = {}"
    if "lookup (view s) k i = Some a" "lookup (view s) k j = Some b" "i \<noteq> j" for k i a j b
    using keyable_keys_apart [of a b] ap [of k i a k j b] keyable kind that by (simp add: apart_def)
  have claims: "set (externalAddressClaimsLocked (view s) a) \<inter> set (externalAddressClaimsLocked (view s) b) = {}"
    if "lookup (view s) k i = Some a" "lookup (view s) l j = Some b" "(k, i) \<noteq> (l, j)" for k i a l j b
    using ap [of k i a l j b] that by (simp add: apart_def)
  have ranges: "\<not> same_range a b" if "lookup (view s) KindSubnet i = Some (Subnet a)"
    "lookup (view s) KindSubnet j = Some (Subnet b)" "i \<noteq> j" for i a j b
    using ap [of KindSubnet i "Subnet a" KindSubnet j "Subnet b"] that
    by (auto simp: apart_def same_type_def same_range_def split: if_splits)
  show ?thesis
    unfolding validateSnapshotUnique_None [OF ok]
    using keyable_distinct keyable keys claims ranges by blast
qed

section \<open>Replacing one row\<close>

definition snap_replace :: "kind \<Rightarrow> string \<Rightarrow> storedResource \<Rightarrow> snapshot \<Rightarrow> snapshot" where
  "snap_replace k i e s = s\<lparr>sn_resources := AList.update (k, i) e (sn_resources s)\<rparr>"

lemma entries_update:
  "map (\<lambda>(key, entry). (key, sr_resource entry)) (AList.update k e xs) =
     AList.update k (sr_resource e) (map (\<lambda>(key, entry). (key, sr_resource entry)) xs)"
  by (induction xs) auto

lemma view_replace [view_simps]: "view (snap_replace k i e s) = store_put k i (sr_resource e) (view s)"
  by (simp add: view_def snap_replace_def store_put_def snap_entries_def entries_update)

lemma filed_put: "filed s \<Longrightarrow> ResourceKind r = k \<Longrightarrow> ID (GetMetadata r) = i \<Longrightarrow> filed (store_put k i r s)"
  by (auto simp: filed_def)

text \<open>A replacement the durable store accepts is one whose whole graph the in-memory store accepts.\<close>

lemma validateReplacement_graph:
  assumes ok: "keys_ok (view s)" and filed: "filed (view s)" and accepted: "validateReplacement s c = None"
  shows "lookup (view s) (ResourceKind c) (ID (GetMetadata c)) \<noteq> None"
    and "validate_graph (store_put (ResourceKind c) (ID (GetMetadata c)) c (view s)) = None"
proof -
  let ?k = "ResourceKind c" and ?i = "ID (GetMetadata c)"
  obtain e where e: "map_of (sn_resources s) (?k, ?i) = Some e"
    using accepted by (fastforce simp: validateReplacement_def Let_def split: option.splits)
  then show "lookup (view s) ?k ?i \<noteq> None"
    by (simp add: view_simps [symmetric] snap_lookup_def)
  define s' where "s' = snap_replace ?k ?i (e\<lparr>sr_resource := c\<rparr>) s"
  have v: "view s' = store_put ?k ?i c (view s)" by (simp add: s'_def view_simps)
  have ok': "keys_ok (view s')" and filed': "filed (view s')"
    using ok filed by (simp_all add: v filed_put)
  have "list_ex (\<lambda>(_, r). validateReferences s' r \<noteq> None) (snap_entries s') = False" "validateSnapshotUnique s' = None"
    using accepted e by (auto simp: validateReplacement_def Let_def check_simps s'_def snap_replace_def)
  then show "validate_graph (store_put ?k ?i c (view s)) = None"
    using snapshot_unique_pairwise [OF ok' filed'] validateAllUnique_None [OF ok' filed_typed [OF filed']]
    by (simp add: validate_graph_def check_simps validateAllReferencesLocked_def validateReferences_view [OF filed'] v [symmetric])
qed

end
