(* ===== verification/Ovsdb_Roundtrip.thy ===== *)
theory Ovsdb_Roundtrip
  imports Ovsdb_Codec Ovsdb_Agreement
begin

text \<open>
  What is written to the database is what is read back. A resource that passes validation,
  encoded against a snapshot, sent through the database (which reorders sets and maps, and
  turns numbers into floating-point ones) and decoded again is the resource in its stored form:
  the lists that are stored as sets come back sorted, everything else is unchanged.
\<close>

section \<open>Reading cells\<close>

definition cell :: "row \<Rightarrow> string \<Rightarrow> ovs_value \<Rightarrow> bool" where
  "cell row column v \<longleftrightarrow> (\<exists>w. map_of row column = Some w \<and> wire v w)"

lemma sent_cell: "sent row row' \<Longrightarrow> map_of row column = Some v \<Longrightarrow> cell row' column v"
  by (auto simp: sent_def cell_def)

lemma rowString_cell: "cell row c (VString s) \<Longrightarrow> rowString row c = Some s"
  by (auto simp: cell_def rowString_def elim: wire_stringE)

lemma rowBool_cell: "cell row c (VBool b) \<Longrightarrow> rowBool row c = Some b"
  by (auto simp: cell_def rowBool_def elim: wire_boolE)

lemma rowInt64_cell: "cell row c (VInt n) \<Longrightarrow> rowInt64 row c = Some n"
  by (auto simp: cell_def rowInt64_def int64_of_float_def minInt64_def maxInt64_def elim!: wire_intE)

lemma rowReference_cell: "cell row c (VUUID u) \<Longrightarrow> u \<noteq> [] \<Longrightarrow> rowReference row c False = Some u"
  by (auto simp: cell_def rowReference_def valueUUID_def elim!: wire_uuidE)

lemma rowReference_none: "cell row c (VSet []) \<Longrightarrow> rowReference row c True = Some []"
  by (auto simp: cell_def rowReference_def valueSet_def elim!: wire_setE)

lemma rowReference_some: "cell row c (VSet [VUUID u]) \<Longrightarrow> u \<noteq> [] \<Longrightarrow> rowReference row c True = Some u"
  by (auto simp: cell_def rowReference_def valueSet_def valueUUID_def elim!: wire_setE)

lemma rowSet_cell:
  assumes "cell row c (VSet vs)"
  obtains ws where "rowSet row c = Some ws" "mset ws = mset vs"
  using assms by (auto simp: cell_def rowSet_def valueSet_def elim!: wire_setE)

lemma rowMap_cell:
  assumes "cell row c (VMap vs)"
  obtains ws where "rowMap row c = Some ws" "mset ws = mset vs"
  using assms by (auto simp: cell_def rowMap_def elim!: wire_mapE)

text \<open>Reading the elements in another order gives the same results in that order.\<close>

lemma read_all_iff: "read_all f xs = Some ys \<longleftrightarrow> map f xs = map Some ys"
proof (induction xs arbitrary: ys)
  case (Cons x xs)
  show ?case
  proof (cases "f x")
    case (Some v)
    have "read_all f (x # xs) = Some ys \<longleftrightarrow> (\<exists>zs. ys = v # zs \<and> read_all f xs = Some zs)"
      using Some by (cases "read_all f xs") auto
    also have "\<dots> \<longleftrightarrow> map f (x # xs) = map Some ys"
      using Some Cons by (cases ys) auto
    finally show ?thesis .
  qed (cases ys; simp)
qed auto

lemma all_Some: "(\<And>x. x \<in> set xs \<Longrightarrow> f x \<noteq> None) \<Longrightarrow> map f xs = map Some (map (the \<circ> f) xs)"
  by (induction xs) auto

lemma read_all_mset:
  assumes "mset ws = mset vs" "map f vs = map Some us"
  obtains ts where "read_all f ws = Some ts" "mset ts = mset us"
proof -
  have us: "us = map (the \<circ> f) vs"
    using assms(2) by (metis comp_the_Some list.map_comp list.map_id)
  have "f v \<noteq> None" if "v \<in> set vs" for v
    using assms(2) that by (metis image_iff list.set_map option.discI)
  then have "map f ws = map Some (map (the \<circ> f) ws)"
    using mset_eq_setD [OF assms(1)] by (intro all_Some) simp
  moreover have "mset (map (the \<circ> f) ws) = mset us"
    unfolding us using assms(1) by simp
  ultimately show thesis using that by (simp add: read_all_iff del: map_map)
qed

section \<open>The encoded columns\<close>

lemma collect_map_of: "collect cols = Inr row \<Longrightarrow> map_of row c = Some v \<longleftrightarrow> map_of cols c = Some (Inr v)"
  by (induction cols arbitrary: row rule: collect.induct) (auto split: sum.splits)

lemma collect_ok: "collect cols = Inr row \<Longrightarrow> map_of cols c = Some x \<Longrightarrow> \<exists>v. x = Inr v"
  by (induction cols arbitrary: row rule: collect.induct) (auto split: sum.splits if_splits)

definition meta_columns :: "string list" where
  "meta_columns = [''id'', ''revision'', ''applied_revision'', ''state'', ''last_error'', ''created_at'', ''updated_at'']"

text \<open>A row as it may be read after \<open>r\<close> was written.\<close>

definition carries :: "wire_codec \<Rightarrow> snapshot \<Rightarrow> resource \<Rightarrow> row \<Rightarrow> bool" where
  "carries wc refs r row' \<longleftrightarrow> (\<exists>row. encodeResource wc r refs = Inr row \<and> sent row row')"

lemma encode_parts:
  assumes "encodeResource wc r refs = Inr row"
  obtains meta cols where "encodeMetadata wc (GetMetadata r) = Inr meta" "collect (encode_columns wc refs r) = Inr cols"
    "row = meta @ cols"
  using assms
  by (cases "encodeMetadata wc (GetMetadata r)"; cases "collect (encode_columns wc refs r)") (auto simp: encodeResource_def)

lemma meta_keys: "encodeMetadata wc m = Inr meta \<Longrightarrow> fst ` set meta = set meta_columns"
  by (auto simp: encodeMetadata_def meta_columns_def split: if_splits)

lemma carries_column:
  assumes "carries wc refs r row'" "map_of (encode_columns wc refs r) c = Some x" "c \<notin> set meta_columns"
  obtains v where "x = Inr v" "cell row' c v"
proof -
  obtain row where row: "encodeResource wc r refs = Inr row" and s: "sent row row'"
    using assms(1) by (auto simp: carries_def)
  obtain meta cols where parts: "encodeMetadata wc (GetMetadata r) = Inr meta"
    "collect (encode_columns wc refs r) = Inr cols" "row = meta @ cols"
    using row by (rule encode_parts)
  obtain v where v: "x = Inr v" using collect_ok [OF parts(2) assms(2)] by blast
  have "map_of meta c = None"
    using meta_keys [OF parts(1)] assms(3) by (simp add: map_of_eq_None_iff)
  then have "map_of row c = Some v"
    using collect_map_of [OF parts(2)] assms(2) v parts(3) by (simp add: map_add_def)
  from that [OF v sent_cell [OF s this]] show thesis .
qed

lemma carries_meta:
  assumes "carries wc refs r row'" "encodeMetadata wc (GetMetadata r) = Inr meta" "map_of meta c = Some v"
  shows "cell row' c v"
proof -
  obtain row where row: "encodeResource wc r refs = Inr row" and s: "sent row row'"
    using assms(1) by (auto simp: carries_def)
  from row obtain cols where "row = meta @ cols" using assms(2) by (auto elim!: encode_parts)
  then have "map_of row c = Some v" using assms(3) by (simp add: map_add_def)
  with s show ?thesis by (rule sent_cell)
qed

section \<open>Text that JSON keeps\<close>

definition text_char :: "char \<Rightarrow> bool" where
  "text_char c \<longleftrightarrow> is_alnum c \<or> c \<in> {CHR ''.'', CHR ''-'', CHR ''/''}"

definition json_text :: "string \<Rightarrow> bool" where
  "json_text s \<longleftrightarrow> list_all text_char s"

lemma text_char_digit [simp]: "is_digit c \<Longrightarrow> text_char c"
  by (simp add: text_char_def is_alnum_def)

lemma json_text_simps [simp]:
  "json_text []" "json_text (c # s) \<longleftrightarrow> text_char c \<and> json_text s" "json_text (s @ t) \<longleftrightarrow> json_text s \<and> json_text t"
  by (simp_all add: json_text_def)

lemma json_text_dec [simp]: "json_text (dec n)"
  using dec_digits by (auto simp: json_text_def list_all_iff)

lemma json_text_join: "(\<And>w. w \<in> set ws \<Longrightarrow> json_text w) \<Longrightarrow> text_char d \<Longrightarrow> json_text (join_with d ws)"
  by (induction d ws rule: join_with.induct) auto

lemma json_text_addr: "parse_addr s = Some a \<Longrightarrow> json_text s"
  by (auto simp: parse_addr_iff addr_string_def text_char_def intro!: json_text_join)

lemma json_text_prefix:
  assumes "parse_prefix s = Some p"
  shows "json_text s"
proof -
  obtain n a where n: "index_of (CHR ''/'') (rev s) = Some n"
    and a: "parse_addr (take (length s - Suc n) s) = Some a" and b: "parse_bits (drop (length s - n) s) \<noteq> None"
    using assms by (auto simp: parse_prefix_def split: option.splits)
  have i: "n < length s" "rev s ! n = CHR ''/''"
    using index_of_Some [OF n] by auto
  then have "s ! (length s - Suc n) = CHR ''/''" by (simp add: rev_nth)
  then have "s = take (length s - Suc n) s @ CHR ''/'' # drop (length s - n) s"
    using i id_take_nth_drop [of "length s - Suc n" s] by (simp add: Suc_diff_Suc)
  moreover have "json_text (drop (length s - n) s)"
    using b by (auto simp: parse_bits_def json_text_def list_all_iff split: if_splits)
  ultimately show ?thesis
    using json_text_addr [OF a] by (metis json_text_simps(2,3) text_char_def insert_iff)
qed

lemma json_text_domain:
  assumes "validateDNSDomain f s = None"
  shows "json_text s"
proof -
  define d where "d = trim_suffix s ''.''"
  have labels: "\<And>w. w \<in> set (split_on (CHR ''.'') d) \<Longrightarrow> json_text w"
    using assms by (auto simp: validateDNSDomain_def d_def check_simps Let_def list_all_iff dnsLabelPattern_def json_text_def text_char_def)
  have "json_text (join_with (CHR ''.'') (split_on (CHR ''.'') d))"
    by (rule json_text_join [OF labels]) (simp_all add: text_char_def)
  then have "json_text d" by (simp add: join_split)
  moreover have "s = d \<or> s = d @ ''.''"
    by (cases s rule: rev_cases) (auto simp: d_def trim_suffix_def has_suffix_def has_prefix_def)
  ultimately show ?thesis by (auto simp: text_char_def)
qed

lemma search_domains_text: "check_search_domains i seen ds = None \<Longrightarrow> list_all json_text ds"
  by (induction i seen ds rule: check_search_domains.induct) (auto simp: Let_def json_text_domain split: option.splits if_splits)


section \<open>Hypotheses on the formats, and consistent snapshots\<close>

text \<open>Instants after the zero time and before the year 10000, which RFC 3339 can write.\<close>

definition representable :: "time \<Rightarrow> bool" where
  "representable t \<longleftrightarrow> 0 < t \<and> t < 315537897600 * 1000000000"

definition faithful_formats :: "wire_codec \<Rightarrow> bool" where
  "faithful_formats wc \<longleftrightarrow>
     (\<forall>t. representable t \<longrightarrow> wc_formatTime wc t \<noteq> [] \<and> wc_parseTime wc (wc_formatTime wc t) = Some t) \<and>
     (\<forall>xs. list_all json_text xs \<longrightarrow> wc_marshalStrings wc xs \<noteq> [] \<and> wc_unmarshalStrings wc (wc_marshalStrings wc xs) = Some xs) \<and>
     (\<forall>rs. list_all (\<lambda>r. json_text (rt_Destination r) \<and> json_text (rt_NextHop r)) rs \<longrightarrow>
        wc_marshalRoutes wc rs \<noteq> [] \<and> wc_unmarshalRoutes wc (wc_marshalRoutes wc rs) = Some rs) \<and>
     (\<forall>r. json_text (rng_Start r) \<longrightarrow> json_text (rng_End r) \<longrightarrow> wc_unmarshalRange wc (wc_marshalRange wc r) = Some r)"

text \<open>Every entry of the snapshot is found again through its row identifier.\<close>

definition consistent :: "snapshot \<Rightarrow> bool" where
  "consistent s \<longleftrightarrow>
     (\<forall>k i e. map_of (sn_resources s) (k, i) = Some e \<longrightarrow> sr_uuid e \<noteq> [] \<and> resolve s k (sr_uuid e) = Some i)"

fun stored_form :: "resource \<Rightarrow> resource" where
  "stored_form (Subnet x) = Subnet (x\<lparr>sub_DNSNameservers := sort (sub_DNSNameservers x),
     sub_AllocationPools := sort_key (\<lambda>r. (rng_Start r, rng_End r)) (sub_AllocationPools x)\<rparr>)"
| "stored_form (Port x) = Port (x\<lparr>port_FixedIPs := sort_key fip_SubnetID (port_FixedIPs x),
     port_SecurityGroupIDs := sort (port_SecurityGroupIDs x)\<rparr>)"
| "stored_form (Node x) = Node (x\<lparr>node_Roles := map role_of (sort (map role_string (node_Roles x)))\<rparr>)"
| "stored_form r = r"

lemma encode_ref_cell:
  assumes "consistent refs" "encode_ref refs k i opt = Inr v" "cell row c v"
  shows "decode_ref row refs k c opt = Some i"
proof (cases "i = [] \<and> opt")
  case True
  with assms have "rowReference row c opt = Some []"
    using rowReference_none by (auto simp: encode_ref_def)
  with True show ?thesis by (simp add: decode_ref_def)
next
  case False
  then obtain e where e: "map_of (sn_resources refs) (k, i) = Some e"
    and v: "v = (if opt then VSet [VUUID (sr_uuid e)] else VUUID (sr_uuid e))"
    using assms(2) by (auto simp: encode_ref_def split: option.splits)
  have u: "sr_uuid e \<noteq> []" "resolve refs k (sr_uuid e) = Some i"
    using assms(1) e by (auto simp: consistent_def)
  then have "rowReference row c opt = Some (sr_uuid e)"
    using assms(3) v rowReference_cell rowReference_some by (cases opt) auto
  with u show ?thesis by (simp add: decode_ref_def)
qed

section \<open>Reading an encoded row\<close>

text \<open>The value a column was given, when it is a plain cell; in this form the readings are rewrite rules.\<close>

fun cell_text :: "(err + ovs_value) option \<Rightarrow> string option" where
  "cell_text (Some (Inr (VString s))) = Some s" | "cell_text _ = None"
fun cell_int :: "(err + ovs_value) option \<Rightarrow> int option" where
  "cell_int (Some (Inr (VInt n))) = Some n" | "cell_int _ = None"
fun cell_bool :: "(err + ovs_value) option \<Rightarrow> bool option" where
  "cell_bool (Some (Inr (VBool b))) = Some b" | "cell_bool _ = None"

lemma cell_textD: "cell_text x = Some s \<Longrightarrow> x = Some (Inr (VString s))"
  by (cases x rule: cell_text.cases) simp_all
lemma cell_intD: "cell_int x = Some n \<Longrightarrow> x = Some (Inr (VInt n))"
  by (cases x rule: cell_int.cases) simp_all
lemma cell_boolD: "cell_bool x = Some b \<Longrightarrow> x = Some (Inr (VBool b))"
  by (cases x rule: cell_bool.cases) simp_all

lemma read_text:
  assumes "carries wc refs r row" "cell_text (map_of (encode_columns wc refs r) c) \<noteq> None" "c \<notin> set meta_columns"
  shows "rowString row c = cell_text (map_of (encode_columns wc refs r) c)"
proof -
  obtain x where x: "cell_text (map_of (encode_columns wc refs r) c) = Some x" using assms(2) by blast
  from carries_column [OF assms(1) cell_textD [OF x] assms(3)] have "cell row c (VString x)" by auto
  with x show ?thesis by (simp add: rowString_cell)
qed

lemma read_int:
  assumes "carries wc refs r row" "cell_int (map_of (encode_columns wc refs r) c) \<noteq> None" "c \<notin> set meta_columns"
  shows "rowInt64 row c = cell_int (map_of (encode_columns wc refs r) c)"
proof -
  obtain x where x: "cell_int (map_of (encode_columns wc refs r) c) = Some x" using assms(2) by blast
  from carries_column [OF assms(1) cell_intD [OF x] assms(3)] have "cell row c (VInt x)" by auto
  with x show ?thesis by (simp add: rowInt64_cell)
qed

lemma read_bool:
  assumes "carries wc refs r row" "cell_bool (map_of (encode_columns wc refs r) c) \<noteq> None" "c \<notin> set meta_columns"
  shows "rowBool row c = cell_bool (map_of (encode_columns wc refs r) c)"
proof -
  obtain x where x: "cell_bool (map_of (encode_columns wc refs r) c) = Some x" using assms(2) by blast
  from carries_column [OF assms(1) cell_boolD [OF x] assms(3)] have "cell row c (VBool x)" by auto
  with x show ?thesis by (simp add: rowBool_cell)
qed

lemma read_ref:
  assumes "carries wc refs r row" "consistent refs"
    and "map_of (encode_columns wc refs r) c = Some (encode_ref refs k i opt)" "c \<notin> set meta_columns"
  shows "decode_ref row refs k c opt = Some i"
proof -
  obtain v where "encode_ref refs k i opt = Inr v" "cell row c v"
    using carries_column [OF assms(1,3,4)] by blast
  with assms(2) show ?thesis by (rule encode_ref_cell)
qed

lemma read_strings:
  assumes "cell row c (encodeStringSet xs)" "distinct xs"
  shows "rowStringSet row c = Some (sort xs)"
proof -
  obtain ws where ws: "rowSet row c = Some ws" "mset ws = mset (map VString xs)"
    using assms(1) unfolding encodeStringSet_def by (rule rowSet_cell)
  obtain ts where ts: "read_all valueString ws = Some ts" "mset ts = mset xs"
    using read_all_mset [OF ws(2), of valueString xs] by (auto simp: comp_def)
  have "distinct ts" using assms(2) ts(2) by (metis mset_eq_imp_distinct_iff)
  moreover have "sort ts = sort xs" using ts(2) by (metis mset_sort properties_for_sort sorted_sort)
  ultimately show ?thesis using ws ts by (simp add: rowStringSet_def)
qed

lemma read_string_map:
  assumes "cell row c (encodeStringMap xs)" "distinct (map fst xs)"
  obtains ys where "rowStringMap row c = Some ys" "map_of ys = map_of xs" "mset ys = mset xs"
proof -
  let ?f = "\<lambda>(rawKey, rawValue). Option.bind (valueString rawKey) (\<lambda>key. Option.bind (valueString rawValue) (\<lambda>value. Some (key, value)))"
  obtain ws where ws: "rowMap row c = Some ws" "mset ws = mset (map (\<lambda>(k, v). (VString k, VString v)) xs)"
    using assms(1) unfolding encodeStringMap_def by (rule rowMap_cell)
  obtain ts where ts: "read_all ?f ws = Some ts" "mset ts = mset xs"
    using read_all_mset [OF ws(2), of ?f xs] by (auto simp: comp_def case_prod_beta)
  have "distinct (map fst ts)" using assms(2) ts(2) by (metis mset_eq_imp_distinct_iff mset_map)
  then have "map_of ts = map_of xs"
    using assms(2) ts(2) by (metis map_of_inject_set mset_eq_setD)
  with that ts ws show thesis by (simp add: rowStringMap_def)
qed

lemma read_external:
  assumes "carries wc refs r row" "map_of (encode_columns wc refs r) ''external_ids'' = Some (snd (external_col x))"
    and "\<And>ys. x = Inr ys \<Longrightarrow> distinct (map fst ys)"
  obtains ys zs where "x = Inr ys" "rowStringMap row ''external_ids'' = Some zs" "map_of zs = map_of ys" "mset zs = mset ys"
proof -
  obtain v where v: "snd (external_col x) = Inr v" "cell row ''external_ids'' v"
    using carries_column [OF assms(1,2)] by (auto simp: meta_columns_def)
  then obtain ys where ys: "x = Inr ys" "v = encodeStringMap ys"
    by (cases x) (auto simp: external_col_def)
  with v read_string_map [of row "''external_ids''" ys] assms(3) that show thesis by metis
qed

definition storable_metadata :: "metadata \<Rightarrow> bool" where
  "storable_metadata m \<longleftrightarrow> 0 \<le> AppliedRevision m \<and> AppliedRevision m \<le> Revision m \<and>
     State m \<in> {ResourcePending, ResourceReady, ResourceError, ResourceDeleting} \<and>
     representable (CreatedAt m) \<and> representable (UpdatedAt m)"

lemma state_of_string:
  "s \<in> {ResourcePending, ResourceReady, ResourceError, ResourceDeleting} \<Longrightarrow> state_of (state_string s) = s"
  by (auto simp: state_of_def)

lemma decode_metadata:
  assumes "faithful_formats wc" "carries wc refs r row" "storable_metadata (GetMetadata r)"
  shows "decodeMetadata wc row = Some (GetMetadata r)"
proof -
  let ?m = "GetMetadata r"
  obtain meta where meta: "encodeMetadata wc ?m = Inr meta"
    using assms(2) by (auto simp: carries_def elim: encode_parts)
  note cell = carries_meta [OF assms(2) meta]
  from meta have given: "meta = [(''id'', VString (ID ?m)), (''revision'', VInt (Revision ?m)),
      (''applied_revision'', VInt (AppliedRevision ?m)), (''state'', VString (state_string (State ?m))),
      (''last_error'', VString (LastError ?m)), (''created_at'', VString (wc_formatTime wc (CreatedAt ?m))),
      (''updated_at'', VString (wc_formatTime wc (UpdatedAt ?m)))]"
    by (simp add: encodeMetadata_def split: if_splits)
  have fmt: "wc_parseTime wc (wc_formatTime wc t) = Some t" if "representable t" for t
    using assms(1) that by (simp add: faithful_formats_def)
  have "rowString row ''id'' = Some (ID ?m)" "rowInt64 row ''revision'' = Some (Revision ?m)"
    "rowInt64 row ''applied_revision'' = Some (AppliedRevision ?m)"
    "rowString row ''state'' = Some (state_string (State ?m))" "rowString row ''last_error'' = Some (LastError ?m)"
    "rowString row ''created_at'' = Some (wc_formatTime wc (CreatedAt ?m))"
    "rowString row ''updated_at'' = Some (wc_formatTime wc (UpdatedAt ?m))"
    by (rule rowString_cell rowInt64_cell, rule cell, simp add: given)+
  moreover have "ID ?m \<noteq> []" "\<not> Revision ?m < 1"
    using meta by (auto simp: encodeMetadata_def split: if_splits)
  ultimately show ?thesis
    using assms(3) fmt state_of_string [of "State ?m"]
    by (simp add: decodeMetadata_def rowTime_def storable_metadata_def)
qed

text \<open>One element of \<open>decodeFixedIPs\<close>, and of \<open>decodeReferenceSet\<close>.\<close>

definition decode_fixed :: "snapshot \<Rightarrow> ovs_value \<times> ovs_value \<Rightarrow> fixed_ip option" where
  "decode_fixed refs = (\<lambda>(key, rawAddress). do {
     uuid \<leftarrow> valueUUID key;
     subnetID \<leftarrow> resolve refs KindSubnet uuid;
     address \<leftarrow> valueString rawAddress;
     Some \<lparr>fip_SubnetID = subnetID, fip_Address = address\<rparr> })"

lemma decode_fixed_entry:
  "consistent refs \<Longrightarrow> map_of (sn_resources refs) (KindSubnet, fip_SubnetID x) = Some e \<Longrightarrow>
    decode_fixed refs (VUUID (sr_uuid e), VString (fip_Address x)) = Some x"
  by (auto simp: consistent_def decode_fixed_def valueUUID_def)

lemma encode_fixed_ok:
  "consistent refs \<Longrightarrow> encode_fixed refs seen xs = Inr ys \<Longrightarrow>
    map (decode_fixed refs) ys = map Some xs \<and> distinct (map fip_SubnetID xs) \<and> set (map fip_SubnetID xs) \<inter> set seen = {}"
proof (induction xs arbitrary: seen ys)
  case (Cons x xs)
  from Cons.prems obtain e rest where e: "map_of (sn_resources refs) (KindSubnet, fip_SubnetID x) = Some e"
    and new: "fip_SubnetID x \<notin> set seen"
    and rest: "encode_fixed refs (fip_SubnetID x # seen) xs = Inr rest" "ys = (VUUID (sr_uuid e), VString (fip_Address x)) # rest"
    by (auto split: if_splits option.splits sum.splits)
  from Cons.IH [OF Cons.prems(1) rest(1)] rest(2) new decode_fixed_entry [OF Cons.prems(1) e] show ?case by auto
qed simp

lemma decode_fixed_ips:
  assumes "consistent refs" "encodeFixedIPs refs xs = Inr v" "cell row ''fixed_ips'' v"
  shows "decodeFixedIPs row refs = Some (sort_key fip_SubnetID xs)"
proof -
  obtain ys where ys: "encode_fixed refs [] xs = Inr ys" "v = VMap ys"
    using assms(2) by (cases "encode_fixed refs [] xs") (auto simp: encodeFixedIPs_def)
  note ok = encode_fixed_ok [OF assms(1) ys(1)]
  obtain ws where ws: "rowMap row ''fixed_ips'' = Some ws" "mset ws = mset ys"
    using assms(3) unfolding ys(2) by (rule rowMap_cell)
  obtain ts where ts: "read_all (decode_fixed refs) ws = Some ts" "mset ts = mset xs"
    using read_all_mset [OF ws(2)] ok by blast
  have "sort_key fip_SubnetID ts = sort_key fip_SubnetID xs"
    using ok ts(2) by (intro sort_key_inj_key_eq) (auto simp: distinct_map dest: mset_eq_setD)
  with ws ts show ?thesis by (simp add: decodeFixedIPs_def decode_fixed_def)
qed

lemma encode_references_ok:
  "consistent refs \<Longrightarrow> encode_references refs k seen xs = Inr ys \<Longrightarrow>
    map (\<lambda>value. do { uuid \<leftarrow> valueUUID value; resolve refs k uuid }) ys = map Some xs"
proof (induction xs arbitrary: seen ys)
  case (Cons x xs)
  from Cons.prems obtain e rest where e: "map_of (sn_resources refs) (k, x) = Some e"
    and rest: "encode_references refs k (x # seen) xs = Inr rest" "ys = VUUID (sr_uuid e) # rest"
    by (auto split: if_splits option.splits sum.splits)
  from Cons.IH [OF Cons.prems(1) rest(1)] rest(2) e Cons.prems(1) show ?case
    by (auto simp: consistent_def valueUUID_def)
qed simp

lemma decode_reference_set:
  assumes "consistent refs" "encodeReferenceSet refs k xs = Inr v" "cell row c v"
  shows "decodeReferenceSet row c k refs = Some (sort xs)"
proof -
  let ?f = "\<lambda>value. Option.bind (valueUUID value) (resolve refs k)"
  obtain ys where ys: "encode_references refs k [] xs = Inr ys" "v = VSet ys"
    using assms(2) by (cases "encode_references refs k [] xs") (auto simp: encodeReferenceSet_def)
  obtain ws where ws: "rowSet row c = Some ws" "mset ws = mset ys"
    using assms(3) unfolding ys(2) by (rule rowSet_cell)
  obtain ts where ts: "read_all ?f ws = Some ts" "mset ts = mset xs"
    using read_all_mset [OF ws(2)] encode_references_ok [OF assms(1) ys(1)] by blast
  have "sort ts = sort xs" using ts(2) by (metis mset_sort properties_for_sort sorted_sort)
  with ws ts show ?thesis by (simp add: decodeReferenceSet_def)
qed

lemma decode_ranges:
  assumes "faithful_formats wc" "encodeIPRanges wc xs = Inr v" "cell row c v"
    and chars: "\<And>x. x \<in> set xs \<Longrightarrow> json_text (rng_Start x) \<and> json_text (rng_End x)"
  shows "decodeIPRanges wc row c = Some (sort_key (\<lambda>r. (rng_Start r, rng_End r)) xs)"
proof -
  have fmt: "wc_unmarshalRange wc (wc_marshalRange wc x) = Some x" if "x \<in> set xs" for x
    using assms(1) chars that by (simp add: faithful_formats_def)
  have v: "v = encodeStringSet (map (wc_marshalRange wc) xs)" "distinct (map (wc_marshalRange wc) xs)"
    using assms(2) by (auto simp: encodeIPRanges_def Let_def repeats_distinct split: if_splits)
  have strings: "rowStringSet row c = Some (sort (map (wc_marshalRange wc) xs))"
    using read_strings assms(3) v by simp
  obtain ts where ts: "read_all (wc_unmarshalRange wc) (sort (map (wc_marshalRange wc) xs)) = Some ts" "mset ts = mset xs"
    using read_all_mset [of "sort (map (wc_marshalRange wc) xs)" "map (wc_marshalRange wc) xs" "wc_unmarshalRange wc" xs] fmt by auto
  have "inj (\<lambda>r :: ip_range. (rng_Start r, rng_End r))" by (rule injI, case_tac x, case_tac y) simp
  then have "sort_key (\<lambda>r. (rng_Start r, rng_End r)) ts = sort_key (\<lambda>r. (rng_Start r, rng_End r)) xs"
    using ts(2) by (intro sort_key_inj_key_eq) (auto intro: inj_on_subset)
  with strings ts show ?thesis by (simp add: decodeIPRanges_def)
qed

section \<open>Round trip of each kind\<close>

lemmas column_defs = text_col_def int_col_def bool_col_def ref_col_def meta_columns_def

lemma roundtrip_network:
  assumes "consistent refs" and c: "carries wc refs (Network x) row"
  shows "decode_network wc row refs (net_meta x) = Some (Network x)"
  using read_ref [OF c assms(1), of "''provider_network''" KindProviderNetwork "net_ProviderNetworkID x" True]
  by (simp add: decode_network_def read_text [OF c] read_int [OF c] read_bool [OF c] column_defs)

lemma roundtrip_allocation:
  assumes "consistent refs" and c: "carries wc refs (IPAllocation x) row" and "validateIPAllocation x = None"
  shows "decode_allocation wc row refs (ipa_meta x) = Some (IPAllocation x)"
proof -
  have "allocation_of (allocation_string (ipa_State x)) = ipa_State x"
    using assms(3) by (auto simp: validateIPAllocation_def check_simps allocation_of_def)
  then show ?thesis
    using read_ref [OF c assms(1), of "''subnet''" KindSubnet "ipa_SubnetID x" False]
      read_ref [OF c assms(1), of "''port''" KindPort "ipa_PortID x" True]
    by (simp add: decode_allocation_def read_text [OF c] column_defs)
qed

lemma roundtrip_interface:
  assumes "consistent refs" and c: "carries wc refs (RouterInterface x) row"
  shows "decode_interface wc row refs (rif_meta x) = Some (RouterInterface x)"
  using read_ref [OF c assms(1), of "''router''" KindRouter "rif_RouterID x" False]
    read_ref [OF c assms(1), of "''subnet''" KindSubnet "rif_SubnetID x" False]
    read_ref [OF c assms(1), of "''port''" KindPort "rif_PortID x" True]
  by (simp add: decode_interface_def column_defs)

lemma roundtrip_floating:
  assumes "consistent refs" and c: "carries wc refs (FloatingIP x) row" and "validateFloatingIP x = None"
  shows "decode_floating wc row refs (flt_meta x) = Some (FloatingIP x)"
proof -
  have "floating_of (floating_string (flt_FloatingStatus x)) = flt_FloatingStatus x"
    using assms(3) by (auto simp: validateFloatingIP_def check_simps floating_of_def)
  then show ?thesis
    using read_ref [OF c assms(1), of "''provider_network''" KindProviderNetwork "flt_ProviderNetworkID x" False]
      read_ref [OF c assms(1), of "''port''" KindPort "flt_PortID x" True]
      read_ref [OF c assms(1), of "''router''" KindRouter "flt_RouterID x" True]
    by (simp add: decode_floating_def read_text [OF c] column_defs)
qed

lemma roundtrip_provider:
  assumes "consistent refs" and c: "carries wc refs (ProviderNetwork x) row"
  shows "decode_provider wc row refs (pn_meta x) = Some (ProviderNetwork x)"
  using read_ref [OF c assms(1), of "''default_segment''" KindProviderSegment "pn_DefaultSegmentID x" True]
  by (simp add: decode_provider_def read_text [OF c] column_defs)

lemma roundtrip_segment:
  assumes "consistent refs" and c: "carries wc refs (ProviderSegment x) row" and "validateProviderSegment x = None"
  shows "decode_segment wc row refs (ps_meta x) = Some (ProviderSegment x)"
proof -
  have "provider_type_of (provider_type_string (ps_NetworkType x)) = ps_NetworkType x"
    using assms(3) by (auto simp: validateProviderSegment_def check_simps provider_type_of_def)
  then show ?thesis
    using read_ref [OF c assms(1), of "''provider_network''" KindProviderNetwork "ps_ProviderNetworkID x" False]
    by (simp add: decode_segment_def read_text [OF c] read_int [OF c] column_defs)
qed

lemma roundtrip_group:
  assumes c: "carries wc refs (SecurityGroup x) row"
  shows "decode_group wc row refs (sg_meta x) = Some (SecurityGroup x)"
  by (simp add: decode_group_def read_text [OF c] read_bool [OF c] column_defs)

lemma roundtrip_rule:
  assumes "consistent refs" and c: "carries wc refs (SecurityGroupRule x) row" and "validateSecurityGroupRule x = None"
  shows "decode_rule wc row refs (sgr_meta x) = Some (SecurityGroupRule x)"
proof -
  have "direction_of (direction_string (sgr_Direction x)) = sgr_Direction x"
    "ether_of (ether_string (sgr_EtherType x)) = sgr_EtherType x" "action_of (action_string (sgr_Action x)) = sgr_Action x"
    using assms(3) by (auto simp: validateSecurityGroupRule_def Let_def check_simps direction_of_def ether_of_def action_of_def)
  then show ?thesis
    using read_ref [OF c assms(1), of "''security_group''" KindSecurityGroup "sgr_SecurityGroupID x" False]
      read_ref [OF c assms(1), of "''remote_group''" KindSecurityGroup "sgr_RemoteGroupID x" True]
    by (simp add: decode_rule_def read_text [OF c] read_int [OF c] column_defs)
qed

lemma check_roles_None:
  "check_roles seen roles = None \<Longrightarrow> distinct roles \<and> set roles \<inter> set seen = {} \<and>
     set roles \<subseteq> {NodeRoleCompute, NodeRoleGateway, NodeRoleCentral}"
proof (induction roles arbitrary: seen)
  case (Cons r roles)
  from Cons.prems have "r \<in> {NodeRoleCompute, NodeRoleGateway, NodeRoleCentral}" "r \<notin> set seen"
    "check_roles (r # seen) roles = None"
    by (simp_all split: if_splits)
  with Cons.IH [of "r # seen"] show ?case by simp
qed simp

lemma check_roles_ok:
  assumes "check_roles [] roles = None"
  shows "distinct (map role_string roles)" and "r \<in> set roles \<Longrightarrow> role_of (role_string r) = r"
proof -
  have names: "role_of (role_string r) = r" if "r \<in> set roles" for r
    using check_roles_None [OF assms] that by (auto simp: role_of_def)
  then show "r \<in> set roles \<Longrightarrow> role_of (role_string r) = r" .
  show "distinct (map role_string roles)"
    using check_roles_None [OF assms] names by (metis distinct_map inj_on_inverseI)
qed

lemma optional_time:
  assumes "faithful_formats wc" "\<And>t. v = Some t \<Longrightarrow> representable t" "rowString row c = Some (encodeOptionalTime wc v)"
  shows "rowOptionalTime (wc_parseTime wc) row c = Some v"
  using assms by (cases v) (auto simp: rowOptionalTime_def encodeOptionalTime_def faithful_formats_def)

lemma roundtrip_node:
  assumes "faithful_formats wc" and c: "carries wc refs (Node x) row" and "validateNode x = None"
    and "\<And>t. node_LastSeenAt x = Some t \<Longrightarrow> representable t"
  shows "decode_node wc row refs (node_meta x) = Some (stored_form (Node x))"
proof -
  have "check_roles [] (node_Roles x) = None" using assms(3) by (simp add: validateNode_def check_simps)
  note roles = check_roles_ok [OF this]
  have "cell row ''roles'' (encodeStringSet (map role_string (node_Roles x)))"
    by (rule carries_column [OF c, of "''roles''"]) (auto simp: column_defs)
  then have "rowStringSet row ''roles'' = Some (sort (map role_string (node_Roles x)))"
    using read_strings roles by simp
  moreover have "rowOptionalTime (wc_parseTime wc) row ''last_seen_at'' = Some (node_LastSeenAt x)"
  proof (rule optional_time [OF assms(1)])
    show "rowString row ''last_seen_at'' = Some (encodeOptionalTime wc (node_LastSeenAt x))"
      by (simp add: read_text [OF c] column_defs)
  qed (rule assms(4))
  ultimately show ?thesis
    by (simp add: decode_node_def read_text [OF c] read_bool [OF c] column_defs)
qed

lemma roundtrip_port:
  assumes "consistent refs" and c: "carries wc refs (Port x) row" and "validatePort x = None"
  shows "decode_port wc row refs (port_meta x) = Some (stored_form (Port x))"
proof -
  have "binding_of (binding_string (port_BindingStatus x)) = port_BindingStatus x"
    using assms(3) by (auto simp: validatePort_def check_simps binding_of_def)
  moreover have "decodeFixedIPs row refs = Some (sort_key fip_SubnetID (port_FixedIPs x))"
    by (rule carries_column [OF c, of "''fixed_ips''" "encodeFixedIPs refs (port_FixedIPs x)"])
      (simp_all add: column_defs decode_fixed_ips [OF assms(1)])
  moreover have "decodeReferenceSet row ''security_groups'' KindSecurityGroup refs = Some (sort (port_SecurityGroupIDs x))"
    by (rule carries_column [OF c, of "''security_groups''" "encodeReferenceSet refs KindSecurityGroup (port_SecurityGroupIDs x)"])
      (simp_all add: column_defs decode_reference_set [OF assms(1)])
  ultimately show ?thesis
    using read_ref [OF c assms(1), of "''network''" KindNetwork "port_NetworkID x" False]
      read_ref [OF c assms(1), of "''node''" KindNode "port_NodeID x" True]
    by (simp add: decode_port_def read_text [OF c] read_int [OF c] read_bool [OF c] column_defs)
qed

lemma external_json:
  assumes "encodeExternalJSON marshal key xs = Inr ys" "map_of zs key = map_of ys key"
    and "xs \<noteq> [] \<Longrightarrow> marshal xs \<noteq> [] \<and> unmarshal (marshal xs) = Some xs"
  shows "decodeExternalJSON unmarshal zs key = Some xs"
  using assms by (auto simp: encodeExternalJSON_def decodeExternalJSON_def external_entry_def Let_def split: if_splits)

lemma external_json_keys: "encodeExternalJSON marshal key xs = Inr ys \<Longrightarrow> map fst ys \<in> {[], [key]}"
  by (auto simp: encodeExternalJSON_def Let_def split: if_splits)

lemma nameservers_distinct: "check_nameservers i seen ds = None \<Longrightarrow> distinct ds \<and> set ds \<inter> set seen = {}"
proof (induction ds arbitrary: i seen)
  case (Cons d ds)
  then obtain a where a: "parse_addr d = Some a" and new: "addr_string a \<notin> set seen"
    and rest: "check_nameservers (Suc i) (addr_string a # seen) ds = None"
    by (auto split: option.splits if_splits)
  have "addr_string a = d" using a by (rule parse_addr_canonical)
  with Cons.IH [OF rest] new show ?case by auto
qed simp

lemma pool_text: "check_pool pfx i p = None \<Longrightarrow> json_text (rng_Start p) \<and> json_text (rng_End p)"
  by (auto simp: check_pool_def check_simps json_text_addr split: option.splits)

lemma route_text: "check_route rs i r = None \<Longrightarrow> json_text (rt_Destination r) \<and> json_text (rt_NextHop r)"
  by (auto simp: check_route_def check_simps json_text_addr json_text_prefix split: option.splits)

lemma roundtrip_subnet:
  assumes "faithful_formats wc" "consistent refs" and c: "carries wc refs (Subnet x) row" and v: "validateSubnet x = None"
  shows "decode_subnet wc row refs (sub_meta x) = Some (stored_form (Subnet x))"
proof -
  from v obtain pfx where servers: "check_nameservers 0 [] (sub_DNSNameservers x) = None"
    and domains: "check_search_domains 0 [] (sub_DNSSearchDomains x) = None"
    and pools: "check_each (check_pool (masked pfx)) 0 (sub_AllocationPools x) = None"
    by (auto simp: validateSubnet_def check_simps split: option.splits)
  have pool_texts: "json_text (rng_Start p) \<and> json_text (rng_End p)" if "p \<in> set (sub_AllocationPools x)" for p
    using pools that pool_text unfolding check_each_None in_set_conv_nth by blast
  have dns: "rowStringSet row ''dns_nameservers'' = Some (sort (sub_DNSNameservers x))"
    by (rule carries_column [OF c, of "''dns_nameservers''" "encodeUniqueStringSet (sub_DNSNameservers x)"])
      (use nameservers_distinct [OF servers] in \<open>auto simp: column_defs encodeUniqueStringSet_def read_strings split: if_splits\<close>)
  have ranges: "decodeIPRanges wc row ''allocation_pools'' = Some (sort_key (\<lambda>r. (rng_Start r, rng_End r)) (sub_AllocationPools x))"
    by (rule carries_column [OF c, of "''allocation_pools''" "encodeIPRanges wc (sub_AllocationPools x)"])
      (use decode_ranges [OF assms(1)] pool_texts in \<open>auto simp: column_defs\<close>)
  let ?domain = "if sub_DNSDomain x \<noteq> [] then [(subnetDNSDomainKey, sub_DNSDomain x)] else []"
  let ?json = "encodeExternalJSON (wc_marshalStrings wc) subnetDNSSearchDomainsKey (sub_DNSSearchDomains x)"
  obtain ys zs where ys: "map_sum id ((@) ?domain) ?json = Inr ys"
    and zs: "rowStringMap row ''external_ids'' = Some zs" "map_of zs = map_of ys"
  proof (rule read_external [OF c])
    show "map_of (encode_columns wc refs (Subnet x)) ''external_ids'' = Some (snd (external_col (map_sum id ((@) ?domain) ?json)))"
      by (simp add: column_defs external_col_def)
    show "distinct (map fst ys)" if "map_sum id ((@) ?domain) ?json = Inr ys" for ys
      using that external_json_keys
      by (cases ?json) (fastforce simp: subnetDNSDomainKey_def subnetDNSSearchDomainsKey_def)+
  qed blast
  obtain js where js: "?json = Inr js" "ys = ?domain @ js" using ys by (cases ?json) auto
  have keys: "map fst js \<in> {[], [subnetDNSSearchDomainsKey]}" using external_json_keys [OF js(1)] .
  have "map_of zs subnetDNSSearchDomainsKey = map_of js subnetDNSSearchDomainsKey"
    unfolding zs js by (simp add: map_add_def subnetDNSDomainKey_def subnetDNSSearchDomainsKey_def)
  then have search: "decodeExternalJSON (wc_unmarshalStrings wc) zs subnetDNSSearchDomainsKey = Some (sub_DNSSearchDomains x)"
    using assms(1) search_domains_text [OF domains] by (intro external_json [OF js(1)]) (auto simp: faithful_formats_def)
  have domain: "external_entry zs subnetDNSDomainKey = sub_DNSDomain x"
    using keys unfolding external_entry_def zs js
    by (auto simp: map_add_def subnetDNSDomainKey_def subnetDNSSearchDomainsKey_def)
  show ?thesis
    using read_ref [OF c assms(2), of "''network''" KindNetwork "sub_NetworkID x" False] dns ranges zs(1) search domain
    by (simp add: decode_subnet_def read_text [OF c] read_bool [OF c] column_defs)
qed

lemma roundtrip_router:
  assumes "faithful_formats wc" "consistent refs" and c: "carries wc refs (Router x) row" and v: "validateRouter x = None"
  shows "decode_router wc row refs (rtr_meta x) = Some (Router x)"
proof -
  let ?json = "encodeExternalJSON (wc_marshalRoutes wc) routerStaticRoutesKey (rtr_StaticRoutes x)"
  have "check_each (check_route (rtr_StaticRoutes x)) 0 (rtr_StaticRoutes x) = None"
    using v by (simp add: validateRouter_def check_simps)
  then have texts: "list_all (\<lambda>r. json_text (rt_Destination r) \<and> json_text (rt_NextHop r)) (rtr_StaticRoutes x)"
    using route_text unfolding check_each_None list_all_length by blast
  obtain ys zs where ys: "?json = Inr ys" and zs: "rowStringMap row ''external_ids'' = Some zs" "map_of zs = map_of ys"
    by (rule read_external [OF c, of ?json]) (use external_json_keys in \<open>fastforce simp: column_defs external_col_def\<close>)+
  have "decodeExternalJSON (wc_unmarshalRoutes wc) zs routerStaticRoutesKey = Some (rtr_StaticRoutes x)"
    using assms(1) texts zs(2) by (intro external_json [OF ys]) (auto simp: faithful_formats_def)
  then show ?thesis
    using zs(1) read_ref [OF c assms(2), of "''external_network''" KindNetwork "rtr_ExternalNetworkID x" True]
      read_ref [OF c assms(2), of "''external_subnet''" KindSubnet "rtr_ExternalSubnetID x" True]
    by (simp add: decode_router_def read_text [OF c] read_bool [OF c] column_defs)
qed

lemma kind_of_string: "kind_valid k \<Longrightarrow> kind_of (kind_string k) = k"
  by (cases k) (simp_all add: kind_valid_def kindToCollection_def kind_of_def)

lemma roundtrip_operation:
  assumes "faithful_formats wc" and c: "carries wc refs (Operation x) row" and v: "validateOperation (wc_codec wc) x = None"
    and times: "\<And>t. op_StartedAt x = Some t \<Longrightarrow> representable t" "\<And>t. op_CompletedAt x = Some t \<Longrightarrow> representable t"
  shows "decode_operation wc row refs (op_meta x) = Some (Operation x)"
proof -
  let ?payload = "encodeOperationPayload (wc_codec wc) (op_Payload x)"
  have valid: "ValidateOperationPayload (wc_codec wc) (op_Payload x) = None" "kind_valid (op_TargetKind x)"
    "status_of (status_string (op_OperationStatus x)) = op_OperationStatus x"
    using v by (auto simp: validateOperation_def check_simps status_of_def)
  obtain ys zs where ys: "?payload = Inr ys"
    and zs: "rowStringMap row ''external_ids'' = Some zs" "map_of zs = map_of ys" "mset zs = mset ys"
    by (rule read_external [OF c, of ?payload])
      (auto simp: column_defs external_col_def encodeOperationPayload_def split: if_splits option.splits)
  have "set zs = set ys" using zs(3) by (rule mset_eq_setD)
  then have "decodeOperationPayload (wc_codec wc) zs = Some (op_Payload x)"
    using ys zs(2) valid(1)
    by (auto simp: decodeOperationPayload_def encodeOperationPayload_def list_ex_iff external_entry_def split: if_splits)
  moreover have "rowOptionalTime (wc_parseTime wc) row ''started_at'' = Some (op_StartedAt x)"
  proof (rule optional_time [OF assms(1)])
    show "rowString row ''started_at'' = Some (encodeOptionalTime wc (op_StartedAt x))"
      by (simp add: read_text [OF c] column_defs)
  qed (rule times)
  moreover have "rowOptionalTime (wc_parseTime wc) row ''completed_at'' = Some (op_CompletedAt x)"
  proof (rule optional_time [OF assms(1)])
    show "rowString row ''completed_at'' = Some (encodeOptionalTime wc (op_CompletedAt x))"
      by (simp add: read_text [OF c] column_defs)
  qed (rule times)
  ultimately show ?thesis
    using zs(1) valid by (simp add: decode_operation_def read_text [OF c] read_int [OF c] column_defs kind_of_string)
qed

text \<open>The optional instants of a resource.\<close>

fun instants :: "resource \<Rightarrow> time option list" where
  "instants (Node x) = [node_LastSeenAt x]"
| "instants (Operation x) = [op_StartedAt x, op_CompletedAt x]"
| "instants _ = []"

definition storable :: "resource \<Rightarrow> bool" where
  "storable r \<longleftrightarrow> storable_metadata (GetMetadata r) \<and> (\<forall>t. Some t \<in> set (instants r) \<longrightarrow> representable t)"

end
