(* ===== verification/Ovsdb_Refinement.thy ===== *)
theory Ovsdb_Refinement
  imports Ovsdb_Store Ovsdb_Roundtrip Store_Invariant
begin

text \<open>
  The durable store refines the in-memory one. A load returns a well-formed snapshot whatever the
  tables hold; a decision taken on a snapshot is the transition that the same method of the
  in-memory store makes on the view of the snapshot, and the changes it commits are that
  transition's writes; a call that returns a result took it in one decision on one loaded
  snapshot.
\<close>

section \<open>What the checks read of metadata\<close>

text \<open>The checks read of the metadata of a row only its id and whether it is being deleted.\<close>

definition blank :: "metadata \<Rightarrow> metadata" where
  "blank m = m\<lparr>Revision := 0, AppliedRevision := 0, State := (if State m = ResourceDeleting then ResourceDeleting else ResourcePending),
     LastError := [], CreatedAt := 0, UpdatedAt := 0\<rparr>"

definition blank_store :: "memory \<Rightarrow> memory" where
  "blank_store s = s\<lparr>resources := map (\<lambda>(key, r). (key, map_metadata blank r)) (resources s)\<rparr>"

lemma blank_ID [simp]: "ID (blank m) = ID m"
  and blank_deleting [simp]: "State (blank m) = ResourceDeleting \<longleftrightarrow> State m = ResourceDeleting"
  by (simp_all add: blank_def)

lemma lookup_blank: "lookup (blank_store s) k i = map_option (map_metadata blank) (lookup s k i)"
proof -
  have "map_of (map (\<lambda>(key, r). (key, map_metadata blank r)) xs) x = map_option (map_metadata blank) (map_of xs x)"
    for xs :: "((kind \<times> string) \<times> resource) list" and x
    by (induction xs) auto
  then show ?thesis by (simp add: lookup_def blank_store_def)
qed

lemma rows_blank: "rows (blank_store s) k = map (\<lambda>(i, r). (i, map_metadata blank r)) (rows s k)"
proof -
  have "map (\<lambda>((_, i), r). (i, r)) (filter (\<lambda>((ka, _), _). ka = k) (map (\<lambda>(key, r). (key, map_metadata blank r)) xs)) =
      map (\<lambda>(i, r). (i, map_metadata blank r)) (map (\<lambda>((_, i), r). (i, r)) (filter (\<lambda>((ka, _), _). ka = k) xs))"
    for xs :: "((kind \<times> string) \<times> resource) list"
    by (induction xs) auto
  from this [of "resources s"] show ?thesis by (simp add: rows_def blank_store_def)
qed

lemma as_map_metadata [simp]:
  "as_network (map_metadata f r) = map_option (net_meta_update f) (as_network r)"
  "as_subnet (map_metadata f r) = map_option (sub_meta_update f) (as_subnet r)"
  "as_port (map_metadata f r) = map_option (port_meta_update f) (as_port r)"
  "as_router (map_metadata f r) = map_option (rtr_meta_update f) (as_router r)"
  "as_router_interface (map_metadata f r) = map_option (rif_meta_update f) (as_router_interface r)"
  "as_node (map_metadata f r) = map_option (node_meta_update f) (as_node r)"
  "as_provider_segment (map_metadata f r) = map_option (ps_meta_update f) (as_provider_segment r)"
  by (cases r; simp)+

lemma get_as_blank [simp]:
  "get_as as_network (blank_store s) k i = map_option (net_meta_update blank) (get_as as_network s k i)"
  "get_as as_subnet (blank_store s) k i = map_option (sub_meta_update blank) (get_as as_subnet s k i)"
  "get_as as_port (blank_store s) k i = map_option (port_meta_update blank) (get_as as_port s k i)"
  "get_as as_router (blank_store s) k i = map_option (rtr_meta_update blank) (get_as as_router s k i)"
  "get_as as_node (blank_store s) k i = map_option (node_meta_update blank) (get_as as_node s k i)"
  "get_as as_provider_segment (blank_store s) k i = map_option (ps_meta_update blank) (get_as as_provider_segment s k i)"
  "get_as Some (blank_store s) k i = map_option (map_metadata blank) (get_as Some s k i)"
  by (cases "lookup s k i"; simp add: get_as_def lookup_blank)+

lemma map_filter_map: "List.map_filter f (map g xs) = List.map_filter (f \<circ> g) xs"
  by (induction xs) (auto simp: map_filter_simps split: option.splits)

lemma map_filter_map_option: "List.map_filter (\<lambda>x. map_option g (f x)) xs = map g (List.map_filter f xs)"
  by (induction xs) (auto simp: map_filter_simps split: option.splits)

lemma all_of_blank:
  assumes "\<And>r. as (map_metadata blank r) = map_option g (as r)"
  shows "all_of as (blank_store s) k = map g (all_of as s k)"
  unfolding all_of_def rows_blank map_filter_map
  using assms map_filter_map_option [of g "\<lambda>(_, r). as r"] by (simp add: comp_def case_prod_beta)

lemmas all_of_blank_simps [simp] =
  all_of_blank [where as = as_node, OF as_map_metadata(6)]
  all_of_blank [where as = as_network, OF as_map_metadata(1)]
  all_of_blank [where as = as_router_interface, OF as_map_metadata(5)]

lemma addressing_meta [simp]:
  "ValidateIPv4AllocationAddress (sub_meta_update f x) a = ValidateIPv4AllocationAddress x a"
  "ValidateIPv4NextHop (sub_meta_update f x) a b = ValidateIPv4NextHop x a b"
  unfolding ValidateIPv4AllocationAddress_def ValidateIPv4NextHop_def EffectiveIPv4Gateway_meta
  by (simp_all cong: option.case_cong sum.case_cong if_cong)

lemma gateway_meta [simp]: "next_hop_via_gateway (sub_meta_update f x) a = next_hop_via_gateway x a"
  unfolding next_hop_via_gateway_def EffectiveIPv4Gateway_meta addressing_meta by (rule refl)

lemma port_meta_reads [simp]:
  "portHasFixedIP (port_meta_update f p) a b = portHasFixedIP p a b" "portHasSubnet (port_meta_update f p) a = portHasSubnet p a"
  "portHasAddress (port_meta_update f p) a = portHasAddress p a"
  by (simp_all add: portHasFixedIP_def portHasSubnet_def portHasAddress_def)


lemma require_blank [simp]:
  "and_then (requireLocked as (blank_store s) k i) f = and_then (requireLocked as s k i) (f \<circ> g)"
  if "get_as as (blank_store s) k i = map_option g (get_as as s k i)"
  using that by (cases "get_as as s k i") (simp_all add: requireLocked_def and_then_def)

lemma hasChassis_blank [simp]: "hasChassisLocked (blank_store s) = hasChassisLocked s"
  by (rule ext) (simp add: hasChassisLocked_def list.pred_map list_ex_iff)

lemma provider_blank [simp]: "providerHasAllocatableAddressLocked (blank_store s) p a i = providerHasAllocatableAddressLocked s p a i"
  unfolding providerHasAllocatableAddressLocked_def all_of_blank_simps rows_blank
  by (simp add: list_ex_iff case_prod_beta case_map_option comp_def cong: option.case_cong)

lemma reaches_blank [simp]: "routerReachesPortAddressLocked (blank_store s) r p a = routerReachesPortAddressLocked s r p a"
  by (simp add: routerReachesPortAddressLocked_def list_ex_iff)

lemma reaches_meta [simp]: "routerReachesPortAddressLocked s r (port_meta_update f p) a = routerReachesPortAddressLocked s r p a"
  by (simp add: routerReachesPortAddressLocked_def)

lemma route_blank [simp]: "route_matches (blank_store s) r route = route_matches s r route"
proof -
  have "interface_route_match (blank_store s) r route (rif_meta_update blank ri) = interface_route_match s r route ri" for ri
    by (simp add: interface_route_match_def case_map_option comp_def cong: option.case_cong)
  then show ?thesis
    by (simp add: route_matches_def external_route_match_def case_map_option comp_def filter_map cong: option.case_cong)
qed

lemma routes_blank [simp]: "validateRouterStaticRoutesLocked (blank_store s) r = validateRouterStaticRoutesLocked s r"
  by (simp add: validateRouterStaticRoutesLocked_def)

lemma references_blank: "validateReferencesLocked (blank_store s) r = validateReferencesLocked s r"
  by (cases r) (simp_all add: validate_port_refs_def validate_allocation_refs_def validate_router_refs_def
      validate_interface_refs_def validate_floating_refs_def comp_def cong: if_cong sum.case_cong)

lemma external_route_own_meta [simp]:
  "(\<And>m. ID (f m) = ID m) \<Longrightarrow> route_matches s (rtr_meta_update f r) route = route_matches s r route"
proof -
  assume f: "\<And>m. ID (f m) = ID m"
  have "interface_route_match s (rtr_meta_update f r) route = interface_route_match s r route"
    using f by (simp add: fun_eq_iff interface_route_match_def)
  then show ?thesis by (simp add: route_matches_def external_route_match_def cong: option.case_cong)
qed

text \<open>The row under test itself is read without its metadata, but for the id.\<close>

lemma references_own_meta:
  assumes "ID (f (GetMetadata r)) = ID (GetMetadata r)"
  shows "validateReferencesLocked s (map_metadata f r) = validateReferencesLocked s r"
proof -
  have "validateReferencesLocked s (map_metadata g r) = validateReferencesLocked s r" if "\<And>m. ID (g m) = ID m" for g
    using that unfolding fun_eq_iff
    by (cases r) (simp_all add: validate_port_refs_def validate_allocation_refs_def validate_router_refs_def
      validate_interface_refs_def validate_floating_refs_def validateRouterStaticRoutesLocked_def cong: if_cong sum.case_cong)
  from this [of "\<lambda>m. (f (GetMetadata r))\<lparr>ID := ID m\<rparr>"] assms
  have "validateReferencesLocked s (map_metadata (\<lambda>m. (f (GetMetadata r))\<lparr>ID := ID m\<rparr>) r) = validateReferencesLocked s r"
    by simp
  moreover have "map_metadata (\<lambda>m. (f (GetMetadata r))\<lparr>ID := ID m\<rparr>) r = map_metadata f r"
    using assms by (cases r) simp_all
  ultimately show ?thesis by simp
qed


lemma blank_put_cong:
  "map_metadata blank c = map_metadata blank c' \<Longrightarrow> blank_store (store_put k i c s) = blank_store (store_put k i c' s)"
proof -
  assume c: "map_metadata blank c = map_metadata blank c'"
  have "map (\<lambda>(key, r). (key, map_metadata blank r)) (AList.update k c xs) =
      map (\<lambda>(key, r). (key, map_metadata blank r)) (AList.update k c' xs)" for k and xs :: "((kind \<times> string) \<times> resource) list"
    using c by (induction xs) auto
  then show ?thesis by (simp add: blank_store_def store_put_def)
qed

lemma all_references_None:
  assumes "keys_ok s"
  shows "validateAllReferencesLocked s = None \<longleftrightarrow> (\<forall>k i r. lookup s k i = Some r \<longrightarrow> validateReferencesLocked s r = None)"
proof -
  have "list_ex (\<lambda>(_, r). validateReferencesLocked s r \<noteq> None) (resources s) \<longleftrightarrow>
      list_ex (\<lambda>((k, i), r). validateReferencesLocked s r \<noteq> None) (resources s)"
    unfolding list_ex_iff case_prod_beta by (rule refl)
  also have "\<dots> \<longleftrightarrow> (\<exists>k i r. lookup s k i = Some r \<and> validateReferencesLocked s r \<noteq> None)"
    by (rule list_ex_resources [OF assms])
  finally have "validateAllReferencesLocked s = None \<longleftrightarrow> \<not> (\<exists>k i r. lookup s k i = Some r \<and> validateReferencesLocked s r \<noteq> None)"
    by (simp only: validateAllReferencesLocked_def conflict_if_None)
  then show ?thesis by (simp only: not_ex de_Morgan_conj not_not imp_conv_disj)
qed

lemma validate_graph_None:
  assumes "keys_ok s" "typed s"
  shows "validate_graph s = None \<longleftrightarrow>
    (\<forall>k i r. lookup s k i = Some r \<longrightarrow> validateReferencesLocked s r = None) \<and> pairwise_unique s"
  using assms by (simp add: validate_graph_def check_simps all_references_None validateAllUnique_None)

text \<open>Whole-graph validation gives the same answer for two versions of a row that differ only in
  metadata the checks do not read.\<close>

lemma validate_graph_cong:
  assumes "keys_ok s" "typed s" "ResourceKind c = k"
    and same: "ID (f (GetMetadata c)) = ID (GetMetadata c)"
      "State (f (GetMetadata c)) = ResourceDeleting \<longleftrightarrow> State (GetMetadata c) = ResourceDeleting"
    and ok: "validate_graph (store_put k i (map_metadata f c) s) = None"
  shows "validate_graph (store_put k i c s) = None"
proof -
  let ?c' = "map_metadata f c"
  let ?s = "store_put k i c s" and ?s' = "store_put k i ?c' s"
  have keys: "keys_ok ?s" "keys_ok ?s'" "typed ?s" "typed ?s'"
    using assms(1-3) by (simp_all add: typed_def)
  have "map_metadata blank ?c' = map_metadata blank c"
    using same by (cases c) (simp_all add: blank_def)
  then have "blank_store ?s' = blank_store ?s" by (rule blank_put_cong)
  then have refs: "validateReferencesLocked ?s r = validateReferencesLocked ?s' r" for r
    by (metis references_blank)
  from ok have ok': "lookup ?s' k' i' = Some r \<Longrightarrow> validateReferencesLocked ?s' r = None" for k' i' r
    using keys by (simp only: validate_graph_None)
  have "validateReferencesLocked ?s r = None" if "lookup ?s k' i' = Some r" for k' i' r
  proof (cases "(k', i') = (k, i)")
    case True
    with that have "r = c" by simp
    then show ?thesis
      using ok' [of k i ?c'] references_own_meta [where f = f and r = c and s = ?s', OF same(1)] refs by simp
  next
    case False
    with that have "lookup ?s' k' i' = Some r" by (auto split: if_splits)
    then show ?thesis using ok' refs by simp
  qed
  moreover have "pairwise_unique ?s"
    using pairwise_put_core [of ?s' k i ?c' c] ok keys by (simp add: validate_graph_None store_put_twice)
  ultimately show ?thesis using keys by (simp only: validate_graph_None) blast
qed

section \<open>What a load returns\<close>

text \<open>Every row is filed once, under its own kind and id, and the idempotency keys are distinct.\<close>

definition snapshot_ok :: "snapshot \<Rightarrow> bool" where
  "snapshot_ok s \<longleftrightarrow> keys_ok (view s) \<and> filed (view s) \<and> distinct (map fst (sn_idempotency s)) \<and>
     (\<forall>k i r. lookup (view s) k i = Some r \<longrightarrow> i \<noteq> [] \<and> \<not> isReservedID i)"

lemma decoded_metadata: "decodeMetadata wc row = Some m \<Longrightarrow> ID m \<noteq> []"
  by (auto simp: decodeMetadata_def bind_eq_Some_conv split: if_splits)

lemmas decoder_defs = decode_network_def decode_subnet_def decode_port_def decode_allocation_def decode_router_def
  decode_interface_def decode_floating_def decode_provider_def decode_segment_def decode_group_def decode_rule_def
  decode_node_def decode_operation_def

lemma decoder_results:
  "decode_network wc row refs m = Some r \<Longrightarrow> ResourceKind r = KindNetwork \<and> GetMetadata r = m"
  "decode_subnet wc row refs m = Some r \<Longrightarrow> ResourceKind r = KindSubnet \<and> GetMetadata r = m"
  "decode_port wc row refs m = Some r \<Longrightarrow> ResourceKind r = KindPort \<and> GetMetadata r = m"
  "decode_allocation wc row refs m = Some r \<Longrightarrow> ResourceKind r = KindIPAllocation \<and> GetMetadata r = m"
  "decode_router wc row refs m = Some r \<Longrightarrow> ResourceKind r = KindRouter \<and> GetMetadata r = m"
  "decode_interface wc row refs m = Some r \<Longrightarrow> ResourceKind r = KindRouterInterface \<and> GetMetadata r = m"
  "decode_floating wc row refs m = Some r \<Longrightarrow> ResourceKind r = KindFloatingIP \<and> GetMetadata r = m"
  "decode_provider wc row refs m = Some r \<Longrightarrow> ResourceKind r = KindProviderNetwork \<and> GetMetadata r = m"
  "decode_segment wc row refs m = Some r \<Longrightarrow> ResourceKind r = KindProviderSegment \<and> GetMetadata r = m"
  "decode_group wc row refs m = Some r \<Longrightarrow> ResourceKind r = KindSecurityGroup \<and> GetMetadata r = m"
  "decode_rule wc row refs m = Some r \<Longrightarrow> ResourceKind r = KindSecurityGroupRule \<and> GetMetadata r = m"
  "decode_node wc row refs m = Some r \<Longrightarrow> ResourceKind r = KindNode \<and> GetMetadata r = m"
  "decode_operation wc row refs m = Some r \<Longrightarrow> ResourceKind r = KindOperation \<and> GetMetadata r = m"
  by (auto simp: decoder_defs bind_eq_Some_conv Let_def split: if_splits)

lemma decodeResource_kind: "decodeResource wc k row refs = Some r \<Longrightarrow> ResourceKind r = k \<and> ID (GetMetadata r) \<noteq> []"
  unfolding decodeResource_def bind_eq_Some_conv
  by (cases k) (auto dest!: decoder_results dest: decoded_metadata)

lemma snapshot_okD:
  "snapshot_ok s \<Longrightarrow> keys_ok (view s)" "snapshot_ok s \<Longrightarrow> filed (view s)" "snapshot_ok s \<Longrightarrow> typed (view s)"
  "snapshot_ok s \<Longrightarrow> distinct (map fst (sn_idempotency s))"
  "snapshot_ok s \<Longrightarrow> lookup (view s) k i = Some r \<Longrightarrow> i \<noteq> []"
  "snapshot_ok s \<Longrightarrow> lookup (view s) k i = Some r \<Longrightarrow> ResourceKind r = k"
  "snapshot_ok s \<Longrightarrow> lookup (view s) k i = Some r \<Longrightarrow> ID (GetMetadata r) = i"
  by (simp_all add: snapshot_ok_def filed_typed filed_def) blast

lemma snapshot_ok_newSnapshot: "snapshot_ok newSnapshot"
  by (simp add: snapshot_ok_def newSnapshot_def view_def keys_ok_def snap_entries_def filed_def lookup_def)

lemma snapshot_ok_cong:
  "sn_resources s = sn_resources t \<Longrightarrow> sn_idempotency s = sn_idempotency t \<Longrightarrow> snapshot_ok s = snapshot_ok t"
  by (simp add: snapshot_ok_def view_def snap_entries_def)

lemma snapshot_ok_file:
  assumes "snapshot_ok s" "ResourceKind (sr_resource e) = k" "ID (GetMetadata (sr_resource e)) = i" "i \<noteq> []" "\<not> isReservedID i"
  shows "snapshot_ok (snap_replace k i e s)"
  using assms by (auto simp: snapshot_ok_def view_replace filed_put) (simp_all add: snap_replace_def)

lemma decode_row_ok: "decode_row wc k row s = Some t \<Longrightarrow> snapshot_ok s \<Longrightarrow> snapshot_ok t"
  using snapshot_ok_file [of s "\<lparr>sr_uuid = u, sr_resource = r\<rparr>" k for u r]
  by (fastforce simp: decode_row_def snap_replace_def isReservedID_def Let_def dest: decodeResource_kind
      split: bind_splits if_splits)

lemma snapshot_ok_idempotency:
  "snapshot_ok s \<Longrightarrow> distinct (map fst xs) \<Longrightarrow> snapshot_ok (s\<lparr>sn_idempotency := xs\<rparr>)"
  by (auto simp: snapshot_ok_def view_def snap_entries_def keys_ok_def filed_def lookup_def)

lemma decodeInternal_ok: "decodeInternalOperation wc row s = Some (Some t) \<Longrightarrow> snapshot_ok s \<Longrightarrow> snapshot_ok t"
  by (auto simp: decodeInternalOperation_def decode_lock_def decode_idempotency_def Let_def snapshot_okD distinct_keys_update
      cong: snapshot_ok_cong split: bind_splits if_splits intro!: snapshot_ok_idempotency)

lemma decode_rows_ok: "decode_rows wc k stored s = Some t \<Longrightarrow> snapshot_ok s \<Longrightarrow> snapshot_ok t"
  by (induction wc k stored s rule: decode_rows.induct)
    (auto split: bind_splits if_splits option.splits dest: decode_row_ok decodeInternal_ok)

lemma decode_tables_ok: "decode_tables wc raw tables s = Some t \<Longrightarrow> snapshot_ok s \<Longrightarrow> snapshot_ok t"
  by (induction wc raw tables s rule: decode_tables.induct) (auto split: bind_splits dest: decode_rows_ok)

lemma index_rows_same:
  "index_rows k stored s = Some t \<Longrightarrow> sn_resources t = sn_resources s \<and> sn_idempotency t = sn_idempotency s"
  by (induction k stored s rule: index_rows.induct) (auto split: bind_splits if_splits)

lemma index_tables_same:
  "index_tables raw tables s = Some t \<Longrightarrow> sn_resources t = sn_resources s \<and> sn_idempotency t = sn_idempotency s"
  by (induction raw tables s rule: index_tables.induct) (fastforce split: bind_splits dest: index_rows_same)+

lemma decodeDatabase_ok:
  assumes "decodeDatabase wc raw = Some s"
  shows "snapshot_ok s" "validate_stored wc s"
proof -
  obtain i where i: "index_tables raw allTables newSnapshot = Some i" "decode_tables wc raw allTables i = Some s" "validate_stored wc s"
    using assms by (auto simp: decodeDatabase_def split: bind_splits if_splits)
  have "snapshot_ok i"
    using snapshot_ok_cong [of i newSnapshot] index_tables_same [OF i(1)] snapshot_ok_newSnapshot by simp
  then show "snapshot_ok s" using i(2) by (blast intro: decode_tables_ok)
qed (use assms in \<open>auto simp: decodeDatabase_def split: bind_splits if_splits\<close>)

section \<open>The meaning of changes\<close>

text \<open>The writes that a list of changes stands for. A change of a row holds the encoding of a
  resource against the snapshot; a change or deletion expects the revision the row has.\<close>

inductive carry_out :: "wire_codec \<Rightarrow> snapshot \<Rightarrow> change list \<Rightarrow> memory \<Rightarrow> memory \<Rightarrow> bool"
  for wc :: wire_codec and current :: snapshot where
  nothing: "carry_out wc current [] s s"
| inserted: "\<lbrakk>encodeResource wc r current = Inr row; lookup s (ResourceKind r) ident = None;
    carry_out wc current changes (store_put (ResourceKind r) ident r s) t\<rbrakk> \<Longrightarrow>
    carry_out wc current (insert_change (table_of (ResourceKind r)) ident row # changes) s t"
| replaced: "\<lbrakk>encodeResource wc r current = Inr row; lookup s (ResourceKind r) ident = Some stored;
    Revision (GetMetadata stored) = expected; carry_out wc current changes (store_put (ResourceKind r) ident r s) t\<rbrakk> \<Longrightarrow>
    carry_out wc current (update_change (table_of (ResourceKind r)) ident expected row # changes) s t"
| removed: "\<lbrakk>lookup s kind ident = Some stored; Revision (GetMetadata stored) = expected;
    carry_out wc current changes (store_remove kind ident s) t\<rbrakk> \<Longrightarrow>
    carry_out wc current (delete_change (table_of kind) ident expected # changes) s t"
| remembered: "\<lbrakk>encodeIdempotencyRow wc scope fp r deleted now = Inr row; scope \<noteq> []; map_of (idempotency s) scope = None;
    carry_out wc current changes (rememberLocked scope fp r deleted s) t\<rbrakk> \<Longrightarrow>
    carry_out wc current (insert_change (table_of KindOperation) (idempotencyRowID (wc_codec wc) scope) row # changes) s t"
| forgotten: "\<lbrakk>map_of (idempotency s) scope \<noteq> None;
    carry_out wc current changes (s\<lparr>idempotency := AList.delete scope (idempotency s)\<rparr>) t\<rbrakk> \<Longrightarrow>
    carry_out wc current (delete_change (table_of KindOperation) (idempotencyRowID (wc_codec wc) scope) 1 # changes) s t"

definition mem_env :: "time \<Rightarrow> string \<Rightarrow> codec \<Rightarrow> call_env" where
  "mem_env now newID cd = \<lparr>env_cancelled = False, env_now = now, env_newID = newID, env_codec = cd\<rparr>"

lemma mem_env_simps [simp]:
  "env_cancelled (mem_env now newID cd) = False" "env_now (mem_env now newID cd) = now"
  "env_newID (mem_env now newID cd) = newID" "env_codec (mem_env now newID cd) = cd"
  by (simp_all add: mem_env_def)

text \<open>A verdict agrees with the outcome of a transition when an answer without a write is the answer
  of a transition that changes nothing, and a commit writes what the transition writes.\<close>

fun realizes :: "wire_codec \<Rightarrow> snapshot \<Rightarrow> 'a verdict \<Rightarrow> memory \<times> (err + 'a) \<Rightarrow> bool" where
  "realizes wc current (Return (Inl e)) outcome \<longleftrightarrow> True"
| "realizes wc current (Return (Inr result)) outcome \<longleftrightarrow> outcome = (view current, Inr result)"
| "realizes wc current (Commit changes now result) outcome \<longleftrightarrow>
     snd outcome = Inr result \<and> carry_out wc current changes (view current) (fst outcome)"

lemma replay_view [view_simps]: "replay s scope fp = replayLocked (view s) scope fp"
  by (simp add: replay_def replayLocked_def)

lemma get_operation_view [view_simps]: "snap_get_operation s i = get_as as_operation (view s) KindOperation i"
  by (simp add: snap_get_operation_def view_simps)

lemma superseded_view [view_simps]: "operationSuperseded s o' = operationSupersededLocked (view s) o'"
  unfolding operationSuperseded_def operationSupersededLocked_def view_simps by (rule refl)

lemma encode_nonempty: "encodeResource wc r s = Inr row \<Longrightarrow> ID (GetMetadata r) \<noteq> []"
  by (auto simp: encodeResource_def encodeMetadata_def split: if_splits sum.splits)

lemma append_remembers:
  assumes "appendIdempotency wc [c] scope fp r deleted now = Inr changes" "replayLocked s scope fp = Inr None"
    and "\<And>rest t. carry_out wc current rest s1 t \<Longrightarrow> carry_out wc current (c # rest) s t"
    and "idempotency s1 = idempotency s"
  shows "carry_out wc current changes s (rememberLocked scope fp r deleted s1)"
proof (cases "scope = []")
  case True
  moreover have "carry_out wc current [c] s s1" by (rule assms(3)) (rule carry_out.nothing)
  ultimately show ?thesis using assms(1) by (auto simp: appendIdempotency_def rememberLocked_def)
next
  case False
  then obtain row where row: "encodeIdempotencyRow wc scope fp r deleted now = Inr row"
    and changes: "changes = [c, insert_change (table_of KindOperation) (idempotencyRowID (wc_codec wc) scope) row]"
    using assms(1) by (auto simp: appendIdempotency_def map_sum_def split: sum.splits)
  have "map_of (idempotency s1) scope = None"
    using assms(2,4) False by (auto simp: replayLocked_def split: option.splits if_splits)
  then show ?thesis
    unfolding changes by (intro assms(3) carry_out.remembered [OF row False] carry_out.nothing)
qed

lemma verdict_of_realizes:
  "(\<And>x. v = Inr x \<Longrightarrow> realizes wc current (f x) out) \<Longrightarrow> realizes wc current (verdict_of v f) out"
  by (cases v) (simp_all add: verdict_of_def)

section \<open>Create\<close>

lemma with_id_key: "with_operation_key key (with_id i r) = with_id i (with_operation_key key r)"
  by (cases r) (simp_all add: with_operation_key_def with_id_def)

lemma unqueued_with_id [simp]: "created_unqueued (with_id i r) = created_unqueued r"
  by (cases r) (simp_all add: created_unqueued_def with_id_def)

lemma valid_port_mac: "Validate cd (Port p) = None \<Longrightarrow> port_MACAddress p \<noteq> []"
  by (auto simp: validatePort_def check_simps parse_mac_def)

lemma new_states_meta:
  "validateNewReferenceStatesLocked s (map_metadata f r) prior = validateNewReferenceStatesLocked s r prior"
  unfolding validateNewReferenceStatesLocked_def using references_core [of "map_metadata f r"] references_core [of r] by simp

lemma unique_meta:
  "validateUniqueLocked s (map_metadata f r) i = validateUniqueLocked s r i"
  unfolding validateUniqueLocked_def
  using conflictField_core_left [of "map_metadata f r"] conflictField_core_left [of r]
    claims_core [of s "map_metadata f r"] claims_core [of s r] by simp

lemma with_lsp_name_kind [simp]:
  "ResourceKind (with_lsp_name r) = ResourceKind r" "GetMetadata (with_lsp_name r) = GetMetadata r"
  by (cases r; simp add: with_lsp_name_def)+

text \<open>The replay at the head of \<open>Create\<close>, \<open>Update\<close> and \<open>BeginDelete\<close>.\<close>

lemma replay_realizes:
  assumes "\<And>x. replayLocked (view current) scope fp = Inr (Some x) \<Longrightarrow> out = (view current, Inr (x, True))"
    and "replayLocked (view current) scope fp = Inr None \<Longrightarrow> realizes wc current v out"
  shows "realizes wc current (verdict_of (replay current scope fp)
    (\<lambda>replayed. case replayed of Some r \<Rightarrow> Return (Inr (r, True)) | None \<Rightarrow> v)) out"
  using assms by (cases "replayLocked (view current) scope fp") (auto simp: verdict_of_def view_simps split: option.splits)

lemma Create_accepts:
  assumes "kind_valid (ResourceKind r)" "\<not> created_unqueued (with_operation_key key r)"
    and fp: "fp = resource_fingerprint (wc_codec wc) r []" and scope: "scope = idempotencyScope ''create'' (ResourceKind r) [] key"
    and copy: "copy = on_floating MarkPending (SetDefaults (with_id newID (with_operation_key key r)))"
    and "replayLocked s scope fp = Inr None" "lookup s (ResourceKind copy) (ID (GetMetadata copy)) = None"
      "Validate (wc_codec wc) copy = None" "validateReferencesLocked s copy = None"
      "validateNewReferenceStatesLocked s copy None = None" "validateUniqueLocked s copy [] = None"
    and candidate: "candidate = map_metadata (fresh_metadata now) copy" "with_lsp_name candidate = candidate"
  shows "Create (mem_env now newID (wc_codec wc)) r key s =
    (rememberLocked scope fp candidate False (store_put (ResourceKind candidate) (ID (GetMetadata candidate)) candidate s),
     Inr (candidate, False))"
proof -
  have copy': "ResourceKind copy = ResourceKind r" "ID (fresh_metadata now (GetMetadata copy)) = ID (GetMetadata copy)"
    "ID (GetMetadata (with_id newID (with_operation_key key r))) = ID (GetMetadata copy)"
    by (simp_all add: copy fresh_metadata_def)
  show ?thesis
    using assms(1,2,6-) unfolding Create_def mem_env_simps if_False fp [symmetric] scope [symmetric] copy [symmetric] Let_def
    by (simp add: copy' copy [symmetric])
qed

lemma create_realizes:
  assumes ok: "snapshot_ok current" and accepted: "create_refusal (wc_codec wc) newID key r = None" "kind_valid (ResourceKind r)"
    and fp: "fp = resource_fingerprint (wc_codec wc) r []"
    and scope: "scope = idempotencyScope ''create'' (ResourceKind r) [] key"
    and candidate: "candidate = with_lsp_name (map_metadata (fresh_metadata now) (create_candidate newID key r))"
  shows "realizes wc current (create_decision wc now scope fp candidate current)
    (Create (mem_env now newID (wc_codec wc)) r key (view current))"
    (is "realizes _ _ _ ?out")
proof -
  let ?s = "view current" and ?k = "ResourceKind candidate" and ?i = "ID (GetMetadata candidate)"
  define copy where "copy = on_floating MarkPending (SetDefaults (with_id newID (with_operation_key key r)))"
  have unqueued: "\<not> created_unqueued (with_operation_key key r)" and valid: "Validate (wc_codec wc) copy = None"
    using accepted(1) by (simp_all add: create_refusal_def Let_def check_simps with_id_key create_candidate_def copy_def)
  have named: "?k = ResourceKind copy" "?i = ID (GetMetadata copy)"
    by (simp_all add: candidate copy_def create_candidate_def with_id_key fresh_metadata_def)
  have committed: "realizes wc current (Commit changes now (candidate, False)) ?out"
    if fresh: "replayLocked ?s scope fp = Inr None" "lookup ?s ?k ?i = None"
      and checks: "validateReferences current candidate = None" "validateNewReferenceStates current candidate None = None"
        "validateUnique current candidate [] = None"
      and row: "encodeResource wc candidate current = Inr row"
      and changes: "appendIdempotency wc [insert_change (table_of ?k) ?i row] scope fp candidate False now = Inr changes"
    for row changes
  proof -
    have result: "candidate = map_metadata (fresh_metadata now) copy"
      using encode_nonempty [OF row] named(2)
      unfolding candidate create_candidate_def copy_def with_id_key by (intro lsp_name_set) simp
    then have name: "with_lsp_name candidate = candidate"
      by (simp add: candidate create_candidate_def with_id_key copy_def)
    have mac: "port_MACAddress p \<noteq> []" if "candidate = Port p" for p
      using valid valid_port_mac [of "wc_codec wc" p] Validate_map_metadata [of "wc_codec wc" "fresh_metadata now" copy]
      by (simp add: that [symmetric] result [symmetric])
    have "validateReferencesLocked ?s copy = None" "validateNewReferenceStatesLocked ?s copy None = None"
      "validateUniqueLocked ?s copy [] = None"
      using checks validateReferences_view [OF snapshot_okD(2) [OF ok]] validateUnique_view [where s = current and i = "[]", OF mac]
      by (simp_all add: view_simps result new_states_meta unique_meta references_own_meta fresh_metadata_def)
    then have "?out = (rememberLocked scope fp candidate False (store_put ?k ?i candidate ?s), Inr (candidate, False))"
      using fresh named valid unqueued by (intro Create_accepts [OF accepted(2) _ fp scope copy_def _ _ _ _ _ _ result name]) simp_all
    moreover have "carry_out wc current changes ?s (rememberLocked scope fp candidate False (store_put ?k ?i candidate ?s))"
      using changes by (rule append_remembers) (use fresh row in \<open>auto intro: carry_out.inserted simp: store_put_def\<close>)
    ultimately show ?thesis by simp
  qed
  show ?thesis
    unfolding create_decision_def Let_def
    by (intro replay_realizes)
      (use accepted(2) committed in \<open>auto simp: Create_def fp scope check_simps snap_lookup_view split: option.splits intro!: verdict_of_realizes\<close>)
qed

section \<open>Update\<close>

lemma updated_keeps [simp]: "ID (updated_metadata now i cur m) = i" "State (updated_metadata now i cur m) = ResourcePending"
  by (simp_all add: updated_metadata_def)

lemma update_checks:
  assumes ok: "snapshot_ok current" and k: "k = ResourceKind copy" and i: "i = ID (GetMetadata copy)"
    and candidate: "candidate = map_metadata (updated_metadata now i m) copy"
    and alive: "State (GetMetadata copy) \<noteq> ResourceDeleting" and valid: "Validate cd copy = None"
    and checks: "validateReferences current candidate = None" "validateNewReferenceStates current candidate (Some stored) = None"
      "validateUnique current candidate i = None" "validateReplacement current candidate = None"
  shows "validateReferencesLocked (view current) copy = None" "validateNewReferenceStatesLocked (view current) copy (Some stored) = None"
    "validateUniqueLocked (view current) copy i = None" "validate_graph (store_put k i copy (view current)) = None"
proof -
  have mac: "port_MACAddress p \<noteq> []" if "candidate = Port p" for p
    using valid valid_port_mac [of cd p] Validate_map_metadata [of cd "updated_metadata now i m" copy]
    by (simp add: that [symmetric] candidate [symmetric])
  show "validateReferencesLocked (view current) copy = None"
    "validateNewReferenceStatesLocked (view current) copy (Some stored) = None" "validateUniqueLocked (view current) copy i = None"
    using checks validateReferences_view [OF snapshot_okD(2) [OF ok]] validateUnique_view [where s = current and i = i, OF mac]
    by (simp_all add: view_simps candidate new_states_meta unique_meta references_own_meta i)
  have "validate_graph (store_put k i candidate (view current)) = None"
    using validateReplacement_graph(2) [OF snapshot_okD(1,2) [OF ok] checks(4)] by (simp add: candidate k)
  then show "validate_graph (store_put k i copy (view current)) = None"
    unfolding candidate using snapshot_okD(1,3) [OF ok] alive
    by (rule_tac validate_graph_cong [where f = "updated_metadata now i m"]) (simp_all add: k i)
qed

lemma update_realizes:
  assumes ok: "snapshot_ok current" and accepted: "update_refusal (wc_codec wc) r = None" "ID (GetMetadata r) \<noteq> []"
    and alive: "State (GetMetadata r) \<noteq> ResourceDeleting"
    and fp: "fp = resource_fingerprint (wc_codec wc) r (''expected='' @ dec_int expected)"
    and scope: "scope = idempotencyScope ''update'' (ResourceKind r) (ID (GetMetadata r)) key"
    and requested: "requested = on_floating MarkPending (SetDefaults r)"
  shows "realizes wc current (update_decision wc now scope fp (ID (GetMetadata r)) expected requested current)
    (Update (mem_env now newID (wc_codec wc)) r expected key (view current))"
    (is "realizes _ _ _ ?out")
proof -
  let ?s = "view current" and ?k = "ResourceKind requested" and ?i = "ID (GetMetadata r)"
  have valid: "Validate (wc_codec wc) requested = None" "\<not> unclaimed_start requested"
    using accepted(1) by (simp_all add: update_refusal_def Let_def check_simps requested)
  have req: "?k = ResourceKind r" "ID (GetMetadata requested) = ?i" "State (GetMetadata requested) \<noteq> ResourceDeleting"
    using alive by (simp_all add: requested GetMetadata_SetDefaults Let_def)
  have committed: "realizes wc current (Commit changes now (candidate, False)) ?out"
    if fresh: "replayLocked ?s scope fp = Inr None" and stored: "lookup ?s ?k ?i = Some stored"
      "\<not> expected < 1" "Revision (GetMetadata stored) = expected" "\<not> foreign_lease requested stored"
      and candidate: "candidate = map_metadata (updated_metadata now ?i (GetMetadata stored)) requested"
      and checks: "validateReferences current candidate = None" "validateNewReferenceStates current candidate (Some stored) = None"
        "validateUnique current candidate ?i = None" "validateReplacement current candidate = None"
      and row: "encodeResource wc candidate current = Inr row"
      and changes: "appendIdempotency wc [update_change (table_of ?k) ?i expected row] scope fp candidate False now = Inr changes"
    for stored candidate row changes
  proof -
    note mem = update_checks [OF ok refl req(2) [symmetric] candidate req(3) valid(1) checks]
    have out: "?out = (rememberLocked scope fp candidate False (store_put ?k ?i candidate ?s), Inr (candidate, False))"
      using accepted(2) fresh stored valid mem
      unfolding Update_def mem_env_simps if_False fp [symmetric] scope [symmetric] requested [symmetric] Let_def req(1) candidate
      by (simp add: conflict_if_def fail_if_def)
    have k: "ResourceKind candidate = ?k" by (simp add: candidate)
    have "carry_out wc current changes ?s (rememberLocked scope fp candidate False (store_put ?k ?i candidate ?s))"
      using changes
      by (rule append_remembers)
        (use fresh stored row k carry_out.replaced [OF row, of _ ?i] in \<open>auto simp: store_put_def\<close>)
    then show ?thesis using out by simp
  qed
  show ?thesis
    unfolding update_decision_def Let_def snap_lookup_view
  proof (rule replay_realizes)
    show "?out = (?s, Inr (x, True))" if "replayLocked ?s scope fp = Inr (Some x)" for x
      using that accepted(2) by (simp add: Update_def fp scope)
  qed (use committed in \<open>simp add: check_simps verdict_of_realizes split: option.split\<close>)
qed

section \<open>Leases, heartbeats and results\<close>

lemma carry_out_update:
  "\<lbrakk>encodeResource wc r current = Inr row; ResourceKind r = k; lookup s k i = Some stored; Revision (GetMetadata stored) = n\<rbrakk> \<Longrightarrow>
     carry_out wc current [update_change (table_of k) i n row] s (store_put k i r s)"
  using carry_out.replaced [OF _ _ _ carry_out.nothing] by blast

lemma get_operation_Some [simp]: "get_as as_operation s k i = Some p \<longleftrightarrow> lookup s k i = Some (Operation p)"
  by (auto simp: get_as_Some)

lemma get_node_Some [simp]: "get_as as_node s k i = Some p \<longleftrightarrow> lookup s k i = Some (Node p)"
  by (auto simp: get_as_Some)

lemma claim_realizes:
  assumes "validLeaseOwner w"
  shows "realizes wc current (claim_decision wc i n action w t cut' current)
    (claimOperation (mem_env now newID cd) i n action w t cut' (view current))"
  using assms unfolding claim_decision_def claimOperation_def Let_def view_simps
  by (auto split: option.split intro!: verdict_of_realizes carry_out_update)

lemma renew_realizes:
  "realizes wc current (renew_decision wc i n w t current) (RenewOperationLease (mem_env now newID cd) i n w t (view current))"
  unfolding renew_decision_def RenewOperationLease_def Let_def view_simps
  by (auto split: option.split intro!: verdict_of_realizes carry_out_update)

lemma heartbeat_realizes:
  assumes "i \<noteq> []" "t \<noteq> zero_time"
  shows "realizes wc current (heartbeat_decision wc i n t current) (ObserveNodeHeartbeat (mem_env now newID cd) i n t (view current))"
  using assms unfolding heartbeat_decision_def ObserveNodeHeartbeat_def Let_def view_simps
  by (auto split: option.split intro!: verdict_of_realizes carry_out_update)

lemma begin_delete_realizes:
  assumes ok: "snapshot_ok current"
    and fp: "fp = sha256 (wc_codec wc) (ident @ '':'' @ dec_int n)" and scope: "scope = idempotencyScope ''delete'' k ident key"
  shows "realizes wc current (begin_delete_decision wc now scope fp k ident n current)
    (BeginDelete (mem_env now newID (wc_codec wc)) k ident n key (view current))"
    (is "realizes _ _ _ ?out")
proof -
  let ?s = "view current"
  have committed: "realizes wc current (Commit changes now (tombstone, False)) ?out"
    if fresh: "replayLocked ?s scope fp = Inr None" and stored: "lookup ?s k ident = Some stored" "\<not> n < 1"
        "Revision (GetMetadata stored) = n" "\<not> firstReferenceLocked ?s k ident"
      and tombstone: "tombstone = on_floating MarkPending (map_metadata (tombstone_metadata now) stored)"
      and row: "encodeResource wc tombstone current = Inr row"
      and changes: "appendIdempotency wc [update_change (table_of k) ident n row] scope fp tombstone True now = Inr changes"
    for stored tombstone row changes
  proof -
    have k: "ResourceKind tombstone = k" using snapshot_okD(6) [OF ok stored(1)] by (simp add: tombstone)
    have "?out = (rememberLocked scope fp tombstone True (store_put k ident tombstone ?s), Inr (tombstone, False))"
      using fresh stored unfolding BeginDelete_def mem_env_simps if_False fp [symmetric] scope [symmetric] Let_def tombstone by simp
    moreover have "carry_out wc current changes ?s (rememberLocked scope fp tombstone True (store_put k ident tombstone ?s))"
      using changes
      by (rule append_remembers)
        (use fresh stored k carry_out.replaced [OF row, of _ ident] in \<open>auto simp: store_put_def\<close>)
    ultimately show ?thesis by simp
  qed
  show ?thesis
    unfolding begin_delete_decision_def Let_def snap_lookup_view firstReference_view
  proof (rule replay_realizes)
    show "?out = (?s, Inr (x, True))" if "replayLocked ?s scope fp = Inr (Some x)" for x
      using that by (simp add: BeginDelete_def fp scope)
  qed (use committed in \<open>simp add: verdict_of_realizes split: option.split\<close>)
qed

lemma protected_view [view_simps]: "snap_purge_protected s k i = purge_protected (view s) k i"
  unfolding snap_purge_protected_def purge_protected_def view_simps by (rule refl)

text \<open>\<open>Purge\<close> of the in-memory store returns an error or nothing.\<close>

definition unit_outcome :: "memory \<times> err option \<Rightarrow> memory \<times> (err + unit)" where
  "unit_outcome out = (fst out, case snd out of None \<Rightarrow> Inr () | Some e \<Rightarrow> Inl e)"

lemma tableForKind_table: "tableForKind k = Inr table \<Longrightarrow> table = table_of k"
  by (auto simp: tableForKind_def table_of_def split: option.splits)

lemma purge_realizes:
  "realizes wc current (purge_decision now k i n current) (unit_outcome (Purge (mem_env now newID cd) k i n (view current)))"
  unfolding purge_decision_def Purge_def Let_def view_simps
  by (auto simp: unit_outcome_def dest!: tableForKind_table split: option.split intro!: verdict_of_realizes
      carry_out.removed [OF _ _ carry_out.nothing])

lemma update_same: "map_of xs k = Some v \<Longrightarrow> AList.update k v xs = xs"
  by (induction xs) auto

lemma store_put_same: "lookup s k i = Some r \<Longrightarrow> store_put k i r s = s"
  by (simp add: store_put_def lookup_def update_same)

lemma reconciled_props:
  "ResourceKind (reconciled_resource now n e r) = ResourceKind r"
  "Revision (GetMetadata (reconciled_resource now n e r)) = Revision (GetMetadata r)"
  by (auto simp: reconciled_resource_def Let_def split: option.splits)

lemma reconciled_unchanged: "\<not> reconcile_changed n e (GetMetadata r) \<Longrightarrow> reconciled_resource now n (map_option f e) r = r"
  by (cases r) (auto simp: reconcile_changed_def reconciled_resource_def Let_def split: option.splits)

lemma reconciled_realizes:
  assumes ok: "snapshot_ok current"
  shows "realizes wc current (reconciled_decision wc now k i n e current)
    (MarkReconciled (mem_env now newID cd) k i n (map_option truncateError e) (view current))"
  unfolding reconciled_decision_def MarkReconciled_def Let_def view_simps
  by (auto simp: reconciled_props reconciled_unchanged store_put_same snapshot_okD(6) [OF ok] dest!: tableForKind_table
      split: option.split intro!: verdict_of_realizes carry_out_update)

section \<open>Batches of ended claims\<close>

lemma recovery_carry_out:
  assumes "recovery_changes wc current xs = Inr changes" "distinct (map fst xs)"
    and "\<And>i o' p. (i, o', p) \<in> set xs \<Longrightarrow> lookup s KindOperation i = Some (Operation o')"
  shows "carry_out wc current changes s (fold (\<lambda>(i, _, p). store_put KindOperation i (Operation p)) xs s)"
  using assms
proof (induction wc current xs arbitrary: s changes rule: recovery_changes.induct)
  case (1 wc current)
  then show ?case by (auto intro: carry_out.nothing)
next
  case (2 wc current i o' p rest)
  then obtain row more where row: "encodeResource wc (Operation p) current = Inr row" and more: "recovery_changes wc current rest = Inr more"
    and changes: "changes = update_change (table_of KindOperation) i (Revision (op_meta o')) row # more"
    by (auto split: sum.splits)
  let ?s = "store_put KindOperation i (Operation p) s"
  have "carry_out wc current more ?s (fold (\<lambda>(i, _, p). store_put KindOperation i (Operation p)) rest ?s)"
  proof (rule "2.IH" [OF row more])
    show "lookup ?s KindOperation j = Some (Operation q)" if "(j, q, x) \<in> set rest" for j q x
      using that "2.prems"(2,3) by (force simp: image_iff)
  qed (use "2.prems"(2) in simp)
  then show ?case
    unfolding changes using carry_out.replaced [of wc "Operation p" current row s i "Operation o'"] row "2.prems"(3) [of i o' p] by simp
qed

text \<open>The operations of a snapshot, each under its own id.\<close>

lemma snapshot_operations:
  assumes "snapshot_ok s"
  shows "p \<in> set (all_of as_operation (view s) KindOperation) \<longleftrightarrow> lookup (view s) KindOperation (ID (op_meta p)) = Some (Operation p)"
  using snapshot_okD(7) [OF assms] by (fastforce simp: mem_all_of [OF snapshot_okD(1) [OF assms]])

lemma snapshot_operations_distinct:
  assumes ok: "snapshot_ok s"
  shows "distinct (map (\<lambda>p. ID (op_meta p)) (all_of as_operation (view s) KindOperation))"
proof -
  have "map (\<lambda>p. ID (op_meta p)) (List.map_filter (\<lambda>(_, r). as_operation r) xs) =
      map fst (filter (\<lambda>(_, r). as_operation r \<noteq> None) xs)"
    if "\<And>i r. (i, r) \<in> set xs \<Longrightarrow> ID (GetMetadata r) = i" for xs :: "(string \<times> resource) list"
    using that by (induction xs) (auto simp: map_filter_simps split: option.splits, metis as_Some(8) GetMetadata.simps list.set_intros(1))
  from this [of "rows (view s) KindOperation"] show ?thesis
    using snapshot_okD(7) [OF ok] distinct_rows [OF snapshot_okD(1) [OF ok], of KindOperation]
    by (auto simp: all_of_def mem_rows [OF snapshot_okD(1) [OF ok]] distinct_map_filter)
qed

lemma recovery_length: "recovery_changes wc current xs = Inr changes \<Longrightarrow> length changes = length xs"
  by (induction wc current xs arbitrary: changes rule: recovery_changes.induct) (auto split: sum.splits)

lemma fence_expired_view: "fence_expired k i cutoff current = fenced k i cutoff (rows (view current) KindOperation)"
proof -
  have "filter (\<lambda>(_, o'). P o') (List.map_filter (\<lambda>(operationID, r). map_option (Pair operationID) (as_operation r)) xs) =
      List.map_filter (\<lambda>(i, r). case as_operation r of Some o' \<Rightarrow> if P o' then Some (i, o') else None | None \<Rightarrow> None) xs"
    for P and xs :: "(string \<times> resource) list"
    by (induction xs) (auto simp: map_filter_simps split: option.splits)
  from this [of "\<lambda>o'. fence_targets k i o' \<and> \<not> reconcileLeaseIsLive o' cutoff"] show ?thesis
    by (simp add: fence_expired_def fenced_def view_simps)
qed

lemma fence_loop_recovered:
  "snd (snd (fence_loop kind ident cutoff t rs a b s)) \<longleftrightarrow> b \<or> fenced kind ident cutoff rs \<noteq> []"
proof (induction kind ident cutoff t rs a b s rule: fence_loop.induct)
  case (2 kind ident cutoff t i r rest a b s)
  then show ?case by (cases "as_operation r") (auto simp: fenced_def map_filter_simps)
qed (simp add: fenced_def map_filter_simps)

lemma fence_live_view:
  "fence_live k i cutoff current \<longleftrightarrow>
     (\<exists>j o'. (j, Operation o') \<in> set (rows (view current) KindOperation) \<and> fence_targets k i o' \<and> reconcileLeaseIsLive o' cutoff)"
proof -
  have "o' \<in> set (all_of as_operation (view current) KindOperation) \<longleftrightarrow> (\<exists>j. (j, Operation o') \<in> set (rows (view current) KindOperation))" for o'
    by (auto simp: all_of_def mem_map_filter) force
  then show ?thesis unfolding fence_live_def snap_all_view list_ex_iff by blast
qed

lemma fence_realizes:
  assumes ok: "snapshot_ok current"
  shows "realizes wc current (fence_decision wc k i cutoff t current) (FenceReconciles (mem_env now newID cd) k i cutoff t (view current))"
    (is "realizes _ _ _ ?out")
proof -
  let ?rs = "rows (view current) KindOperation"
  let ?loop = "fence_loop k i cutoff t ?rs False False (view current)"
  let ?xs = "map (\<lambda>(j, o'). (j, o', fail_operation ''reconcile lease expired while target was deleting'' t o')) (fenced k i cutoff ?rs)"
  have out: "?out = (fold (\<lambda>(i, _, p). store_put KindOperation i (Operation p)) ?xs (view current),
      Inr (fence_live k i cutoff current, fenced k i cutoff ?rs \<noteq> []))"
    using fence_loop_state [of k i cutoff t ?rs False False "view current"]
      fence_loop_active [of k i cutoff t ?rs False False "view current"] fence_loop_recovered [of k i cutoff t ?rs False False "view current"]
    by (cases ?loop) (auto simp: FenceReconciles_def fence_live_view fold_map comp_def case_prod_beta)
  have "distinct (map fst ?xs)"
    using distinct_fenced [OF distinct_rows [OF snapshot_okD(1) [OF ok]], of k i cutoff KindOperation]
    by (simp add: comp_def case_prod_beta)
  moreover have "lookup (view current) KindOperation j = Some (Operation o')" if "(j, o', p) \<in> set ?xs" for j o' p
    using that mem_rows [OF snapshot_okD(1) [OF ok]] by (auto simp: mem_fenced)
  ultimately have "carry_out wc current changes (view current) (fst ?out)" if "recovery_changes wc current ?xs = Inr changes" for changes
    using recovery_carry_out [OF that] by (simp add: out)
  moreover have "changes = [] \<longleftrightarrow> fenced k i cutoff ?rs = []" if "recovery_changes wc current ?xs = Inr changes" for changes
    using recovery_length [OF that] by auto
  ultimately show ?thesis
    unfolding fence_decision_def fence_expired_view by (intro verdict_of_realizes) (auto simp: out)
qed

lemma snap_expired_view: "snap_expired_operations current cutoff = expiredRunningOperations (view current) cutoff"
  by (simp add: snap_expired_operations_def expiredRunningOperations_def view_simps conj_ac cong: filter_cong)

lemma snap_queued_view: "snap_queued_operations current cutoff = supersededQueuedReconcilesLocked (view current)"
proof -
  have "(\<not> (leaseProtectedAction (op_Action o') \<and> op_OperationStatus o' = OperationRunning \<and> \<not> reconcileLeaseIsLive o' cutoff) \<and>
      op_Action o' = ''reconcile'' \<and> op_OperationStatus o' = OperationQueued \<and> operationSuperseded current o') \<longleftrightarrow>
      \<not> (op_Action o' \<noteq> ''reconcile'' \<or> op_OperationStatus o' \<noteq> OperationQueued \<or> \<not> operationSupersededLocked (view current) o')" for o'
    by (auto simp: view_simps)
  then show ?thesis
    unfolding snap_queued_operations_def supersededQueuedReconcilesLocked_def snap_all_view by presburger
qed

lemma snap_candidates_view: "snap_recovery_candidates current cutoff n = recovery_candidates (view current) cutoff n"
  unfolding snap_recovery_candidates_def recovery_candidates_def snap_expired_view snap_queued_view by (rule refl)

lemma candidates_operations:
  assumes ok: "snapshot_ok current"
  shows "distinct (map (\<lambda>p. ID (op_meta p)) (recovery_candidates (view current) cutoff n))"
    and "p \<in> set (recovery_candidates (view current) cutoff n) \<Longrightarrow> lookup (view current) KindOperation (ID (op_meta p)) = Some (Operation p)"
proof -
  let ?all = "all_of as_operation (view current) KindOperation"
  have sub: "set (recovery_candidates (view current) cutoff n) \<subseteq> set ?all"
    by (auto simp: recovery_candidates_def Let_def expiredRunningOperations_def supersededQueuedReconcilesLocked_def
        dest!: in_set_takeD split: if_splits)
  then show "p \<in> set (recovery_candidates (view current) cutoff n) \<Longrightarrow> lookup (view current) KindOperation (ID (op_meta p)) = Some (Operation p)"
    using snapshot_operations [OF ok] by blast
  have all: "distinct ?all" "inj_on (\<lambda>p. ID (op_meta p)) (set ?all)"
    using snapshot_operations_distinct [OF ok] by (simp_all add: distinct_map)
  then have "distinct (expiredRunningOperations (view current) cutoff @ supersededQueuedReconcilesLocked (view current))"
    by (auto simp: expiredRunningOperations_def supersededQueuedReconcilesLocked_def distinct_append)
  then have "distinct (recovery_candidates (view current) cutoff n)"
    by (auto simp: recovery_candidates_def Let_def dest: in_set_takeD)
  with sub all(2) show "distinct (map (\<lambda>p. ID (op_meta p)) (recovery_candidates (view current) cutoff n))"
    by (auto simp: distinct_map intro: inj_on_subset)
qed

lemma recover_realizes:
  assumes ok: "snapshot_ok current" and args: "cutoff \<noteq> zero_time" "t \<noteq> zero_time" "\<not> limit < 1"
    and n: "n = (if limit > int maxExpiredOperationRecoverBatch then maxExpiredOperationRecoverBatch else nat limit)"
  shows "realizes wc current (recover_decision wc cutoff t n current)
    (RecoverExpiredOperations (mem_env now newID cd) cutoff t limit (view current))"
    (is "realizes _ _ _ ?out")
proof -
  let ?ps = "recovery_candidates (view current) cutoff n"
  let ?xs = "map (\<lambda>o'. (ID (op_meta o'), o', fail_operation (operationRecoveryError o') t o')) ?ps"
  have "ID (op_meta (fail_operation m t o')) = ID (op_meta o')" for m o' by (simp add: fail_operation_def)
  then have out: "?out = (fold (\<lambda>(i, _, p). store_put KindOperation i (Operation p)) ?xs (view current), Inr (length ?ps))"
    using args unfolding RecoverExpiredOperations_def mem_env_simps Let_def n [symmetric] by (simp add: fold_map comp_def)
  have "carry_out wc current changes (view current) (fst ?out)" if "recovery_changes wc current ?xs = Inr changes" for changes
    unfolding out fst_conv
    by (rule recovery_carry_out [OF that]) (use candidates_operations [OF ok] in \<open>auto simp: comp_def\<close>)
  then show ?thesis
    unfolding recover_decision_def snap_candidates_view Let_def by (auto simp: out intro!: verdict_of_realizes)
qed

section \<open>Retention\<close>

text \<open>A store from which the operations with the ids \<open>R\<close> and the records of their creation were removed.\<close>

definition pruned_from :: "memory \<Rightarrow> string set \<Rightarrow> memory \<Rightarrow> bool" where
  "pruned_from s0 R s \<longleftrightarrow> (\<forall>k i. \<not> (k = KindOperation \<and> i \<in> R) \<longrightarrow> lookup s k i = lookup s0 k i) \<and>
     (\<forall>scope. map_of (idempotency s) scope = map_of (idempotency s0) scope \<or>
        map_of (idempotency s) scope = None \<and>
        (\<exists>x. map_of (idempotency s0) scope = Some x \<and> ID (GetMetadata (resource_of x)) \<in> R))"

lemma pruned_eligible:
  assumes "pruned_from s0 R s" "ID (op_meta p) \<notin> R" "op_TargetKind p \<noteq> KindOperation"
  shows "prune_eligible before s p = prune_eligible before s0 p"
proof -
  let ?scope = "idempotencyScope ''create'' KindOperation [] (op_IdempotencyKey p)"
  have "operationSupersededLocked s p = operationSupersededLocked s0 p"
    using assms by (intro superseded_cong) (simp add: pruned_from_def)
  moreover have "map_of (idempotency s) ?scope = map_of (idempotency s0) ?scope \<or>
      map_of (idempotency s) ?scope = None \<and> (\<exists>x. map_of (idempotency s0) ?scope = Some x \<and> ID (GetMetadata (resource_of x)) \<in> R)"
    using assms(1) by (simp add: pruned_from_def)
  ultimately show ?thesis using assms(2) by (auto simp: prune_eligible_def)
qed

lemma pruned_step:
  assumes "pruned_from s0 R s" "prune_eligible before s p"
  shows "pruned_from s0 (insert (ID (op_meta p)) R)
    ((store_remove KindOperation (ID (op_meta p)) s)
      \<lparr>idempotency := AList.delete (idempotencyScope ''create'' KindOperation [] (op_IdempotencyKey p)) (idempotency s)\<rparr>)"
proof -
  let ?scope = "idempotencyScope ''create'' KindOperation [] (op_IdempotencyKey p)"
  obtain x where x: "map_of (idempotency s) ?scope = Some x" "ID (GetMetadata (resource_of x)) = ID (op_meta p)"
    using assms(2) by (auto simp: prune_eligible_def split: option.splits)
  then have "map_of (idempotency s0) ?scope = Some x"
    using assms(1) unfolding pruned_from_def by (metis option.distinct(1))
  with x assms(1) show ?thesis
    unfolding pruned_from_def by (auto simp: delete_conv')
qed

lemma prune_agrees:
  assumes "pruned_from (view current) R s"
    and "distinct (map (\<lambda>p. ID (op_meta p)) ops)" "\<And>p. p \<in> set ops \<Longrightarrow> ID (op_meta p) \<notin> R"
    and "\<And>p. p \<in> set ops \<Longrightarrow> lookup (view current) KindOperation (ID (op_meta p)) = Some (Operation p) \<and> op_TargetKind p \<noteq> KindOperation"
  shows "carry_out wc current (fst (prune_changes (wc_codec wc) before current ops n)) s (fst (prune_loop before ops n s)) \<and>
    snd (prune_loop before ops n s) = snd (prune_changes (wc_codec wc) before current ops n)"
  using assms
proof (induction ops arbitrary: R s n)
  case Nil
  then show ?case by (simp add: carry_out.nothing)
next
  case (Cons p ops)
  have eligible: "prune_eligible before s p = snap_prune_eligible before current p"
    using pruned_eligible [OF Cons.prems(1)] Cons.prems(3,4)
    by (simp add: snap_prune_eligible_def prune_eligible_def view_simps)
  consider "n = maxOperationPruneBatch" | "n \<noteq> maxOperationPruneBatch" "\<not> prune_eligible before s p"
    | "n \<noteq> maxOperationPruneBatch" "prune_eligible before s p" by blast
  then show ?case
  proof cases
    case 1
    then show ?thesis by (simp add: carry_out.nothing)
  next
    case 2
    then show ?thesis using Cons.IH [OF Cons.prems(1)] Cons.prems(2-) eligible by simp
  next
    case 3
    let ?scope = "idempotencyScope ''create'' KindOperation [] (op_IdempotencyKey p)"
    let ?s1 = "store_remove KindOperation (ID (op_meta p)) s"
    let ?s2 = "?s1\<lparr>idempotency := AList.delete ?scope (idempotency ?s1)\<rparr>"
    have "pruned_from (view current) (insert (ID (op_meta p)) R) ?s2"
      using pruned_step [OF Cons.prems(1) 3(2)] by simp
    then have IH: "carry_out wc current (fst (prune_changes (wc_codec wc) before current ops (Suc n))) ?s2 (fst (prune_loop before ops (Suc n) ?s2)) \<and>
        snd (prune_loop before ops (Suc n) ?s2) = snd (prune_changes (wc_codec wc) before current ops (Suc n))"
      by (rule Cons.IH) (use Cons.prems in \<open>auto simp: image_iff\<close>)
    have found: "map_of (idempotency ?s1) ?scope \<noteq> None"
      using 3(2) by (auto simp: prune_eligible_def split: option.splits)
    have stored: "lookup s KindOperation (ID (op_meta p)) = Some (Operation p)"
      using Cons.prems(1,3,4) by (simp add: pruned_from_def)
    show ?thesis
      using IH 3 eligible carry_out.removed [OF stored refl carry_out.forgotten [OF found]]
      by (simp add: Let_def case_prod_beta)
  qed
qed

lemma prune_grows: "n \<le> snd (prune_loop before ops n s)"
proof (induction ops arbitrary: n s)
  case (Cons p ops)
  have "n \<le> snd (prune_loop before ops (Suc n) t)" for t using Cons.IH [of "Suc n" t] by simp
  then show ?case using Cons.IH by (simp add: Let_def)
qed simp

lemma prune_nothing: "snd (prune_loop before ops n s) = n \<Longrightarrow> fst (prune_loop before ops n s) = s"
proof (induction ops arbitrary: n s)
  case (Cons p ops)
  have "snd (prune_loop before ops (Suc n) t) \<noteq> n" for t using prune_grows [of "Suc n" before ops t] by simp
  then show ?case using Cons.IH Cons.prems by (simp add: Let_def split: if_splits)
qed simp

text \<open>Every row of a loaded snapshot is valid, and its references are.\<close>

lemma stored_rows:
  assumes "snapshot_ok s" "validate_stored wc s" "lookup (view s) k i = Some r"
  shows "Validate (wc_codec wc) r = None" "validateReferencesLocked (view s) r = None"
proof -
  have "((k, i), r) \<in> set (snap_entries s)"
    using assms(3) mem_resources [OF snapshot_okD(1) [OF assms(1)]] by (simp only: resources_view)
  then have "Validate (wc_codec wc) r = None \<and> validateReferences s r = None"
    using assms(2) unfolding validate_stored_def list_all_iff by (auto dest: bspec)
  then show "Validate (wc_codec wc) r = None" "validateReferencesLocked (view s) r = None"
    using validateReferences_view [OF snapshot_okD(2) [OF assms(1)]] by simp_all
qed

lemma snap_terminal_view: "snap_terminal_operations current = terminalReconcileOperations (view current)"
  by (simp add: snap_terminal_operations_def terminalReconcileOperations_def view_simps)

lemma prune_realizes:
  assumes ok: "snapshot_ok current" "validate_stored wc current" and args: "before \<noteq> zero_time" "\<not> keep < 0"
  shows "realizes wc current (prune_decision (wc_codec wc) now before keep current)
    (PruneOperations (mem_env now newID cd) before keep (view current))"
    (is "realizes _ _ _ ?out")
proof -
  let ?all = "all_of as_operation (view current) KindOperation"
  let ?ops = "drop (nat keep) (terminalReconcileOperations (view current))"
  have "distinct (map (\<lambda>p. ID (op_meta p)) (sort_key completed_key (filter terminal_reconcile ?all)))"
    using snapshot_operations_distinct [OF ok(1)] by (simp add: distinct_map inj_on_def)
  then have "distinct (map (\<lambda>p. ID (op_meta p)) ?ops)"
    by (simp add: terminalReconcileOperations_def drop_map [symmetric])
  moreover have "lookup (view current) KindOperation (ID (op_meta p)) = Some (Operation p) \<and> op_TargetKind p \<noteq> KindOperation"
    if "p \<in> set ?ops" for p
  proof -
    have stored: "lookup (view current) KindOperation (ID (op_meta p)) = Some (Operation p)"
      using in_set_dropD [OF that] snapshot_operations [OF ok(1)] by (simp add: terminalReconcileOperations_def)
    then have "Validate (wc_codec wc) (Operation p) = None"
      by (rule stored_rows(1) [OF ok])
    with stored show ?thesis by (auto simp: validateOperation_def check_simps)
  qed
  ultimately have loop: "carry_out wc current (fst (prune_changes (wc_codec wc) before current ?ops 0)) (view current)
      (fst (prune_loop before ?ops 0 (view current))) \<and>
    snd (prune_loop before ?ops 0 (view current)) = snd (prune_changes (wc_codec wc) before current ?ops 0)"
    by (intro prune_agrees [where R = "{}"]) (auto simp: pruned_from_def)
  show ?thesis
    unfolding prune_decision_def PruneOperations_def snap_terminal_view mem_env_simps Let_def
    using args loop prune_nothing [of before ?ops 0] by (auto simp: case_prod_beta)
qed

end
