(* ===== verification/Ovsdb_Database.thy ===== *)
theory Ovsdb_Database
  imports Ovsdb_Store
begin

text \<open>
  The connection to the database server (\<open>internal/ovsdbstore/database.go\<close>).

  The client library is a parameter: \<open>Transact\<close> sends the operations of one transaction and gives
  their results, \<open>CheckOperationResults\<close> finds the errors among the results. What the code
  builds and how it reads the answer are definitions.
\<close>

section \<open>Connection settings\<close>

text \<open>The fields of \<open>tls.Config\<close> the code reads. A certificate pool and a callback are only tested
  for presence.\<close>

record tls_config =
  InsecureSkipVerify :: bool
  has_RootCAs :: bool
  n_Certificates :: nat
  has_GetClientCertificate :: bool
  MinVersion :: int

record connection_config =
  Endpoints :: "string list"
  TLSConfig :: "tls_config option"

definition VersionTLS12 :: int where "VersionTLS12 = 0x0303"

text \<open>The loop over the endpoints: \<^term>\<open>None\<close> for an unsupported one, otherwise whether one needs TLS.\<close>

fun endpoint_scan :: "string list \<Rightarrow> bool \<Rightarrow> bool option" where
  "endpoint_scan [] needsTLS = Some needsTLS"
| "endpoint_scan (endpoint # rest) needsTLS =
     (if has_prefix endpoint ''unix:'' \<and> length (trim_prefix endpoint ''unix:'') > 0 then endpoint_scan rest needsTLS
      else if has_prefix endpoint ''ssl:'' \<and> length (trim_prefix endpoint ''ssl:'') > 0 then endpoint_scan rest True
      else None)"

definition validateConnectionConfig :: "connection_config \<Rightarrow> err option" where
  "validateConnectionConfig cfg =
     (if Endpoints cfg = [] then Some (ErrOther ''endpoint required'')
      else case endpoint_scan (Endpoints cfg) False of
             None \<Rightarrow> Some (ErrOther ''unsupported endpoint'')
           | Some False \<Rightarrow> None
           | Some True \<Rightarrow>
               (case TLSConfig cfg of
                  None \<Rightarrow> Some (ErrOther ''TLS required'')
                | Some tls \<Rightarrow>
                    if InsecureSkipVerify tls then Some (ErrOther ''insecure TLS'')
                    else if \<not> has_RootCAs tls then Some (ErrOther ''CA pool required'')
                    else if n_Certificates tls = 0 \<and> \<not> has_GetClientCertificate tls then Some (ErrOther ''client certificate required'')
                    else if MinVersion tls \<noteq> 0 \<and> MinVersion tls < VersionTLS12 then Some (ErrOther ''TLS version'')
                    else None))"

section \<open>Transactions\<close>

datatype opcode = OperationSelect | OperationInsert | OperationUpdate | OperationDelete | OperationWait | OperationCommit

text \<open>Every condition the code builds is an equality, and every wait is for equality.\<close>

record ovs_operation =
  oo_Op :: opcode
  oo_Table :: string
  oo_Where :: "(string \<times> ovs_value) list"
  oo_Columns :: "string list"
  oo_Rows :: "row list"
  oo_Row :: row
  oo_Timeout :: "nat option"
  oo_Durable :: bool

definition no_operation :: "opcode \<Rightarrow> string \<Rightarrow> ovs_operation" where
  "no_operation opc table = \<lparr>oo_Op = opc, oo_Table = table, oo_Where = [], oo_Columns = [], oo_Rows = [], oo_Row = [],
     oo_Timeout = None, oo_Durable = False\<rparr>"

record operation_result =
  rs_Count :: int
  rs_Rows :: "row list"

datatype operation_error = TimedOut | ConstraintViolation | ReferentialIntegrityViolation | OtherOperationError

record transaction_error =
  tx_As :: operation_error
  tx_Error :: string

record 'w ovs_client =
  Transact :: "ovs_operation list \<Rightarrow> 'w \<Rightarrow> 'w \<times> (string + operation_result list)"
  CheckOperationResults :: "operation_result list \<Rightarrow> ovs_operation list \<Rightarrow> (operation_error list \<times> transaction_error) option"

definition str_contains :: "string \<Rightarrow> string \<Rightarrow> bool" where
  "str_contains s part = list_ex (\<lambda>n. has_prefix (drop n s) part) [0 ..< Suc (length s)]"

definition hasWaitError :: "operation_error list \<Rightarrow> transaction_error \<Rightarrow> bool" where
  "hasWaitError operationErrors transactionError =
     (if list_ex (\<lambda>e. e = TimedOut) operationErrors then True
      else if tx_As transactionError = TimedOut then True
      else let value' = to_lower (tx_Error transactionError)
           in str_contains value' ''timed out'' \<or> str_contains value' ''timeout'')"

definition hasConstraintError :: "operation_error list \<Rightarrow> transaction_error \<Rightarrow> bool" where
  "hasConstraintError operationErrors transactionError =
     (if list_ex (\<lambda>e. e = ConstraintViolation \<or> e = ReferentialIntegrityViolation) operationErrors then True
      else if tx_As transactionError = ConstraintViolation \<or> tx_As transactionError = ReferentialIntegrityViolation then True
      else let value' = to_lower (tx_Error transactionError)
           in str_contains value' ''constraint violation'' \<or> str_contains value' ''referential integrity'' \<or>
              str_contains value' ''duplicate'')"

definition hasReferentialError :: "operation_error list \<Rightarrow> transaction_error \<Rightarrow> bool" where
  "hasReferentialError operationErrors transactionError =
     (if list_ex (\<lambda>e. e = ReferentialIntegrityViolation) operationErrors then True
      else if tx_As transactionError = ReferentialIntegrityViolation then True
      else str_contains (to_lower (tx_Error transactionError)) ''referential integrity'')"

definition change_operation :: "change \<Rightarrow> ovs_operation" where
  "change_operation item =
     (case ch_type item of
        changeInsert \<Rightarrow> (no_operation OperationInsert (ch_table item))\<lparr>oo_Row := ch_row item\<rparr>
      | changeUpdate \<Rightarrow> (no_operation OperationUpdate (ch_table item))\<lparr>oo_Row := ch_row item,
          oo_Where := [(''id'', VString (ch_id item)), (''revision'', VInt (ch_expectedRevision item))]\<rparr>
      | changeDelete \<Rightarrow> (no_operation OperationDelete (ch_table item))\<lparr>
          oo_Where := [(''id'', VString (ch_id item)), (''revision'', VInt (ch_expectedRevision item))]\<rparr>)"

definition OperationTable :: string where "OperationTable = table_of KindOperation"
definition NodeTable :: string where "NodeTable = table_of KindNode"
definition PortTable :: string where "PortTable = table_of KindPort"

definition buildOperations :: "int \<Rightarrow> change list \<Rightarrow> string \<Rightarrow> ovs_operation list" where
  "buildOperations epoch changes updatedAt =
     [(no_operation OperationWait OperationTable)\<lparr>oo_Timeout := Some 0, oo_Where := [(''id'', VString storeLockID)],
        oo_Columns := [''revision''], oo_Rows := [[(''revision'', VInt epoch)]]\<rparr>,
      (no_operation OperationUpdate OperationTable)\<lparr>
        oo_Where := [(''id'', VString storeLockID), (''revision'', VInt epoch)],
        oo_Row := [(''revision'', VInt (epoch + 1)), (''updated_at'', VString updatedAt)]\<rparr>] @
     map change_operation changes @
     [(no_operation OperationCommit [])\<lparr>oo_Durable := True\<rparr>]"

section \<open>The database interface\<close>

definition ovs_load :: "'w ovs_client \<Rightarrow> 'w \<Rightarrow> 'w \<times> (err + raw_database)" where
  "ovs_load client w =
     (let operations = map (no_operation OperationSelect) allTables
      in case Transact client operations w of
           (w1, Inl _) \<Rightarrow> (w1, Inl (ErrOther ''read''))
         | (w1, Inr results) \<Rightarrow>
             (w1, if CheckOperationResults client results operations \<noteq> None then Inl (ErrOther ''read'')
                  else if length results \<noteq> length operations then Inl (ErrOther ''read'')
                  else Inr (zip allTables (map rs_Rows results))))"

definition runtimePortLookupOperations :: "int \<Rightarrow> string \<Rightarrow> ovs_operation list" where
  "runtimePortLookupOperations vmid nic =
     [(no_operation OperationSelect NodeTable)\<lparr>oo_Columns := [''_uuid'', ''id'', ''name'', ''chassis_id'']\<rparr>,
      (no_operation OperationSelect PortTable)\<lparr>
        oo_Where := [(''vmid'', VInt vmid), (''nic'', VString nic)],
        oo_Columns := [''id'', ''revision'', ''applied_revision'', ''state'', ''node'', ''vmid'', ''nic'', ''lsp_name'',
          ''generation'', ''requested_chassis'', ''mac_address'', ''admin_state_up'', ''binding_status'']\<rparr>]"

definition ovs_lookupRuntimePorts :: "'w ovs_client \<Rightarrow> int \<Rightarrow> string \<Rightarrow> 'w \<Rightarrow> 'w \<times> (err + row list \<times> row list)" where
  "ovs_lookupRuntimePorts client vmid nic w =
     (let operations = runtimePortLookupOperations vmid nic
      in case Transact client operations w of
           (w1, Inl _) \<Rightarrow> (w1, Inl (ErrOther ''lookup''))
         | (w1, Inr results) \<Rightarrow>
             (w1, if CheckOperationResults client results operations \<noteq> None then Inl (ErrOther ''lookup'')
                  else if length results \<noteq> length operations then Inl (ErrOther ''lookup'')
                  else Inr (rs_Rows (results ! 0), rs_Rows (results ! 1))))"

definition ovs_initialize :: "'w ovs_client \<Rightarrow> row \<Rightarrow> 'w \<Rightarrow> 'w \<times> commit_error option" where
  "ovs_initialize client lock w =
     (let operations = [(no_operation OperationInsert OperationTable)\<lparr>oo_Row := lock\<rparr>,
                        (no_operation OperationCommit [])\<lparr>oo_Durable := True\<rparr>]
      in case Transact client operations w of
           (w1, Inl _) \<Rightarrow> (w1, Some (CommitOther (ErrOther ''initialize'')))
         | (w1, Inr results) \<Rightarrow>
             (w1, case CheckOperationResults client results operations of
                    Some (operationErrors, e) \<Rightarrow>
                      if hasConstraintError operationErrors e then Some errSerialization
                      else Some (CommitOther (ErrOther ''initialize''))
                  | None \<Rightarrow> None))"

text \<open>The counts the server reports for the changes.\<close>

definition miscounted :: "change list \<Rightarrow> operation_result list \<Rightarrow> bool" where
  "miscounted changes results =
     list_ex (\<lambda>(item, result). (ch_type item = changeUpdate \<or> ch_type item = changeDelete) \<and> rs_Count result \<noteq> 1)
       (zip changes (drop 2 results))"

definition ovs_commit :: "'w ovs_client \<Rightarrow> int \<Rightarrow> change list \<Rightarrow> string \<Rightarrow> 'w \<Rightarrow> 'w \<times> commit_error option" where
  "ovs_commit client epoch changes updatedAt w =
     (let operations = buildOperations epoch changes updatedAt; failed = Some (CommitOther (ErrOther ''commit''))
      in case Transact client operations w of
           (w1, Inl _) \<Rightarrow> (w1, failed)
         | (w1, Inr results) \<Rightarrow>
             (w1, case CheckOperationResults client results operations of
                    Some (operationErrors, e) \<Rightarrow>
                      if hasWaitError operationErrors e then Some errSerialization
                      else if hasConstraintError operationErrors e
                      then Some (constraintError (hasReferentialError operationErrors e))
                      else failed
                  | None \<Rightarrow>
                      if length results \<noteq> length operations then failed
                      else if rs_Count (results ! 1) \<noteq> 1 then failed
                      else if miscounted changes results then failed
                      else None))"

definition ovsDatabase :: "'w ovs_client \<Rightarrow> 'w database" where
  "ovsDatabase client = \<lparr>db_load = ovs_load client, db_lookupRuntimePorts = ovs_lookupRuntimePorts client,
     db_initialize = ovs_initialize client, db_commit = ovs_commit client\<rparr>"

end
