(* ===== verification/Ovsdb_Properties.thy ===== *)
theory Ovsdb_Properties
  imports Ovsdb_Refinement Ovsdb_Database Store_Properties
begin

text \<open>
  What the durable store promises (\<open>internal/ovsdbstore\<close>): properties of whole calls, over any
  database behind the interface \<open>database\<close>.
\<close>

section \<open>Calls\<close>

text \<open>A call as its interactions with the database: loads, commits the database refused because
  the epoch had moved on, and last a load on which the call answered, or a load and a commit that
  went through. \<open>op\<close> is the transition of the in-memory store that the call stands for; \<open>n\<close> counts
  the loads.\<close>

inductive call_trace ::
  "'w store \<Rightarrow> ('w \<Rightarrow> memory \<Rightarrow> memory \<times> (err + 'a)) \<Rightarrow> nat \<Rightarrow> 'w \<Rightarrow> 'w \<Rightarrow> 'a \<Rightarrow> bool"
  for st :: "'w store" and op :: "'w \<Rightarrow> memory \<Rightarrow> memory \<times> (err + 'a)" where
  answered: "\<lbrakk>store_load st w = (w', Inr current); op w' (view current) = (view current, Inr result)\<rbrakk> \<Longrightarrow>
    call_trace st op (Suc 0) w w' result"
| committed: "\<lbrakk>store_load st w = (w1, Inr current); op w1 (view current) = (s', Inr result);
    carry_out (st_wire st) current changes (view current) s';
    db_commit (st_database st) (sn_epoch current) changes (wc_formatTime (st_wire st) t) w1 = (w', None)\<rbrakk> \<Longrightarrow>
    call_trace st op (Suc 0) w w' result"
| overtaken: "\<lbrakk>store_load st w = (w1, Inr current);
    db_commit (st_database st) (sn_epoch current) changes u w1 = (w2, Some errSerialization);
    call_trace st op n w2 w' result\<rbrakk> \<Longrightarrow> call_trace st op (Suc n) w w' result"

lemma load_ok:
  "store_load st w = (w', Inr current) \<Longrightarrow> snapshot_ok current \<and> validate_stored (st_wire st) current \<and>
     sn_hasLock current \<and> sn_epoch current \<noteq> maxInt64"
proof -
  have "load_attempts st n w = (w', Inr current) \<Longrightarrow> snapshot_ok current \<and> validate_stored (st_wire st) current \<and>
     sn_hasLock current \<and> sn_epoch current \<noteq> maxInt64" for n
    by (induction st n w rule: load_attempts.induct)
      (auto split: if_splits prod.splits sum.splits option.splits commit_error.splits dest: decodeDatabase_ok)
  then show "store_load st w = (w', Inr current) \<Longrightarrow> ?thesis" by (simp add: store_load_def)
qed

lemma attempts_trace:
  assumes "attempts st constraint decide n w = (w', Inr result)"
    and "\<And>w1 current. snapshot_ok current \<Longrightarrow> validate_stored (st_wire st) current \<Longrightarrow>
      realizes (st_wire st) current (decide w1 current) (op w1 (view current))"
  shows "\<exists>m \<le> n. call_trace st op m w w' result"
  using assms(1)
proof (induction n arbitrary: w)
  case (Suc n)
  then obtain w1 current where load: "store_load st w = (w1, Inr current)"
    by (auto split: prod.splits sum.splits)
  have real: "realizes (st_wire st) current (decide w1 current) (op w1 (view current))"
    using load_ok [OF load] assms(2) by blast
  show ?case
  proof (cases "decide w1 current")
    case (Return answer)
    with Suc.prems load have "answer = Inr result" "w' = w1" by auto
    with real Return load show ?thesis by (intro exI [of _ 1]) (simp add: call_trace.answered)
  next
    case (Commit changes t res)
    obtain w2 outcome where commit:
        "db_commit (st_database st) (sn_epoch current) changes (wc_formatTime (st_wire st) t) w1 = (w2, outcome)"
      by fastforce
    from Suc.prems load Commit commit consider "outcome = None" "w' = w2" "result = res"
      | "outcome = Some errSerialization" "attempts st constraint decide n w2 = (w', Inr result)"
      by (auto split: option.splits commit_error.splits)
    then show ?thesis
    proof cases
      case 1
      with real Commit load commit show ?thesis
        using call_trace.committed [OF load, where op = op and s' = "fst (op w1 (view current))"] by (metis One_nat_def Suc_le_mono le0 prod.collapse realizes.simps(3))
    next
      case 2
      with Suc.IH obtain m where "m \<le> n" "call_trace st op m w2 w' result" by blast
      then show ?thesis using call_trace.overtaken [OF load] commit 2(1) by (metis Suc_le_mono)
    qed
  qed
qed simp

section \<open>Refinement of the in-memory store\<close>

text \<open>C10. A \<open>Create\<close> of the durable store that returns a result made it in one step of the in-memory
  \<open>Create\<close>: on one loaded snapshot it found the result recorded and wrote nothing, or decided as
  the in-memory store decides on the same contents and committed exactly that step's writes at the
  epoch of the snapshot; every earlier commit of the call was refused by the epoch guard, and there
  were at most 64 attempts.\<close>

theorem durable_Create_refines:
  assumes "durable_Create st r key w = (w', Inr result)"
  shows "\<exists>n \<le> maxWriteAttempts.
    call_trace st (\<lambda>_. Create (mem_env (st_now st w) (st_newID st w) (wc_codec (st_wire st))) r key) n w w' result"
proof -
  let ?wc = "st_wire st" and ?i = "st_newID st w"
  have "create_refusal (wc_codec ?wc) ?i key r = None" "kind_valid (ResourceKind r)"
    "attempts st write_constraint (\<lambda>_. create_decision ?wc (st_now st w) (idempotencyScope ''create'' (ResourceKind r) [] key)
       (resource_fingerprint (wc_codec ?wc) r [])
       (with_lsp_name (map_metadata (fresh_metadata (st_now st w)) (create_candidate ?i key r)))) maxWriteAttempts w = (w', Inr result)"
    using assms by (auto simp: durable_Create_def Let_def split: if_splits option.splits)
  then show ?thesis
    by (intro attempts_trace) (auto intro: create_realizes)
qed


text \<open>C14. The same for the claim of an operation, which is how one manager at a time gets the right to
  render a resource or to delete it.\<close>

theorem durable_claimOperation_refines:
  assumes "durable_claimOperation st i n action owner t cutoff w = (w', Inr claimed)"
  shows "\<exists>m \<le> maxWriteAttempts. call_trace st (\<lambda>_. claimOperation (mem_env now newID cd) i n action owner t cutoff) m w w' claimed"
proof -
  have "validLeaseOwner owner"
    "attempts st plain_constraint (\<lambda>_. claim_decision (st_wire st) i n action owner t cutoff) maxWriteAttempts w = (w', Inr claimed)"
    using assms by (auto simp: durable_claimOperation_def split: if_splits)
  then show ?thesis by (intro attempts_trace) (auto intro: claim_realizes)
qed

lemma durable_BeginDelete_trace:
  assumes "durable_BeginDelete st k i n key w = (w', Inr result)"
  shows "\<exists>m \<le> maxWriteAttempts. call_trace st (\<lambda>_. BeginDelete (mem_env (st_now st w) newID (wc_codec (st_wire st))) k i n key) m w w' result"
proof -
  let ?wc = "st_wire st"
  have "attempts st plain_constraint (\<lambda>_. begin_delete_decision ?wc (st_now st w) (idempotencyScope ''delete'' k i key)
       (sha256 (wc_codec ?wc) (i @ '':'' @ dec_int n)) k i n) maxWriteAttempts w = (w', Inr result)"
    using assms by (auto simp: durable_BeginDelete_def Let_def split: if_splits)
  then show ?thesis by (intro attempts_trace) (auto intro: begin_delete_realizes)
qed

text \<open>C15. The same for both halves of a deletion, the tombstone and the removal of the row.\<close>

theorem durable_Delete_refines:
  assumes "durable_Delete st k i n key w = (w', Inr replayed)"
  shows "\<exists>w1 tombstone. (\<exists>m \<le> maxWriteAttempts.
      call_trace st (\<lambda>_. BeginDelete (mem_env (st_now st w) newID (wc_codec (st_wire st))) k i n key) m w w1 (tombstone, replayed)) \<and>
    (\<exists>m \<le> maxWriteAttempts.
      call_trace st (\<lambda>wp s. unit_outcome (Purge (mem_env (st_now st wp) newID cd) k i (Revision (GetMetadata tombstone)) s)) m w1 w' ())"
proof -
  obtain w1 tombstone where b: "durable_BeginDelete st k i n key w = (w1, Inr (tombstone, replayed))"
    and p: "durable_Purge st k i (Revision (GetMetadata tombstone)) w1 = (w', Inr ())"
    using assms by (auto simp: durable_Delete_def split: prod.splits sum.splits)
  have "attempts st purge_constraint (\<lambda>wp. purge_decision (st_now st wp) k i (Revision (GetMetadata tombstone))) maxWriteAttempts w1 = (w', Inr ())"
    using p by (simp add: durable_Purge_def split: if_splits)
  then have "\<exists>m \<le> maxWriteAttempts.
      call_trace st (\<lambda>wp s. unit_outcome (Purge (mem_env (st_now st wp) newID cd) k i (Revision (GetMetadata tombstone)) s)) m w1 w' ()"
    by (intro attempts_trace) (auto intro: purge_realizes)
  with durable_BeginDelete_trace [OF b] show ?thesis by blast
qed

section \<open>A server and formats for examples\<close>

definition example_quote :: char where "example_quote = CHR 0x22"

definition example_wire :: wire_codec where
  "example_wire = \<lparr>wc_codec = sample_codec,
     wc_formatTime = dec_int, wc_parseTime = (\<lambda>s. Some (int (dec_value s))),
     wc_marshalStrings = (\<lambda>xs. CHR ''['' # join_with example_quote ([] # xs)),
     wc_unmarshalStrings = (\<lambda>s. Some (tl (split_on example_quote (tl s)))),
     wc_marshalRoutes = (\<lambda>rs. CHR ''['' # join_with example_quote ([] # concat (map (\<lambda>r. [rt_Destination r, rt_NextHop r]) rs))),
     wc_unmarshalRoutes = (\<lambda>s. let xs = tl (split_on example_quote (tl s)) in
        Some (map (\<lambda>i. \<lparr>rt_Destination = xs ! (2 * i), rt_NextHop = xs ! (2 * i + 1)\<rparr>) [0 ..< length xs div 2])),
     wc_marshalRange = (\<lambda>r. rng_Start r @ example_quote # rng_End r),
     wc_unmarshalRange = (\<lambda>s. case split_on example_quote s of [a, b] \<Rightarrow> Some \<lparr>rng_Start = a, rng_End = b\<rparr> | _ \<Rightarrow> None),
     wc_unmarshal = (\<lambda>_ _. None)\<rparr>"

text \<open>A server that keeps the tables, runs one transaction at a time and never meets another client.\<close>

definition row_meets :: "(string \<times> ovs_value) list \<Rightarrow> row \<Rightarrow> bool" where
  "row_meets conds row = list_all (\<lambda>(c, v). map_of row c = Some v) conds"

definition example_run :: "ovs_operation \<Rightarrow> raw_database \<Rightarrow> raw_database \<times> operation_result" where
  "example_run x db =
     (let stored = (case map_of db (oo_Table x) of None \<Rightarrow> [] | Some rs \<Rightarrow> rs); hits = filter (row_meets (oo_Where x)) stored;
          result = (\<lambda>n. \<lparr>rs_Count = n, rs_Rows = hits\<rparr>)
      in case oo_Op x of
           OperationSelect \<Rightarrow> (db, result 0)
         | OperationInsert \<Rightarrow> (AList.update (oo_Table x) (((''_uuid'', VUUID (dec (length stored))) # oo_Row x) # stored) db, result 1)
         | OperationUpdate \<Rightarrow> (AList.update (oo_Table x)
             (map (\<lambda>r. if row_meets (oo_Where x) r then oo_Row x @ r else r) stored) db, result (int (length hits)))
         | OperationDelete \<Rightarrow> (AList.update (oo_Table x) (filter (\<lambda>r. \<not> row_meets (oo_Where x) r) stored) db, result (int (length hits)))
         | OperationWait \<Rightarrow> (db, result (if map (\<lambda>r. map (map_of r) (oo_Columns x)) hits = map (\<lambda>r. map (map_of r) (oo_Columns x)) (oo_Rows x)
             then 0 else -1))
         | OperationCommit \<Rightarrow> (db, result 0))"

fun example_runs :: "ovs_operation list \<Rightarrow> raw_database \<Rightarrow> raw_database \<times> operation_result list" where
  "example_runs [] db = (db, [])"
| "example_runs (x # xs) db =
     (let (db1, r) = example_run x db; (db2, rs) = example_runs xs db1 in (db2, r # rs))"

definition example_client :: "raw_database ovs_client" where
  "example_client = \<lparr>
     Transact = (\<lambda>xs db. let (db', rs) = example_runs xs db in
        (if list_ex (\<lambda>r. rs_Count r = -1) rs then db else db', Inr rs)),
     CheckOperationResults = (\<lambda>rs _. if list_ex (\<lambda>r. rs_Count r = -1) rs
        then Some ([TimedOut], \<lparr>tx_As = TimedOut, tx_Error = []\<rparr>) else None)\<rparr>"

definition example_store :: "raw_database store" where
  "example_store = \<lparr>st_database = ovsDatabase example_client, st_now = (\<lambda>_. 10), st_newID = (\<lambda>_. ''x''),
     st_cancelled = (\<lambda>_. False), st_wire = example_wire\<rparr>"

text \<open>A database in which only the lock row is present.\<close>

definition example_world :: raw_database where
  "example_world = map (\<lambda>table. (table, if table = OperationTable
     then [(''_uuid'', VUUID ''lock'') # encodeLockRow example_wire 5] else [])) allTables"

definition example_network :: resource where
  "example_network = Network sample_network"

definition example_operation :: resource where
  "example_operation = Operation sample_operation"

definition example_filled :: raw_database where
  "example_filled = fst (durable_Create example_store example_operation []
     (fst (durable_Create example_store example_network [] example_world)))"

lemma outcome_ok: "map_sum id f (snd x) = Inr y \<Longrightarrow> \<exists>w r. x = (w, Inr r) \<and> f r = y"
  by (cases x) (auto simp: map_sum_def split: sum.splits)

lemma example_store_simps [simp]:
  "st_now example_store w = 10" "st_newID example_store w = ''x''" "wc_codec (st_wire example_store) = sample_codec"
  by (simp_all add: example_store_def example_wire_def)

theorem durable_Create_refines_witness:
  "\<exists>w r. durable_Create example_store example_network [] example_world = (w, Inr (r, False)) \<and>
     (\<exists>n \<le> maxWriteAttempts. call_trace example_store
        (\<lambda>_. Create (mem_env 10 ''x'' sample_codec) example_network []) n example_world w (r, False))"
proof -
  have "map_sum id snd (snd (durable_Create example_store example_network [] example_world)) = Inr False" by code_simp
  from outcome_ok [OF this] obtain w r where c: "durable_Create example_store example_network [] example_world = (w, Inr (r, False))"
    by auto
  from durable_Create_refines [OF c] c show ?thesis by auto
qed


theorem durable_claimOperation_refines_witness:
  "\<exists>w p. durable_claimOperation example_store ''o'' 1 ''reconcile'' ''m'' 20 15 example_filled = (w, Inr p) \<and>
     (\<exists>n \<le> maxWriteAttempts. call_trace example_store
        (\<lambda>_. claimOperation (mem_env 10 ''x'' sample_codec) ''o'' 1 ''reconcile'' ''m'' 20 15) n example_filled w p)"
proof -
  have "map_sum id (\<lambda>_. ()) (snd (durable_claimOperation example_store ''o'' 1 ''reconcile'' ''m'' 20 15 example_filled)) = Inr ()"
    by code_simp
  from outcome_ok [OF this] obtain w p
    where c: "durable_claimOperation example_store ''o'' 1 ''reconcile'' ''m'' 20 15 example_filled = (w, Inr p)" by auto
  from durable_claimOperation_refines [OF c, of 10 "''x''" sample_codec] c show ?thesis by auto
qed

theorem durable_Delete_refines_witness:
  "\<exists>w w1 tombstone. durable_Delete example_store KindNetwork ''n'' 1 [] example_filled = (w, Inr False) \<and>
     (\<exists>m \<le> maxWriteAttempts. call_trace example_store
        (\<lambda>_. BeginDelete (mem_env 10 ''x'' sample_codec) KindNetwork ''n'' 1 []) m example_filled w1 (tombstone, False)) \<and>
     (\<exists>m \<le> maxWriteAttempts. call_trace example_store
        (\<lambda>_ s. unit_outcome (Purge (mem_env 10 ''x'' sample_codec) KindNetwork ''n'' (Revision (GetMetadata tombstone)) s)) m w1 w ())"
proof -
  have "map_sum id id (snd (durable_Delete example_store KindNetwork ''n'' 1 [] example_filled)) = Inr False" by code_simp
  from outcome_ok [OF this] obtain w where c: "durable_Delete example_store KindNetwork ''n'' 1 [] example_filled = (w, Inr False)"
    by auto
  from durable_Delete_refines [OF c, of "''x''" sample_codec] c show ?thesis by simp
qed

section \<open>Loaded snapshots\<close>

text \<open>C16. Whatever the tables hold, a load that returns gives a consistent snapshot: each row is filed
  once, under its own kind and id; each is valid for the model and each of its references resolves;
  no two rows conflict; and the epoch still has a successor.\<close>

theorem loaded_snapshot_consistent:
  assumes "store_load st w = (w', Inr current)"
  shows "keys_ok (view current) \<and> filed (view current) \<and> pairwise_unique (view current) \<and> sn_epoch current \<noteq> maxInt64 \<and>
    (\<forall>k i r. lookup (view current) k i = Some r \<longrightarrow>
       i \<noteq> [] \<and> Validate (wc_codec (st_wire st)) r = None \<and> validateReferencesLocked (view current) r = None)"
proof -
  note ok = load_ok [OF assms]
  have "pairwise_unique (view current)"
    using ok snapshot_unique_pairwise [of current] snapshot_okD(1,2) [of current] by (auto simp: validate_stored_def)
  moreover have "i \<noteq> [] \<and> Validate (wc_codec (st_wire st)) r = None \<and> validateReferencesLocked (view current) r = None"
    if "lookup (view current) k i = Some r" for k i r
    using ok that snapshot_okD(5) stored_rows by blast
  ultimately show ?thesis using ok snapshot_okD(1,2) [of current] by blast
qed

theorem loaded_snapshot_consistent_witness:
  "\<exists>w current. store_load example_store example_filled = (w, Inr current) \<and> pairwise_unique (view current)"
proof -
  have "map_sum id (\<lambda>_. ()) (snd (store_load example_store example_filled)) = Inr ()" by code_simp
  from outcome_ok [OF this] obtain w current where "store_load example_store example_filled = (w, Inr current)" by auto
  with loaded_snapshot_consistent [OF this] show ?thesis by blast
qed


definition example_snapshot :: snapshot where
  "example_snapshot = newSnapshot\<lparr>sn_resources := [((KindNetwork, ''n''), \<lparr>sr_uuid = ''u'', sr_resource = stored (Network sample_network)\<rparr>),
     ((KindSecurityGroup, ''g''), \<lparr>sr_uuid = ''v'', sr_resource = stored (SecurityGroup sample_group)\<rparr>)],
     sn_uuidToID := [((KindNetwork, ''u''), ''n''), ((KindSecurityGroup, ''v''), ''g'')]\<rparr>"

lemma example_snapshot_rows:
  "lookup (view example_snapshot) k i = Some r \<Longrightarrow>
     (k, i, r) = (KindNetwork, ''n'', stored (Network sample_network)) \<or> (k, i, r) = (KindSecurityGroup, ''g'', stored (SecurityGroup sample_group))"
  by (auto simp: lookup_def view_def snap_entries_def example_snapshot_def split: if_splits)


section \<open>Rows on the wire\<close>

text \<open>C21. Writing a resource and reading it back gives the resource: the row that \<open>encodeResource\<close> builds,
  as the server hands it out again (numbers as floating point, sets and maps in any order), decodes to
  the same resource, but for the order of name servers, pools, fixed addresses, groups and roles, which
  the columns do not keep. The formats of the standard library and the snapshot's row identifiers are
  assumed to be faithful.\<close>

theorem encoded_rows_decode:
  assumes "faithful_formats wc" "consistent refs" "carries wc refs r row" "Validate (wc_codec wc) r = None" "storable r"
  shows "decodeResource wc (ResourceKind r) row refs = Some (stored_form r)"
proof -
  have "decodeMetadata wc row = Some (GetMetadata r)"
    using decode_metadata assms by (simp add: storable_def)
  then show ?thesis
    using assms by (cases r) (auto simp: decodeResource_def storable_def roundtrip_network roundtrip_subnet roundtrip_port
        roundtrip_allocation roundtrip_router roundtrip_interface roundtrip_floating roundtrip_provider roundtrip_segment
        roundtrip_group roundtrip_rule roundtrip_node roundtrip_operation simp del: stored_form.simps(1,2,3))
qed

lemma text_no_quote: "json_text s \<Longrightarrow> example_quote \<notin> set s"
proof -
  have "\<not> text_char example_quote" by code_simp
  then show "json_text s \<Longrightarrow> example_quote \<notin> set s" by (auto simp: json_text_def list_all_iff)
qed

lemma split_quoted:
  "list_all json_text xs \<Longrightarrow> tl (split_on example_quote (join_with example_quote ([] # xs))) = xs"
  using split_join [of "[] # xs" example_quote] text_no_quote by (auto simp: list_all_iff)

lemma pairs_again:
  "map (\<lambda>i. \<lparr>rt_Destination = concat (map (\<lambda>r. [rt_Destination r, rt_NextHop r]) rs) ! (2 * i),
     rt_NextHop = concat (map (\<lambda>r. [rt_Destination r, rt_NextHop r]) rs) ! (2 * i + 1)\<rparr>) [0 ..< length rs] = rs"
proof (induction rs)
  case (Cons r rs)
  have "[0 ..< length (r # rs)] = 0 # map Suc [0 ..< length rs]" by (simp add: map_Suc_upt upt_conv_Cons del: upt_Suc)
  with Cons show ?case by (simp add: comp_def del: upt_Suc)
qed simp

lemma example_faithful: "faithful_formats example_wire"
proof -
  have time: "wc_formatTime example_wire t \<noteq> [] \<and> wc_parseTime example_wire (wc_formatTime example_wire t) = Some t"
    if "representable t" for t
    using that by (simp add: example_wire_def dec_int_def representable_def dec_value_dec)
  have pairs: "length (concat (map (\<lambda>r. [rt_Destination r, rt_NextHop r]) rs)) div 2 = length rs" for rs
    by (induction rs) simp_all
  have routes: "wc_unmarshalRoutes example_wire (wc_marshalRoutes example_wire rs) = Some rs"
    if "list_all (\<lambda>r. json_text (rt_Destination r) \<and> json_text (rt_NextHop r)) rs" for rs
  proof -
    have "list_all json_text (concat (map (\<lambda>r. [rt_Destination r, rt_NextHop r]) rs))"
      using that by (induction rs) auto
    from split_quoted [OF this] show ?thesis
      using pairs_again [of rs] by (simp add: example_wire_def Let_def pairs del: length_tl)
  qed
  have ranges: "wc_unmarshalRange example_wire (wc_marshalRange example_wire r) = Some r"
    if "json_text (rng_Start r)" "json_text (rng_End r)" for r
    using that text_no_quote by (simp add: example_wire_def split_on_append split_on_absent)
  show ?thesis
    unfolding faithful_formats_def using time routes ranges split_quoted by (auto simp: example_wire_def)
qed

text \<open>The form in which the example row comes back.\<close>

fun handed_out :: "ovs_value \<Rightarrow> ovs_value" where
  "handed_out (VInt n) = VFloat (Some (of_int n))"
| "handed_out v = v"

fun wire_ready :: "ovs_value \<Rightarrow> bool" where
  "wire_ready (VInt n) \<longleftrightarrow> \<bar>n\<bar> \<le> 2 ^ 53"
| "wire_ready (VString _) \<longleftrightarrow> True"
| "wire_ready (VBool _) \<longleftrightarrow> True"
| "wire_ready (VUUID _) \<longleftrightarrow> True"
| "wire_ready (VSet _) \<longleftrightarrow> True"
| "wire_ready (VMap _) \<longleftrightarrow> True"
| "wire_ready _ \<longleftrightarrow> False"

definition example_row :: row where
  "example_row = (case encodeResource example_wire (stored (Network sample_network)) example_snapshot of
     Inl _ \<Rightarrow> [] | Inr row \<Rightarrow> map (\<lambda>(c, v). (c, handed_out v)) row)"

lemma handed_out_sent:
  assumes "list_all (\<lambda>(_, v). wire_ready v) row"
  shows "sent row (map (\<lambda>(c, v). (c, handed_out v)) row)"
  unfolding sent_def
proof (intro allI impI)
  fix c v assume v: "map_of row c = Some v"
  have "map_of (map (\<lambda>(c, v). (c, handed_out v)) row) c = Some (handed_out v)"
    using v by (induction row) (auto split: if_splits)
  moreover have "wire_ready v"
    using assms map_of_SomeD [OF v] by (auto simp: list_all_iff)
  then have "wire v (handed_out v)" by (cases v) (auto intro: wire.intros)
  ultimately show "\<exists>w. map_of (map (\<lambda>(c, v). (c, handed_out v)) row) c = Some w \<and> wire v w" by blast
qed

theorem encoded_rows_decode_witness:
  "decodeResource example_wire KindNetwork example_row example_snapshot = Some (stored (Network sample_network))"
proof -
  let ?r = "stored (Network sample_network)"
  have "consistent example_snapshot"
    by (auto simp: consistent_def example_snapshot_def resolve_def split: if_splits)
  moreover obtain row where row: "encodeResource example_wire ?r example_snapshot = Inr row"
    and small: "list_all (\<lambda>(_, v). wire_ready v) row"
  proof -
    have "(case encodeResource example_wire ?r example_snapshot of Inl _ \<Rightarrow> False | Inr row \<Rightarrow>
        list_all (\<lambda>(_, v). wire_ready v) row)" by code_simp
    then show thesis using that by (cases "encodeResource example_wire ?r example_snapshot") simp_all
  qed
  then have "carries example_wire example_snapshot ?r example_row"
    using handed_out_sent by (auto simp: carries_def example_row_def)
  moreover have "Validate (wc_codec example_wire) ?r = None" "ResourceKind ?r = KindNetwork" "stored_form ?r = ?r" by code_simp+
  moreover have "instants ?r = []" by code_simp
  then have "storable ?r"
    by (simp add: storable_def storable_metadata_def stored_def sample_network_def sample_meta_def fresh_metadata_def representable_def)
  ultimately show ?thesis using encoded_rows_decode [OF example_faithful, of example_snapshot ?r example_row] by simp
qed

section \<open>Optimistic concurrency\<close>

text \<open>Where the epoch of a snapshot comes from: the row of the lock.\<close>

definition lock_row :: "row \<Rightarrow> int \<Rightarrow> bool" where
  "lock_row row e \<longleftrightarrow> rowString row ''id'' = Some storeLockID \<and> rowInt64 row ''revision'' = Some e"

definition lock_from :: "row list \<Rightarrow> snapshot \<Rightarrow> bool" where
  "lock_from held s \<longleftrightarrow> (sn_hasLock s \<longrightarrow> (\<exists>row \<in> set held. lock_row row (sn_epoch s)))"

lemma internal_lock: "decodeInternalOperation wc row s = Some (Some t) \<Longrightarrow> lock_from held s \<Longrightarrow> row \<in> set held \<Longrightarrow> lock_from held t"
  by (auto simp: decodeInternalOperation_def decode_lock_def decode_idempotency_def lock_from_def lock_row_def Let_def
      split: bind_splits if_splits)

lemma decode_row_lock: "decode_row wc k row s = Some t \<Longrightarrow> lock_from held s \<Longrightarrow> lock_from held t"
  by (auto simp: decode_row_def Let_def lock_from_def split: bind_splits if_splits)

lemma decode_rows_lock:
  "decode_rows wc k xs s = Some t \<Longrightarrow> lock_from held s \<Longrightarrow> (k = KindOperation \<Longrightarrow> set xs \<subseteq> set held) \<Longrightarrow> lock_from held t"
proof (induction xs arbitrary: s)
  case (Cons row rest)
  obtain handled where handled: "(if k = KindOperation then decodeInternalOperation wc row s else Some None) = Some handled"
    using Cons.prems(1) by (auto split: bind_splits)
  show ?case
  proof (cases handled)
    case None
    with Cons.prems(1) handled obtain s' where "decode_row wc k row s = Some s'" "decode_rows wc k rest s' = Some t"
      by (auto split: bind_splits)
    then show ?thesis using Cons.IH [of s'] Cons.prems(2,3) decode_row_lock by auto
  next
    case (Some s')
    with handled have k: "k = KindOperation" "decodeInternalOperation wc row s = Some (Some s')" by (auto split: if_splits)
    then have "lock_from held s'" using internal_lock Cons.prems(2,3) by auto
    moreover have "decode_rows wc k rest s' = Some t" using Cons.prems(1) handled Some by simp
    ultimately show ?thesis using Cons.IH [of s'] Cons.prems(3) by auto
  qed
qed simp

lemma operation_table: "map_of tableKinds table = Some KindOperation \<Longrightarrow> table = OperationTable"
proof -
  have "list_all (\<lambda>(table, k). k = KindOperation \<longrightarrow> table = OperationTable) tableKinds" by code_simp
  then show "map_of tableKinds table = Some KindOperation \<Longrightarrow> ?thesis"
    by (auto simp: list_all_iff dest!: map_of_SomeD)
qed

lemma decode_tables_lock:
  "decode_tables wc raw tables s = Some t \<Longrightarrow> lock_from held s \<Longrightarrow>
     (case map_of raw OperationTable of None \<Rightarrow> [] | Some rs \<Rightarrow> rs) = held \<Longrightarrow> lock_from held t"
proof (induction wc raw tables s rule: decode_tables.induct)
  case (2 wc raw table tables s)
  obtain k s' where k: "map_of tableKinds table = Some k"
    and s': "decode_rows wc k (case map_of raw table of None \<Rightarrow> [] | Some rs \<Rightarrow> rs) s = Some s'" "decode_tables wc raw tables s' = Some t"
    using 2(2) by (auto split: bind_splits)
  have "lock_from held s'"
    using s'(1) 2(3) by (rule decode_rows_lock) (use k 2(4) operation_table [of table] in simp)
  with 2(1) [OF k s'] 2(4) show ?case by blast
qed simp

lemma index_rows_lock: "index_rows k xs s = Some t \<Longrightarrow> sn_hasLock t = sn_hasLock s"
  by (induction k xs s rule: index_rows.induct) (auto split: bind_splits if_splits)

lemma index_tables_lock: "index_tables raw tables s = Some t \<Longrightarrow> sn_hasLock t = sn_hasLock s"
  by (induction raw tables s rule: index_tables.induct) (auto split: bind_splits dest: index_rows_lock)

lemma decoded_lock:
  assumes "decodeDatabase wc raw = Some s" "sn_hasLock s"
  shows "\<exists>held row. map_of raw OperationTable = Some held \<and> row \<in> set held \<and> lock_row row (sn_epoch s)"
proof -
  let ?held = "case map_of raw OperationTable of None \<Rightarrow> [] | Some rs \<Rightarrow> rs"
  obtain i where i: "index_tables raw allTables newSnapshot = Some i" "decode_tables wc raw allTables i = Some s"
    using assms(1) by (auto simp: decodeDatabase_def split: bind_splits if_splits)
  have "sn_hasLock i = sn_hasLock newSnapshot" using i(1) index_tables_lock by blast
  then have "lock_from ?held i" by (simp add: lock_from_def newSnapshot_def)
  from decode_tables_lock [OF i(2) this refl] assms(2) show ?thesis
    by (cases "map_of raw OperationTable") (auto simp: lock_from_def)
qed

lemma load_reads:
  assumes "st_database st = ovsDatabase client" "store_load st w = (w', Inr current)"
  shows "\<exists>w0 results. Transact client (map (no_operation OperationSelect) allTables) w0 = (w', Inr results) \<and>
    CheckOperationResults client results (map (no_operation OperationSelect) allTables) = None \<and>
    decodeDatabase (st_wire st) (zip allTables (map rs_Rows results)) = Some current \<and> sn_hasLock current"
proof -
  have load: "\<exists>results. Transact client (map (no_operation OperationSelect) allTables) w0 = (w1, Inr results) \<and>
      CheckOperationResults client results (map (no_operation OperationSelect) allTables) = None \<and>
      raw = zip allTables (map rs_Rows results)" if "db_load (st_database st) w0 = (w1, Inr raw)" for w0 w1 raw
    using that by (auto simp: assms(1) ovsDatabase_def ovs_load_def Let_def simp del: not_None_eq split: prod.splits sum.splits if_splits)
  have "load_attempts st n w = (w', Inr current) \<Longrightarrow> \<exists>w0 raw. db_load (st_database st) w0 = (w', Inr raw) \<and>
      decodeDatabase (st_wire st) raw = Some current \<and> sn_hasLock current" for n
    by (induction st n w rule: load_attempts.induct)
      (auto split: if_splits prod.splits sum.splits option.splits commit_error.splits)
  with assms(2) load show ?thesis unfolding store_load_def by blast
qed

text \<open>The wait operation that guards a commit.\<close>

definition waits_for_epoch :: "ovs_operation \<Rightarrow> int \<Rightarrow> bool" where
  "waits_for_epoch x e \<longleftrightarrow> oo_Op x = OperationWait \<and> oo_Table x = OperationTable \<and> oo_Where x = [(''id'', VString storeLockID)] \<and>
     oo_Columns x = [''revision''] \<and> oo_Rows x = [[(''revision'', VInt e)]]"


text \<open>A server that holds the lock row alone, whose revision is the whole state.\<close>

definition lone_lock :: "int \<Rightarrow> row" where
  "lone_lock e = (''revision'', VInt e) # (''_uuid'', VUUID ''lock'') # encodeLockRow example_wire 5"

definition lock_passes :: "int \<Rightarrow> ovs_operation list \<Rightarrow> bool" where
  "lock_passes e operations = list_all (\<lambda>x. oo_Op x = OperationWait \<longrightarrow> oo_Rows x = [[(''revision'', VInt e)]]) operations"

definition lock_client :: "int ovs_client" where
  "lock_client = \<lparr>
     Transact = (\<lambda>operations e.
       if lock_passes e operations
       then (if list_all (\<lambda>x. oo_Op x = OperationSelect) operations then e else e + 1,
             Inr (map (\<lambda>x. \<lparr>rs_Count = 1, rs_Rows = if oo_Table x = OperationTable then [lone_lock e] else []\<rparr>) operations))
       else (e, Inr [])),
     CheckOperationResults = (\<lambda>results _. if results = [] then Some ([TimedOut], \<lparr>tx_As = TimedOut, tx_Error = []\<rparr>) else None)\<rparr>"

definition lock_store :: "int store" where
  "lock_store = \<lparr>st_database = ovsDatabase lock_client, st_now = (\<lambda>_. 10), st_newID = (\<lambda>_. ''x''),
     st_cancelled = (\<lambda>_. False), st_wire = example_wire\<rparr>"

definition lock_reading :: "int \<Rightarrow> raw_database" where
  "lock_reading e = zip allTables (map (\<lambda>table. if table = OperationTable then [lone_lock e] else []) allTables)"

lemma lock_reading_row:
  assumes "map_of (lock_reading c) OperationTable = Some held" "row \<in> set held" "lock_row row e"
  shows "c = e"
proof -
  have "map_of (zip xs (map f xs)) x = Some y \<Longrightarrow> y = f x" for f :: "string \<Rightarrow> row list" and xs x y
    by (induction xs) (auto split: if_splits)
  from this [OF assms(1) [unfolded lock_reading_def]] have "row = lone_lock c" using assms(2) by simp
  with assms(3) show ?thesis by (simp add: lock_row_def lone_lock_def rowInt64_def)
qed


section \<open>Writes that make later loads fail\<close>


definition overlap_prefix :: prefix where
  "overlap_prefix = Prefix 0x0A000000 24"

definition overlap_subnet :: "string \<Rightarrow> string \<Rightarrow> string \<Rightarrow> subnet" where
  "overlap_subnet cidr i n = \<lparr>sub_meta = sample_meta i, sub_NetworkID = n, sub_Name = i, sub_CIDR = cidr,
     sub_GatewayIP = [], sub_EnableDHCP = False, sub_DNSNameservers = [], sub_DNSDomain = [],
     sub_DNSSearchDomains = [], sub_AllocationPools = []\<rparr>"

definition overlap_interface :: "string \<Rightarrow> string \<Rightarrow> router_interface" where
  "overlap_interface i n = \<lparr>rif_meta = fresh_metadata 10 (sample_meta i), rif_RouterID = ''r'', rif_SubnetID = n, rif_PortID = []\<rparr>"

definition overlap_route :: "string \<Rightarrow> static_route" where
  "overlap_route hop = \<lparr>rt_Destination = ''10.9.0.0/24'', rt_NextHop = hop\<rparr>"

definition overlap_router :: "string \<Rightarrow> router" where
  "overlap_router hop = \<lparr>rtr_meta = sample_meta ''r'', rtr_Name = ''r'', rtr_Description = [], rtr_ExternalNetworkID = [],
     rtr_ExternalSubnetID = [], rtr_ExternalIPAddress = [], rtr_EnableSNAT = False, rtr_StaticRoutes = [overlap_route hop]\<rparr>"

definition overlap_row :: "resource \<Rightarrow> (kind \<times> string) \<times> storedResource" where
  "overlap_row r = ((ResourceKind r, ID (GetMetadata r)), \<lparr>sr_uuid = ID (GetMetadata r), sr_resource = r\<rparr>)"

text \<open>Two networks with the same range, the first attached to a router with a route through it.\<close>

definition overlap_snapshot :: "string \<Rightarrow> string \<Rightarrow> snapshot" where
  "overlap_snapshot cidr hop = newSnapshot\<lparr>sn_resources := map overlap_row
     [Network sample_network, Network (sample_network\<lparr>net_meta := sample_meta ''n2''\<rparr>),
      Subnet (overlap_subnet cidr ''s'' ''n''), Subnet (overlap_subnet cidr ''s2'' ''n2''),
      Router (overlap_router hop), RouterInterface (overlap_interface ''i'' ''s'')]\<rparr>"

lemma overlap_accepts:
  "\<exists>changes t result. create_decision example_wire 10 [] [] (RouterInterface (overlap_interface ''i2'' ''s2'')) (overlap_snapshot cidr hop)
     = Commit changes t result"
proof -
  have "case create_decision example_wire 10 [] [] (RouterInterface (overlap_interface ''i2'' ''s2'')) (overlap_snapshot cidr hop)
    of Commit _ _ _ \<Rightarrow> True | _ \<Rightarrow> False"
    by code_simp
  then show ?thesis by (auto split: verdict.splits)
qed

lemma overlap_rows:
  "lookup (view (overlap_snapshot cidr hop)) KindRouter ''r'' = Some (Router (overlap_router hop))"
  "lookup (view (overlap_snapshot cidr hop)) KindRouterInterface ''i'' = Some (RouterInterface (overlap_interface ''i'' ''s''))"
  "lookup (view (overlap_snapshot cidr hop)) KindSubnet ''s'' = Some (Subnet (overlap_subnet cidr ''s'' ''n''))"
  "lookup (view (overlap_snapshot cidr hop)) KindSubnet ''s2'' = Some (Subnet (overlap_subnet cidr ''s2'' ''n2''))"
  by code_simp+

lemma overlap_snapshot_ok: "snapshot_ok (overlap_snapshot cidr hop)"
proof -
  have "list_all (\<lambda>((k, i), r). ResourceKind r = k \<and> ID (GetMetadata r) = i \<and> i \<noteq> [] \<and> \<not> isReservedID i) (snap_entries (overlap_snapshot cidr hop))"
    "distinct (map fst (snap_entries (overlap_snapshot cidr hop)))" "sn_idempotency (overlap_snapshot cidr hop) = []"
    by code_simp+
  then show ?thesis
    unfolding snapshot_ok_def filed_def keys_ok_def lookup_def resources_view by (fastforce simp: list_all_iff dest: map_of_SomeD)
qed

lemma overlap_next_hop:
  "next_hop_via_gateway (overlap_subnet (prefix_string overlap_prefix) i n) (addr_string 0x0A000005)"
proof -
  let ?x = "overlap_subnet (prefix_string overlap_prefix) i n"
  have "pfx_bits overlap_prefix \<le> 32" by (simp add: overlap_prefix_def)
  from parse_prefix_string [OF this] have parsed: "parse_prefix (sub_CIDR ?x) = Some overlap_prefix"
    by (simp add: overlap_subnet_def)
  have bounds: "first_addr overlap_prefix = 0x0A000000" "last_addr overlap_prefix = 0x0A0000FF" "pfx_bits overlap_prefix \<le> 30"
    by (simp_all add: first_addr_def last_addr_def overlap_prefix_def host_bits_def)
  have "sub_GatewayIP ?x = []" by (simp add: overlap_subnet_def)
  then have "EffectiveIPv4Gateway ?x = Inr 0x0A000001"
    unfolding EffectiveIPv4Gateway_iff by (intro exI [of _ overlap_prefix]) (simp add: parsed usable_host_def bounds)
  moreover have "ValidateIPv4NextHop ?x (addr_string 0x0A000005) (addr_string 0x0A000001) = None"
    unfolding ValidateIPv4NextHop_iff
    by (intro exI [of _ overlap_prefix] exI [of _ "0x0A000005"])
      (auto simp: parsed usable_host_def bounds prefix_contains_range intro!: exI [of _ "0x0A000001"])
  ultimately show ?thesis by (simp add: next_hop_via_gateway_def)
qed


section \<open>The other methods\<close>

lemma durable_RenewOperationLease_trace:
  assumes "durable_RenewOperationLease st i n owner t w = (w', Inr result)"
  shows "\<exists>m \<le> maxWriteAttempts. call_trace st (\<lambda>_. RenewOperationLease (mem_env now newID cd) i n owner t) m w w' result"
  using assms unfolding durable_RenewOperationLease_def
  by (intro attempts_trace [where decide = "\<lambda>_. renew_decision (st_wire st) i n owner t"]) (auto intro: renew_realizes split: if_splits)

lemma durable_ObserveNodeHeartbeat_trace:
  assumes "durable_ObserveNodeHeartbeat st i n t w = (w', Inr result)"
  shows "\<exists>m \<le> maxWriteAttempts. call_trace st (\<lambda>_. ObserveNodeHeartbeat (mem_env now newID cd) i n t) m w w' result"
proof -
  have "i \<noteq> []" "t \<noteq> zero_time"
    "attempts st plain_constraint (\<lambda>_. heartbeat_decision (st_wire st) i n t) maxWriteAttempts w = (w', Inr result)"
    using assms by (auto simp: durable_ObserveNodeHeartbeat_def split: if_splits)
  then show ?thesis by (intro attempts_trace) (auto intro: heartbeat_realizes)
qed

lemma durable_FenceReconciles_trace:
  assumes "durable_FenceReconciles st k i cutoff t w = (w', Inr result)"
  shows "\<exists>m \<le> maxWriteAttempts. call_trace st (\<lambda>_. FenceReconciles (mem_env now newID cd) k i cutoff t) m w w' result"
proof -
  have "attempts st plain_constraint (\<lambda>_. fence_decision (st_wire st) k i cutoff t) maxWriteAttempts w = (w', Inr result)"
    using assms by (auto simp: durable_FenceReconciles_def split: if_splits)
  then show ?thesis by (intro attempts_trace) (auto intro: fence_realizes)
qed

lemma durable_RecoverExpiredOperations_trace:
  assumes "durable_RecoverExpiredOperations st cutoff t limit w = (w', Inr result)"
  shows "\<exists>m \<le> maxWriteAttempts. call_trace st (\<lambda>_. RecoverExpiredOperations (mem_env now newID cd) cutoff t limit) m w w' result"
proof -
  let ?n = "if limit > int maxExpiredOperationRecoverBatch then maxExpiredOperationRecoverBatch else nat limit"
  have "cutoff \<noteq> zero_time" "t \<noteq> zero_time" "\<not> limit < 1"
    "attempts st plain_constraint (\<lambda>_. recover_decision (st_wire st) cutoff t ?n) maxWriteAttempts w = (w', Inr result)"
    using assms unfolding durable_RecoverExpiredOperations_def Let_def by (simp_all split: if_splits)
  then show ?thesis by (intro attempts_trace) (auto intro!: recover_realizes simp del: split_paired_All)
qed

lemma durable_PruneOperations_trace:
  assumes "durable_PruneOperations st before keep w = (w', Inr result)"
  shows "\<exists>m \<le> maxWriteAttempts. call_trace st (\<lambda>w. PruneOperations (mem_env (st_now st w) newID cd) before keep) m w w' result"
proof -
  have "before \<noteq> zero_time" "\<not> keep < 0"
    "attempts st plain_constraint (\<lambda>w1. prune_decision (wc_codec (st_wire st)) (st_now st w1) before keep) maxWriteAttempts w = (w', Inr result)"
    using assms by (auto simp: durable_PruneOperations_def split: if_splits)
  then show ?thesis by (intro attempts_trace) (auto intro: prune_realizes)
qed

text \<open>A rendering error is stored cut to 16 KiB; apart from that, the same again.\<close>

lemma durable_MarkReconciled_trace:
  assumes "durable_MarkReconciled st k i n e w = (w', Inr result)"
  shows "\<exists>m \<le> maxWriteAttempts.
    call_trace st (\<lambda>w. MarkReconciled (mem_env (st_now st w) newID cd) k i n (map_option truncateError e)) m w w' result"
proof -
  have "attempts st plain_constraint (\<lambda>w1. reconciled_decision (st_wire st) (st_now st w1) k i n e) maxWriteAttempts w = (w', Inr result)"
    using assms by (auto simp: durable_MarkReconciled_def split: if_splits)
  then show ?thesis by (intro attempts_trace) (auto intro: reconciled_realizes)
qed

end
