(* ===== verification/Spec2Isabelle.thy ===== *)
theory Spec2Isabelle
  imports Placement Tap_Name Raft_Status Default_Security Ovsdb_Properties
begin

text \<open>
  Verification of the control plane of \<open>proxmox-ovn\<close>, which keeps the desired state of a
  software-defined network for a Proxmox cluster and realizes it in OVN.

  \<^bold>\<open>The program.\<close> Several managers share one control store. The HTTP API writes desired
  state into it (networks, subnets, ports, routers, floating addresses, security groups,
  nodes); every write is checked against the whole graph of rows, carries an optimistic
  revision and may carry an idempotency key. The reconciliation controller of each manager
  turns rows into OVN rows through a renderer. It records an operation per target revision,
  claims it with a lease, renews the lease by a heartbeat while it works, marks the row ready
  or failed, and completes the operation. Deletion first writes a tombstone, fences running
  reconciliations, removes the rendered state and then purges the row. Around this stand the
  default security policy, the choice of the central database voters, the inspection of the
  Raft clusters and the names of TAP interfaces.

  \<^bold>\<open>Theories.\<close>
  \<^item> \<open>Pvn_Prelude\<close>: errors as values and checks that return the first error; the Go string and
    number functions the sources use; association lists; reachable states of a step relation,
    with the locale \<open>invariant_system\<close> that turns inductiveness into an invariant.
  \<^item> \<open>Netip\<close>: IPv4 addresses and prefixes of \<open>net/netip\<close> at 32-bit width, with parser and
    printer; \<open>Subnet_Addressing\<close>: \<open>internal/model/ip.go\<close> over them.
  \<^item> \<open>Model_Types\<close>, \<open>Validation\<close>: \<open>internal/model\<close>, the thirteen resource structs as records
    and one sum type, their metadata, field validation and defaults.
  \<^item> \<open>Control_Store\<close>, \<open>Memory_Ops\<close>: \<open>internal/controlstore/memory.go\<close>. The state is the
    record \<open>memory\<close> (rows by kind and id, and the idempotency records); \<open>Control_Store\<close> has
    the reference and uniqueness checks, \<open>Memory_Ops\<close> one definition per method. The lock is
    the atomicity of a call; what a call reads from outside (context, clock, new identifiers,
    JSON and SHA-256) is the record \<open>call_env\<close>.
  \<^item> \<open>Store_Facts\<close>: the table laws (locale \<open>keyed_table\<close>), what the checks give, and \<open>core\<close>,
    the part of a row that no server-managed write changes. \<open>Store_Invariant\<close>: the invariant
    \<open>store_inv\<close>, kept by every method, and the reachable stores. \<open>Store_Properties\<close>: what holds
    in every reachable store, and the effect of each method on every branch.
  \<^item> \<open>Reconcile_Controller\<close>: \<open>internal/reconcile/reconcile.go\<close>. The record \<open>world\<close> is the
    store, an abstract OVN state and the heartbeat; \<open>c_tick\<close> says what other managers, the
    ticker and the caller's context do before each interaction, so that a theorem over all
    \<open>c_tick\<close> is one over all interleavings. \<open>Reconcile_Properties\<close>: the interfaces
    \<open>live_calls\<close> and \<open>store_contract\<close> of the store as the controller uses it, the lemma that
    every part of the controller keeps what these calls keep, and what follows for reachable
    stores and for the desired state; the end of the loops; what success has confirmed; that a
    lost lease stops the writer; that an undisturbed reconciliation succeeds.
  \<^item> \<open>Default_Security\<close>: \<open>internal/defaultsecurity\<close> over the same world, with the controller
    as its reconciler, and a further instance of \<open>live_calls\<close>.
  \<^item> \<open>Ovsdb_Snapshot\<close>, \<open>Ovsdb_Row\<close>, \<open>Ovsdb_Codec\<close>, \<open>Ovsdb_Store\<close>, \<open>Ovsdb_Database\<close>: the durable
    store, \<open>internal/ovsdbstore\<close> (\<open>validation.go\<close>, \<open>row.go\<close>, \<open>codec.go\<close> and \<open>runtime_port.go\<close>,
    \<open>store.go\<close>, \<open>database.go\<close>). A call loads the tables, decodes them into a \<open>snapshot\<close>, decides, and
    commits under the epoch of the snapshot; each method is its decision, a function from a
    snapshot to a \<open>verdict\<close>, inside the loop \<open>attempts\<close>.
  \<^item> \<open>Ovsdb_Agreement\<close>: the checks on a snapshot are those of the in-memory store on its \<open>view\<close>.
    \<open>Ovsdb_Roundtrip\<close>: rows decode to what was encoded. \<open>Ovsdb_Refinement\<close>: a load returns a
    well-formed snapshot; every decision is the transition of the in-memory method, and its
    changes are that transition's writes. \<open>Ovsdb_Properties\<close>: the same for whole calls, with the
    retries, and that the epoch guard makes a call atomic among managers.
  \<^item> \<open>Placement\<close> (\<open>internal/central/placement.go\<close>), \<open>Tap_Name\<close> (\<open>internal/pve/tap.go\<close>),
    \<open>Raft_Status\<close> (\<open>internal/raftstatus/status.go\<close>).

  \<^bold>\<open>Bounds and termination.\<close> Loops over data are structural recursion. \<open>renderUntilStable\<close> has
  the eight passes of the source as the recursion argument of \<open>render_passes\<close>.
  \<open>waitForForcedClaim\<close> and the loop of \<open>ReconcileForced\<close> are partial functions with result
  \<^term>\<open>None\<close> for not returning; the former is proved to return once the clock has passed
  the deadline. A write of the durable store makes at most 64 attempts, the recursion argument of
  \<open>attempts\<close> and of \<open>load_attempts\<close>. Revisions and times are unbounded integers, addresses are 32-bit words, and the
  bytes of the policy identifiers 8-bit words.

  \<^bold>\<open>Not modelled.\<close> Error texts: an error is its kind, or a fixed phrase where the source has no
  kind. JSON, SHA-256, the renderer and the unixctl command are parameters. Bytes above 127 are
  not treated as Unicode by the string functions. The per-resource mutex of the controller only
  removes interleavings and is left out. The OVSDB client and server are parameters; what the
  optimistic concurrency relies on is stated as hypotheses of its theorem. The generated schema, the
  OVN renderer and audit, the HTTP API, the host agent and the commands are not modelled: they
  are dominated by calls into libovsdb, Open vSwitch, the Proxmox API and the file system.
\<close>

end
